(* ===== verification/Prelude.thy ===== *)
theory Prelude
  imports Complex_Main "HOL-Library.Sublist"
begin

text \<open>
  What every component of the model shares: the Go error values, the type of effectful
  Go functions (with panics, process exits and divergence as outcomes of their own), the
  interface to a Kubernetes client, the string and integer functions of the Go standard
  library that the sources call, and the lemma collections the component proofs use.
\<close>

section \<open>Lemma collections\<close>

named_theorems io_simps \<open>equations that run an effectful function\<close>


section \<open>Go errors\<close>

text \<open>
  An error is an API status error (its reason and message), a plain \<^verbatim>\<open>fmt.Errorf\<close>
  value, or a \<^verbatim>\<open>%w\<close> wrapping. The reason of a wrapped error is the reason of the error
  inside, as \<^verbatim>\<open>apierrors.IsNotFound\<close> and \<^verbatim>\<open>IsAlreadyExists\<close> see it through \<^verbatim>\<open>errors.As\<close>.
\<close>

datatype api_reason = ReasonNotFound | ReasonAlreadyExists | ReasonOther

datatype go_error =
    ApiError api_reason string
  | PlainError string
  | WrapError string go_error string

fun err_text :: "go_error \<Rightarrow> string" where
  "err_text (ApiError r s) = s"
| "err_text (PlainError s) = s"
| "err_text (WrapError p e s) = p @ err_text e @ s"

fun err_reason :: "go_error \<Rightarrow> api_reason option" where
  "err_reason (ApiError r s) = Some r"
| "err_reason (PlainError s) = None"
| "err_reason (WrapError p e s) = err_reason e"

definition IsNotFound :: "go_error \<Rightarrow> bool" where
  "IsNotFound e = (err_reason e = Some ReasonNotFound)"

definition IsAlreadyExists :: "go_error \<Rightarrow> bool" where
  "IsAlreadyExists e = (err_reason e = Some ReasonAlreadyExists)"

lemma reason_exclusive: "\<not> (IsNotFound e \<and> IsAlreadyExists e)"
  by (simp add: IsNotFound_def IsAlreadyExists_def)

lemma reason_simps [simp]:
  "IsNotFound (ApiError r s) = (r = ReasonNotFound)"
  "IsNotFound (PlainError s) = False"
  "IsNotFound (WrapError p e s) = IsNotFound e"
  "IsAlreadyExists (ApiError r s) = (r = ReasonAlreadyExists)"
  "IsAlreadyExists (PlainError s) = False"
  "IsAlreadyExists (WrapError p e s) = IsAlreadyExists e"
  by (simp_all add: IsNotFound_def IsAlreadyExists_def)


section \<open>Effectful functions\<close>

text \<open>
  A Go function that touches the world is a function of the world. It may return a value,
  panic (a nil dereference, an index out of range, a failed type assertion) or end the
  process (\<^verbatim>\<open>log.Fatalf\<close>); \<open>None\<close> is a function that never returns. Go's own error returns
  are ordinary values: \<open>go_error option\<close> for \<^verbatim>\<open>error\<close>, \<open>go_error + 'a\<close> for \<^verbatim>\<open>(T, error)\<close>.
\<close>

datatype 'a outcome = Ret 'a | Panic string | Exit string

type_synonym ('w, 'a) io = "'w \<Rightarrow> ('a outcome \<times> 'w) option"

definition retIO :: "'a \<Rightarrow> ('w, 'a) io" where
  "retIO x = (\<lambda>w. Some (Ret x, w))"

definition panicIO :: "string \<Rightarrow> ('w, 'a) io" where
  "panicIO s = (\<lambda>w. Some (Panic s, w))"

definition exitIO :: "string \<Rightarrow> ('w, 'a) io" where
  "exitIO s = (\<lambda>w. Some (Exit s, w))"

definition bindIO :: "('w, 'a) io \<Rightarrow> ('a \<Rightarrow> ('w, 'b) io) \<Rightarrow> ('w, 'b) io" where
  "bindIO m k = (\<lambda>w. case m w of
       None \<Rightarrow> None
     | Some (Ret x, w') \<Rightarrow> k x w'
     | Some (Panic s, w') \<Rightarrow> Some (Panic s, w')
     | Some (Exit s, w') \<Rightarrow> Some (Exit s, w'))"

text \<open>A call of a library function that always returns.\<close>

definition callIO :: "('w \<Rightarrow> 'a \<times> 'w) \<Rightarrow> ('w, 'a) io" where
  "callIO f = (\<lambda>w. case f w of (x, w') \<Rightarrow> Some (Ret x, w'))"

lemma run_simps [io_simps]:
  "retIO x w = Some (Ret x, w)"
  "panicIO s w = Some (Panic s, w)"
  "exitIO s w = Some (Exit s, w)"
  "callIO f w = Some (Ret (fst (f w)), snd (f w))"
  by (simp_all add: retIO_def panicIO_def exitIO_def callIO_def split: prod.splits)

lemma bindIO_run [io_simps]:
  "m w = Some (Ret x, w') \<Longrightarrow> bindIO m k w = k x w'"
  "m w = Some (Panic s, w') \<Longrightarrow> bindIO m k w = Some (Panic s, w')"
  "m w = Some (Exit s, w') \<Longrightarrow> bindIO m k w = Some (Exit s, w')"
  "m w = None \<Longrightarrow> bindIO m k w = None"
  by (simp_all add: bindIO_def)

lemma bindIO_ret [io_simps, simp]: "bindIO (retIO x) k = k x"
  by (simp add: bindIO_def retIO_def fun_eq_iff)

lemma bindIO_panic [io_simps, simp]: "bindIO (panicIO s) k = panicIO s"
  by (simp add: bindIO_def panicIO_def fun_eq_iff)

lemma bindIO_exit [io_simps, simp]: "bindIO (exitIO s) k = exitIO s"
  by (simp add: bindIO_def exitIO_def fun_eq_iff)

lemma bindIO_call [io_simps]:
  "bindIO (callIO f) k w = k (fst (f w)) (snd (f w))"
  by (simp add: bindIO_def run_simps)

lemma bindIO_Ret_iff:
  "bindIO m k w = Some (Ret y, w') \<longleftrightarrow>
     (\<exists>x w1. m w = Some (Ret x, w1) \<and> k x w1 = Some (Ret y, w'))"
  by (auto simp: bindIO_def split: option.splits outcome.splits)

lemma bindIO_RetE:
  assumes "bindIO m k w = Some (Ret y, w')"
  obtains x w1 where "m w = Some (Ret x, w1)" and "k x w1 = Some (Ret y, w')"
  using assms by (auto simp: bindIO_Ret_iff)

lemma not_Inl [simp]: "(\<forall>e. x \<noteq> Inl e) \<longleftrightarrow> (\<exists>y. x = Inr y)"
  by (cases x) auto

text \<open>Go's \<^verbatim>\<open>if err != nil { return err }\<close>: a result without an error went through the rest.\<close>

lemma bind_sum_NoneE:
  assumes "bindIO m (\<lambda>r. case r of Inl err \<Rightarrow> retIO (Some err) | Inr x \<Rightarrow> k x) w = Some (Ret None, w')"
  obtains x w1 where "m w = Some (Ret (Inr x), w1)" and "k x w1 = Some (Ret None, w')"
  using assms by (auto simp: bindIO_Ret_iff run_simps split: sum.split_asm)

lemma bind_option_NoneE:
  assumes "bindIO m (\<lambda>r. case r of Some err \<Rightarrow> retIO (Some err) | None \<Rightarrow> k) w = Some (Ret None, w')"
  obtains w1 where "m w = Some (Ret None, w1)" and "k w1 = Some (Ret None, w')"
  using assms by (auto simp: bindIO_Ret_iff run_simps split: option.split_asm)

text \<open>The same for the other forms of a call in a function that returned.\<close>

lemma call_RetE:
  assumes "bindIO (callIO f) k w = Some (Ret y, w')"
  obtains x w1 where "f w = (x, w1)" and "k x w1 = Some (Ret y, w')"
  using assms by (cases "f w") (auto simp: bindIO_call)

lemma call2_RetE:
  assumes "bindIO (callIO f) (\<lambda>(a, b). k a b) w = Some (Ret y, w')"
  obtains a b w1 where "f w = ((a, b), w1)" and "k a b w1 = Some (Ret y, w')"
  using assms by (cases "f w") (auto simp: bindIO_call split: prod.splits)

lemma call_sum_RetE:
  assumes "bindIO (callIO f) (\<lambda>r. case r of Inl err \<Rightarrow> exitIO (err_text err) | Inr x \<Rightarrow> k x) w = Some (Ret y, w')"
  obtains x w1 where "f w = (Inr x, w1)" and "k x w1 = Some (Ret y, w')"
  using assms by (cases "f w") (auto simp: bindIO_call run_simps split: sum.split_asm)

lemma then_RetE:
  assumes "bindIO m (\<lambda>r. case r of Inl err \<Rightarrow> exitIO (err_text err) | Inr x \<Rightarrow> k x) w = Some (Ret y, w')"
  obtains x w1 where "m w = Some (Ret (Inr x), w1)" and "k x w1 = Some (Ret y, w')"
  using assms by (auto simp: bindIO_Ret_iff run_simps split: sum.split_asm)

text \<open>A function that returns (neither panics, nor exits, nor diverges) in every world.\<close>

definition returns :: "('w, 'a) io \<Rightarrow> bool" where
  "returns m = (\<forall>w. \<exists>x w'. m w = Some (Ret x, w'))"

lemma returnsE:
  assumes "returns m"
  obtains x w' where "m w = Some (Ret x, w')"
  using assms unfolding returns_def by blast

lemma returns_intros [intro, simp]:
  "returns (retIO x)"
  "returns (callIO f)"
  by (simp_all add: returns_def run_simps)

lemma returns_bind [intro]:
  assumes "returns m" and "\<And>x. returns (k x)"
  shows "returns (bindIO m k)"
  using assms by (fastforce simp: returns_def bindIO_Ret_iff)

text \<open>
  \<^verbatim>\<open>defer f()\<close> around the rest of a function: \<open>f\<close> runs when the function returns and when it
  panics, and does not run when the process exits. The results of deferred calls are dropped.
\<close>

definition deferIO :: "('w \<Rightarrow> 'w) \<Rightarrow> ('w, 'a) io \<Rightarrow> ('w, 'a) io" where
  "deferIO f m = (\<lambda>w. case m w of
       None \<Rightarrow> None
     | Some (Ret x, w') \<Rightarrow> Some (Ret x, f w')
     | Some (Panic s, w') \<Rightarrow> Some (Panic s, f w')
     | Some (Exit s, w') \<Rightarrow> Some (Exit s, w'))"

lemma deferIO_run [io_simps]:
  "m w = Some (Ret x, w') \<Longrightarrow> deferIO f m w = Some (Ret x, f w')"
  "m w = Some (Panic s, w') \<Longrightarrow> deferIO f m w = Some (Panic s, f w')"
  "m w = Some (Exit s, w') \<Longrightarrow> deferIO f m w = Some (Exit s, w')"
  by (simp_all add: deferIO_def)

lemma deferIO_Ret_iff:
  "deferIO f m w = Some (Ret x, w') \<longleftrightarrow> (\<exists>w1. m w = Some (Ret x, w1) \<and> w' = f w1)"
  by (auto simp: deferIO_def split: option.splits outcome.splits)

lemma defer_RetE:
  assumes "deferIO f m w = Some (Ret y, w')"
  obtains w1 where "m w = Some (Ret y, w1)" and "w' = f w1"
  using assms by (auto simp: deferIO_Ret_iff)

text \<open>\<^verbatim>\<open>for _, x := range xs { if err := f(x); err != nil { return err } }; return nil\<close>\<close>

fun forErr :: "('a \<Rightarrow> ('w, go_error option) io) \<Rightarrow> 'a list \<Rightarrow> ('w, go_error option) io" where
  "forErr f [] = retIO None"
| "forErr f (x # xs) =
     bindIO (f x) (\<lambda>r. case r of Some e \<Rightarrow> retIO (Some e) | None \<Rightarrow> forErr f xs)"

lemma returns_forErr [intro]:
  assumes "\<And>x. returns (f x)"
  shows "returns (forErr f xs)"
  by (induction xs) (auto split: option.splits intro!: returns_bind assms)



text \<open>\<^verbatim>\<open>for _, f := range fs { if err := f(); err != nil { return err } }\<close> on the results of pure calls.\<close>

fun firstError :: "go_error option list \<Rightarrow> go_error option" where
  "firstError [] = None"
| "firstError (e # es) = (case e of Some err \<Rightarrow> Some err | None \<Rightarrow> firstError es)"


section \<open>Machine integers\<close>

text \<open>The \<^verbatim>\<open>int64\<close> value of an integer: Go's 64-bit arithmetic wraps around.\<close>

definition wrap64 :: "int \<Rightarrow> int" where
  "wrap64 n = (n + 2 ^ 63) mod 2 ^ 64 - 2 ^ 63"

text \<open>Go's integer division truncates towards zero.\<close>

definition go_div :: "int \<Rightarrow> int \<Rightarrow> int" where
  "go_div a b = sgn a * sgn b * (\<bar>a\<bar> div \<bar>b\<bar>)"

lemma wrap64_id: "- (2 ^ 63) \<le> n \<Longrightarrow> n < 2 ^ 63 \<Longrightarrow> wrap64 n = n"
  by (simp add: wrap64_def)

text \<open>The conversion \<^verbatim>\<open>int64(x)\<close> of a float truncates towards zero.\<close>

definition int_of_float :: "rat \<Rightarrow> int" where
  "int_of_float x = (if x < 0 then - \<lfloor>- x\<rfloor> else \<lfloor>x\<rfloor>)"


section \<open>Go strings\<close>

text \<open>
  A Go string is a list of bytes. \<^verbatim>\<open>strings.Contains(s, p)\<close> is \<open>sublist p s\<close> and
  \<^verbatim>\<open>strings.HasPrefix(s, p)\<close> is \<open>prefix p s\<close> of \<^verbatim>\<open>HOL-Library.Sublist\<close>. \<open>fmt_d\<close> is what
  \<^verbatim>\<open>%d\<close> prints.
\<close>

fun nat_digits :: "nat \<Rightarrow> string" where
  "nat_digits n =
     (if n < 10 then [char_of (48 + n)] else nat_digits (n div 10) @ [char_of (48 + n mod 10)])"

declare nat_digits.simps [simp del]

definition fmt_d :: "int \<Rightarrow> string" where
  "fmt_d i = (if i < 0 then ''-'' @ nat_digits (nat (- i)) else nat_digits (nat i))"


text \<open>A newline, and a text between single quotes.\<close>

definition nl :: string where
  "nl = [char_of (10 :: nat)]"

definition quoted :: "string \<Rightarrow> string" where
  "quoted s = [char_of (39 :: nat)] @ s @ [char_of (39 :: nat)]"

text \<open>\<^verbatim>\<open>strings.Split(s, sep)\<close> for a one-byte separator.\<close>

fun split_on :: "char \<Rightarrow> string \<Rightarrow> string list" where
  "split_on sep [] = [[]]"
| "split_on sep (c # s) =
     (if c = sep then [] # split_on sep s
      else (case split_on sep s of [] \<Rightarrow> [[c]] | p # ps \<Rightarrow> (c # p) # ps))"

fun join_with :: "string \<Rightarrow> string list \<Rightarrow> string" where
  "join_with sep [] = []"
| "join_with sep [s] = s"
| "join_with sep (s # t # ts) = s @ sep @ join_with sep (t # ts)"

lemma split_on_nonempty: "split_on sep s \<noteq> []"
  by (induction s) (auto split: list.splits)

lemma join_split: "join_with [sep] (split_on sep s) = s"
proof (induction s)
  case (Cons c s)
  obtain p ps where s: "split_on sep s = p # ps"
    using split_on_nonempty by (cases "split_on sep s") auto
  with Cons show ?case by (cases ps) auto
qed simp

lemma split_on_no_sep: "p \<in> set (split_on sep s) \<Longrightarrow> sep \<notin> set p"
proof (induction s arbitrary: p)
  case (Cons c s)
  then show ?case by (auto split: if_splits list.splits)
qed simp

text \<open>
  \<^verbatim>\<open>strings.ReplaceAll(s, old, new)\<close> for a nonempty \<open>old\<close>: from the left, without overlaps; the
  first argument counts the bytes of a match still to skip.
\<close>

fun replace_all :: "nat \<Rightarrow> string \<Rightarrow> string \<Rightarrow> string \<Rightarrow> string" where
  "replace_all k old new [] = []"
| "replace_all (Suc k) old new (c # s) = replace_all k old new s"
| "replace_all 0 old new (c # s) =
     (if prefix old (c # s) then new @ replace_all (length old - 1) old new s
      else c # replace_all 0 old new s)"

text \<open>\<^verbatim>\<open>base64.StdEncoding\<close>: three bytes to four letters, the last group padded with \<open>=\<close>.\<close>

definition b64_alphabet :: string where
  "b64_alphabet = ''ABCDEFGHIJKLMNOPQRSTUVWXYZabcdefghijklmnopqrstuvwxyz0123456789+/''"

definition b64_char :: "nat \<Rightarrow> char" where
  "b64_char n = b64_alphabet ! (n mod 64)"

fun base64Encode :: "string \<Rightarrow> string" where
  "base64Encode [] = []"
| "base64Encode [a] =
     (let v = of_char a * 65536 in [b64_char (v div 262144), b64_char (v div 4096), CHR ''='', CHR ''=''])"
| "base64Encode [a, b] =
     (let v = of_char a * 65536 + of_char b * 256
      in [b64_char (v div 262144), b64_char (v div 4096), b64_char (v div 64), CHR ''=''])"
| "base64Encode (a # b # c # s) =
     (let v = of_char a * 65536 + of_char b * 256 + of_char c
      in b64_char (v div 262144) # b64_char (v div 4096) # b64_char (v div 64) # b64_char v # base64Encode s)"

text \<open>
  \<^verbatim>\<open>filepath.Clean\<close> on path elements: empty and dot elements go, a dot-dot takes the element
  before it, and leads nowhere from the root. \<^verbatim>\<open>filepath.Join\<close> cleans the joined nonempty
  elements.
\<close>

fun clean_elems :: "bool \<Rightarrow> string list \<Rightarrow> string list \<Rightarrow> string list" where
  "clean_elems rooted acc [] = rev acc"
| "clean_elems rooted acc (p # ps) =
     (if p = [] \<or> p = ''.'' then clean_elems rooted acc ps
      else if p = ''..'' then
        (case acc of
           [] \<Rightarrow> if rooted then clean_elems rooted acc ps else clean_elems rooted (p # acc) ps
         | q # qs \<Rightarrow> if q = ''..'' then clean_elems rooted (p # acc) ps else clean_elems rooted qs ps)
      else clean_elems rooted (p # acc) ps)"

definition path_Clean :: "string \<Rightarrow> string" where
  "path_Clean path =
     (let rooted = prefix ''/'' path;
          body = join_with ''/'' (clean_elems rooted [] (split_on CHR ''/'' path))
      in if rooted then ''/'' @ body else if body = [] then ''.'' else body)"

definition path_Join :: "string \<Rightarrow> string \<Rightarrow> string" where
  "path_Join a b =
     (let elems = filter (\<lambda>s. s \<noteq> []) [a, b]
      in if elems = [] then [] else path_Clean (join_with ''/'' elems))"

lemma path_Join_nonempty: "a \<noteq> [] \<Longrightarrow> path_Join a b \<noteq> []"
  by (simp add: path_Join_def path_Clean_def Let_def)

end
