(* ===== verification/Conditions.thy ===== *)
theory Conditions
  imports Prelude
begin

text \<open>
  \<^verbatim>\<open>testkit_v2/util/filter.go\<close>: the six \<^verbatim>\<open>Where\<close> types and \<^verbatim>\<open>CheckCondition\<close>, which decides
  whether a field of a resource meets a condition. \<^verbatim>\<open>regexp.MatchString\<close> is the parameter
  \<open>rx\<close>: \<open>rx pattern text\<close> is \<open>None\<close> when the pattern does not compile.
\<close>

type_synonym regexp = "string \<Rightarrow> string \<Rightarrow> bool option"

section \<open>The Where types\<close>

fun WhereIn_IsValid :: "string list \<Rightarrow> string \<Rightarrow> bool" where
  "WhereIn_IsValid [] val = False"
| "WhereIn_IsValid (v # f) val = (if v = val then True else WhereIn_IsValid f val)"

fun WhereNotIn_IsValid :: "string list \<Rightarrow> string \<Rightarrow> bool" where
  "WhereNotIn_IsValid [] val = True"
| "WhereNotIn_IsValid (v # f) val = (if v = val then False else WhereNotIn_IsValid f val)"

text \<open>\<^verbatim>\<open>strings.Contains(val, v)\<close> is \<open>sublist v val\<close>: \<open>v\<close> occurs contiguously in \<open>val\<close>.\<close>

fun WhereLike_IsValid :: "string list \<Rightarrow> string \<Rightarrow> bool" where
  "WhereLike_IsValid [] val = False"
| "WhereLike_IsValid (v # f) val = (if sublist v val then True else WhereLike_IsValid f val)"

fun WhereNotLike_IsValid :: "string list \<Rightarrow> string \<Rightarrow> bool" where
  "WhereNotLike_IsValid [] val = True"
| "WhereNotLike_IsValid (v # f) val = (if sublist v val then False else WhereNotLike_IsValid f val)"

fun WhereReg_IsValid :: "regexp \<Rightarrow> string list \<Rightarrow> string \<Rightarrow> bool" where
  "WhereReg_IsValid rx [] val = False"
| "WhereReg_IsValid rx (v # f) val =
     (if rx v val = Some True then True else WhereReg_IsValid rx f val)"

fun WhereNotReg_IsValid :: "regexp \<Rightarrow> string list \<Rightarrow> string \<Rightarrow> bool" where
  "WhereNotReg_IsValid rx [] val = True"
| "WhereNotReg_IsValid rx (v # f) val =
     (if rx v val = Some True then False else WhereNotReg_IsValid rx f val)"

text \<open>The values a condition or a checked field can be: Go's \<^verbatim>\<open>any\<close>.\<close>

datatype Where =
    WhereIn "string list"
  | WhereNotIn "string list"
  | WhereLike "string list"
  | WhereNotLike "string list"
  | WhereReg "string list"
  | WhereNotReg "string list"

fun IsValid :: "regexp \<Rightarrow> Where \<Rightarrow> string \<Rightarrow> bool" where
  "IsValid rx (WhereIn f) val = WhereIn_IsValid f val"
| "IsValid rx (WhereNotIn f) val = WhereNotIn_IsValid f val"
| "IsValid rx (WhereLike f) val = WhereLike_IsValid f val"
| "IsValid rx (WhereNotLike f) val = WhereNotLike_IsValid f val"
| "IsValid rx (WhereReg f) val = WhereReg_IsValid rx f val"
| "IsValid rx (WhereNotReg f) val = WhereNotReg_IsValid rx f val"

datatype any = Nil | Str string | Bool bool | AWhere Where | Other

section \<open>CheckCondition\<close>

text \<open>
  The string hooks, in the order the code tests them. Indices \<open>w[0]\<close> and \<open>w[len(w)-1]\<close> are
  read only after the length test, so \<open>hd\<close> and \<open>last\<close> are taken of nonempty strings.
\<close>

definition CheckStr :: "string \<Rightarrow> string \<Rightarrow> bool" where
  "CheckStr w v =
     (if length w \<ge> 3 \<and> hd w = CHR ''%'' \<and> last w = CHR ''%''
        then WhereLike_IsValid [butlast (drop 1 w)] v
      else if length w \<ge> 4 \<and> take 2 w = ''!%'' \<and> last w = CHR ''%''
        then WhereNotLike_IsValid [butlast (drop 2 w)] v
      else if length w \<ge> 2 \<and> hd w = CHR ''!''
        then WhereNotIn_IsValid [drop 1 w] v
      else WhereIn_IsValid [w] v)"

fun CheckCondition :: "regexp \<Rightarrow> any \<Rightarrow> any \<Rightarrow> bool" where
  "CheckCondition rx Nil val = True"
| "CheckCondition rx (Str w) (Str v) = CheckStr w v"
| "CheckCondition rx (AWhere w) (Str v) = IsValid rx w v"
| "CheckCondition rx (Bool w) (Bool v) = (w = v)"
| "CheckCondition rx w val = False"


section \<open>A positive and a negative list condition\<close>

text \<open>
  The interface \<^verbatim>\<open>Where\<close> as the three pairs of types use it: the positive type holds when
  some pattern hits, the negative type is its complement.
\<close>

locale where_pair =
  fixes pos :: "string list \<Rightarrow> string \<Rightarrow> bool"
    and neg :: "string list \<Rightarrow> string \<Rightarrow> bool"
    and hit :: "string \<Rightarrow> string \<Rightarrow> bool"
  assumes pos_iff: "pos f v = (\<exists>p \<in> set f. hit p v)"
    and neg_iff: "neg f v = (\<forall>p \<in> set f. \<not> hit p v)"
begin

lemma complement: "neg f v = (\<not> pos f v)"
  by (simp add: pos_iff neg_iff)

lemma pos_append: "pos (f @ g) v = (pos f v \<or> pos g v)"
  by (auto simp: pos_iff)

lemma neg_append: "neg (f @ g) v = (neg f v \<and> neg g v)"
  by (auto simp: neg_iff)

lemma pos_mono: "set f \<subseteq> set g \<Longrightarrow> pos f v \<Longrightarrow> pos g v"
  by (auto simp: pos_iff)

end

interpretation where_in: where_pair WhereIn_IsValid WhereNotIn_IsValid "(=)"
proof unfold_locales
  show "WhereIn_IsValid f v = (\<exists>p \<in> set f. p = v)" for f v
    by (induction f) auto
  show "WhereNotIn_IsValid f v = (\<forall>p \<in> set f. p \<noteq> v)" for f v
    by (induction f) auto
qed

interpretation where_like: where_pair WhereLike_IsValid WhereNotLike_IsValid sublist
proof unfold_locales
  show "WhereLike_IsValid f v = (\<exists>p \<in> set f. sublist p v)" for f v
    by (induction f) auto
  show "WhereNotLike_IsValid f v = (\<forall>p \<in> set f. \<not> sublist p v)" for f v
    by (induction f) auto
qed

interpretation where_reg: where_pair "WhereReg_IsValid rx" "WhereNotReg_IsValid rx"
  "\<lambda>p v. rx p v = Some True" for rx
proof unfold_locales
  show "WhereReg_IsValid rx f v = (\<exists>p \<in> set f. rx p v = Some True)" for f v
    by (induction f) auto
  show "WhereNotReg_IsValid rx f v = (\<forall>p \<in> set f. rx p v \<noteq> Some True)" for f v
    by (induction f) auto
qed

lemmas where_iff = where_in.pos_iff where_in.neg_iff where_like.pos_iff where_like.neg_iff
  where_reg.pos_iff where_reg.neg_iff


section \<open>The meaning of a string hook\<close>

text \<open>
  The README's four hooks as abstract conditions, their meaning, the string that writes one
  down, and the condition a string stands for.
\<close>

datatype cond = Is string | IsNot string | Like string | NotLike string

fun cond_holds :: "cond \<Rightarrow> string \<Rightarrow> bool" where
  "cond_holds (Is s) v = (v = s)"
| "cond_holds (IsNot s) v = (v \<noteq> s)"
| "cond_holds (Like s) v = sublist s v"
| "cond_holds (NotLike s) v = (\<not> sublist s v)"

fun render_cond :: "cond \<Rightarrow> string" where
  "render_cond (Is s) = s"
| "render_cond (IsNot s) = ''!'' @ s"
| "render_cond (Like s) = ''%'' @ s @ ''%''"
| "render_cond (NotLike s) = ''!%'' @ s @ ''%''"

definition percented :: "string \<Rightarrow> bool" where
  "percented w = (\<exists>s. s \<noteq> [] \<and> w = ''%'' @ s @ ''%'')"

fun canonical :: "cond \<Rightarrow> bool" where
  "canonical (Is s) = (\<not> percented s \<and> \<not> (length s \<ge> 2 \<and> hd s = CHR ''!''))"
| "canonical (IsNot s) = (s \<noteq> [] \<and> \<not> percented s)"
| "canonical (Like s) = (s \<noteq> [])"
| "canonical (NotLike s) = (s \<noteq> [])"

fun parse_cond :: "string \<Rightarrow> cond" where
  "parse_cond w =
     (if length w \<ge> 3 \<and> hd w = CHR ''%'' \<and> last w = CHR ''%'' then Like (butlast (drop 1 w))
      else if length w \<ge> 4 \<and> take 2 w = ''!%'' \<and> last w = CHR ''%'' then NotLike (butlast (drop 2 w))
      else if length w \<ge> 2 \<and> hd w = CHR ''!'' then IsNot (drop 1 w)
      else Is w)"

declare parse_cond.simps [simp del]

lemma percented_iff:
  "percented w \<longleftrightarrow> length w \<ge> 3 \<and> hd w = CHR ''%'' \<and> last w = CHR ''%''"
proof
  assume "percented w"
  then obtain s where "s \<noteq> []" "w = ''%'' @ s @ ''%''" by (auto simp: percented_def)
  then show "length w \<ge> 3 \<and> hd w = CHR ''%'' \<and> last w = CHR ''%''"
    by (cases s) auto
next
  assume h: "length w \<ge> 3 \<and> hd w = CHR ''%'' \<and> last w = CHR ''%''"
  then obtain c t where w: "w = c # t" by (cases w) auto
  with h have "t \<noteq> []" by auto
  then have t: "t = butlast t @ [last t]" by simp
  have "butlast t \<noteq> []" using h w by (cases t) auto
  moreover have "t = butlast t @ ''%''" using h w t \<open>t \<noteq> []\<close> by (metis last_ConsR)
  then have "w = ''%'' @ butlast t @ ''%''" using h w by simp
  ultimately show "percented w" unfolding percented_def by blast
qed

lemma not_percented_iff:
  "(length w \<ge> 4 \<and> take 2 w = ''!%'' \<and> last w = CHR ''%'') \<longleftrightarrow>
   (length w \<ge> 2 \<and> hd w = CHR ''!'' \<and> percented (drop 1 w))"
proof (cases w)
  case (Cons c t)
  then show ?thesis by (cases t) (auto simp: percented_iff)
qed simp

lemma parse_cond_alt:
  "parse_cond w =
     (if percented w then Like (butlast (drop 1 w))
      else if length w \<ge> 2 \<and> hd w = CHR ''!''
        then (if percented (drop 1 w) then NotLike (butlast (drop 2 w)) else IsNot (drop 1 w))
      else Is w)"
  using not_percented_iff [of w] by (auto simp: parse_cond.simps percented_iff)

lemma percented_middle: "percented w \<Longrightarrow> butlast (drop 1 w) \<noteq> [] \<and> ''%'' @ butlast (drop 1 w) @ ''%'' = w"
  by (auto simp: percented_def butlast_append)

lemma CheckStr_parse: "CheckStr w v = cond_holds (parse_cond w) v"
  by (simp add: CheckStr_def parse_cond.simps eq_commute)

lemma parse_canonical: "canonical (parse_cond w)"
proof -
  have "drop 2 w = drop 1 (drop 1 w)" by (simp add: numeral_2_eq_2)
  then show ?thesis
    using percented_middle [of w] percented_middle [of "drop 1 w"]
    by (auto simp: parse_cond_alt)
qed

lemma render_parse: "render_cond (parse_cond w) = w"
proof (cases "percented w")
  case True
  then show ?thesis using percented_middle [of w] by (simp add: parse_cond_alt)
next
  case False
  show ?thesis
  proof (cases "length w \<ge> 2 \<and> hd w = CHR ''!''")
    case True
    then obtain t where w: "w = CHR ''!'' # t" by (cases w) auto
    with False True show ?thesis
      using percented_middle [of t] by (auto simp: parse_cond_alt drop_Cons')
  qed (use False in \<open>auto simp: parse_cond_alt\<close>)
qed

lemma parse_render: "canonical c \<Longrightarrow> parse_cond (render_cond c) = c"
proof (cases c)
  case (IsNot s)
  moreover assume "canonical c"
  moreover have "\<not> percented (CHR ''!'' # s)" by (simp add: percented_iff)
  ultimately show ?thesis by (cases s) (auto simp: parse_cond_alt)
next
  case (Like s)
  moreover assume "canonical c"
  ultimately have "percented (''%'' @ s @ ''%'')" by (auto simp: percented_def)
  with Like show ?thesis by (simp add: parse_cond_alt butlast_append)
next
  case (NotLike s)
  moreover assume "canonical c"
  ultimately have "percented (''%'' @ s @ ''%'')" by (auto simp: percented_def)
  moreover have "\<not> percented (''!%'' @ s @ ''%'')" by (simp add: percented_iff)
  ultimately show ?thesis using NotLike by (simp add: parse_cond_alt butlast_append)
qed (auto simp: parse_cond_alt)


section \<open>Properties\<close>

text \<open>
  C7. Every condition string stands for exactly one canonical condition, and \<^verbatim>\<open>CheckCondition\<close>
  decides a string field by the meaning of that condition: equality for a plain string, its
  negation after an exclamation mark, containment between percent signs, and the negation of
  containment. So no string is read in two ways, and no canonical condition is out of reach.
\<close>

theorem string_hook_meaning:
  "\<exists>!c. canonical c \<and> render_cond c = w \<and>
     (\<forall>rx v. CheckCondition rx (Str w) (Str v) = cond_holds c v)"
proof (rule ex1I [where a = "parse_cond w"])
  show "canonical (parse_cond w) \<and> render_cond (parse_cond w) = w \<and>
      (\<forall>rx v. CheckCondition rx (Str w) (Str v) = cond_holds (parse_cond w) v)"
    by (simp add: parse_canonical render_parse CheckStr_parse)
qed (auto simp: parse_render)

text \<open>
  An exclamation mark in front of a condition string that is neither empty nor itself a
  negation gives the complementary condition.
\<close>

theorem bang_complements:
  assumes "w \<noteq> []" and "\<not> (length w \<ge> 2 \<and> hd w = CHR ''!'')"
  shows "CheckCondition rx (Str (CHR ''!'' # w)) (Str v) = (\<not> CheckCondition rx (Str w) (Str v))"
proof -
  have "\<not> percented (CHR ''!'' # w)" by (simp add: percented_iff)
  moreover have "drop 2 (CHR ''!'' # w) = drop 1 w" by (simp add: numeral_2_eq_2)
  ultimately show ?thesis
    using assms by (auto simp: CheckStr_parse parse_cond_alt Suc_le_eq)
qed

lemma bang_complements_witness:
  "CheckCondition (\<lambda>p t. None) (Str ''!%-master-%'') (Str ''vm-master-0'') =
     (\<not> CheckCondition (\<lambda>p t. None) (Str ''%-master-%'') (Str ''vm-master-0''))"
  using bang_complements [of "''%-master-%''" "\<lambda>p t. None" "''vm-master-0''"] by simp

text \<open>
  The six \<^verbatim>\<open>Where\<close> types: membership, containment of a pattern and a regular expression
  match, each with its exact complement, for every list of patterns, the empty list included.
\<close>

theorem where_meaning:
  "IsValid rx (WhereIn f) v = (v \<in> set f) \<and>
   IsValid rx (WhereLike f) v = list_ex (\<lambda>p. sublist p v) f \<and>
   IsValid rx (WhereReg f) v = list_ex (\<lambda>p. rx p v = Some True) f \<and>
   IsValid rx (WhereNotIn f) v = (\<not> IsValid rx (WhereIn f) v) \<and>
   IsValid rx (WhereNotLike f) v = (\<not> IsValid rx (WhereLike f) v) \<and>
   IsValid rx (WhereNotReg f) v = (\<not> IsValid rx (WhereReg f) v)"
  by (auto simp: where_iff list_ex_iff)

text \<open>
  When a condition is met: the absent condition always, a string or a \<^verbatim>\<open>Where\<close> only by a
  string, a truth value only by the same truth value. A condition of another type, or a field
  of a type the condition does not fit, is never met.
\<close>

theorem CheckCondition_iff:
  "CheckCondition rx c val \<longleftrightarrow>
     c = Nil \<or>
     (\<exists>w v. c = Str w \<and> val = Str v \<and> cond_holds (parse_cond w) v) \<or>
     (\<exists>w v. c = AWhere w \<and> val = Str v \<and> IsValid rx w v) \<or>
     (\<exists>b. c = Bool b \<and> val = Bool b)"
  by (cases "(rx, c, val)" rule: CheckCondition.cases) (auto simp: CheckStr_parse)

end
