(* ===== verification/Objects.thy ===== *)
theory Objects
  imports Conditions
begin

text \<open>
  The Kubernetes objects the sources read and write, with the fields they use, and the
  client through which they do. The object types come from the Kubernetes, Deckhouse and
  virtualization API packages and the client from controller-runtime and client-go, none
  of which are part of the repository: an object is a record of the fields the sources
  touch, and a client is a record of functions that the definitions take as a parameter.
  The types \<^verbatim>\<open>StaticInstance\<close> and \<^verbatim>\<open>SSHCredentials\<close> are the repository's own
  (\<^verbatim>\<open>testkit_v2/util/kube_modules.go\<close>).
\<close>

section \<open>Metadata\<close>

record ObjectMeta =
  om_Name :: string
  om_Namespace :: string
  om_Labels :: "string \<rightharpoonup> string"
  om_ResourceVersion :: string
  om_CreationTimestamp :: int

record KObject =
  metadata :: ObjectMeta

abbreviation obj_Name :: "'a KObject_scheme \<Rightarrow> string" where
  "obj_Name x \<equiv> om_Name (metadata x)"

abbreviation obj_Namespace :: "'a KObject_scheme \<Rightarrow> string" where
  "obj_Namespace x \<equiv> om_Namespace (metadata x)"

text \<open>
  \<^verbatim>\<open>metav1.ObjectMeta{Name: name, Namespace: ns}\<close>: every other field is the zero value; the
  Unix time of Go's zero time is year 1.
\<close>

definition newMeta :: "string \<Rightarrow> string \<Rightarrow> ObjectMeta" where
  "newMeta name ns = \<lparr>om_Name = name, om_Namespace = ns, om_Labels = Map.empty,
     om_ResourceVersion = [], om_CreationTimestamp = -62135596800\<rparr>"

lemma newMeta_simps [simp]:
  "om_Name (newMeta n ns) = n" "om_Namespace (newMeta n ns) = ns"
  "om_Labels (newMeta n ns) = Map.empty" "om_ResourceVersion (newMeta n ns) = []"
  by (simp_all add: newMeta_def)


section \<open>Storage objects\<close>

text \<open>Quantities are the integers their \<^verbatim>\<open>Value()\<close> returns.\<close>

record BlockDevice = KObject +
  bd_NodeName :: string
  bd_Consumable :: bool
  bd_Size :: int
  bd_Path :: string

record LabelSelectorRequirement =
  lsr_Key :: string
  lsr_Operator :: string
  lsr_Values :: "string list"

record LvgThinPoolSpec =
  tps_Name :: string
  tps_Size :: string
  tps_AllocationLimit :: string

record LvgThinPoolStatus =
  tp_Name :: string
  tp_ActualSize :: int
  tp_AllocatedSize :: int

record LvgDevice =
  dev_DevSize :: int
  dev_PVSize :: int
  dev_Path :: string

record LvgNode =
  lvgn_Name :: string
  lvgn_Devices :: "LvgDevice list"

text \<open>\<open>lvg_Selector\<close> is the \<^verbatim>\<open>MatchExpressions\<close> of the \<^verbatim>\<open>BlockDeviceSelector\<close> pointer.\<close>

record LVMVolumeGroup = KObject +
  lvg_ActualVGNameOnTheNode :: string
  lvg_Selector :: "LabelSelectorRequirement list option"
  lvg_Type :: string
  lvg_LocalNodeName :: string
  lvg_SpecThinPools :: "LvgThinPoolSpec list"
  lvg_Nodes :: "LvgNode list"
  lvg_Phase :: string
  lvg_VGSize :: int
  lvg_ThinPools :: "LvgThinPoolStatus list"
  lvg_ConfigurationApplied :: string

record StorageClass = KObject +
  sc_Provisioner :: string
  sc_Parameters :: "string \<rightharpoonup> string"
  sc_ReclaimPolicy :: "string option"
  sc_AllowVolumeExpansion :: "bool option"
  sc_VolumeBindingMode :: "string option"

record PersistentVolumeClaim = KObject +
  pvc_StorageClassName :: "string option"
  pvc_AccessModes :: "string list"
  pvc_Requests :: "string \<rightharpoonup> int"
  pvc_VolumeMode :: "string option"
  pvc_Phase :: string


section \<open>Workload objects\<close>

record Node = KObject +
  node_OSImage :: string
  node_KernelVersion :: string
  node_KubeletVersion :: string
  node_Addresses :: "(string \<times> string) list"
  node_Conditions :: "(string \<times> string) list"

record Pod = KObject +
  pod_NodeName :: string
  pod_Containers :: "string list"
  pod_Phase :: string

type_synonym Namespace = KObject

record Deployment = KObject +
  dep_ReadyReplicas :: int
  dep_Replicas :: int

record DaemonSet = KObject +
  ds_DesiredNumberScheduled :: int
  ds_CurrentNumberScheduled :: int
  ds_NumberReady :: int

record ServicePort =
  sp_Protocol :: string
  sp_Port :: int
  sp_TargetPort :: int
  sp_NodePort :: int

record Service = KObject +
  svc_Type :: string
  svc_Selector :: "string \<rightharpoonup> string"
  svc_Ports :: "ServicePort list"

record ModuleConfig = KObject +
  mc_Version :: int
  mc_Enabled :: "bool option"
  mc_Settings :: "(string \<times> bool) list"


section \<open>Objects of kube_modules.go\<close>

record ObjectReference =
  ref_APIVersion :: string
  ref_Kind :: string
  ref_Name :: string

record SSHCredentialsSpec =
  ssh_User :: string
  ssh_PrivateSSHKey :: string
  ssh_SudoPassword :: string
  ssh_SSHPort :: int
  ssh_SSHExtraArgs :: string

record SSHCredentials = KObject +
  sshc_Spec :: SSHCredentialsSpec

record StaticInstanceSpec =
  sis_Address :: string
  sis_CredentialsRef :: "ObjectReference option"

record StaticInstance = KObject +
  si_Spec :: StaticInstanceSpec

definition GetSSHCredentialsRef :: "string \<Rightarrow> ObjectReference" where
  "GetSSHCredentialsRef name =
     \<lparr>ref_APIVersion = ''deckhouse.io/v1alpha1'', ref_Kind = ''SSHCredentials'', ref_Name = name\<rparr>"


section \<open>Virtualization objects\<close>

record VirtualDisk = KObject +
  vd_Size :: int
  vd_StorageClass :: "string option"
  vd_SourceImage :: "string option"
  vd_Phase :: string

record ClusterVirtualImage = KObject +
  cvi_Type :: string
  cvi_URL :: string

record VirtualMachineIPAddress = KObject +
  vmip_Type :: string
  vmip_StaticIP :: string

record VMBlockDeviceAttachment = KObject +
  vmbd_VirtualMachineName :: string
  vmbd_BlockDeviceKind :: string
  vmbd_BlockDeviceName :: string
  vmbd_Phase :: string

record VirtualMachine = KObject +
  vm_ClassName :: string
  vm_EnableParavirtualization :: bool
  vm_RunPolicy :: string
  vm_OsType :: string
  vm_Bootloader :: string
  vm_IPAddressClaim :: string
  vm_Cores :: int
  vm_CoreFraction :: string
  vm_Memory :: int
  vm_BlockDeviceRefs :: "(string \<times> string) list"
  vm_ProvisioningType :: string
  vm_UserData :: string
  vm_Phase :: string
  vm_IPAddress :: string


section \<open>The client\<close>

text \<open>
  The operations of a typed client for one kind of object: list a namespace (the empty name
  lists all), get by namespace and name, create, update, delete. \<^verbatim>\<open>Create\<close> and \<^verbatim>\<open>Update\<close>
  fill in their argument, so they return the object as stored. A call returns an error or a
  result, and may change the world (the cluster, the clock) as it likes.
\<close>

record ('w, 'o) client =
  cl_list :: "string \<Rightarrow> 'w \<Rightarrow> (go_error + 'o list) \<times> 'w"
  cl_get :: "string \<Rightarrow> string \<Rightarrow> 'w \<Rightarrow> (go_error + 'o) \<times> 'w"
  cl_create :: "'o \<Rightarrow> 'w \<Rightarrow> (go_error + 'o) \<times> 'w"
  cl_update :: "'o \<Rightarrow> 'w \<Rightarrow> (go_error + 'o) \<times> 'w"
  cl_delete :: "'o \<Rightarrow> 'w \<Rightarrow> go_error option \<times> 'w"

text \<open>
  \<^verbatim>\<open>KCluster\<close> (\<^verbatim>\<open>testkit_v2/util/kube.go\<close>) holds one client per API library; here there is one
  per kind of object. The remaining fields are the libraries the methods call: the regular
  expressions of \<^verbatim>\<open>regexp.MatchString\<close>, \<^verbatim>\<open>resource.ParseQuantity\<close> and \<^verbatim>\<open>md5.Sum\<close> in
  hexadecimal.
\<close>

record 'w KCluster =
  regexp_match :: regexp
  parse_quantity :: "string \<Rightarrow> go_error + int"
  md5_hex :: "string \<Rightarrow> string"
  BDs :: "('w, BlockDevice) client"
  LVGs :: "('w, LVMVolumeGroup) client"
  SCs :: "('w, StorageClass) client"
  PVCs :: "('w, PersistentVolumeClaim) client"
  Nodes :: "('w, Node) client"
  Pods :: "('w, Pod) client"
  NSs :: "('w, Namespace) client"
  Deployments :: "('w, Deployment) client"
  DaemonSets :: "('w, DaemonSet) client"
  Services :: "('w, Service) client"
  ModuleConfigs :: "('w, ModuleConfig) client"
  SSHCreds :: "('w, SSHCredentials) client"
  StaticInstances :: "('w, StaticInstance) client"
  VMs :: "('w, VirtualMachine) client"
  VDs :: "('w, VirtualDisk) client"
  CVIs :: "('w, ClusterVirtualImage) client"
  IPClaims :: "('w, VirtualMachineIPAddress) client"
  VMBDs :: "('w, VMBlockDeviceAttachment) client"


section \<open>A frozen cluster\<close>

text \<open>
  A client that serves a fixed list of objects: reads find them, a creation fails with
  "already exists" for a name it has, and writes leave the world as it is. It is the instance
  on which the properties with hypotheses are applied.
\<close>

definition frozen_client :: "'a KObject_scheme list \<Rightarrow> ('w, 'a KObject_scheme) client" where
  "frozen_client xs =
     \<lparr>cl_list = (\<lambda>ns w. (Inr xs, w)),
      cl_get = (\<lambda>ns name w. (case find (\<lambda>x. obj_Name x = name) xs of
          Some x \<Rightarrow> Inr x | None \<Rightarrow> Inl (ApiError ReasonNotFound ''not found''), w)),
      cl_create = (\<lambda>x w. (if list_ex (\<lambda>y. obj_Name y = obj_Name x) xs
          then Inl (ApiError ReasonAlreadyExists ''already exists'') else Inr x, w)),
      cl_update = (\<lambda>x w. (Inr x, w)),
      cl_delete = (\<lambda>x w. (None, w))\<rparr>"

definition frozen_cluster :: "'w KCluster" where
  "frozen_cluster =
     \<lparr>regexp_match = (\<lambda>p s. Some (p = s)), parse_quantity = (\<lambda>s. Inr (int (length s))),
      md5_hex = (\<lambda>s. ''d41d8cd98f00b204e9800998ecf8427e''),
      BDs = frozen_client [], LVGs = frozen_client [], SCs = frozen_client [],
      PVCs = frozen_client [], Nodes = frozen_client [], Pods = frozen_client [],
      NSs = frozen_client [], Deployments = frozen_client [], DaemonSets = frozen_client [],
      Services = frozen_client [], ModuleConfigs = frozen_client [], SSHCreds = frozen_client [],
      StaticInstances = frozen_client [], VMs = frozen_client [], VDs = frozen_client [],
      CVIs = frozen_client [], IPClaims = frozen_client [], VMBDs = frozen_client []\<rparr>"

lemma frozen_client_simps [simp]:
  "cl_list (frozen_client xs) ns w = (Inr xs, w)"
  "cl_get (frozen_client xs) ns name w = (case find (\<lambda>x. obj_Name x = name) xs of
     Some x \<Rightarrow> Inr x | None \<Rightarrow> Inl (ApiError ReasonNotFound ''not found''), w)"
  "cl_create (frozen_client xs) x w = (if list_ex (\<lambda>y. obj_Name y = obj_Name x) xs
     then Inl (ApiError ReasonAlreadyExists ''already exists'') else Inr x, w)"
  "cl_update (frozen_client xs) x w = (Inr x, w)"
  "cl_delete (frozen_client xs) x w = (None, w)"
  by (simp_all add: frozen_client_def)

lemma frozen_cluster_simps [simp]:
  "regexp_match frozen_cluster = (\<lambda>p s. Some (p = s))"
  "parse_quantity frozen_cluster = (\<lambda>s. Inr (int (length s)))"
  "md5_hex frozen_cluster = (\<lambda>s. ''d41d8cd98f00b204e9800998ecf8427e'')"
  "BDs frozen_cluster = frozen_client []" "LVGs frozen_cluster = frozen_client []"
  "SCs frozen_cluster = frozen_client []" "PVCs frozen_cluster = frozen_client []"
  "Nodes frozen_cluster = frozen_client []" "Pods frozen_cluster = frozen_client []"
  "NSs frozen_cluster = frozen_client []" "Deployments frozen_cluster = frozen_client []"
  "DaemonSets frozen_cluster = frozen_client []" "ModuleConfigs frozen_cluster = frozen_client []"
  "StaticInstances frozen_cluster = frozen_client []" "VMs frozen_cluster = frozen_client []"
  "VDs frozen_cluster = frozen_client []" "CVIs frozen_cluster = frozen_client []"
  "IPClaims frozen_cluster = frozen_client []" "VMBDs frozen_cluster = frozen_client []"
  by (simp_all add: frozen_cluster_def)


section \<open>An API server that keeps what it is given\<close>

text \<open>
  What the Kubernetes API documents of one kind of object, for the fields \<open>agree\<close> compares: a
  get changes nothing, gives the object of the name it was asked for and the same answer
  again; after a successful create or update a get of that name gives an object that agrees
  with the one written.
\<close>

definition keeps_writes :: "('w, 'a KObject_scheme) client \<Rightarrow>
    ('a KObject_scheme \<Rightarrow> 'a KObject_scheme \<Rightarrow> bool) \<Rightarrow> string \<Rightarrow> bool"
where
  "keeps_writes c agree ns \<longleftrightarrow>
     (\<forall>name w r w'. cl_get c ns name w = (r, w') \<longrightarrow>
        w' = w \<and> (case r of Inl e \<Rightarrow> True | Inr x \<Rightarrow> obj_Name x = name)) \<and>
     (\<forall>x x' w w'. cl_create c x w = (Inr x', w') \<longrightarrow>
        (\<exists>y. cl_get c ns (obj_Name x) w' = (Inr y, w') \<and> agree y x)) \<and>
     (\<forall>x x' w w'. cl_update c x w = (Inr x', w') \<longrightarrow>
        (\<exists>y. cl_get c ns (obj_Name x) w' = (Inr y, w') \<and> agree y x))"

lemma keeps_writesD:
  assumes "keeps_writes c agree ns"
  shows "cl_get c ns name w = (r, w') \<Longrightarrow> w' = w"
    and "cl_get c ns name w = (Inr y, w') \<Longrightarrow> obj_Name y = name"
    and "cl_create c x w = (Inr x', w') \<Longrightarrow> \<exists>y. cl_get c ns (obj_Name x) w' = (Inr y, w') \<and> agree y x"
    and "cl_update c x w = (Inr x', w') \<Longrightarrow> \<exists>y. cl_get c ns (obj_Name x) w' = (Inr y, w') \<and> agree y x"
proof -
  have get: "cl_get c ns name w = (r, w') \<Longrightarrow> w' = w \<and> (case r of Inl e \<Rightarrow> True | Inr x \<Rightarrow> obj_Name x = name)"
    for r w'
    using assms unfolding keeps_writes_def by blast
  show "cl_get c ns name w = (r, w') \<Longrightarrow> w' = w" using get by blast
  show "cl_get c ns name w = (Inr y, w') \<Longrightarrow> obj_Name y = name" using get [of "Inr y"] by simp
  show "cl_create c x w = (Inr x', w') \<Longrightarrow> \<exists>y. cl_get c ns (obj_Name x) w' = (Inr y, w') \<and> agree y x"
    using assms unfolding keeps_writes_def by blast
  show "cl_update c x w = (Inr x', w') \<Longrightarrow> \<exists>y. cl_get c ns (obj_Name x) w' = (Inr y, w') \<and> agree y x"
    using assms unfolding keeps_writes_def by blast
qed

text \<open>A server that meets it: the objects are a list in the world, read by \<open>rd\<close> and changed by \<open>wr\<close>.\<close>

definition store_client :: "('w \<Rightarrow> 'a KObject_scheme list) \<Rightarrow>
    (('a KObject_scheme list \<Rightarrow> 'a KObject_scheme list) \<Rightarrow> 'w \<Rightarrow> 'w) \<Rightarrow>
    ('w, 'a KObject_scheme) client"
where
  "store_client rd wr =
     \<lparr>cl_list = (\<lambda>ns w. (Inr (rd w), w)),
      cl_get = (\<lambda>ns name w. (case find (\<lambda>x. obj_Name x = name) (rd w) of
          Some x \<Rightarrow> Inr x | None \<Rightarrow> Inl (ApiError ReasonNotFound ''not found''), w)),
      cl_create = (\<lambda>x w. if list_ex (\<lambda>y. obj_Name y = obj_Name x) (rd w)
          then (Inl (ApiError ReasonAlreadyExists ''already exists''), w)
          else (Inr x, wr (\<lambda>xs. x # xs) w)),
      cl_update = (\<lambda>x w. if list_ex (\<lambda>y. obj_Name y = obj_Name x) (rd w)
          then (Inr x, wr (\<lambda>xs. x # filter (\<lambda>y. obj_Name y \<noteq> obj_Name x) xs) w)
          else (Inl (ApiError ReasonNotFound ''not found''), w)),
      cl_delete = (\<lambda>x w. (None, wr (filter (\<lambda>y. obj_Name y \<noteq> obj_Name x)) w))\<rparr>"

lemma store_client_keeps:
  assumes "\<And>f w. rd (wr f w) = f (rd w)" and "\<And>x. agree x x"
  shows "keeps_writes (store_client rd wr) agree ns"
proof -
  let ?c = "store_client rd wr"
  have found: "find (\<lambda>x. obj_Name x = name) xs = Some x \<Longrightarrow> obj_Name x = name" for x name xs
    by (auto simp: find_Some_iff)
  have get: "w' = w \<and> (case r of Inl e \<Rightarrow> True | Inr x \<Rightarrow> obj_Name x = name)"
    if "cl_get ?c ns name w = (r, w')" for name w r w'
    using that found by (auto simp: store_client_def split: option.splits)
  have create: "cl_get ?c ns (obj_Name x) w' = (Inr x, w')" if "cl_create ?c x w = (Inr x', w')" for x x' w w'
    using that by (auto simp: store_client_def assms(1) split: if_splits)
  have update: "cl_get ?c ns (obj_Name x) w' = (Inr x, w')" if "cl_update ?c x w = (Inr x', w')" for x x' w w'
    using that by (auto simp: store_client_def assms(1) split: if_splits)
  show ?thesis
    unfolding keeps_writes_def using get create update assms(2) by blast
qed

end
