(* ===== verification/Filters.thy ===== *)
theory Filters
  imports Objects
begin

text \<open>
  The eight filters of \<^verbatim>\<open>testkit_v2/util\<close> (\<^verbatim>\<open>kube_storage.go\<close>, \<^verbatim>\<open>kube_node.go\<close>, \<^verbatim>\<open>kube.go\<close>,
  \<^verbatim>\<open>kube_vm.go\<close>): each \<^verbatim>\<open>Apply\<close> keeps the items whose fields meet the conditions the filter sets, but for the
  namespace of an attachment (\<^verbatim>\<open>filters_are_conjunctions\<close>). The locale \<open>list_filter\<close> is the interface \<^verbatim>\<open>Filter\<close> as the listing methods use it.
\<close>

section \<open>Apply, filter by filter\<close>

record BdFilter =
  bdf_Name :: any
  bdf_Node :: any
  bdf_Consumable :: any
  bdf_Size :: rat

fun BdFilter_Apply :: "regexp \<Rightarrow> BdFilter \<Rightarrow> BlockDevice list \<Rightarrow> BlockDevice list" where
  "BdFilter_Apply rx f [] = []"
| "BdFilter_Apply rx f (bd # bds) =
     (if bdf_Name f \<noteq> Nil \<and> \<not> CheckCondition rx (bdf_Name f) (Str (obj_Name bd))
        then BdFilter_Apply rx f bds
      else if bdf_Node f \<noteq> Nil \<and> \<not> CheckCondition rx (bdf_Node f) (Str (bd_NodeName bd))
        then BdFilter_Apply rx f bds
      else if bdf_Consumable f \<noteq> Nil \<and>
          \<not> CheckCondition rx (bdf_Consumable f) (Bool (bd_Consumable bd))
        then BdFilter_Apply rx f bds
      else if bdf_Size f \<noteq> 0 \<and>
          (let sizeB = wrap64 (int_of_float (bdf_Size f) * 1024 * 1024 * 1024);
               validDiff = 10 * 1024 * 1024
           in bd_Size bd < wrap64 (sizeB - validDiff) \<or> bd_Size bd > wrap64 (sizeB + validDiff))
        then BdFilter_Apply rx f bds
      else bd # BdFilter_Apply rx f bds)"

record LvgFilter =
  lvgf_Name :: any
  lvgf_Node :: any
  lvgf_Phase :: any

fun LvgFilter_Apply :: "regexp \<Rightarrow> LvgFilter \<Rightarrow> LVMVolumeGroup list \<Rightarrow> LVMVolumeGroup list" where
  "LvgFilter_Apply rx f [] = []"
| "LvgFilter_Apply rx f (lvg # lvgs) =
     (if lvgf_Name f \<noteq> Nil \<and> \<not> CheckCondition rx (lvgf_Name f) (Str (obj_Name lvg))
        then LvgFilter_Apply rx f lvgs
      else if lvgf_Node f \<noteq> Nil \<and>
          (case lvg_Nodes lvg of
             [] \<Rightarrow> True
           | n # _ \<Rightarrow> \<not> CheckCondition rx (lvgf_Node f) (Str (lvgn_Name n)))
        then LvgFilter_Apply rx f lvgs
      else if lvgf_Phase f \<noteq> Nil \<and> \<not> CheckCondition rx (lvgf_Phase f) (Str (lvg_Phase lvg))
        then LvgFilter_Apply rx f lvgs
      else lvg # LvgFilter_Apply rx f lvgs)"

record NodeFilter =
  nf_Name :: any
  nf_Os :: any
  nf_Kernel :: any
  nf_Kubelet :: any

fun NodeFilter_Apply :: "regexp \<Rightarrow> NodeFilter \<Rightarrow> Node list \<Rightarrow> Node list" where
  "NodeFilter_Apply rx f [] = []"
| "NodeFilter_Apply rx f (node # nodes) =
     (if nf_Name f \<noteq> Nil \<and> \<not> CheckCondition rx (nf_Name f) (Str (obj_Name node))
        then NodeFilter_Apply rx f nodes
      else if nf_Os f \<noteq> Nil \<and> \<not> CheckCondition rx (nf_Os f) (Str (node_OSImage node))
        then NodeFilter_Apply rx f nodes
      else if nf_Kernel f \<noteq> Nil \<and> \<not> CheckCondition rx (nf_Kernel f) (Str (node_KernelVersion node))
        then NodeFilter_Apply rx f nodes
      else if nf_Kubelet f \<noteq> Nil \<and>
          \<not> CheckCondition rx (nf_Kubelet f) (Str (node_KubeletVersion node))
        then NodeFilter_Apply rx f nodes
      else node # NodeFilter_Apply rx f nodes)"

record PodFilter =
  pf_Name :: any
  pf_Node :: any

fun PodFilter_Apply :: "regexp \<Rightarrow> PodFilter \<Rightarrow> Pod list \<Rightarrow> Pod list" where
  "PodFilter_Apply rx f [] = []"
| "PodFilter_Apply rx f (pod # pods) =
     (if pf_Name f \<noteq> Nil \<and> \<not> CheckCondition rx (pf_Name f) (Str (obj_Name pod))
        then PodFilter_Apply rx f pods
      else if pf_Node f \<noteq> Nil \<and> \<not> CheckCondition rx (pf_Node f) (Str (pod_NodeName pod))
        then PodFilter_Apply rx f pods
      else pod # PodFilter_Apply rx f pods)"

text \<open>\<^verbatim>\<open>ExistSec\<close> is declared and never read.\<close>

record NsFilter =
  nsf_Name :: any
  nsf_ExistSec :: any

fun NsFilter_Apply :: "regexp \<Rightarrow> NsFilter \<Rightarrow> Namespace list \<Rightarrow> Namespace list" where
  "NsFilter_Apply rx f [] = []"
| "NsFilter_Apply rx f (ns # nss) =
     (if nsf_Name f \<noteq> Nil \<and> \<not> CheckCondition rx (nsf_Name f) (Str (obj_Name ns))
        then NsFilter_Apply rx f nss
      else ns # NsFilter_Apply rx f nss)"

record VmFilter =
  vmf_NameSpace :: any
  vmf_Name :: any
  vmf_Phase :: any

fun VmFilter_Apply :: "regexp \<Rightarrow> VmFilter \<Rightarrow> VirtualMachine list \<Rightarrow> VirtualMachine list" where
  "VmFilter_Apply rx f [] = []"
| "VmFilter_Apply rx f (vm # vms) =
     (if vmf_Name f \<noteq> Nil \<and> \<not> CheckCondition rx (vmf_Name f) (Str (obj_Name vm))
        then VmFilter_Apply rx f vms
      else if vmf_NameSpace f \<noteq> Nil \<and>
          \<not> CheckCondition rx (vmf_NameSpace f) (Str (obj_Namespace vm))
        then VmFilter_Apply rx f vms
      else if vmf_Phase f \<noteq> Nil \<and> \<not> CheckCondition rx (vmf_Phase f) (Str (vm_Phase vm))
        then VmFilter_Apply rx f vms
      else vm # VmFilter_Apply rx f vms)"

record VdFilter =
  vdf_NameSpace :: any
  vdf_Name :: any
  vdf_Phase :: any

fun VdFilter_Apply :: "regexp \<Rightarrow> VdFilter \<Rightarrow> VirtualDisk list \<Rightarrow> VirtualDisk list" where
  "VdFilter_Apply rx f [] = []"
| "VdFilter_Apply rx f (vd # vds) =
     (if vdf_Name f \<noteq> Nil \<and> \<not> CheckCondition rx (vdf_Name f) (Str (obj_Name vd))
        then VdFilter_Apply rx f vds
      else if vdf_NameSpace f \<noteq> Nil \<and>
          \<not> CheckCondition rx (vdf_NameSpace f) (Str (obj_Namespace vd))
        then VdFilter_Apply rx f vds
      else if vdf_Phase f \<noteq> Nil \<and> \<not> CheckCondition rx (vdf_Phase f) (Str (vd_Phase vd))
        then VdFilter_Apply rx f vds
      else vd # VdFilter_Apply rx f vds)"

text \<open>The namespace test of the code checks the namespace against the condition on the name.\<close>

record VmBdFilter =
  vmbdf_NameSpace :: any
  vmbdf_Name :: any
  vmbdf_VmName :: any
  vmbdf_VdName :: any
  vmbdf_Phase :: any

fun VmBdFilter_Apply :: "regexp \<Rightarrow> VmBdFilter \<Rightarrow> VMBlockDeviceAttachment list \<Rightarrow>
    VMBlockDeviceAttachment list"
where
  "VmBdFilter_Apply rx f [] = []"
| "VmBdFilter_Apply rx f (vmbd # vmbds) =
     (if vmbdf_Name f \<noteq> Nil \<and> \<not> CheckCondition rx (vmbdf_Name f) (Str (obj_Name vmbd))
        then VmBdFilter_Apply rx f vmbds
      else if vmbdf_NameSpace f \<noteq> Nil \<and>
          \<not> CheckCondition rx (vmbdf_Name f) (Str (obj_Namespace vmbd))
        then VmBdFilter_Apply rx f vmbds
      else if vmbdf_VmName f \<noteq> Nil \<and>
          \<not> CheckCondition rx (vmbdf_VmName f) (Str (vmbd_VirtualMachineName vmbd))
        then VmBdFilter_Apply rx f vmbds
      else if vmbdf_VdName f \<noteq> Nil \<and>
          \<not> CheckCondition rx (vmbdf_VdName f) (Str (vmbd_BlockDeviceName vmbd))
        then VmBdFilter_Apply rx f vmbds
      else if vmbdf_Phase f \<noteq> Nil \<and> \<not> CheckCondition rx (vmbdf_Phase f) (Str (vmbd_Phase vmbd))
        then VmBdFilter_Apply rx f vmbds
      else vmbd # VmBdFilter_Apply rx f vmbds)"

text \<open>The zero values that a composite literal starts from, as in \<^verbatim>\<open>VmFilter{Name: x}\<close>.\<close>

definition noBdFilter :: BdFilter where
  "noBdFilter = \<lparr>bdf_Name = Nil, bdf_Node = Nil, bdf_Consumable = Nil, bdf_Size = 0\<rparr>"

definition noLvgFilter :: LvgFilter where
  "noLvgFilter = \<lparr>lvgf_Name = Nil, lvgf_Node = Nil, lvgf_Phase = Nil\<rparr>"

definition noNodeFilter :: NodeFilter where
  "noNodeFilter = \<lparr>nf_Name = Nil, nf_Os = Nil, nf_Kernel = Nil, nf_Kubelet = Nil\<rparr>"

definition noPodFilter :: PodFilter where
  "noPodFilter = \<lparr>pf_Name = Nil, pf_Node = Nil\<rparr>"

definition noNsFilter :: NsFilter where
  "noNsFilter = \<lparr>nsf_Name = Nil, nsf_ExistSec = Nil\<rparr>"

definition noVmFilter :: VmFilter where
  "noVmFilter = \<lparr>vmf_NameSpace = Nil, vmf_Name = Nil, vmf_Phase = Nil\<rparr>"

definition noVdFilter :: VdFilter where
  "noVdFilter = \<lparr>vdf_NameSpace = Nil, vdf_Name = Nil, vdf_Phase = Nil\<rparr>"

definition noVmBdFilter :: VmBdFilter where
  "noVmBdFilter = \<lparr>vmbdf_NameSpace = Nil, vmbdf_Name = Nil, vmbdf_VmName = Nil,
     vmbdf_VdName = Nil, vmbdf_Phase = Nil\<rparr>"

lemmas no_filters = noBdFilter_def noLvgFilter_def noNodeFilter_def noPodFilter_def
  noNsFilter_def noVmFilter_def noVdFilter_def noVmBdFilter_def


section \<open>What each filter keeps\<close>

definition BdFilter_size_ok :: "rat \<Rightarrow> int \<Rightarrow> bool" where
  "BdFilter_size_ok sz bytes \<longleftrightarrow>
     sz = 0 \<or>
     (wrap64 (wrap64 (int_of_float sz * 1024 * 1024 * 1024) - 10 * 1024 * 1024) \<le> bytes \<and>
      bytes \<le> wrap64 (wrap64 (int_of_float sz * 1024 * 1024 * 1024) + 10 * 1024 * 1024))"

definition BdFilter_keep :: "regexp \<Rightarrow> BdFilter \<Rightarrow> BlockDevice \<Rightarrow> bool" where
  "BdFilter_keep rx f bd \<longleftrightarrow>
     CheckCondition rx (bdf_Name f) (Str (obj_Name bd)) \<and>
     CheckCondition rx (bdf_Node f) (Str (bd_NodeName bd)) \<and>
     CheckCondition rx (bdf_Consumable f) (Bool (bd_Consumable bd)) \<and>
     BdFilter_size_ok (bdf_Size f) (bd_Size bd)"

definition LvgFilter_keep :: "regexp \<Rightarrow> LvgFilter \<Rightarrow> LVMVolumeGroup \<Rightarrow> bool" where
  "LvgFilter_keep rx f lvg \<longleftrightarrow>
     CheckCondition rx (lvgf_Name f) (Str (obj_Name lvg)) \<and>
     (lvgf_Node f = Nil \<or>
       lvg_Nodes lvg \<noteq> [] \<and> CheckCondition rx (lvgf_Node f) (Str (lvgn_Name (hd (lvg_Nodes lvg))))) \<and>
     CheckCondition rx (lvgf_Phase f) (Str (lvg_Phase lvg))"

definition NodeFilter_keep :: "regexp \<Rightarrow> NodeFilter \<Rightarrow> Node \<Rightarrow> bool" where
  "NodeFilter_keep rx f node \<longleftrightarrow>
     CheckCondition rx (nf_Name f) (Str (obj_Name node)) \<and>
     CheckCondition rx (nf_Os f) (Str (node_OSImage node)) \<and>
     CheckCondition rx (nf_Kernel f) (Str (node_KernelVersion node)) \<and>
     CheckCondition rx (nf_Kubelet f) (Str (node_KubeletVersion node))"

definition PodFilter_keep :: "regexp \<Rightarrow> PodFilter \<Rightarrow> Pod \<Rightarrow> bool" where
  "PodFilter_keep rx f pod \<longleftrightarrow>
     CheckCondition rx (pf_Name f) (Str (obj_Name pod)) \<and>
     CheckCondition rx (pf_Node f) (Str (pod_NodeName pod))"

definition NsFilter_keep :: "regexp \<Rightarrow> NsFilter \<Rightarrow> Namespace \<Rightarrow> bool" where
  "NsFilter_keep rx f ns \<longleftrightarrow> CheckCondition rx (nsf_Name f) (Str (obj_Name ns))"

definition VmFilter_keep :: "regexp \<Rightarrow> VmFilter \<Rightarrow> VirtualMachine \<Rightarrow> bool" where
  "VmFilter_keep rx f vm \<longleftrightarrow>
     CheckCondition rx (vmf_Name f) (Str (obj_Name vm)) \<and>
     CheckCondition rx (vmf_NameSpace f) (Str (obj_Namespace vm)) \<and>
     CheckCondition rx (vmf_Phase f) (Str (vm_Phase vm))"

definition VdFilter_keep :: "regexp \<Rightarrow> VdFilter \<Rightarrow> VirtualDisk \<Rightarrow> bool" where
  "VdFilter_keep rx f vd \<longleftrightarrow>
     CheckCondition rx (vdf_Name f) (Str (obj_Name vd)) \<and>
     CheckCondition rx (vdf_NameSpace f) (Str (obj_Namespace vd)) \<and>
     CheckCondition rx (vdf_Phase f) (Str (vd_Phase vd))"

text \<open>
  What the code keeps: the namespace is tested with the condition on the name. What the fields of the filter mean is
  \<open>meets\<close>, below, and the two differ.
\<close>

definition VmBdFilter_keep :: "regexp \<Rightarrow> VmBdFilter \<Rightarrow> VMBlockDeviceAttachment \<Rightarrow> bool" where
  "VmBdFilter_keep rx f vmbd \<longleftrightarrow>
     CheckCondition rx (vmbdf_Name f) (Str (obj_Name vmbd)) \<and>
     (vmbdf_NameSpace f = Nil \<or> CheckCondition rx (vmbdf_Name f) (Str (obj_Namespace vmbd))) \<and>
     CheckCondition rx (vmbdf_VmName f) (Str (vmbd_VirtualMachineName vmbd)) \<and>
     CheckCondition rx (vmbdf_VdName f) (Str (vmbd_BlockDeviceName vmbd)) \<and>
     CheckCondition rx (vmbdf_Phase f) (Str (vmbd_Phase vmbd))"


section \<open>The Filter interface\<close>

text \<open>\<^verbatim>\<open>for _, filter := range filters { resp = filter.Apply(resp) }\<close>\<close>

fun applyAll :: "('f \<Rightarrow> 'a list \<Rightarrow> 'a list) \<Rightarrow> 'f list \<Rightarrow> 'a list \<Rightarrow> 'a list" where
  "applyAll app [] resp = resp"
| "applyAll app (f # filters) resp = applyAll app filters (app f resp)"

text \<open>The body of the \<^verbatim>\<open>List\<close> methods: one listing call, then the filters in turn.\<close>

definition listFiltered :: "('w \<Rightarrow> (go_error + 'a list) \<times> 'w) \<Rightarrow> ('f \<Rightarrow> 'a list \<Rightarrow> 'a list) \<Rightarrow>
    'f list \<Rightarrow> ('w, go_error + 'a list) io"
where
  "listFiltered list app filters =
     bindIO (callIO list) (\<lambda>r. case r of
         Inl err \<Rightarrow> retIO (Inl err)
       | Inr items \<Rightarrow> retIO (Inr (applyAll app filters items)))"

lemma listFiltered_run [io_simps]:
  "listFiltered list app fs w =
     Some (Ret (case fst (list w) of Inl e \<Rightarrow> Inl e | Inr xs \<Rightarrow> Inr (applyAll app fs xs)),
           snd (list w))"
  by (simp add: listFiltered_def io_simps split: sum.splits)

lemma returns_listFiltered [intro, simp]: "returns (listFiltered list app fs)"
  by (simp add: returns_def listFiltered_run)

locale list_filter =
  fixes app :: "'f \<Rightarrow> 'a list \<Rightarrow> 'a list"
    and keep :: "'f \<Rightarrow> 'a \<Rightarrow> bool"
  assumes app_eq: "app f xs = filter (keep f) xs"
begin

lemma applyAll_eq: "applyAll app fs xs = filter (\<lambda>x. \<forall>f \<in> set fs. keep f x) xs"
  by (induction fs arbitrary: xs) (auto simp: app_eq intro!: filter_cong)

lemma applyAll_cong: "set fs = set gs \<Longrightarrow> applyAll app fs xs = applyAll app gs xs"
  by (simp add: applyAll_eq)

lemma applyAll_append: "applyAll app (fs @ gs) xs = applyAll app gs (applyAll app fs xs)"
  by (induction fs arbitrary: xs) auto

lemma applyAll_iff: "x \<in> set (applyAll app fs xs) \<longleftrightarrow> x \<in> set xs \<and> (\<forall>f \<in> set fs. keep f x)"
  by (auto simp: applyAll_eq)

lemma applyAll_empty_iff: "applyAll app fs xs = [] \<longleftrightarrow> (\<forall>x \<in> set xs. \<exists>f \<in> set fs. \<not> keep f x)"
  by (auto simp: applyAll_eq filter_empty_conv)

lemma applyAll_length: "length (applyAll app fs xs) \<le> length xs"
  by (simp add: applyAll_eq)

lemma listed_none:
  "listFiltered list app fs w = Some (Ret (Inr []), w') \<longleftrightarrow>
     (\<exists>xs. list w = (Inr xs, w') \<and> (\<forall>x \<in> set xs. \<exists>f \<in> set fs. \<not> keep f x))"
  by (cases "list w") (auto simp: listFiltered_run applyAll_empty_iff split: sum.splits)

lemma applyAll_full_iff:
  "length (applyAll app fs xs) = length xs \<longleftrightarrow> (\<forall>x \<in> set xs. \<forall>f \<in> set fs. keep f x)"
proof
  assume len: "length (applyAll app fs xs) = length xs"
  show "\<forall>x \<in> set xs. \<forall>f \<in> set fs. keep f x"
  proof (rule ccontr)
    assume "\<not> ?thesis"
    then have "\<exists>x \<in> set xs. \<not> (\<forall>f \<in> set fs. keep f x)" by blast
    then have "length (filter (\<lambda>x. \<forall>f \<in> set fs. keep f x) xs) < length xs"
      by (auto intro: length_filter_less)
    with len show False by (simp add: applyAll_eq)
  qed
next
  assume "\<forall>x \<in> set xs. \<forall>f \<in> set fs. keep f x"
  then have "filter (\<lambda>x. \<forall>f \<in> set fs. keep f x) xs = xs" by (auto intro: filter_True)
  then show "length (applyAll app fs xs) = length xs" by (simp add: applyAll_eq)
qed

end

interpretation bd_filter: list_filter "BdFilter_Apply rx" "BdFilter_keep rx" for rx
proof unfold_locales
  show "BdFilter_Apply rx f xs = filter (BdFilter_keep rx f) xs" for f xs
    by (induction xs) (simp_all add: BdFilter_keep_def BdFilter_size_ok_def Let_def not_le)
qed

interpretation lvg_filter: list_filter "LvgFilter_Apply rx" "LvgFilter_keep rx" for rx
proof unfold_locales
  show "LvgFilter_Apply rx f xs = filter (LvgFilter_keep rx f) xs" for f xs
    by (induction xs) (auto simp: LvgFilter_keep_def split: list.splits)
qed

interpretation node_filter: list_filter "NodeFilter_Apply rx" "NodeFilter_keep rx" for rx
proof unfold_locales
  show "NodeFilter_Apply rx f xs = filter (NodeFilter_keep rx f) xs" for f xs
    by (induction xs) (auto simp: NodeFilter_keep_def)
qed

interpretation pod_filter: list_filter "PodFilter_Apply rx" "PodFilter_keep rx" for rx
proof unfold_locales
  show "PodFilter_Apply rx f xs = filter (PodFilter_keep rx f) xs" for f xs
    by (induction xs) (auto simp: PodFilter_keep_def)
qed

interpretation ns_filter: list_filter "NsFilter_Apply rx" "NsFilter_keep rx" for rx
proof unfold_locales
  show "NsFilter_Apply rx f xs = filter (NsFilter_keep rx f) xs" for f xs
    by (induction xs) (auto simp: NsFilter_keep_def)
qed

interpretation vm_filter: list_filter "VmFilter_Apply rx" "VmFilter_keep rx" for rx
proof unfold_locales
  show "VmFilter_Apply rx f xs = filter (VmFilter_keep rx f) xs" for f xs
    by (induction xs) (auto simp: VmFilter_keep_def)
qed

interpretation vd_filter: list_filter "VdFilter_Apply rx" "VdFilter_keep rx" for rx
proof unfold_locales
  show "VdFilter_Apply rx f xs = filter (VdFilter_keep rx f) xs" for f xs
    by (induction xs) (auto simp: VdFilter_keep_def)
qed

interpretation vmbd_filter: list_filter "VmBdFilter_Apply rx" "VmBdFilter_keep rx" for rx
proof unfold_locales
  show "VmBdFilter_Apply rx f xs = filter (VmBdFilter_keep rx f) xs" for f xs
    by (induction xs) (auto simp: VmBdFilter_keep_def)
qed

lemmas filter_keeps = BdFilter_keep_def LvgFilter_keep_def NodeFilter_keep_def
  PodFilter_keep_def NsFilter_keep_def VmFilter_keep_def VdFilter_keep_def VmBdFilter_keep_def


section \<open>The size window\<close>

lemma window_iff:
  fixes r :: rat
  assumes "0 < r" and "r < 2 ^ 32"
  shows "BdFilter_size_ok r bytes \<longleftrightarrow> \<bar>bytes - \<lfloor>r\<rfloor> * 2 ^ 30\<bar> \<le> 10 * 2 ^ 20"
proof -
  define n where "n = \<lfloor>r\<rfloor>"
  have lo: "0 \<le> n" and hi: "n < 2 ^ 32"
    using assms by (simp_all add: n_def floor_less_iff)
  have i: "int_of_float r = n" using assms(1) by (simp add: int_of_float_def n_def)
  have b: "wrap64 (n * 1024 * 1024 * 1024) = n * 2 ^ 30"
    using lo hi by (subst wrap64_id) simp_all
  have "wrap64 (n * 2 ^ 30 - 10 * 1024 * 1024) = n * 2 ^ 30 - 10 * 2 ^ 20"
    "wrap64 (n * 2 ^ 30 + 10 * 1024 * 1024) = n * 2 ^ 30 + 10 * 2 ^ 20"
    using lo hi by (subst wrap64_id; simp)+
  then show ?thesis
    using assms(1) unfolding BdFilter_size_ok_def i b n_def [symmetric] by auto
qed


section \<open>Properties\<close>

text \<open>
  What a filter means, apart from how \<^verbatim>\<open>Apply\<close> decides it: every field of a filter is a condition, under its name, on
  the field of the object that has this name. A condition that is nil asks for nothing; one on a field the
  object does not have (the node of a volume group without nodes) is not met.
\<close>

definition meets :: "regexp \<Rightarrow> (string \<times> any) list \<Rightarrow> (string \<rightharpoonup> any) \<Rightarrow> bool" where
  "meets rx conditions attrs \<longleftrightarrow> list_all (\<lambda>(name, c). c = Nil \<or>
     (case attrs name of None \<Rightarrow> False | Some v \<Rightarrow> CheckCondition rx c v)) conditions"

definition bd_fields :: "BlockDevice \<Rightarrow> string \<rightharpoonup> any" where
  "bd_fields bd = [''Name'' \<mapsto> Str (obj_Name bd), ''Node'' \<mapsto> Str (bd_NodeName bd), ''Consumable'' \<mapsto> Bool (bd_Consumable bd)]"

definition lvg_fields :: "LVMVolumeGroup \<Rightarrow> string \<rightharpoonup> any" where
  "lvg_fields lvg = (map_of (map (\<lambda>n. (''Node'', Str (lvgn_Name n))) (take 1 (lvg_Nodes lvg))))
     (''Name'' \<mapsto> Str (obj_Name lvg), ''Phase'' \<mapsto> Str (lvg_Phase lvg))"

definition node_fields :: "Node \<Rightarrow> string \<rightharpoonup> any" where
  "node_fields node = [''Name'' \<mapsto> Str (obj_Name node), ''Os'' \<mapsto> Str (node_OSImage node),
     ''Kernel'' \<mapsto> Str (node_KernelVersion node), ''Kubelet'' \<mapsto> Str (node_KubeletVersion node)]"

definition pod_fields :: "Pod \<Rightarrow> string \<rightharpoonup> any" where
  "pod_fields pod = [''Name'' \<mapsto> Str (obj_Name pod), ''Node'' \<mapsto> Str (pod_NodeName pod)]"

definition ns_fields :: "Namespace \<Rightarrow> string \<rightharpoonup> any" where
  "ns_fields ns = [''Name'' \<mapsto> Str (obj_Name ns)]"

definition vm_fields :: "VirtualMachine \<Rightarrow> string \<rightharpoonup> any" where
  "vm_fields vm = [''NameSpace'' \<mapsto> Str (obj_Namespace vm), ''Name'' \<mapsto> Str (obj_Name vm), ''Phase'' \<mapsto> Str (vm_Phase vm)]"

definition vd_fields :: "VirtualDisk \<Rightarrow> string \<rightharpoonup> any" where
  "vd_fields vd = [''NameSpace'' \<mapsto> Str (obj_Namespace vd), ''Name'' \<mapsto> Str (obj_Name vd), ''Phase'' \<mapsto> Str (vd_Phase vd)]"

definition vmbd_fields :: "VMBlockDeviceAttachment \<Rightarrow> string \<rightharpoonup> any" where
  "vmbd_fields x = [''NameSpace'' \<mapsto> Str (obj_Namespace x), ''Name'' \<mapsto> Str (obj_Name x),
     ''VmName'' \<mapsto> Str (vmbd_VirtualMachineName x), ''VdName'' \<mapsto> Str (vmbd_BlockDeviceName x), ''Phase'' \<mapsto> Str (vmbd_Phase x)]"

definition bd_conditions :: "BdFilter \<Rightarrow> (string \<times> any) list" where
  "bd_conditions f = [(''Name'', bdf_Name f), (''Node'', bdf_Node f), (''Consumable'', bdf_Consumable f)]"

definition lvg_conditions :: "LvgFilter \<Rightarrow> (string \<times> any) list" where
  "lvg_conditions f = [(''Name'', lvgf_Name f), (''Node'', lvgf_Node f), (''Phase'', lvgf_Phase f)]"

definition node_conditions :: "NodeFilter \<Rightarrow> (string \<times> any) list" where
  "node_conditions f = [(''Name'', nf_Name f), (''Os'', nf_Os f), (''Kernel'', nf_Kernel f), (''Kubelet'', nf_Kubelet f)]"

definition pod_conditions :: "PodFilter \<Rightarrow> (string \<times> any) list" where
  "pod_conditions f = [(''Name'', pf_Name f), (''Node'', pf_Node f)]"

text \<open>\<^verbatim>\<open>ExistSec\<close> of a namespace filter is no condition on the namespace.\<close>

definition ns_conditions :: "NsFilter \<Rightarrow> (string \<times> any) list" where
  "ns_conditions f = [(''Name'', nsf_Name f)]"

definition vm_conditions :: "VmFilter \<Rightarrow> (string \<times> any) list" where
  "vm_conditions f = [(''NameSpace'', vmf_NameSpace f), (''Name'', vmf_Name f), (''Phase'', vmf_Phase f)]"

definition vd_conditions :: "VdFilter \<Rightarrow> (string \<times> any) list" where
  "vd_conditions f = [(''NameSpace'', vdf_NameSpace f), (''Name'', vdf_Name f), (''Phase'', vdf_Phase f)]"

definition vmbd_conditions :: "VmBdFilter \<Rightarrow> (string \<times> any) list" where
  "vmbd_conditions f = [(''NameSpace'', vmbdf_NameSpace f), (''Name'', vmbdf_Name f), (''VmName'', vmbdf_VmName f),
     (''VdName'', vmbdf_VdName f), (''Phase'', vmbdf_Phase f)]"

lemmas meaning_defs = meets_def bd_fields_def lvg_fields_def node_fields_def pod_fields_def ns_fields_def vm_fields_def
  vd_fields_def vmbd_fields_def bd_conditions_def lvg_conditions_def node_conditions_def pod_conditions_def
  ns_conditions_def vm_conditions_def vd_conditions_def vmbd_conditions_def

lemma keep_meets:
  "BdFilter_keep rx f1 bd \<longleftrightarrow> meets rx (bd_conditions f1) (bd_fields bd) \<and> BdFilter_size_ok (bdf_Size f1) (bd_Size bd)"
  "LvgFilter_keep rx f2 lvg \<longleftrightarrow> meets rx (lvg_conditions f2) (lvg_fields lvg)"
  "NodeFilter_keep rx f3 node \<longleftrightarrow> meets rx (node_conditions f3) (node_fields node)"
  "PodFilter_keep rx f4 pod \<longleftrightarrow> meets rx (pod_conditions f4) (pod_fields pod)"
  "NsFilter_keep rx f5 ns \<longleftrightarrow> meets rx (ns_conditions f5) (ns_fields ns)"
  "VmFilter_keep rx f6 vm \<longleftrightarrow> meets rx (vm_conditions f6) (vm_fields vm)"
  "VdFilter_keep rx f7 vd \<longleftrightarrow> meets rx (vd_conditions f7) (vd_fields vd)"
  by (cases "lvg_Nodes lvg"; auto simp: filter_keeps meaning_defs)+

text \<open>Apart from the namespace, the filter of attachments means what it says.\<close>

lemma VmBdFilter_keep_meets:
  "VmBdFilter_keep rx f x \<longleftrightarrow>
     meets rx (filter (\<lambda>(name, c). name \<noteq> ''NameSpace'') (vmbd_conditions f)) (vmbd_fields x) \<and>
     (vmbdf_NameSpace f = Nil \<or> meets rx [(''NameSpace'', vmbdf_Name f)] (vmbd_fields x))"
  by (auto simp: filter_keeps meaning_defs)

lemma VmBdFilter_breaks_namespace:
  "\<exists>f x. VmBdFilter_Apply (\<lambda>p s. None) f [x] = [x] \<and> \<not> meets (\<lambda>p s. None) (vmbd_conditions f) (vmbd_fields x)"
  by (rule exI [of _ "noVmBdFilter\<lparr>vmbdf_NameSpace := AWhere (WhereIn [''a''])\<rparr>"],
      rule exI [of _ "\<lparr>metadata = newMeta ''x'' ''b'', vmbd_VirtualMachineName = [], vmbd_BlockDeviceKind = [],
        vmbd_BlockDeviceName = [], vmbd_Phase = []\<rparr>"])
    (simp add: noVmBdFilter_def meaning_defs)

text \<open>
  C11. What a list of filters keeps. For block devices, volume groups, nodes, pods, namespaces, machines and disks it
  is, in order, the objects of which every filter's every condition holds, each on the field of its name, and for
  block devices the window of the size too. Attachments are the exception: every condition but that on
  the namespace is decided so; where there is one on the namespace, it is the condition on the name that the
  namespace is tested with, and so an attachment may be kept whose namespace does not meet the condition.
\<close>

theorem filters_are_conjunctions:
  "applyAll (BdFilter_Apply rx) f1 bds = filter (\<lambda>x. list_all (\<lambda>f. meets rx (bd_conditions f) (bd_fields x) \<and>
     BdFilter_size_ok (bdf_Size f) (bd_Size x)) f1) bds \<and>
   applyAll (LvgFilter_Apply rx) f2 lvgs = filter (\<lambda>x. list_all (\<lambda>f. meets rx (lvg_conditions f) (lvg_fields x)) f2) lvgs \<and>
   applyAll (NodeFilter_Apply rx) f3 nodes = filter (\<lambda>x. list_all (\<lambda>f. meets rx (node_conditions f) (node_fields x)) f3) nodes \<and>
   applyAll (PodFilter_Apply rx) f4 pods = filter (\<lambda>x. list_all (\<lambda>f. meets rx (pod_conditions f) (pod_fields x)) f4) pods \<and>
   applyAll (NsFilter_Apply rx) f5 nss = filter (\<lambda>x. list_all (\<lambda>f. meets rx (ns_conditions f) (ns_fields x)) f5) nss \<and>
   applyAll (VmFilter_Apply rx) f6 vms = filter (\<lambda>x. list_all (\<lambda>f. meets rx (vm_conditions f) (vm_fields x)) f6) vms \<and>
   applyAll (VdFilter_Apply rx) f7 vds = filter (\<lambda>x. list_all (\<lambda>f. meets rx (vd_conditions f) (vd_fields x)) f7) vds \<and>
   applyAll (VmBdFilter_Apply rx) f8 vmbds = filter (\<lambda>x. list_all (\<lambda>f.
       meets rx (filter (\<lambda>(name, c). name \<noteq> ''NameSpace'') (vmbd_conditions f)) (vmbd_fields x) \<and>
       (vmbdf_NameSpace f = Nil \<or> meets rx [(''NameSpace'', vmbdf_Name f)] (vmbd_fields x))) f8) vmbds \<and>
   (\<exists>f x. VmBdFilter_Apply (\<lambda>p s. None) f [x] = [x] \<and> \<not> meets (\<lambda>p s. None) (vmbd_conditions f) (vmbd_fields x))"
  by (simp add: bd_filter.applyAll_eq lvg_filter.applyAll_eq node_filter.applyAll_eq
      pod_filter.applyAll_eq ns_filter.applyAll_eq vm_filter.applyAll_eq vd_filter.applyAll_eq
      vmbd_filter.applyAll_eq list_all_iff keep_meets VmBdFilter_keep_meets VmBdFilter_breaks_namespace
      del: VmBdFilter_Apply.simps)

text \<open>
  C19. A size in a block device filter is a window: for a size of \<open>r\<close> GiB below \<open>2 ^ 32\<close> the
  filter keeps the devices whose size is within 10 MiB of \<open>r\<close> rounded down to whole GiB.
  No intermediate 64-bit value overflows, and a fraction of a GiB is never told apart.
\<close>

theorem BdFilter_size_window:
  assumes "0 < r" and "r < 2 ^ 32"
  shows "BdFilter_Apply rx (noBdFilter\<lparr>bdf_Size := r\<rparr>) bds =
    filter (\<lambda>bd. \<bar>bd_Size bd - \<lfloor>r\<rfloor> * 2 ^ 30\<bar> \<le> 10 * 2 ^ 20) bds"
  unfolding bd_filter.app_eq
  by (rule filter_cong [OF refl])
    (simp add: BdFilter_keep_def noBdFilter_def window_iff [OF assms, simplified])

lemma BdFilter_size_window_witness:
  "BdFilter_Apply (\<lambda>p s. None) (noBdFilter\<lparr>bdf_Size := 7 / 2\<rparr>)
     [\<lparr>metadata = newMeta ''dev-a'' [], bd_NodeName = ''n'', bd_Consumable = True,
       bd_Size = 3221225472, bd_Path = ''/dev/sdb''\<rparr>,
      \<lparr>metadata = newMeta ''dev-b'' [], bd_NodeName = ''n'', bd_Consumable = True,
       bd_Size = 3758096384, bd_Path = ''/dev/sdc''\<rparr>] =
   [\<lparr>metadata = newMeta ''dev-a'' [], bd_NodeName = ''n'', bd_Consumable = True,
     bd_Size = 3221225472, bd_Path = ''/dev/sdb''\<rparr>]"
proof -
  have "\<lfloor>7 / 2 :: rat\<rfloor> = 3" by (simp add: floor_eq_iff)
  then show ?thesis by (subst BdFilter_size_window) simp_all
qed

text \<open>
  The condition a block device attachment filter sets on the namespace is never looked
  at: a filter without a name condition keeps the same attachments whatever its namespace
  condition is, so a filter on the namespace alone keeps the attachments of every namespace.
\<close>

theorem VmBdFilter_namespace_ignored:
  "VmBdFilter_Apply rx (noVmBdFilter\<lparr>vmbdf_NameSpace := c, vmbdf_VmName := vm,
      vmbdf_VdName := vd, vmbdf_Phase := ph\<rparr>) xs =
   VmBdFilter_Apply rx (noVmBdFilter\<lparr>vmbdf_VmName := vm, vmbdf_VdName := vd,
      vmbdf_Phase := ph\<rparr>) xs"
  unfolding vmbd_filter.app_eq
  by (rule filter_cong [OF refl]) (simp add: VmBdFilter_keep_def noVmBdFilter_def)

end
