(* ===== verification/Retry.thy ===== *)
theory Retry
  imports Prelude
begin

text \<open>
  \<^verbatim>\<open>testkit_v2/util/tools.go\<close>: the polling loop \<^verbatim>\<open>RetrySec\<close>, on which every wait of the
  test kit rests. The world carries the monotonic clock in nanoseconds and the package
  variable \<^verbatim>\<open>lastLog\<close>; the rest of the world (the clusters, the ssh hosts) is the record's
  extension, so a body's result may depend on the clock: a resource may become ready while
  the loop sleeps.
\<close>

record world =
  now :: int
  lastLog :: int

section \<open>The loop\<close>

definition second :: int where
  "second = 1000000000"

definition retry_latency :: "int \<Rightarrow> int" where
  "retry_latency sec =
     (let latency = go_div (wrap64 (sec + 15)) 7 in if latency > 15 then 15 else latency)"

text \<open>\<^verbatim>\<open>int(time.Since(start).Seconds())\<close>\<close>

definition elapsed_sec :: "int \<Rightarrow> int \<Rightarrow> int" where
  "elapsed_sec start t = go_div (t - start) second"

text \<open>
  \<^verbatim>\<open>time.Sleep(d)\<close>, which returns at once when \<open>d\<close> is not positive. Go sleeps at least \<open>d\<close>; here it is exactly
  \<open>d\<close>, and what comes on top counts as time of the attempt that follows.
\<close>

definition sleep :: "int \<Rightarrow> 'x world_scheme \<Rightarrow> 'x world_scheme" where
  "sleep d w = (if d \<le> 0 then w else w\<lparr>now := now w + d\<rparr>)"

text \<open>Whether the "Waiting..." line is printed (which then updates \<^verbatim>\<open>lastLog\<close> and \<^verbatim>\<open>lastMsg\<close>).\<close>

definition log_due :: "string \<Rightarrow> go_error \<Rightarrow> 'x world_scheme \<Rightarrow> bool" where
  "log_due lastMsg e w \<longleftrightarrow>
     (now w - lastLog w > 10 * second \<and> lastMsg \<noteq> err_text e) \<or> now w - lastLog w > 120 * second"

partial_function (option) retry_loop ::
  "int \<Rightarrow> ('x world_scheme, go_error option) io \<Rightarrow> int \<Rightarrow> string \<Rightarrow> ('x world_scheme, go_error option) io"
where
  "retry_loop sec f start lastMsg w =
     (case f w of
        None \<Rightarrow> None
      | Some (Panic s, w1) \<Rightarrow> Some (Panic s, w1)
      | Some (Exit s, w1) \<Rightarrow> Some (Exit s, w1)
      | Some (Ret err, w1) \<Rightarrow>
          (case err of
             None \<Rightarrow> Some (Ret None, w1)
           | Some e \<Rightarrow>
               if elapsed_sec start (now w1) > sec then Some (Ret (Some e), w1)
               else if log_due lastMsg e w1
               then retry_loop sec f start (err_text e)
                      (sleep (retry_latency sec * second) (w1\<lparr>lastLog := now w1\<rparr>))
               else retry_loop sec f start lastMsg
                      (sleep (retry_latency sec * second) w1)))"

definition RetrySec ::
  "int \<Rightarrow> ('x world_scheme, go_error option) io \<Rightarrow> ('x world_scheme, go_error option) io"
where
  "RetrySec sec f = (\<lambda>w. retry_loop sec f (now w) [] w)"


section \<open>One attempt\<close>

text \<open>
  The loop cut after \<open>n\<close> attempts: \<open>None\<close> when it is still polling. The message of the last
  log line is the loop's only other variable.
\<close>

fun retry_n :: "nat \<Rightarrow> int \<Rightarrow> ('x world_scheme, go_error option) io \<Rightarrow> int \<Rightarrow> string \<Rightarrow>
    ('x world_scheme, go_error option) io"
where
  "retry_n 0 sec f start lastMsg w = None"
| "retry_n (Suc n) sec f start lastMsg w =
     (case f w of
        None \<Rightarrow> None
      | Some (Panic s, w1) \<Rightarrow> Some (Panic s, w1)
      | Some (Exit s, w1) \<Rightarrow> Some (Exit s, w1)
      | Some (Ret err, w1) \<Rightarrow>
          (case err of
             None \<Rightarrow> Some (Ret None, w1)
           | Some e \<Rightarrow>
               if elapsed_sec start (now w1) > sec then Some (Ret (Some e), w1)
               else if log_due lastMsg e w1
               then retry_n n sec f start (err_text e)
                      (sleep (retry_latency sec * second) (w1\<lparr>lastLog := now w1\<rparr>))
               else retry_n n sec f start lastMsg
                      (sleep (retry_latency sec * second) w1)))"

lemma retry_n_loop: "retry_n n sec f start m w = Some r \<Longrightarrow> retry_loop sec f start m w = Some r"
proof (induction n arbitrary: m w)
  case (Suc n)
  from Suc.prems show ?case
    by (subst retry_loop.simps)
      (auto split: option.splits outcome.splits prod.splits if_splits intro: Suc.IH)
qed simp

text \<open>A loop that returns does so after some number of attempts.\<close>

lemma retry_loop_n:
  assumes "retry_loop sec f start m w = Some r"
  shows "\<exists>n. retry_n n sec f start m w = Some r"
proof (rule retry_loop.raw_induct
    [where P = "\<lambda>sec f start m w r. \<exists>n. retry_n n sec f start m w = Some r", OF _ assms])
  fix loop :: "int \<Rightarrow> ('a world_scheme, go_error option) io \<Rightarrow> int \<Rightarrow> string \<Rightarrow>
      ('a world_scheme, go_error option) io"
  fix sec f start m w r
  assume IH: "\<And>sec f start m w r. loop sec f start m w = Some r \<Longrightarrow>
      \<exists>n. retry_n n sec f start m w = Some r"
    and step: "(case f w of
          None \<Rightarrow> None
        | Some (Panic s, w1) \<Rightarrow> Some (Panic s, w1)
        | Some (Exit s, w1) \<Rightarrow> Some (Exit s, w1)
        | Some (Ret err, w1) \<Rightarrow>
            (case err of
               None \<Rightarrow> Some (Ret None, w1)
             | Some e \<Rightarrow>
                 if elapsed_sec start (now w1) > sec then Some (Ret (Some e), w1)
                 else if log_due m e w1
                 then loop sec f start (err_text e)
                        (sleep (retry_latency sec * second) (w1\<lparr>lastLog := now w1\<rparr>))
                 else loop sec f start m (sleep (retry_latency sec * second) w1))) = Some r"
  show "\<exists>n. retry_n n sec f start m w = Some r"
  proof (cases "\<exists>e w1. f w = Some (Ret (Some e), w1) \<and> \<not> elapsed_sec start (now w1) > sec")
    case True
    then obtain e w1 where f: "f w = Some (Ret (Some e), w1)"
      and el: "\<not> elapsed_sec start (now w1) > sec" by blast
    with step have "\<exists>n. retry_n n sec f start (if log_due m e w1 then err_text e else m)
        (sleep (retry_latency sec * second)
          (if log_due m e w1 then w1\<lparr>lastLog := now w1\<rparr> else w1)) = Some r"
      by (auto dest: IH split: if_splits)
    then obtain n where "retry_n n sec f start (if log_due m e w1 then err_text e else m)
        (sleep (retry_latency sec * second)
          (if log_due m e w1 then w1\<lparr>lastLog := now w1\<rparr> else w1)) = Some r" ..
    with f el have "retry_n (Suc n) sec f start m w = Some r" by (auto split: if_splits)
    then show ?thesis ..
  next
    case False
    with step have "retry_n (Suc 0) sec f start m w = Some r"
      by (auto split: option.splits outcome.splits prod.splits if_splits)
    then show ?thesis ..
  qed
qed

text \<open>The last attempt of a loop that returned decides its result.\<close>

lemma retry_n_last:
  "retry_n n sec f start m w = Some (Ret r, w') \<Longrightarrow>
     (\<exists>w0. f w0 = Some (Ret r, w')) \<and> (r \<noteq> None \<longrightarrow> elapsed_sec start (now w') > sec)"
proof (induction n arbitrary: m w)
  case (Suc n)
  from Suc.prems show ?case
    by (auto split: option.splits outcome.splits prod.splits if_splits dest!: Suc.IH)
qed simp

lemma RetrySec_last:
  assumes "RetrySec sec f w = Some (Ret r, w')"
  shows "\<exists>w0. f w0 = Some (Ret r, w')"
    and "r \<noteq> None \<Longrightarrow> elapsed_sec (now w) (now w') > sec"
proof -
  from assms obtain n where "retry_n n sec f (now w) [] w = Some (Ret r, w')"
    unfolding RetrySec_def by (blast dest: retry_loop_n)
  from retry_n_last [OF this]
  show "\<exists>w0. f w0 = Some (Ret r, w')" and "r \<noteq> None \<Longrightarrow> elapsed_sec (now w) (now w') > sec"
    by auto
qed


section \<open>Termination\<close>

text \<open>The clock is monotonic: a body never returns before it was called.\<close>

definition clock_mono :: "('x world_scheme, 'a) io \<Rightarrow> bool" where
  "clock_mono f = (\<forall>w r w'. f w = Some (r, w') \<longrightarrow> now w \<le> now w')"

lemma retry_latency_bounds:
  assumes "0 \<le> sec" and "sec < 2 ^ 63 - 15"
  shows "2 \<le> retry_latency sec \<and> retry_latency sec \<le> 15"
proof -
  have "wrap64 (sec + 15) = sec + 15" using assms by (intro wrap64_id) auto
  moreover have "2 \<le> (sec + 15) div 7" using assms(1) by simp
  ultimately show ?thesis using assms(1)
    by (auto simp: retry_latency_def go_div_def Let_def)
qed

lemma elapsed_ge:
  assumes "start + k * second \<le> t" and "0 \<le> k"
  shows "k \<le> elapsed_sec start t"
proof -
  have ge: "k * second \<le> t - start" using assms by simp
  then have nonneg: "0 \<le> t - start" using assms(2) by (simp add: second_def)
  have "k \<le> (t - start) div second"
    using zdiv_mono1 [OF ge, of second] by (simp add: second_def)
  also have "\<dots> = elapsed_sec start t"
    using nonneg by (cases "t = start") (auto simp: elapsed_sec_def go_div_def second_def)
  finally show ?thesis .
qed

lemma retry_n_terminates:
  assumes f: "returns f" "clock_mono f"
    and lat: "0 \<le> retry_latency sec"
    and time: "start + k * second \<le> now w" "0 \<le> k"
    and fuel: "sec < k + int n * retry_latency sec"
  shows "\<exists>r. retry_n (Suc n) sec f start m w = Some (Ret (fst r), snd r)"
  using time fuel
proof (induction n arbitrary: k m w)
  case (0 k m w)
  obtain r w1 where fw: "f w = Some (Ret r, w1)" using f(1) by (rule returnsE)
  then have "now w \<le> now w1" using f(2) by (auto simp: clock_mono_def)
  with "0.prems" have "k \<le> elapsed_sec start (now w1)" by (intro elapsed_ge) auto
  with "0.prems" fw show ?case by (auto split: option.splits)
next
  case (Suc n k m w)
  obtain r w1 where fw: "f w = Some (Ret r, w1)" using f(1) by (rule returnsE)
  then have mono: "now w \<le> now w1" using f(2) by (auto simp: clock_mono_def)
  let ?d = "retry_latency sec"
  have lat': "sec < (k + ?d) + int n * ?d"
    using Suc.prems(3) by (simp add: algebra_simps)
  have t: "start + (k + ?d) * second \<le> now (sleep (?d * second) w2)" if "now w2 = now w1"
    for w2 :: "'a world_scheme"
    using mono Suc.prems(1) that lat by (auto simp: sleep_def algebra_simps second_def)
  have IH: "\<exists>r. retry_n (Suc n) sec f start m' (sleep (?d * second) w2) = Some (Ret (fst r), snd r)"
    if "now w2 = now w1" for m' w2
    using Suc.IH [of "k + ?d", OF t [OF that] _ lat'] Suc.prems(2) lat by auto
  show ?case
    using fw IH [of "w1\<lparr>lastLog := now w1\<rparr>"] IH [of w1]
    by (subst retry_n.simps) (auto split: option.splits simp del: retry_n.simps)
qed

text \<open>The number of attempts that is always enough.\<close>

definition max_attempts :: "int \<Rightarrow> nat" where
  "max_attempts sec = (if sec < 0 then 1 else nat (sec div retry_latency sec) + 2)"

lemma retry_n_max:
  assumes f: "returns f" "clock_mono f" and sec: "sec < 2 ^ 63 - 15"
  shows "\<exists>r w'. retry_n (max_attempts sec) sec f (now w) m w = Some (Ret r, w')"
proof (cases "sec < 0")
  case True
  obtain r w1 where fw: "f w = Some (Ret r, w1)" using f(1) by (rule returnsE)
  then have "now w \<le> now w1" using f(2) by (auto simp: clock_mono_def)
  then have "0 \<le> elapsed_sec (now w) (now w1)" by (intro elapsed_ge) auto
  with True fw show ?thesis by (auto simp: max_attempts_def split: option.splits)
next
  case False
  then have sec0: "0 \<le> sec" by simp
  from retry_latency_bounds [OF sec0 sec]
  have d: "2 \<le> retry_latency sec" by simp
  have "sec = sec div retry_latency sec * retry_latency sec + sec mod retry_latency sec"
    by simp
  moreover have "sec mod retry_latency sec < retry_latency sec" using d by simp
  ultimately have "sec < sec div retry_latency sec * retry_latency sec + retry_latency sec"
    by linarith
  moreover have "0 \<le> sec div retry_latency sec" using sec0 d by (simp add: pos_imp_zdiv_nonneg_iff)
  ultimately have "sec < 0 + int (nat (sec div retry_latency sec) + 1) * retry_latency sec"
    by (simp add: distrib_right)
  from retry_n_terminates [OF f _ _ _ this, of "now w" w m]
  obtain r where "retry_n (Suc (nat (sec div retry_latency sec) + 1)) sec f (now w) m w =
      Some (Ret (fst r), snd r)" using d by auto
  with False show ?thesis by (auto simp: max_attempts_def)
qed

lemma RetrySec_returns:
  assumes "returns f" "clock_mono f" "sec < 2 ^ 63 - 15"
  shows "returns (RetrySec sec f)"
  unfolding returns_def RetrySec_def
  using retry_n_max [OF assms] retry_n_loop by blast


section \<open>Liveness: a resource that becomes ready in time is seen\<close>

lemma elapsed_gt_iff:
  assumes "0 \<le> sec"
  shows "elapsed_sec start t > sec \<longleftrightarrow> start + (sec + 1) * second \<le> t"
proof
  assume "elapsed_sec start t > sec"
  then have pos: "0 < elapsed_sec start t" using assms by simp
  have "0 \<le> t - start"
  proof (rule ccontr)
    assume "\<not> 0 \<le> t - start"
    then have "elapsed_sec start t \<le> 0"
      by (auto simp: elapsed_sec_def go_div_def second_def pos_imp_zdiv_nonneg_iff)
    with pos show False by simp
  qed
  then have "elapsed_sec start t = (t - start) div second"
    by (cases "t = start") (auto simp: elapsed_sec_def go_div_def second_def)
  with \<open>elapsed_sec start t > sec\<close> have "sec + 1 \<le> (t - start) div second" by simp
  then have "(sec + 1) * second \<le> (t - start) div second * second"
    by (simp add: second_def)
  also have "\<dots> \<le> t - start" by (simp add: second_def minus_mod_eq_div_mult [symmetric])
  finally show "start + (sec + 1) * second \<le> t" by simp
next
  assume "start + (sec + 1) * second \<le> t"
  from elapsed_ge [OF this] assms show "elapsed_sec start t > sec" by simp
qed

lemma RetrySec_ready:
  assumes f: "returns f" "clock_mono f"
    and sec: "0 \<le> sec" "sec < 2 ^ 63 - 15"
    and dur: "\<And>w r w'. f w = Some (r, w') \<Longrightarrow> now w' \<le> now w + d"
    and ready: "\<And>w0. now w0 \<ge> now w + t \<Longrightarrow> \<exists>w1. f w0 = Some (Ret None, w1)"
    and fits: "t + d < (sec + 1) * second"
  shows "\<exists>w'. RetrySec sec f w = Some (Ret None, w')"
proof -
  obtain r w' where run: "RetrySec sec f w = Some (Ret r, w')"
    using RetrySec_returns [OF f sec(2)] by (rule returnsE)
  have "r = None"
  proof (rule ccontr)
    assume "r \<noteq> None"
    obtain w0 where w0: "f w0 = Some (Ret r, w')" using RetrySec_last(1) [OF run] by blast
    have "now w + (sec + 1) * second \<le> now w'"
      using RetrySec_last(2) [OF run \<open>r \<noteq> None\<close>] elapsed_gt_iff [OF sec(1)] by blast
    with dur [OF w0] fits have "now w0 \<ge> now w + t" by simp
    with ready w0 \<open>r \<noteq> None\<close> show False by force
  qed
  with run show ?thesis by blast
qed


section \<open>A closure that also assigns a captured variable\<close>

text \<open>
  Where the polled closure assigns a variable of its caller (the listing of \<^verbatim>\<open>vmSync\<close>), the
  caller reads the assignment of the last attempt. \<open>RetryVal\<close> is \<^verbatim>\<open>RetrySec\<close> with that value
  beside the nil error; \<open>RetryVal_RetrySec\<close> states that forgetting the value gives \<open>RetrySec\<close>.
\<close>

partial_function (option) retryVal_loop ::
  "int \<Rightarrow> ('x world_scheme, go_error + 'a) io \<Rightarrow> int \<Rightarrow> string \<Rightarrow> ('x world_scheme, go_error + 'a) io"
where
  "retryVal_loop sec f start lastMsg w =
     (case f w of
        None \<Rightarrow> None
      | Some (Panic s, w1) \<Rightarrow> Some (Panic s, w1)
      | Some (Exit s, w1) \<Rightarrow> Some (Exit s, w1)
      | Some (Ret res, w1) \<Rightarrow>
          (case res of
             Inr x \<Rightarrow> Some (Ret (Inr x), w1)
           | Inl e \<Rightarrow>
               if elapsed_sec start (now w1) > sec then Some (Ret (Inl e), w1)
               else if log_due lastMsg e w1
               then retryVal_loop sec f start (err_text e)
                      (sleep (retry_latency sec * second) (w1\<lparr>lastLog := now w1\<rparr>))
               else retryVal_loop sec f start lastMsg
                      (sleep (retry_latency sec * second) w1)))"

definition RetryVal ::
  "int \<Rightarrow> ('x world_scheme, go_error + 'a) io \<Rightarrow> ('x world_scheme, go_error + 'a) io"
where
  "RetryVal sec f = (\<lambda>w. retryVal_loop sec f (now w) [] w)"

definition forget_res :: "(go_error + 'a) outcome \<times> 'w \<Rightarrow> go_error option outcome \<times> 'w" where
  "forget_res = map_prod (map_outcome (\<lambda>r. case r of Inl e \<Rightarrow> Some e | Inr _ \<Rightarrow> None)) id"

definition forget :: "('w, go_error + 'a) io \<Rightarrow> ('w, go_error option) io" where
  "forget f = (\<lambda>w. map_option forget_res (f w))"

lemma forget_res_simps [simp]:
  "forget_res (Ret (Inl e), w) = (Ret (Some e), w)"
  "forget_res (Ret (Inr x), w) = (Ret None, w)"
  "forget_res (Panic s, w) = (Panic s, w)"
  "forget_res (Exit s, w) = (Exit s, w)"
  by (simp_all add: forget_res_def)

lemma forget_run:
  "f w = Some p \<Longrightarrow> forget f w = Some (forget_res p)"
  "f w = None \<Longrightarrow> forget f w = None"
  by (simp_all add: forget_def)

lemma retryVal_of_n:
  "retry_n n sec (forget f) start m w = Some r \<Longrightarrow>
     \<exists>r'. retryVal_loop sec f start m w = Some r' \<and> forget_res r' = r"
proof (induction n arbitrary: m w)
  case (Suc n)
  show ?case
  proof (cases "f w")
    case (Some p)
    obtain res w1 where p: "p = (res, w1)" by (cases p)
    show ?thesis
    proof (cases res)
      case (Ret x)
      show ?thesis
      proof (cases x)
        case (Inl e)
        with Suc.prems Some p Ret show ?thesis
          by (subst retryVal_loop.simps) (auto simp: forget_run split: if_splits dest!: Suc.IH)
      next
        case (Inr a)
        with Suc.prems Some p Ret show ?thesis
          by (subst retryVal_loop.simps) (auto simp: forget_run)
      qed
    qed (use Suc.prems Some p in \<open>subst retryVal_loop.simps, auto simp: forget_run\<close>)+
  qed (use Suc.prems in \<open>simp add: forget_run\<close>)
qed simp

lemma retryVal_last:
  fixes f :: "('a world_scheme, go_error + 'b) io"
  assumes "retryVal_loop sec f start m w = Some (Ret r, w')"
  shows "\<exists>w0. f w0 = Some (Ret r, w')"
proof -
  have "case (Ret r, w') of (Ret r, w') \<Rightarrow> \<exists>w0. f w0 = Some (Ret r, w') | _ \<Rightarrow> True"
  proof (rule retryVal_loop.raw_induct
      [where P = "\<lambda>sec f start m w res. case res of (Ret r, w') \<Rightarrow> \<exists>w0. f w0 = Some (Ret r, w') | _ \<Rightarrow> True",
        OF _ assms])
    fix loop :: "int \<Rightarrow> ('a world_scheme, go_error + 'b) io \<Rightarrow> int \<Rightarrow> string \<Rightarrow>
        ('a world_scheme, go_error + 'b) io"
    fix sec f start m w res
    assume IH: "\<And>sec f start m w res. loop sec f start m w = Some res \<Longrightarrow>
        case res of (Ret r, w') \<Rightarrow> \<exists>w0. f w0 = Some (Ret r, w') | _ \<Rightarrow> True"
      and step: "(case f w of
          None \<Rightarrow> None
        | Some (Panic s, w1) \<Rightarrow> Some (Panic s, w1)
        | Some (Exit s, w1) \<Rightarrow> Some (Exit s, w1)
        | Some (Ret x, w1) \<Rightarrow>
            (case x of
               Inr x \<Rightarrow> Some (Ret (Inr x), w1)
             | Inl e \<Rightarrow>
                 if elapsed_sec start (now w1) > sec then Some (Ret (Inl e), w1)
                 else if log_due m e w1
                 then loop sec f start (err_text e)
                        (sleep (retry_latency sec * second) (w1\<lparr>lastLog := now w1\<rparr>))
                 else loop sec f start m (sleep (retry_latency sec * second) w1))) = Some res"
    from step show "case res of (Ret r, w') \<Rightarrow> \<exists>w0. f w0 = Some (Ret r, w') | _ \<Rightarrow> True"
      by (auto split: option.splits outcome.splits prod.splits if_splits sum.splits dest: IH)
  qed
  then show ?thesis by simp
qed

lemma RetryVal_last:
  "RetryVal sec f w = Some (Ret r, w') \<Longrightarrow> \<exists>w0. f w0 = Some (Ret r, w')"
  unfolding RetryVal_def by (rule retryVal_last)

lemma RetryVal_of_RetrySec:
  assumes "RetrySec sec (forget f) w = Some r"
  shows "\<exists>r'. RetryVal sec f w = Some r' \<and> forget_res r' = r"
  using assms retryVal_of_n unfolding RetrySec_def RetryVal_def by (blast dest: retry_loop_n)


text \<open>A first attempt that succeeds ends the wait.\<close>

lemma RetrySec_now: "f w = Some (Ret None, w') \<Longrightarrow> RetrySec sec f w = Some (Ret None, w')"
  unfolding RetrySec_def by (rule retry_n_loop [where n = 1]) simp

lemma RetryVal_now: "f w = Some (Ret (Inr x), w') \<Longrightarrow> RetryVal sec f w = Some (Ret (Inr x), w')"
  unfolding RetryVal_def by (subst retryVal_loop.simps) simp


section \<open>The contract of a wait\<close>

text \<open>
  What the callers of the polling loop rely on: its result is the result of a last attempt.
  The closures that poll until a listing is empty share one shape, \<open>none_left\<close>.
\<close>

definition none_left :: "('w, go_error + 'o list) io \<Rightarrow> ('o list \<Rightarrow> go_error) \<Rightarrow>
    ('w, go_error option) io"
where
  "none_left list complain =
     bindIO list (\<lambda>r. case r of
         Inl e \<Rightarrow> retIO (Some e)
       | Inr xs \<Rightarrow> if length xs > 0 then retIO (Some (complain xs)) else retIO None)"

lemma none_left_None:
  "none_left list complain w = Some (Ret None, w') \<longleftrightarrow> list w = Some (Ret (Inr []), w')"
  by (auto simp: none_left_def bindIO_def io_simps
      split: option.splits outcome.splits sum.splits if_splits)

lemma returns_none_left [intro]: "returns list \<Longrightarrow> returns (none_left list complain)"
  unfolding none_left_def by (rule returns_bind) (auto split: sum.splits)

locale waiter =
  fixes wait :: "('w, go_error option) io \<Rightarrow> ('w, go_error option) io"
  assumes last_attempt: "wait f w = Some (Ret r, w') \<Longrightarrow> \<exists>w0. f w0 = Some (Ret r, w')"
begin

lemma wait_none_left:
  assumes "wait (none_left list complain) w = Some (Ret None, w')"
  shows "\<exists>w0. list w0 = Some (Ret (Inr []), w')"
  using last_attempt [OF assms] by (simp add: none_left_None)

text \<open>Delete first, then wait until nothing is listed.\<close>

lemma delete_and_wait:
  assumes "bindIO del (\<lambda>r. case r of Some e \<Rightarrow> retIO (Some e)
      | None \<Rightarrow> wait (none_left list complain)) w = Some (Ret None, w')"
  shows "\<exists>w1 w0. del w = Some (Ret None, w1) \<and> list w0 = Some (Ret (Inr []), w')"
  using assms
  by (auto simp: bindIO_Ret_iff io_simps split: option.splits dest!: wait_none_left)

end

interpretation retry: waiter "RetrySec sec" for sec
  by unfold_locales (rule RetrySec_last(1))


section \<open>How long a wait takes\<close>

text \<open>
  A body takes at most \<open>d\<close>. An attempt starts before the deadline plus one pause, so the loop
  ends at most \<open>d\<close> after that.
\<close>

lemma retry_n_deadline:
  assumes dur: "\<And>w r w'. f w = Some (r, w') \<Longrightarrow> now w' \<le> now w + d"
    and sec: "0 \<le> sec" and lat: "0 \<le> retry_latency sec"
  shows "retry_n n sec f start m w = Some (r, w') \<Longrightarrow>
    now w \<le> start + (sec + 1 + retry_latency sec) * second \<Longrightarrow>
    now w' \<le> start + (sec + 1 + retry_latency sec) * second + d"
proof (induction n arbitrary: m w)
  case (Suc n)
  obtain x w1 where fw: "f w = Some (x, w1)"
    using Suc.prems(1) by (auto split: option.splits)
  have le: "now w1 \<le> start + (sec + 1 + retry_latency sec) * second + d"
    using dur [OF fw] Suc.prems(2) by simp
  show ?case
  proof (cases "\<exists>e. x = Ret (Some e) \<and> \<not> elapsed_sec start (now w1) > sec")
    case False
    then have "w' = w1" using Suc.prems(1) fw
      by (auto split: outcome.splits option.splits if_splits)
    with le show ?thesis by simp
  next
    case True
    then obtain e where x: "x = Ret (Some e)" and el: "\<not> elapsed_sec start (now w1) > sec" by blast
    then have "now w1 < start + (sec + 1) * second" using elapsed_gt_iff [OF sec, of start] by auto
    then have "now (sleep (retry_latency sec * second) w2) \<le>
        start + (sec + 1 + retry_latency sec) * second"
      if "now w2 = now w1" for w2 :: "'a world_scheme"
      using that lat by (auto simp: sleep_def algebra_simps second_def)
    then show ?thesis
      using Suc.prems(1) fw x el by (auto split: if_splits intro: Suc.IH)
  qed
qed simp


section \<open>Properties\<close>

text \<open>
  C1. What \<^verbatim>\<open>RetrySec\<close> returns: the result is the result of its last attempt, in the world that
  attempt left, so a nil error means that the polled condition held at that moment; and an
  error is returned only when more than \<open>sec\<close> whole seconds have passed.
\<close>

theorem RetrySec_sound:
  assumes "RetrySec sec f w = Some (Ret r, w')" and "0 \<le> sec"
  shows "(\<exists>w0. f w0 = Some (Ret r, w')) \<and>
    (r = None \<or> now w + (sec + 1) * second \<le> now w')"
  using RetrySec_last [OF assms(1)] elapsed_gt_iff [OF assms(2)] by blast

text \<open>A body for the witnesses: ready from the third second on, one millisecond per attempt.\<close>

definition ready_at_3 :: "(world, go_error option) io" where
  "ready_at_3 = (\<lambda>w. Some (Ret (if now w \<ge> 3 * second then None else Some (PlainError ''wait'')),
     w\<lparr>now := now w + 1000000\<rparr>))"

definition clock0 :: world where
  "clock0 = \<lparr>now = 0, lastLog = 0\<rparr>"

lemma ready_at_3_facts:
  "returns ready_at_3" "clock_mono ready_at_3"
  "ready_at_3 w = Some (r, w') \<Longrightarrow> now w' \<le> now w + 1000000"
  by (auto simp: ready_at_3_def returns_def clock_mono_def)

lemma ready_at_3_run:
  "RetrySec 5 ready_at_3 clock0 = Some (Ret None, \<lparr>now = 4003000000, lastLog = 0\<rparr>)"
  unfolding RetrySec_def
  by (rule retry_n_loop [where n = 3])
    (simp add: numeral_3_eq_3 ready_at_3_def clock0_def second_def elapsed_sec_def go_div_def
      log_due_def sleep_def retry_latency_def wrap64_def)

lemma RetrySec_sound_witness:
  "(\<exists>w0. ready_at_3 w0 = Some (Ret None, \<lparr>now = 4003000000, lastLog = 0\<rparr>)) \<and>
   ((None :: go_error option) = None \<or> now clock0 + (5 + 1) * second \<le> 4003000000)"
  using RetrySec_sound [OF ready_at_3_run] by simp

text \<open>
  C4. \<^verbatim>\<open>RetrySec\<close> terminates: for a body that returns and a clock that does not run backwards it
  returns within \<open>max_attempts sec\<close> attempts, which is at most \<open>sec div 2 + 2\<close>, for every
  timeout whose latency does not overflow.
\<close>

theorem RetrySec_terminates:
  assumes "returns f" and "clock_mono f" and "0 \<le> sec" and "sec < 2 ^ 63 - 15"
  shows "\<exists>r w'. RetrySec sec f w = Some (Ret r, w') \<and>
    retry_n (max_attempts sec) sec f (now w) [] w = Some (Ret r, w') \<and>
    int (max_attempts sec) \<le> sec div 2 + 2"
proof -
  obtain r w' where "retry_n (max_attempts sec) sec f (now w) [] w = Some (Ret r, w')"
    using retry_n_max [OF assms(1,2,4)] by blast
  moreover from retry_n_loop [OF this] have "RetrySec sec f w = Some (Ret r, w')"
    by (simp add: RetrySec_def)
  moreover have "sec div retry_latency sec \<le> sec div 2"
    using retry_latency_bounds [OF assms(3,4)] assms(3) by (intro zdiv_mono2) auto
  moreover have "0 \<le> sec div retry_latency sec"
    using retry_latency_bounds [OF assms(3,4)] assms(3) by (simp add: pos_imp_zdiv_nonneg_iff)
  ultimately show ?thesis using assms(3) by (auto simp: max_attempts_def)
qed

lemma RetrySec_terminates_witness:
  "\<exists>r w'. RetrySec 20 ready_at_3 clock0 = Some (Ret r, w') \<and>
    retry_n (max_attempts 20) 20 ready_at_3 (now clock0) [] clock0 = Some (Ret r, w') \<and>
    int (max_attempts 20) \<le> 20 div 2 + 2"
  by (rule RetrySec_terminates) (simp_all add: ready_at_3_facts)

text \<open>
  C20. A condition that becomes true in time is seen: if the polled condition holds from \<open>t\<close>
  nanoseconds after the start on, an attempt takes at most \<open>d\<close>, and \<open>t + d\<close> is below
  \<open>sec + 1\<close> seconds, then \<^verbatim>\<open>RetrySec\<close> returns nil.
\<close>

theorem RetrySec_sees_ready:
  assumes "returns f" and "clock_mono f" and "0 \<le> sec" and "sec < 2 ^ 63 - 15"
    and "\<And>w r w'. f w = Some (r, w') \<Longrightarrow> now w' \<le> now w + d"
    and "\<And>w0. now w0 \<ge> now w + t \<Longrightarrow> \<exists>w1. f w0 = Some (Ret None, w1)"
    and "t + d < (sec + 1) * second"
  shows "\<exists>w'. RetrySec sec f w = Some (Ret None, w')"
  using assms by (rule RetrySec_ready)

lemma RetrySec_sees_ready_witness:
  "\<exists>w'. RetrySec 4 ready_at_3 clock0 = Some (Ret None, w')"
proof (rule RetrySec_sees_ready [where t = "3 * second" and d = 1000000])
  show "\<exists>w1. ready_at_3 w0 = Some (Ret None, w1)" if "now w0 \<ge> now clock0 + 3 * second" for w0
    using that by (simp add: ready_at_3_def clock0_def)
qed (simp_all add: ready_at_3_facts second_def)

text \<open>
  C21. A wait overshoots its timeout by at most one pause and one attempt: when an attempt
  takes at most \<open>d\<close>, the loop ends no later than \<open>sec + 1\<close> seconds, the pause (between 2 and 15
  seconds) and \<open>d\<close> after it started, whatever it ends with.
\<close>

theorem RetrySec_deadline:
  assumes "\<And>w r w'. f w = Some (r, w') \<Longrightarrow> now w' \<le> now w + d"
    and "0 \<le> sec" and "sec < 2 ^ 63 - 15"
    and "RetrySec sec f w = Some (r, w')"
  shows "now w' \<le> now w + (sec + 1 + retry_latency sec) * second + d \<and>
    2 \<le> retry_latency sec \<and> retry_latency sec \<le> 15"
proof -
  have lat: "2 \<le> retry_latency sec \<and> retry_latency sec \<le> 15"
    using assms(2,3) by (rule retry_latency_bounds)
  obtain n where "retry_n n sec f (now w) [] w = Some (r, w')"
    using assms(4) unfolding RetrySec_def by (blast dest: retry_loop_n)
  from retry_n_deadline [OF assms(1,2) _ this] lat assms(2) show ?thesis
    by (simp add: second_def)
qed

lemma RetrySec_deadline_witness:
  "(4003000000 :: int) \<le> now clock0 + (5 + 1 + retry_latency 5) * second + 1000000 \<and>
    2 \<le> retry_latency 5 \<and> retry_latency 5 \<le> 15"
  using RetrySec_deadline [OF ready_at_3_facts(3) _ _ ready_at_3_run] by simp

end
