(* ===== verification/Nodes.thy ===== *)
theory Nodes
  imports Filters Retry
begin

text \<open>
  \<^verbatim>\<open>testkit_v2/util/kube_node.go\<close>, \<^verbatim>\<open>kube_secret.go\<close> and \<^verbatim>\<open>kube_deploy.go\<close>: nodes, commands
  on nodes, node groups, static instances, ssh credentials, pods, daemon sets and services.
\<close>

section \<open>Deleting and waiting over any filter\<close>

text \<open>What the operations that delete by filters and then wait share, proved once for all kinds.\<close>

context list_filter begin

lemma none_matches_iff:
  "(\<forall>x \<in> set xs. \<exists>f \<in> set fs. \<not> keep f x) \<longleftrightarrow> \<not> list_ex (\<lambda>x. list_all (\<lambda>f. keep f x) fs) xs"
  by (auto simp: list_ex_iff list_all_iff)

lemma after_delete:
  assumes "bindIO del (\<lambda>r. case r of Some e \<Rightarrow> retIO (Some e)
      | None \<Rightarrow> RetrySec sec (none_left (listFiltered list app fs) complain)) w = Some (Ret None, w')"
  shows "\<exists>v xs. list v = (Inr xs, w') \<and> \<not> list_ex (\<lambda>x. list_all (\<lambda>f. keep f x) fs) xs"
proof -
  obtain v where "listFiltered list app fs v = Some (Ret (Inr []), w')"
    using retry.delete_and_wait [OF assms] by blast
  then show ?thesis unfolding listed_none none_matches_iff by blast
qed

lemma delete_finds_none:
  assumes "del w = Some (Ret None, v)" and "list v = (Inr xs, w')"
    and "\<not> list_ex (\<lambda>x. list_all (\<lambda>f. keep f x) fs) xs"
  shows "bindIO del (\<lambda>r. case r of Some e \<Rightarrow> retIO (Some e)
      | None \<Rightarrow> RetrySec sec (none_left (listFiltered list app fs) complain)) w = Some (Ret None, w')"
proof -
  have "listFiltered list app fs v = Some (Ret (Inr []), w')"
    unfolding listed_none none_matches_iff using assms(2,3) by blast
  then have "none_left (listFiltered list app fs) complain v = Some (Ret None, w')"
    by (simp add: none_left_None)
  then have "RetrySec sec (none_left (listFiltered list app fs) complain) v = Some (Ret None, w')"
    by (rule RetrySec_now)
  then show ?thesis using assms(1) by (simp add: bindIO_run(1))
qed

end


section \<open>Nodes\<close>

text \<open>client-go returns an empty object, not a nil pointer, beside an error.\<close>

definition zeroNode :: Node where
  "zeroNode = \<lparr>metadata = newMeta [] [], node_OSImage = [], node_KernelVersion = [],
     node_KubeletVersion = [], node_Addresses = [], node_Conditions = []\<rparr>"

definition GetNode :: "'w KCluster \<Rightarrow> string \<Rightarrow> ('w, Node \<times> go_error option) io" where
  "GetNode cluster name =
     bindIO (callIO (cl_get (Nodes cluster) [] name)) (\<lambda>r. case r of
         Inl err \<Rightarrow> if IsNotFound err then retIO (zeroNode, None) else retIO (zeroNode, Some err)
       | Inr node \<Rightarrow> retIO (node, None))"

definition ListNode :: "'w KCluster \<Rightarrow> NodeFilter list \<Rightarrow> ('w, go_error + Node list) io" where
  "ListNode cluster filters =
     listFiltered (cl_list (Nodes cluster) []) (NodeFilter_Apply (regexp_match cluster)) filters"

text \<open>
  \<^verbatim>\<open>NodeRequired\<close> is a package variable: a map from label to filter. Go visits a map in no
  fixed order, and the result is a map again, so the order does not show.
\<close>

definition MapLabelNodes :: "'w KCluster \<Rightarrow> (string \<rightharpoonup> NodeFilter) \<Rightarrow> any \<Rightarrow> NodeFilter list \<Rightarrow>
    ('w, string \<rightharpoonup> Node list) io"
where
  "MapLabelNodes cluster NodeRequired label filters =
     bindIO (ListNode cluster filters) (\<lambda>r. case r of
         Inl err \<Rightarrow> retIO Map.empty
       | Inr nodes \<Rightarrow> retIO (\<lambda>lName. case NodeRequired lName of
             None \<Rightarrow> None
           | Some lFilter \<Rightarrow>
               if label \<noteq> Nil \<and> \<not> CheckCondition (regexp_match cluster) label (Str lName) then None
               else Some (NodeFilter_Apply (regexp_match cluster) lFilter nodes)))"


section \<open>Pods\<close>

definition zeroPod :: Pod where
  "zeroPod = \<lparr>metadata = newMeta [] [], pod_NodeName = [], pod_Containers = [], pod_Phase = []\<rparr>"

definition GetPod :: "'w KCluster \<Rightarrow> string \<Rightarrow> string \<Rightarrow> ('w, Pod \<times> go_error option) io" where
  "GetPod cluster nsName pName =
     bindIO (callIO (cl_get (Pods cluster) nsName pName)) (\<lambda>r. case r of
         Inl err \<Rightarrow> if IsNotFound err then retIO (zeroPod, None) else retIO (zeroPod, Some err)
       | Inr pod \<Rightarrow> retIO (pod, None))"

definition ListPod :: "'w KCluster \<Rightarrow> string \<Rightarrow> PodFilter list \<Rightarrow> ('w, go_error + Pod list) io" where
  "ListPod cluster nsName filters =
     listFiltered (cl_list (Pods cluster) nsName) (PodFilter_Apply (regexp_match cluster)) filters"

definition CreatePod :: "'w KCluster \<Rightarrow> string \<Rightarrow> string \<Rightarrow> string \<Rightarrow> ('w, go_error option) io" where
  "CreatePod cluster TestNS nsName pName =
     (let ns = (if nsName = [] then TestNS else nsName);
          pod = zeroPod\<lparr>metadata := newMeta pName ns\<rparr>
      in bindIO (callIO (cl_create (Pods cluster) pod)) (\<lambda>r. case r of
             Inl err \<Rightarrow> if IsAlreadyExists err then retIO None else retIO (Some err)
           | Inr _ \<Rightarrow> retIO None))"

definition DeletePod :: "'w KCluster \<Rightarrow> string \<Rightarrow> string \<Rightarrow> string \<Rightarrow> ('w, go_error option) io" where
  "DeletePod cluster TestNS nsName pName =
     (let ns = (if nsName = [] then TestNS else nsName);
          pod = zeroPod\<lparr>metadata := newMeta pName ns\<rparr>
      in bindIO (callIO (cl_delete (Pods cluster) pod)) retIO)"


section \<open>Commands on a node\<close>

text \<open>
  The exec subresource of a pod: \<open>Inl\<close> when the executor cannot be built, else standard
  output, standard error and the error of the stream.
\<close>

type_synonym 'w pod_exec = "string \<Rightarrow> string \<Rightarrow> string \<Rightarrow> string list \<Rightarrow> 'w \<Rightarrow>
    (go_error + string \<times> string \<times> go_error option) \<times> 'w"

text \<open>What \<^verbatim>\<open>%v\<close> prints of a slice of strings.\<close>

definition fmt_v :: "string list \<Rightarrow> string" where
  "fmt_v xs = ''['' @ join_with '' '' xs @ '']''"

definition nsenter_args :: "string list" where
  "nsenter_args = [''/opt/deckhouse/sds/bin/nsenter.static'', ''-m'', ''-u'', ''-i'', ''-p'', ''-t'', ''1'', ''--'']"

definition ExecNode :: "'w KCluster \<Rightarrow> 'w pod_exec \<Rightarrow> string \<Rightarrow> string list \<Rightarrow>
    ('w, string \<times> string \<times> go_error option) io"
where
  "ExecNode cluster exec name cmd =
     (let nsName = ''d8-sds-node-configurator'' in
      bindIO (ListPod cluster nsName
          [noPodFilter\<lparr>pf_Name := Str ''%sds-node-configurator-%'', pf_Node := Str name\<rparr>])
        (\<lambda>r. case r of
           Inl err \<Rightarrow> retIO ([], [], Some err)
         | Inr pods \<Rightarrow>
             (case pods of
                [] \<Rightarrow> retIO ([], [], Some (PlainError (''no sds-node-configurator for node '' @ name)))
              | pod # _ \<Rightarrow>
                  (case pod_Containers pod of
                     [] \<Rightarrow> panicIO ''index out of range''
                   | container # _ \<Rightarrow>
                       bindIO (callIO (exec nsName (obj_Name pod) container (nsenter_args @ cmd)))
                         (\<lambda>x. case x of
                            Inl err \<Rightarrow> retIO ([], [], Some err)
                          | Inr (stdout, stderr, Some err) \<Rightarrow>
                              retIO (stdout, stderr,
                                Some (PlainError (''Exec '' @ name @ '' '' @ fmt_v cmd @ '': '' @ err_text err)))
                          | Inr (stdout, stderr, None) \<Rightarrow> retIO (stdout, stderr, None))))))"

text \<open>An expression that does not compile matches nothing (\<^verbatim>\<open>match, _ := ...\<close>).\<close>

definition re_match :: "regexp \<Rightarrow> string \<Rightarrow> string \<Rightarrow> bool" where
  "re_match rx r s = (rx r s = Some True)"

fun checkAll :: "regexp \<Rightarrow> bool \<Rightarrow> go_error \<Rightarrow> string \<Rightarrow> string list \<Rightarrow> go_error option" where
  "checkAll rx want err out [] = None"
| "checkAll rx want err out (r # resp) =
     (if re_match rx r out \<noteq> want then Some err else checkAll rx want err out resp)"

definition wrongOutput :: "string \<Rightarrow> string \<Rightarrow> go_error" where
  "wrongOutput nName cmd = PlainError (''exec '' @ nName @ '' `'' @ cmd @ ''` wrong output'')"

definition ExecNodeRespContains :: "'w KCluster \<Rightarrow> 'w pod_exec \<Rightarrow> string \<Rightarrow> string \<Rightarrow>
    string list \<Rightarrow> ('w, go_error option) io"
where
  "ExecNodeRespContains cluster exec nName cmd resp =
     bindIO (ExecNode cluster exec nName (split_on CHR '' '' cmd)) (\<lambda>(stOut, stErr, err).
       case err of
         Some e \<Rightarrow> retIO (Some e)
       | None \<Rightarrow> retIO (checkAll (regexp_match cluster) True (wrongOutput nName cmd) stOut resp))"

definition ExecNodeRespNotContains :: "'w KCluster \<Rightarrow> 'w pod_exec \<Rightarrow> string \<Rightarrow> string \<Rightarrow>
    string list \<Rightarrow> ('w, go_error option) io"
where
  "ExecNodeRespNotContains cluster exec nName cmd resp =
     bindIO (ExecNode cluster exec nName (split_on CHR '' '' cmd)) (\<lambda>(stOut, stErr, err).
       case err of
         Some e \<Rightarrow> retIO (Some e)
       | None \<Rightarrow> retIO (checkAll (regexp_match cluster) False (wrongOutput nName cmd) stOut resp))"

lemma checkAll_None: "checkAll rx want err out resp = None \<longleftrightarrow> (\<forall>r \<in> set resp. re_match rx r out = want)"
  by (induction resp) auto

section \<open>Node groups\<close>

text \<open>
  Unstructured content, as the dynamic client takes it. The type assertion on \<^verbatim>\<open>metadata\<close>
  panics when it is missing or not a map; a missing \<^verbatim>\<open>name\<close> is only printed.
\<close>

datatype json = JStr string | JInt int | JObj "(string \<times> json) list"

record 'w NodeGroupApi =
  ng_list :: "'w \<Rightarrow> (go_error + json list) \<times> 'w"
  ng_create :: "json \<Rightarrow> 'w \<Rightarrow> go_error option \<times> 'w"
  ng_patch :: "string \<Rightarrow> string \<Rightarrow> 'w \<Rightarrow> go_error option \<times> 'w"
  ng_delete :: "string \<Rightarrow> 'w \<Rightarrow> go_error option \<times> 'w"
  ng_marshal :: "json \<Rightarrow> go_error + string"

definition ListNodeGroup :: "'w NodeGroupApi \<Rightarrow> ('w, go_error + json list) io" where
  "ListNodeGroup api = callIO (ng_list api)"

text \<open>\<^verbatim>\<open>obj.GetName()\<close>: the string at \<^verbatim>\<open>metadata.name\<close>, empty when there is none.\<close>

fun json_name :: "(string \<times> json) list \<Rightarrow> string" where
  "json_name md = (case map_of md ''name'' of Some (JStr s) \<Rightarrow> s | _ \<Rightarrow> [])"

definition CreateNodeGroup :: "'w NodeGroupApi \<Rightarrow> (string \<times> json) list \<Rightarrow> ('w, go_error option) io" where
  "CreateNodeGroup api data =
     (case map_of data ''metadata'' of
        Some (JObj md) \<Rightarrow>
          bindIO (callIO (ng_create api (JObj data))) (\<lambda>r. case r of
              None \<Rightarrow> retIO None
            | Some err \<Rightarrow>
                if IsAlreadyExists err then
                  (case ng_marshal api (JObj data) of
                     Inl e \<Rightarrow> retIO (Some e)
                   | Inr content \<Rightarrow> callIO (ng_patch api (json_name md) content))
                else retIO (Some err))
      | _ \<Rightarrow> panicIO ''interface conversion: metadata is not a map'')"

definition nodeGroupObj :: "string \<Rightarrow> string \<Rightarrow> int \<Rightarrow> (string \<times> json) list" where
  "nodeGroupObj name role cnt =
     [(''apiVersion'', JStr ''deckhouse.io/v1''),
      (''kind'', JStr ''NodeGroup''),
      (''metadata'', JObj [(''name'', JStr name)]),
      (''spec'', JObj
         [(''nodeType'', JStr ''Static''),
          (''staticInstances'', JObj
             [(''count'', JInt cnt),
              (''labelSelector'', JObj
                 [(''matchLabels'', JObj [(''node-role'', JStr role)])])])])]"

definition CreateNodeGroupStatic :: "'w NodeGroupApi \<Rightarrow> string \<Rightarrow> string \<Rightarrow> int \<Rightarrow>
    ('w, go_error option) io"
where
  "CreateNodeGroupStatic api name role cnt = CreateNodeGroup api (nodeGroupObj name role cnt)"

definition DeleteNodeGroup :: "'w NodeGroupApi \<Rightarrow> string \<Rightarrow> ('w, go_error option) io" where
  "DeleteNodeGroup api name =
     bindIO (callIO (ng_delete api name)) (\<lambda>r. case r of
         None \<Rightarrow> retIO None
       | Some err \<Rightarrow> if IsNotFound err then retIO None else retIO (Some err))"


section \<open>Static instances\<close>

definition ListStaticInstance :: "'w KCluster \<Rightarrow> ('w, go_error + StaticInstance list) io" where
  "ListStaticInstance cluster = callIO (cl_list (StaticInstances cluster) [])"

definition staticInstanceNeedsUpdate :: "StaticInstance \<Rightarrow> StaticInstance \<Rightarrow> bool" where
  "staticInstanceNeedsUpdate existing desired =
     (if sis_Address (si_Spec existing) \<noteq> sis_Address (si_Spec desired) then True
      else if (case sis_CredentialsRef (si_Spec desired) of
                 Some d \<Rightarrow> (case sis_CredentialsRef (si_Spec existing) of
                     None \<Rightarrow> True
                   | Some e \<Rightarrow> ref_Name e \<noteq> ref_Name d)
               | None \<Rightarrow> sis_CredentialsRef (si_Spec existing) \<noteq> None) then True
      else (case (om_Labels (metadata existing) ''node-role'', om_Labels (metadata desired) ''node-role'') of
              (Some existingRole, Some desiredRole) \<Rightarrow> existingRole \<noteq> desiredRole
            | _ \<Rightarrow> True))"

definition desiredStaticInstance :: "string \<Rightarrow> string \<Rightarrow> string \<Rightarrow> string \<Rightarrow> StaticInstance" where
  "desiredStaticInstance name role ip credentials =
     \<lparr>metadata = (newMeta name [])\<lparr>om_Labels := [''node-role'' \<mapsto> role]\<rparr>,
      si_Spec = \<lparr>sis_Address = ip, sis_CredentialsRef = Some (GetSSHCredentialsRef credentials)\<rparr>\<rparr>"

text \<open>
  An existing instance that differs is updated in place: the specification is replaced and the
  labels are a fresh map with the desired labels copied in; everything else is kept.
\<close>

definition mergeStaticInstance :: "StaticInstance \<Rightarrow> StaticInstance \<Rightarrow> StaticInstance" where
  "mergeStaticInstance existing si =
     existing\<lparr>si_Spec := si_Spec si,
       metadata := (metadata existing)\<lparr>om_Labels := Map.empty ++ om_Labels (metadata si)\<rparr>\<rparr>"

definition EnsureStaticInstance :: "'w KCluster \<Rightarrow> string \<Rightarrow> string \<Rightarrow> string \<Rightarrow> string \<Rightarrow>
    ('w, go_error option) io"
where
  "EnsureStaticInstance cluster name role ip credentials =
     (let si = desiredStaticInstance name role ip credentials in
      bindIO (callIO (cl_get (StaticInstances cluster) [] name)) (\<lambda>r. case r of
          Inl err \<Rightarrow>
            if IsNotFound err then
              bindIO (callIO (cl_create (StaticInstances cluster) si)) (\<lambda>c. case c of
                  Inl e \<Rightarrow> retIO (Some e)
                | Inr _ \<Rightarrow> retIO None)
            else retIO (Some err)
        | Inr existing \<Rightarrow>
            if staticInstanceNeedsUpdate existing si then
              bindIO (callIO (cl_update (StaticInstances cluster) (mergeStaticInstance existing si)))
                (\<lambda>u. case u of Inl e \<Rightarrow> retIO (Some e) | Inr _ \<Rightarrow> retIO None)
            else retIO None))"

definition DeleteStaticInstance :: "'w KCluster \<Rightarrow> string \<Rightarrow> ('w, go_error option) io" where
  "DeleteStaticInstance cluster name =
     callIO (cl_delete (StaticInstances cluster)
       \<lparr>metadata = newMeta name [], si_Spec = \<lparr>sis_Address = [], sis_CredentialsRef = None\<rparr>\<rparr>)"


section \<open>SSH credentials\<close>

definition GetSSHCredential :: "'w KCluster \<Rightarrow> string \<Rightarrow> ('w, go_error + SSHCredentials) io" where
  "GetSSHCredential cluster name = callIO (cl_get (SSHCreds cluster) [] name)"

definition ListSSHCredential :: "'w KCluster \<Rightarrow> ('w, go_error + SSHCredentials list) io" where
  "ListSSHCredential cluster = callIO (cl_list (SSHCreds cluster) [])"

definition credSpec :: "string \<Rightarrow> string \<Rightarrow> SSHCredentialsSpec" where
  "credSpec user key = \<lparr>ssh_User = user, ssh_PrivateSSHKey = key, ssh_SudoPassword = [],
     ssh_SSHPort = 0, ssh_SSHExtraArgs = []\<rparr>"

definition CreateSSHCredential :: "'w KCluster \<Rightarrow> string \<Rightarrow> string \<Rightarrow> string \<Rightarrow>
    ('w, go_error option) io"
where
  "CreateSSHCredential cluster name user privSshKey =
     bindIO (callIO (cl_create (SSHCreds cluster)
         \<lparr>metadata = newMeta name [], sshc_Spec = credSpec user privSshKey\<rparr>)) (\<lambda>r. case r of
         Inr _ \<Rightarrow> retIO None
       | Inl err \<Rightarrow> if IsAlreadyExists err then retIO None else retIO (Some err))"

definition CreateOrUpdSSHCredential :: "'w KCluster \<Rightarrow> string \<Rightarrow> string \<Rightarrow> string \<Rightarrow>
    ('w, go_error option) io"
where
  "CreateOrUpdSSHCredential cluster name user privSshKey =
     bindIO (CreateSSHCredential cluster name user privSshKey) (\<lambda>r. case r of
         Some err \<Rightarrow> retIO (Some err)
       | None \<Rightarrow> bindIO (GetSSHCredential cluster name) (\<lambda>g. case g of
             Inl err \<Rightarrow> retIO (Some err)
           | Inr sshcredential \<Rightarrow>
               bindIO (callIO (cl_update (SSHCreds cluster)
                   (sshcredential\<lparr>sshc_Spec := credSpec user privSshKey\<rparr>))) (\<lambda>u. case u of
                   Inl err \<Rightarrow> retIO (Some err)
                 | Inr _ \<Rightarrow> retIO None)))"

definition DeleteSSHCredential :: "'w KCluster \<Rightarrow> string \<Rightarrow> ('w, go_error option) io" where
  "DeleteSSHCredential cluster name =
     callIO (cl_delete (SSHCreds cluster) \<lparr>metadata = newMeta name [], sshc_Spec = credSpec [] []\<rparr>)"


section \<open>Static nodes\<close>

text \<open>Reading a file is a library call: its content, or an error.\<close>

type_synonym 'w read_file = "string \<Rightarrow> 'w \<Rightarrow> (go_error + string) \<times> 'w"

definition createSSHCredentials :: "'w KCluster \<Rightarrow> 'w read_file \<Rightarrow> string \<Rightarrow> string \<Rightarrow> string \<Rightarrow>
    ('w, go_error + string) io"
where
  "createSSHCredentials cluster readFile NestedSshKey name user =
     bindIO (callIO (readFile NestedSshKey)) (\<lambda>r. case r of
         Inl err \<Rightarrow> retIO (Inl err)
       | Inr privSshKey \<Rightarrow>
           bindIO (CreateOrUpdSSHCredential cluster (name @ ''rsa'') user (base64Encode privSshKey))
             (\<lambda>e. case e of
                Some err \<Rightarrow> retIO (Inl err)
              | None \<Rightarrow> retIO (Inr (name @ ''rsa''))))"

text \<open>\<^verbatim>\<open>hashMd5(ip)[:8]\<close> panics when the digest is shorter than eight bytes.\<close>

definition siName :: "'w KCluster \<Rightarrow> string \<Rightarrow> string \<Rightarrow> string" where
  "siName cluster name ip = ''si-'' @ name @ ''-'' @ take 8 (md5_hex cluster ip)"

fun createStaticInstances :: "'w KCluster \<Rightarrow> string \<Rightarrow> string \<Rightarrow> string list \<Rightarrow> string \<Rightarrow>
    ('w, go_error option) io"
where
  "createStaticInstances cluster name role [] credentialName = retIO None"
| "createStaticInstances cluster name role (ip # ips) credentialName =
     (if length (md5_hex cluster ip) < 8 then panicIO ''slice bounds out of range''
      else bindIO (EnsureStaticInstance cluster (siName cluster name ip) role ip credentialName)
        (\<lambda>r. case r of
           Some err \<Rightarrow> retIO (Some err)
         | None \<Rightarrow> createStaticInstances cluster name role ips credentialName))"

definition createNodeGroupForStatic :: "'w NodeGroupApi \<Rightarrow> string \<Rightarrow> int \<Rightarrow> ('w, go_error option) io" where
  "createNodeGroupForStatic api role cnt = CreateNodeGroupStatic api role role cnt"

definition AddStaticNodes :: "'w KCluster \<Rightarrow> 'w NodeGroupApi \<Rightarrow> 'w read_file \<Rightarrow> string \<Rightarrow>
    string \<Rightarrow> string \<Rightarrow> string list \<Rightarrow> ('w, go_error option) io"
where
  "AddStaticNodes cluster api readFile NestedSshKey name user ips =
     bindIO (createSSHCredentials cluster readFile NestedSshKey name user) (\<lambda>r. case r of
         Inl err \<Rightarrow> retIO (Some err)
       | Inr credentialName \<Rightarrow>
           (let role = ''vm-'' @ name @ ''-worker'' in
            bindIO (createStaticInstances cluster name role ips credentialName) (\<lambda>e. case e of
                Some err \<Rightarrow> retIO (Some err)
              | None \<Rightarrow> createNodeGroupForStatic api role (int (length ips)))))"


section \<open>Daemon sets and services\<close>

definition GetDaemonSet :: "'w KCluster \<Rightarrow> string \<Rightarrow> string \<Rightarrow> ('w, go_error + DaemonSet) io" where
  "GetDaemonSet cluster nsName dsName = callIO (cl_get (DaemonSets cluster) nsName dsName)"

definition ListDaemonSet :: "'w KCluster \<Rightarrow> string \<Rightarrow> ('w, go_error + DaemonSet list) io" where
  "ListDaemonSet cluster nsName = callIO (cl_list (DaemonSets cluster) nsName)"

definition ListSvc :: "'w KCluster \<Rightarrow> string \<Rightarrow> ('w, go_error + Service list) io" where
  "ListSvc cluster nsName = callIO (cl_list (Services cluster) nsName)"

text \<open>The conversion \<^verbatim>\<open>int32(port)\<close> keeps the low 32 bits.\<close>

definition wrap32 :: "int \<Rightarrow> int" where
  "wrap32 n = (n + 2 ^ 31) mod 2 ^ 32 - 2 ^ 31"

definition CreateSvcNodePort :: "'w KCluster \<Rightarrow> string \<Rightarrow> string \<Rightarrow> (string \<rightharpoonup> string) \<Rightarrow> int \<Rightarrow> int \<Rightarrow>
    ('w, go_error option) io"
where
  "CreateSvcNodePort cluster nsName sName selector port nodePort =
     bindIO (callIO (cl_create (Services cluster)
         \<lparr>metadata = newMeta sName nsName, svc_Type = ''NodePort'', svc_Selector = selector,
          svc_Ports = [\<lparr>sp_Protocol = [], sp_Port = wrap32 port, sp_TargetPort = 0, sp_NodePort = wrap32 nodePort\<rparr>]\<rparr>)) (\<lambda>r. case r of
         Inl err \<Rightarrow> if IsAlreadyExists err then retIO None else retIO (Some err)
       | Inr _ \<Rightarrow> retIO None)"


section \<open>Writing what is wanted\<close>

lemma needsUpdate_iff:
  "staticInstanceNeedsUpdate existing (desiredStaticInstance name role ip cred) \<longleftrightarrow>
     \<not> (sis_Address (si_Spec existing) = ip \<and>
        map_option ref_Name (sis_CredentialsRef (si_Spec existing)) = Some cred \<and>
        om_Labels (metadata existing) ''node-role'' = Some role)"
  by (auto simp: staticInstanceNeedsUpdate_def desiredStaticInstance_def GetSSHCredentialsRef_def
      split: option.splits)

definition si_agree :: "StaticInstance \<Rightarrow> StaticInstance \<Rightarrow> bool" where
  "si_agree a b \<longleftrightarrow> si_Spec a = si_Spec b \<and> om_Labels (metadata a) = om_Labels (metadata b)"

lemma agree_settled:
  "si_agree s (desiredStaticInstance name role ip cred) \<or>
   si_agree s (mergeStaticInstance e (desiredStaticInstance name role ip cred)) \<Longrightarrow>
     \<not> staticInstanceNeedsUpdate s (desiredStaticInstance name role ip cred)"
  unfolding needsUpdate_iff
  by (auto simp: si_agree_def desiredStaticInstance_def mergeStaticInstance_def
      GetSSHCredentialsRef_def)

lemma EnsureStaticInstance_stored:
  assumes api: "keeps_writes (StaticInstances cluster) si_agree []"
    and run: "EnsureStaticInstance cluster name role ip cred w = Some (Ret None, w')"
  shows "\<exists>s. cl_get (StaticInstances cluster) [] name w' = (Inr s, w') \<and>
    \<not> staticInstanceNeedsUpdate s (desiredStaticInstance name role ip cred)"
proof -
  let ?c = "StaticInstances cluster" and ?si = "desiredStaticInstance name role ip cred"
  obtain r where get: "cl_get ?c [] name w = (r, w)"
    using keeps_writesD(1) [OF api] by (metis surj_pair)
  show ?thesis
  proof (cases r)
    case (Inl err)
    obtain q w1 where cr: "cl_create ?c ?si w = (q, w1)" by (cases "cl_create ?c ?si w")
    with Inl run get obtain si' where "cl_create ?c ?si w = (Inr si', w')"
      by (auto simp: EnsureStaticInstance_def Let_def bindIO_call io_simps split: if_splits sum.splits)
    from keeps_writesD(3) [OF api this] show ?thesis
      using agree_settled by (auto simp: desiredStaticInstance_def)
  next
    case (Inr s)
    have name: "obj_Name s = name" using keeps_writesD(2) [OF api] get Inr by blast
    show ?thesis
    proof (cases "staticInstanceNeedsUpdate s ?si")
      case False
      then show ?thesis using run get Inr
        by (auto simp: EnsureStaticInstance_def Let_def bindIO_call io_simps)
    next
      case True
      obtain q w1 where up: "cl_update ?c (mergeStaticInstance s ?si) w = (q, w1)"
        by (cases "cl_update ?c (mergeStaticInstance s ?si) w")
      with True run get Inr obtain s' where
        "cl_update ?c (mergeStaticInstance s ?si) w = (Inr s', w')"
        by (auto simp: EnsureStaticInstance_def Let_def bindIO_call io_simps split: sum.splits)
      from keeps_writesD(4) [OF api this] show ?thesis
        using agree_settled [of _ name role ip cred s] name
        by (auto simp: mergeStaticInstance_def [of s])
    qed
  qed
qed


section \<open>Properties\<close>

text \<open>
  \<^verbatim>\<open>MapLabelNodes\<close>: the map has exactly the required labels that meet the label condition,
  and under each of them the listed nodes that meet the label's own filter and every filter
  of the caller. A label nobody has a node for is still in the map, with an empty list.
\<close>

theorem MapLabelNodes_groups:
  assumes "cl_list (Nodes cluster) [] w = (Inr nodes, w')"
  shows "MapLabelNodes cluster required label filters w =
    Some (Ret (\<lambda>l. if CheckCondition (regexp_match cluster) label (Str l)
      then map_option (\<lambda>f. filter (\<lambda>n. list_all (\<lambda>g. NodeFilter_keep (regexp_match cluster) g n)
        (f # filters)) nodes) (required l) else None), w')"
proof -
  have *: "NodeFilter_Apply rx f (applyAll (NodeFilter_Apply rx) filters xs) =
      filter (\<lambda>n. list_all (\<lambda>g. NodeFilter_keep rx g n) (f # filters)) xs" for rx f xs
    by (auto simp: node_filter.applyAll_eq node_filter.app_eq list_all_iff intro!: filter_cong)
  show ?thesis
    using assms
    by (auto simp: MapLabelNodes_def ListNode_def bindIO_run(1) [OF listFiltered_run] run_simps *
        fun_eq_iff split: option.splits)
qed

definition node_named :: "string \<Rightarrow> string \<Rightarrow> Node" where
  "node_named name os = \<lparr>metadata = newMeta name [], node_OSImage = os, node_KernelVersion = [],
     node_KubeletVersion = [], node_Addresses = [], node_Conditions = [(''Ready'', ''True'')]\<rparr>"

lemma MapLabelNodes_groups_witness:
  "MapLabelNodes (frozen_cluster\<lparr>Nodes := frozen_client [node_named ''w1'' ''Ubuntu 22.04 LTS'',
      node_named ''w2'' ''Alt 10'']\<rparr>) [''Ubu22'' \<mapsto> noNodeFilter\<lparr>nf_Os := Str ''%Ubuntu 22.04%''\<rparr>]
      Nil [] () =
    Some (Ret [''Ubu22'' \<mapsto> [node_named ''w1'' ''Ubuntu 22.04 LTS'']], ())"
  by (subst MapLabelNodes_groups [where w' = "()" and
        nodes = "[node_named ''w1'' ''Ubuntu 22.04 LTS'', node_named ''w2'' ''Alt 10'']"])
    (simp_all add: fun_eq_iff NodeFilter_keep_def noNodeFilter_def node_named_def CheckStr_def
      sublist_code)

text \<open>
  C15. \<^verbatim>\<open>EnsureStaticInstance\<close> converges: on an API server that keeps what is written, a run
  without an error leaves an instance with the wanted address, credentials and role under
  the name, and a second run changes nothing at all.
\<close>

theorem EnsureStaticInstance_converges:
  assumes "keeps_writes (StaticInstances cluster) si_agree []"
    and "EnsureStaticInstance cluster name role ip cred w = Some (Ret None, w')"
  shows "EnsureStaticInstance cluster name role ip cred w' = Some (Ret None, w') \<and>
    (\<exists>s. fst (cl_get (StaticInstances cluster) [] name w') = Inr s \<and>
       sis_Address (si_Spec s) = ip \<and>
       map_option ref_Name (sis_CredentialsRef (si_Spec s)) = Some cred \<and>
       om_Labels (metadata s) ''node-role'' = Some role)"
  using EnsureStaticInstance_stored [OF assms]
  by (auto simp: EnsureStaticInstance_def Let_def bindIO_call io_simps needsUpdate_iff)

definition si_store :: "StaticInstance list KCluster" where
  "si_store = frozen_cluster\<lparr>StaticInstances := store_client id id\<rparr>"

lemma EnsureStaticInstance_converges_witness:
  "EnsureStaticInstance si_store ''si-1'' ''worker'' ''10.0.0.2'' ''e2ersa''
     [desiredStaticInstance ''si-1'' ''worker'' ''10.0.0.2'' ''e2ersa''] =
     Some (Ret None, [desiredStaticInstance ''si-1'' ''worker'' ''10.0.0.2'' ''e2ersa'']) \<and>
   (\<exists>s. fst (cl_get (StaticInstances si_store) [] ''si-1''
       [desiredStaticInstance ''si-1'' ''worker'' ''10.0.0.2'' ''e2ersa'']) = Inr s \<and>
     sis_Address (si_Spec s) = ''10.0.0.2'' \<and>
     map_option ref_Name (sis_CredentialsRef (si_Spec s)) = Some ''e2ersa'' \<and>
     om_Labels (metadata s) ''node-role'' = Some ''worker'')"
proof (rule EnsureStaticInstance_converges [where w = "[]"])
  show "keeps_writes (StaticInstances si_store) si_agree []"
    unfolding si_store_def by (simp add: store_client_keeps si_agree_def)
  show "EnsureStaticInstance si_store ''si-1'' ''worker'' ''10.0.0.2'' ''e2ersa'' [] =
      Some (Ret None, [desiredStaticInstance ''si-1'' ''worker'' ''10.0.0.2'' ''e2ersa''])"
    by (simp add: EnsureStaticInstance_def Let_def bindIO_call io_simps si_store_def store_client_def)
qed

text \<open>
  C22. A command on a node runs on that node: when \<^verbatim>\<open>ExecNode\<close> succeeds for a node name that is
  not read as a pattern, the command was run, behind the \<^verbatim>\<open>nsenter\<close> prefix and unchanged, in the
  first container of a listed pod of the node configurator that is scheduled on that node,
  and the outputs are the outputs of that run.
\<close>

theorem ExecNode_runs_on_node:
  assumes "parse_cond name = Is name"
    and "ExecNode cluster exec name cmd w = Some (Ret (out, err, None), w')"
  shows "\<exists>pods w1 pod c cs.
    cl_list (Pods cluster) ''d8-sds-node-configurator'' w = (Inr pods, w1) \<and>
    pod \<in> set pods \<and> sublist ''sds-node-configurator-'' (obj_Name pod) \<and> pod_NodeName pod = name \<and>
    pod_Containers pod = c # cs \<and>
    exec ''d8-sds-node-configurator'' (obj_Name pod) c (nsenter_args @ cmd) w1 =
      (Inr (out, err, None), w')"
proof -
  let ?ns = "''d8-sds-node-configurator''"
  let ?f = "noPodFilter\<lparr>pf_Name := Str ''%sds-node-configurator-%'', pf_Node := Str name\<rparr>"
  obtain l w1 where l: "cl_list (Pods cluster) ?ns w = (l, w1)"
    by (cases "cl_list (Pods cluster) ?ns w")
  obtain pods where pods: "l = Inr pods"
    using assms(2) l
    by (cases l) (auto simp: ExecNode_def Let_def ListPod_def bindIO_run(1) [OF listFiltered_run] io_simps)
  obtain pod rest where hd: "applyAll (PodFilter_Apply (regexp_match cluster)) [?f] pods = pod # rest"
    using assms(2) l pods
    by (cases "applyAll (PodFilter_Apply (regexp_match cluster)) [?f] pods")
      (auto simp: ExecNode_def Let_def ListPod_def bindIO_run(1) [OF listFiltered_run] io_simps)
  obtain c cs where cs: "pod_Containers pod = c # cs"
    using assms(2) l pods hd
    by (cases "pod_Containers pod")
      (auto simp: ExecNode_def Let_def ListPod_def bindIO_run(1) [OF listFiltered_run] io_simps)
  obtain x w2 where ex: "exec ?ns (obj_Name pod) c (nsenter_args @ cmd) w1 = (x, w2)"
    by (cases "exec ?ns (obj_Name pod) c (nsenter_args @ cmd) w1")
  with assms(2) l pods hd cs have "x = Inr (out, err, None) \<and> w2 = w'"
    by (auto simp: ExecNode_def Let_def ListPod_def bindIO_run(1) [OF listFiltered_run] io_simps
        split: sum.splits option.splits prod.splits)
  moreover have "pod \<in> set (applyAll (PodFilter_Apply (regexp_match cluster)) [?f] pods)"
    by (simp only: hd) simp
  then have "pod \<in> set pods \<and> PodFilter_keep (regexp_match cluster) ?f pod"
    by (simp add: pod_filter.applyAll_iff del: applyAll.simps)
  then have "pod \<in> set pods \<and> sublist ''sds-node-configurator-'' (obj_Name pod) \<and> pod_NodeName pod = name"
    using assms(1) by (simp add: PodFilter_keep_def noPodFilter_def CheckStr_parse)
      (simp add: parse_cond.simps)
  ultimately show ?thesis using l pods cs ex by blast
qed

definition snc_pod :: Pod where
  "snc_pod = zeroPod\<lparr>metadata := newMeta ''sds-node-configurator-x7k'' ''d8-sds-node-configurator'',
     pod_NodeName := ''w1'', pod_Containers := [''agent'']\<rparr>"

lemma ExecNode_runs_on_node_witness:
  "\<exists>pods w1 pod c cs.
    cl_list (Pods (frozen_cluster\<lparr>Pods := frozen_client [snc_pod]\<rparr>)) ''d8-sds-node-configurator'' () = (Inr pods, w1) \<and>
    pod \<in> set pods \<and> sublist ''sds-node-configurator-'' (obj_Name pod) \<and> pod_NodeName pod = ''w1'' \<and>
    pod_Containers pod = c # cs \<and>
    (\<lambda>ns p c cmd w. (Inr (c, [], None), w)) ''d8-sds-node-configurator'' (obj_Name pod) c
      (nsenter_args @ [''lsblk'']) w1 = (Inr (''agent'', [], None) :: go_error + string \<times> string \<times> go_error option, ())"
  by (rule ExecNode_runs_on_node)
    (simp_all add: parse_cond.simps ExecNode_def Let_def ListPod_def
      bindIO_run(1) [OF listFiltered_run] io_simps snc_pod_def zeroPod_def noPodFilter_def
      CheckStr_def sublist_code)

text \<open>
  The output checks of the tests: \<^verbatim>\<open>ExecNodeRespContains\<close> has no error if and only if the
  command succeeds and every expression matches its output, \<^verbatim>\<open>ExecNodeRespNotContains\<close> if and
  only if it succeeds and none does; the words the command is split into join to it again.
\<close>

theorem ExecNodeResp_checks:
  "(ExecNodeRespContains cluster exec nName cmd resp w = Some (Ret None, w') \<longleftrightarrow>
      (\<exists>out err. ExecNode cluster exec nName (split_on CHR '' '' cmd) w = Some (Ret (out, err, None), w') \<and>
         list_all (\<lambda>r. regexp_match cluster r out = Some True) resp)) \<and>
   (ExecNodeRespNotContains cluster exec nName cmd resp w = Some (Ret None, w') \<longleftrightarrow>
      (\<exists>out err. ExecNode cluster exec nName (split_on CHR '' '' cmd) w = Some (Ret (out, err, None), w') \<and>
         list_all (\<lambda>r. regexp_match cluster r out \<noteq> Some True) resp)) \<and>
   join_with '' '' (split_on CHR '' '' cmd) = cmd"
proof -
  have *: "(bindIO m (\<lambda>(out, e, err). case err of Some e' \<Rightarrow> retIO (Some e')
      | None \<Rightarrow> retIO (checkAll rx want er out resp)) w = Some (Ret None, w')) \<longleftrightarrow>
      (\<exists>out err. m w = Some (Ret (out, err, None), w') \<and> list_all (\<lambda>r. re_match rx r out = want) resp)"
    for m rx want er
    by (auto simp: bindIO_Ret_iff io_simps checkAll_None list_all_iff split: option.splits prod.splits)
  show ?thesis
    unfolding ExecNodeRespContains_def ExecNodeRespNotContains_def * join_split
    by (simp add: re_match_def)
qed

end
