(* ===== verification/Kube.thy ===== *)
theory Kube
  imports Nodes
begin

text \<open>
  \<^verbatim>\<open>testkit_v2/util/kube.go\<close> (namespaces, readiness of deployments and daemon sets) and
  \<^verbatim>\<open>kube_deckhouse_modules.go\<close> (module configurations).
\<close>

section \<open>Namespaces\<close>

definition ListNs :: "'w KCluster \<Rightarrow> NsFilter list \<Rightarrow> ('w, go_error + Namespace list) io" where
  "ListNs cluster filters =
     bindIO (callIO (cl_list (NSs cluster) [])) (\<lambda>r. case r of
         Inl err \<Rightarrow> retIO (Inl err)
       | Inr items \<Rightarrow>
           if length filters = 0 then retIO (Inr items)
           else retIO (Inr (applyAll (NsFilter_Apply (regexp_match cluster)) filters items)))"

definition CreateNs :: "'w KCluster \<Rightarrow> string \<Rightarrow> ('w, go_error option) io" where
  "CreateNs cluster nsName =
     bindIO (callIO (cl_create (NSs cluster) \<lparr>metadata = newMeta nsName []\<rparr>)) (\<lambda>r. case r of
         Inr _ \<Rightarrow> retIO None
       | Inl err \<Rightarrow> if IsAlreadyExists err then retIO None else retIO (Some err))"

definition protectionError :: go_error where
  "protectionError = PlainError ''Fatal mistake protection: can`t delete all namespaces''"

definition DeleteNs :: "'w KCluster \<Rightarrow> NsFilter list \<Rightarrow> ('w, go_error option) io" where
  "DeleteNs cluster filters =
     bindIO (ListNs cluster filters) (\<lambda>r. case r of
         Inl err \<Rightarrow> retIO (Some err)
       | Inr nsList \<Rightarrow> bindIO (ListNs cluster []) (\<lambda>r2. case r2 of
             Inl err \<Rightarrow> retIO (Some err)
           | Inr allNsList \<Rightarrow>
               if length nsList = length allNsList then retIO (Some protectionError)
               else forErr (\<lambda>ns. callIO (cl_delete (NSs cluster) ns)) nsList))"

definition DeleteNsAndWait :: "'x world_scheme KCluster \<Rightarrow> NsFilter list \<Rightarrow>
    ('x world_scheme, go_error option) io"
where
  "DeleteNsAndWait cluster filters =
     bindIO (DeleteNs cluster filters) (\<lambda>r. case r of
         Some err \<Rightarrow> retIO (Some err)
       | None \<Rightarrow> RetrySec 20 (none_left (ListNs cluster filters) (\<lambda>nsList.
           PlainError (''Can't delete '' @ fmt_d (int (length nsList)) @ '' namespaces: '' @
             obj_Name (hd nsList) @ '', ...''))))"

lemma ListNs_eq: "ListNs cluster filters = listFiltered (cl_list (NSs cluster) [])
    (NsFilter_Apply (regexp_match cluster)) filters"
  by (cases filters) (auto simp: ListNs_def listFiltered_def fun_eq_iff io_simps split: sum.splits)


section \<open>Readiness\<close>

definition CheckDeploymentReady :: "'w KCluster \<Rightarrow> string \<Rightarrow> string \<Rightarrow> ('w, go_error option) io" where
  "CheckDeploymentReady cluster nsName deploymentName =
     bindIO (callIO (cl_get (Deployments cluster) nsName deploymentName)) (\<lambda>r. case r of
         Inl err \<Rightarrow> retIO (Some (WrapError
             (''failed to check deployment '' @ deploymentName @ '' in namespace '' @ nsName @ '': '') err []))
       | Inr deployment \<Rightarrow>
           if dep_ReadyReplicas deployment \<noteq> dep_Replicas deployment
           then retIO (Some (PlainError
             (''deployment '' @ deploymentName @ '' in namespace '' @ nsName @ '' is not ready'')))
           else retIO None)"

definition WaitUntilDeploymentReady :: "'x world_scheme KCluster \<Rightarrow> string \<Rightarrow> string \<Rightarrow> int \<Rightarrow>
    ('x world_scheme, go_error option) io"
where
  "WaitUntilDeploymentReady cluster nsName deploymentName timeoutSec =
     RetrySec timeoutSec (bindIO (CheckDeploymentReady cluster nsName deploymentName) (\<lambda>r. case r of
         Some err \<Rightarrow> retIO (Some err)
       | None \<Rightarrow> retIO None))"

fun firstNotRunning :: "Pod list \<Rightarrow> Pod option" where
  "firstNotRunning [] = None"
| "firstNotRunning (pod # pods) =
     (if pod_Phase pod \<noteq> ''Running'' then Some pod else firstNotRunning pods)"

definition dsPrefix :: "string \<Rightarrow> string \<Rightarrow> string" where
  "dsPrefix dsName nsName = ''daemonset '' @ dsName @ '' in namespace '' @ nsName"

definition CheckDaemonSetReady :: "'w KCluster \<Rightarrow> string \<Rightarrow> string \<Rightarrow> ('w, go_error option) io" where
  "CheckDaemonSetReady cluster nsName dsName =
     bindIO (GetDaemonSet cluster nsName dsName) (\<lambda>r. case r of
         Inl err \<Rightarrow> retIO (Some (WrapError (''failed to get '' @ dsPrefix dsName nsName @ '': '') err []))
       | Inr ds \<Rightarrow>
           (let desired = ds_DesiredNumberScheduled ds;
                current = ds_CurrentNumberScheduled ds;
                ready = ds_NumberReady ds
            in if desired \<noteq> current \<or> current \<noteq> ready \<or> desired \<noteq> ready
               then retIO (Some (PlainError (dsPrefix dsName nsName @ '' not ready: desired='' @
                 fmt_d desired @ '', current='' @ fmt_d current @ '', ready='' @ fmt_d ready)))
               else bindIO (ListPod cluster nsName
                   [noPodFilter\<lparr>pf_Name := Str (''%'' @ dsName @ ''-%'')\<rparr>]) (\<lambda>p. case p of
                   Inl err \<Rightarrow> retIO (Some (WrapError
                     (''failed to list pods for '' @ dsPrefix dsName nsName @ '': '') err []))
                 | Inr pods \<Rightarrow>
                     if int (length pods) \<noteq> desired
                     then retIO (Some (PlainError (dsPrefix dsName nsName @ '': expected '' @
                       fmt_d desired @ '' pods, found '' @ fmt_d (int (length pods)))))
                     else (case firstNotRunning pods of
                         Some pod \<Rightarrow> retIO (Some (PlainError (dsPrefix dsName nsName @ '': pod '' @
                           obj_Name pod @ '' is not running (phase: '' @ pod_Phase pod @ '')'')))
                       | None \<Rightarrow> retIO None))))"

definition WaitUntilDaemonSetReady :: "'x world_scheme KCluster \<Rightarrow> string \<Rightarrow> string \<Rightarrow> int \<Rightarrow>
    ('x world_scheme, go_error option) io"
where
  "WaitUntilDaemonSetReady cluster nsName dsName timeoutSec =
     RetrySec timeoutSec (bindIO (CheckDaemonSetReady cluster nsName dsName) (\<lambda>r. case r of
         Some err \<Rightarrow> retIO (Some err)
       | None \<Rightarrow> retIO None))"

lemma firstNotRunning_None: "firstNotRunning pods = None \<longleftrightarrow> (\<forall>p \<in> set pods. pod_Phase p = ''Running'')"
  by (induction pods) auto


section \<open>Modules\<close>

definition SDSNodeConfiguratorModuleName :: string where
  "SDSNodeConfiguratorModuleName = ''sds-node-configurator''"

definition SDSReplicatedVolumeModuleName :: string where
  "SDSReplicatedVolumeModuleName = ''sds-replicated-volume''"

definition ModuleReadyTimeout :: int where
  "ModuleReadyTimeout = 300"

definition generateModuleConfig :: "string \<Rightarrow> int \<Rightarrow> bool \<Rightarrow> (string \<times> bool) list \<Rightarrow> ModuleConfig" where
  "generateModuleConfig name version enabled settings =
     \<lparr>metadata = newMeta name [], mc_Version = version, mc_Enabled = Some enabled,
      mc_Settings = settings\<rparr>"

text \<open>The code reads the existing object under a fixed name, whatever the module is.\<close>

definition EnsureModuleEnabled :: "'w KCluster \<Rightarrow> ModuleConfig \<Rightarrow> ('w, go_error option) io" where
  "EnsureModuleEnabled cluster moduleConfig =
     bindIO (callIO (cl_create (ModuleConfigs cluster) moduleConfig)) (\<lambda>r. case r of
         Inr _ \<Rightarrow> retIO None
       | Inl err \<Rightarrow>
           if \<not> IsAlreadyExists err then retIO (Some err)
           else bindIO (callIO (cl_get (ModuleConfigs cluster) [] SDSNodeConfiguratorModuleName))
             (\<lambda>g. case g of
                Inl e \<Rightarrow> retIO (Some e)
              | Inr existingModuleConfig \<Rightarrow>
                  bindIO (callIO (cl_update (ModuleConfigs cluster)
                      (moduleConfig\<lparr>metadata := (metadata moduleConfig)
                         \<lparr>om_ResourceVersion := om_ResourceVersion (metadata existingModuleConfig)\<rparr>\<rparr>)))
                    (\<lambda>u. case u of Inl e \<Rightarrow> retIO (Some e) | Inr _ \<Rightarrow> retIO None)))"

definition EnsureSDSNodeConfiguratorModuleEnabled :: "'w KCluster \<Rightarrow> bool \<Rightarrow> ('w, go_error option) io" where
  "EnsureSDSNodeConfiguratorModuleEnabled cluster enableThinProvisioning =
     EnsureModuleEnabled cluster (generateModuleConfig SDSNodeConfiguratorModuleName 1 True
       [(''enableThinProvisioning'', enableThinProvisioning)])"

definition EnsureSDSReplicatedVolumeModuleEnabled :: "'w KCluster \<Rightarrow> bool \<Rightarrow> ('w, go_error option) io" where
  "EnsureSDSReplicatedVolumeModuleEnabled cluster enableThinProvisioning =
     bindIO (EnsureSDSNodeConfiguratorModuleEnabled cluster enableThinProvisioning) (\<lambda>r. case r of
         Some err \<Rightarrow> retIO (Some err)
       | None \<Rightarrow> EnsureModuleEnabled cluster
           (generateModuleConfig SDSReplicatedVolumeModuleName 1 True []))"

definition WaitUntilSDSReplicatedVolumeModuleReady :: "'x world_scheme KCluster \<Rightarrow>
    ('x world_scheme, go_error option) io"
where
  "WaitUntilSDSReplicatedVolumeModuleReady cluster =
     WaitUntilDeploymentReady cluster ''d8-sds-replicated-volume''
       ''sds-replicated-volume-controller'' ModuleReadyTimeout"


section \<open>Properties\<close>

text \<open>
  C14. The protection of \<^verbatim>\<open>DeleteNs\<close>: when the two listings agree, filters that match every
  namespace of the cluster delete nothing and give the protection error, and otherwise
  exactly the matching namespaces are deleted, in the order of the listing.
\<close>

theorem DeleteNs_protects:
  fixes cluster :: "'w KCluster" and filters :: "NsFilter list"
  assumes "cl_list (NSs cluster) [] w = (Inr nss, w1)" and "cl_list (NSs cluster) [] w1 = (Inr nss, w2)"
  defines "matches \<equiv> (\<lambda>n. list_all (\<lambda>f. NsFilter_keep (regexp_match cluster) f n) filters)"
  shows "DeleteNs cluster filters w =
    (if list_all matches nss then Some (Ret (Some protectionError), w2)
     else forErr (\<lambda>ns. callIO (cl_delete (NSs cluster) ns)) (filter matches nss) w2)"
proof -
  have m: "applyAll (NsFilter_Apply (regexp_match cluster)) filters nss = filter matches nss"
    by (simp add: ns_filter.applyAll_eq matches_def list_all_iff)
  have len: "length (filter matches nss) = length nss \<longleftrightarrow> list_all matches nss"
    using ns_filter.applyAll_full_iff [of "regexp_match cluster" filters nss]
    by (simp add: m matches_def list_all_iff)
  show ?thesis
    using assms(1,2) len
    by (simp add: DeleteNs_def ListNs_eq bindIO_run(1) [OF listFiltered_run] io_simps m)
qed

definition namespace_named :: "string \<Rightarrow> Namespace" where
  "namespace_named name = \<lparr>metadata = newMeta name []\<rparr>"

lemma DeleteNs_protects_witness:
  "DeleteNs (frozen_cluster\<lparr>NSs := frozen_client [namespace_named ''default'', namespace_named ''e2e'']\<rparr>)
     [noNsFilter\<lparr>nsf_Name := Str ''%e%''\<rparr>] () = Some (Ret (Some protectionError), ())"
  by (subst DeleteNs_protects [where ?w1.0 = "()" and ?w2.0 = "()" and
        nss = "[namespace_named ''default'', namespace_named ''e2e'']"])
    (simp_all add: NsFilter_keep_def noNsFilter_def namespace_named_def CheckStr_def sublist_code)

lemma CheckDaemonSetReady_iff:
  "CheckDaemonSetReady cluster nsName dsName w = Some (Ret None, w') \<longleftrightarrow>
    (\<exists>ds w1 pods. cl_get (DaemonSets cluster) nsName dsName w = (Inr ds, w1) \<and>
       cl_list (Pods cluster) nsName w1 = (Inr pods, w') \<and>
       ds_CurrentNumberScheduled ds = ds_DesiredNumberScheduled ds \<and>
       ds_NumberReady ds = ds_DesiredNumberScheduled ds \<and>
       int (length (filter (\<lambda>p. sublist (dsName @ ''-'') (obj_Name p)) pods)) = ds_DesiredNumberScheduled ds \<and>
       list_all (\<lambda>p. pod_Phase p = ''Running'') (filter (\<lambda>p. sublist (dsName @ ''-'') (obj_Name p)) pods))"
proof -
  obtain g w1 where g: "cl_get (DaemonSets cluster) nsName dsName w = (g, w1)"
    by (cases "cl_get (DaemonSets cluster) nsName dsName w")
  obtain l w2 where l: "cl_list (Pods cluster) nsName w1 = (l, w2)"
    by (cases "cl_list (Pods cluster) nsName w1")
  have pods: "applyAll (PodFilter_Apply rx) [noPodFilter\<lparr>pf_Name := Str (CHR ''%'' # dsName @ ''-%'')\<rparr>] ps =
      filter (\<lambda>p. sublist (dsName @ ''-'') (obj_Name p)) ps" for rx ps
  proof -
    have "PodFilter_keep rx (noPodFilter\<lparr>pf_Name := Str (CHR ''%'' # dsName @ ''-%'')\<rparr>) p =
        sublist (dsName @ ''-'') (obj_Name p)" for p
      by (simp add: PodFilter_keep_def noPodFilter_def CheckStr_parse parse_cond.simps butlast_append)
    then show ?thesis by (simp add: pod_filter.applyAll_eq del: applyAll.simps)
  qed
  have run: "list_all (\<lambda>p. pod_Phase p = ''Running'') ps \<longleftrightarrow> firstNotRunning ps = None" for ps
    by (simp add: firstNotRunning_None list_all_iff)
  show ?thesis
    using g l
    by (auto simp: CheckDaemonSetReady_def GetDaemonSet_def ListPod_def Let_def pods run
        bindIO_call bindIO_run(1) [OF listFiltered_run] io_simps
        simp del: applyAll.simps split: sum.splits if_splits option.splits)
qed

text \<open>
  When \<^verbatim>\<open>WaitUntilDaemonSetReady\<close> reports success, its last attempt saw the daemon set
  scheduled and ready in full: the desired, current and ready numbers agree, there are as
  many pods named after the daemon set in the namespace, and every one of them is running.
\<close>

theorem WaitUntilDaemonSetReady_sound:
  assumes "WaitUntilDaemonSetReady cluster nsName dsName timeout w = Some (Ret None, w')"
  shows "\<exists>w0 ds w1 pods. cl_get (DaemonSets cluster) nsName dsName w0 = (Inr ds, w1) \<and>
    cl_list (Pods cluster) nsName w1 = (Inr pods, w') \<and>
    ds_CurrentNumberScheduled ds = ds_DesiredNumberScheduled ds \<and>
    ds_NumberReady ds = ds_DesiredNumberScheduled ds \<and>
    int (length (filter (\<lambda>p. sublist (dsName @ ''-'') (obj_Name p)) pods)) = ds_DesiredNumberScheduled ds \<and>
    list_all (\<lambda>p. pod_Phase p = ''Running'') (filter (\<lambda>p. sublist (dsName @ ''-'') (obj_Name p)) pods)"
proof -
  obtain w0 where "bindIO (CheckDaemonSetReady cluster nsName dsName)
      (\<lambda>r. case r of Some err \<Rightarrow> retIO (Some err) | None \<Rightarrow> retIO None) w0 = Some (Ret None, w')"
    using retry.last_attempt [OF assms [unfolded WaitUntilDaemonSetReady_def]] by blast
  then have "CheckDaemonSetReady cluster nsName dsName w0 = Some (Ret None, w')"
    by (auto simp: bindIO_Ret_iff io_simps split: option.splits)
  then show ?thesis unfolding CheckDaemonSetReady_iff by blast
qed

definition csi_cluster :: "world KCluster" where
  "csi_cluster = frozen_cluster\<lparr>
     DaemonSets := frozen_client [\<lparr>metadata = newMeta ''csi-node'' ''d8'', ds_DesiredNumberScheduled = 1,
       ds_CurrentNumberScheduled = 1, ds_NumberReady = 1\<rparr>],
     Pods := frozen_client [zeroPod\<lparr>metadata := newMeta ''csi-node-x1'' ''d8'', pod_Phase := ''Running''\<rparr>]\<rparr>"

lemma csi_ready:
  "WaitUntilDaemonSetReady csi_cluster ''d8'' ''csi-node'' 300 clock0 = Some (Ret None, clock0)"
proof -
  have "CheckDaemonSetReady csi_cluster ''d8'' ''csi-node'' clock0 = Some (Ret None, clock0)"
    unfolding CheckDaemonSetReady_iff by (simp add: csi_cluster_def zeroPod_def sublist_code)
  then show ?thesis unfolding WaitUntilDaemonSetReady_def RetrySec_def
    by (intro retry_n_loop [where n = 1]) (simp add: io_simps)
qed

lemma WaitUntilDaemonSetReady_sound_witness:
  "\<exists>w0 ds w1 pods. cl_get (DaemonSets csi_cluster) ''d8'' ''csi-node'' w0 = (Inr ds, w1) \<and>
    cl_list (Pods csi_cluster) ''d8'' w1 = (Inr pods, clock0) \<and>
    ds_CurrentNumberScheduled ds = ds_DesiredNumberScheduled ds \<and>
    ds_NumberReady ds = ds_DesiredNumberScheduled ds \<and>
    int (length (filter (\<lambda>p. sublist (''csi-node'' @ ''-'') (obj_Name p)) pods)) = ds_DesiredNumberScheduled ds \<and>
    list_all (\<lambda>p. pod_Phase p = ''Running'') (filter (\<lambda>p. sublist (''csi-node'' @ ''-'') (obj_Name p)) pods)"
  by (rule WaitUntilDaemonSetReady_sound [OF csi_ready])

text \<open>
  A server with optimistic concurrency, by its documented behaviour: \<open>stored\<close> is what it holds, by name. A creation is refused
  if the name is taken, an update unless it carries the resource version of the stored object of that name; every write
  gives the object a version that no object held so far has, and a get returns what is stored.
\<close>

definition stamped :: "ModuleConfig \<Rightarrow> string \<Rightarrow> ModuleConfig" where
  "stamped m v = m\<lparr>metadata := (metadata m)\<lparr>om_ResourceVersion := v\<rparr>\<rparr>"

definition written :: "('w \<Rightarrow> string \<rightharpoonup> ModuleConfig) \<Rightarrow> ModuleConfig \<Rightarrow> 'w \<Rightarrow> (go_error + ModuleConfig) \<times> 'w \<Rightarrow> bool" where
  "written stored m w r \<longleftrightarrow> (\<exists>v w'. r = (Inr (stamped m v), w') \<and> stored w' = (stored w)(obj_Name m \<mapsto> stamped m v) \<and>
     (\<forall>n x. stored w n = Some x \<longrightarrow> om_ResourceVersion (metadata x) \<noteq> v))"

definition versioned_server :: "('w, ModuleConfig) client \<Rightarrow> ('w \<Rightarrow> string \<rightharpoonup> ModuleConfig) \<Rightarrow> bool" where
  "versioned_server mcs stored \<longleftrightarrow>
     (\<forall>m w. stored w (obj_Name m) = None \<longrightarrow> written stored m w (cl_create mcs m w)) \<and>
     (\<forall>m w x. stored w (obj_Name m) = Some x \<longrightarrow> (\<exists>e. cl_create mcs m w = (Inl e, w) \<and> IsAlreadyExists e)) \<and>
     (\<forall>n w x. stored w n = Some x \<longrightarrow> cl_get mcs [] n w = (Inr x, w)) \<and>
     (\<forall>m w x. stored w (obj_Name m) = Some x \<longrightarrow>
        (if om_ResourceVersion (metadata m) = om_ResourceVersion (metadata x) then written stored m w (cl_update mcs m w)
         else \<exists>e. cl_update mcs m w = (Inl e, w)))"

lemma stamped_stamped [simp]: "stamped (stamped m v) v' = stamped m v'" "obj_Name (stamped m v) = obj_Name m"
  "om_ResourceVersion (metadata (stamped m v)) = v"
  by (simp_all add: stamped_def)

lemma obj_Name_generate [simp]: "obj_Name (generateModuleConfig name v en st) = name"
  by (simp add: generateModuleConfig_def)

text \<open>A module that does not exist, sds-node-configurator, and any other that exists.\<close>

lemma EnsureModuleEnabled_new:
  assumes "versioned_server (ModuleConfigs cluster) stored" and "stored w (obj_Name mc) = None"
  shows "\<exists>v w'. EnsureModuleEnabled cluster mc w = Some (Ret None, w') \<and>
    stored w' = (stored w)(obj_Name mc \<mapsto> stamped mc v) \<and>
    (\<forall>n x. stored w n = Some x \<longrightarrow> om_ResourceVersion (metadata x) \<noteq> v)"
proof -
  have "written stored mc w (cl_create (ModuleConfigs cluster) mc w)"
    using assms unfolding versioned_server_def by blast
  then show ?thesis
    unfolding written_def by (elim exE conjE) (simp add: EnsureModuleEnabled_def bindIO_call run_simps; blast)
qed

lemma EnsureModuleEnabled_snc:
  assumes server: "versioned_server (ModuleConfigs cluster) stored" and "obj_Name mc = ''sds-node-configurator''"
  shows "\<exists>v w'. EnsureModuleEnabled cluster mc w = Some (Ret None, w') \<and>
    stored w' = (stored w)(obj_Name mc \<mapsto> stamped mc v) \<and>
    (\<forall>n x. stored w n = Some x \<longrightarrow> om_ResourceVersion (metadata x) \<noteq> v)"
proof (cases "stored w (obj_Name mc)")
  case None
  with server show ?thesis by (rule EnsureModuleEnabled_new)
next
  case (Some x)
  let ?mc = "stamped mc (om_ResourceVersion (metadata x))"
  obtain e where "cl_create (ModuleConfigs cluster) mc w = (Inl e, w)" "IsAlreadyExists e"
    using server Some unfolding versioned_server_def by blast
  moreover have "cl_get (ModuleConfigs cluster) [] (obj_Name mc) w = (Inr x, w)"
    using server Some unfolding versioned_server_def by blast
  ultimately have "EnsureModuleEnabled cluster mc w = (case cl_update (ModuleConfigs cluster) ?mc w of
      (Inl e, w') \<Rightarrow> Some (Ret (Some e), w') | (Inr _, w') \<Rightarrow> Some (Ret None, w'))"
    using assms(2) by (simp add: EnsureModuleEnabled_def bindIO_call run_simps SDSNodeConfiguratorModuleName_def
        stamped_def split: prod.split sum.split)
  moreover have "written stored ?mc w (cl_update (ModuleConfigs cluster) ?mc w)"
    using server Some unfolding versioned_server_def by (metis stamped_stamped(2,3))
  ultimately show ?thesis unfolding written_def by fastforce
qed

lemma EnsureModuleEnabled_other:
  assumes server: "versioned_server (ModuleConfigs cluster) stored"
    and "stored w (obj_Name mc) = Some x" and "stored w ''sds-node-configurator'' = Some snc"
    and "om_ResourceVersion (metadata x) \<noteq> om_ResourceVersion (metadata snc)"
  shows "\<exists>e. EnsureModuleEnabled cluster mc w = Some (Ret (Some e), w)"
proof -
  let ?mc = "stamped mc (om_ResourceVersion (metadata snc))"
  obtain e where "cl_create (ModuleConfigs cluster) mc w = (Inl e, w)" "IsAlreadyExists e"
    using server assms(2) unfolding versioned_server_def by blast
  moreover have "cl_get (ModuleConfigs cluster) [] ''sds-node-configurator'' w = (Inr snc, w)"
    using server assms(3) unfolding versioned_server_def by blast
  moreover obtain e' where "cl_update (ModuleConfigs cluster) ?mc w = (Inl e', w)"
    using server assms(2,4) unfolding versioned_server_def by (metis stamped_stamped(2,3))
  ultimately show ?thesis
    by (simp add: EnsureModuleEnabled_def bindIO_call run_simps SDSNodeConfiguratorModuleName_def stamped_def)
qed

text \<open>
  C23. On a server with optimistic concurrency and no other writer \<^verbatim>\<open>EnsureSDSReplicatedVolumeModuleEnabled\<close> always
  enables sds-node-configurator, but it succeeds if and only if sds-replicated-volume does not exist yet. Where it exists, the
  update carries the version of sds-node-configurator, which has just been written anew: it is refused, and
  the module stays as it was, enabled or not. So a second run never succeeds.
\<close>

theorem EnsureSDSReplicatedVolume_only_once:
  assumes "versioned_server (ModuleConfigs cluster) stored"
  shows "\<exists>r w' v. EnsureSDSReplicatedVolumeModuleEnabled cluster thin w = Some (Ret r, w') \<and>
    stored w' ''sds-node-configurator'' =
      Some (stamped (generateModuleConfig ''sds-node-configurator'' 1 True [(''enableThinProvisioning'', thin)]) v) \<and>
    (case stored w ''sds-replicated-volume'' of
       None \<Rightarrow> r = None \<and> (\<exists>v'. stored w' ''sds-replicated-volume'' =
         Some (stamped (generateModuleConfig ''sds-replicated-volume'' 1 True []) v'))
     | Some x \<Rightarrow> r \<noteq> None \<and> stored w' ''sds-replicated-volume'' = Some x)"
proof -
  let ?snc = "generateModuleConfig ''sds-node-configurator'' 1 True [(''enableThinProvisioning'', thin)]"
  let ?srv = "generateModuleConfig ''sds-replicated-volume'' 1 True []"
  obtain v w1 where first: "EnsureModuleEnabled cluster ?snc w = Some (Ret None, w1)"
      "stored w1 = (stored w)(''sds-node-configurator'' \<mapsto> stamped ?snc v)"
    and fresh: "\<And>n x. stored w n = Some x \<Longrightarrow> om_ResourceVersion (metadata x) \<noteq> v"
    using EnsureModuleEnabled_snc [OF assms, of ?snc w] by auto
  have run: "EnsureSDSReplicatedVolumeModuleEnabled cluster thin w = EnsureModuleEnabled cluster ?srv w1"
    using first(1) by (simp add: EnsureSDSReplicatedVolumeModuleEnabled_def EnsureSDSNodeConfiguratorModuleEnabled_def
        bindIO_run SDSNodeConfiguratorModuleName_def SDSReplicatedVolumeModuleName_def)
  show ?thesis
  proof (cases "stored w ''sds-replicated-volume''")
    case None
    with EnsureModuleEnabled_new [OF assms, of w1 ?srv] run first(2) show ?thesis by fastforce
  next
    case (Some x)
    with EnsureModuleEnabled_other [OF assms, of w1 ?srv x "stamped ?snc v"] fresh [OF Some] first(2) run
    show ?thesis by fastforce
  qed
qed

text \<open>Such a server: the state is the list of the writes, and a version is longer than all the versions before.\<close>

definition mc_write :: "ModuleConfig \<Rightarrow> (string \<times> ModuleConfig) list \<Rightarrow>
    (go_error + ModuleConfig) \<times> (string \<times> ModuleConfig) list"
where
  "mc_write m w =
     (let m' = stamped m (replicate (Suc (sum_list (map (\<lambda>x. length (om_ResourceVersion (metadata (snd x)))) w))) CHR ''v'')
      in (Inr m', (obj_Name m, m') # w))"

definition mc_server :: "((string \<times> ModuleConfig) list, ModuleConfig) client" where
  "mc_server = (frozen_client [])
     \<lparr>cl_create := (\<lambda>m w. if map_of w (obj_Name m) = None then mc_write m w
        else (Inl (ApiError ReasonAlreadyExists ''already exists''), w)),
      cl_get := (\<lambda>ns n w. case map_of w n of None \<Rightarrow> (Inl (ApiError ReasonNotFound ''not found''), w) | Some x \<Rightarrow> (Inr x, w)),
      cl_update := (\<lambda>m w. case map_of w (obj_Name m) of
          None \<Rightarrow> (Inl (ApiError ReasonNotFound ''not found''), w)
        | Some x \<Rightarrow> if om_ResourceVersion (metadata m) = om_ResourceVersion (metadata x) then mc_write m w
            else (Inl (ApiError ReasonOther ''the object has been modified''), w))\<rparr>"

lemma mc_write_written: "written map_of m w (mc_write m w)"
proof -
  have "length (om_ResourceVersion (metadata x)) \<le> sum_list (map (\<lambda>x. length (om_ResourceVersion (metadata (snd x)))) w)"
    if "map_of w n = Some x" for n x
    using map_of_SomeD [OF that] by (intro member_le_sum_list) (force, simp)
  then have "om_ResourceVersion (metadata x) \<noteq>
      replicate (Suc (sum_list (map (\<lambda>x. length (om_ResourceVersion (metadata (snd x)))) w))) CHR ''v''"
    if "map_of w n = Some x" for n x
    using that by (metis Suc_n_not_le_n length_replicate)
  then show ?thesis by (auto simp: written_def mc_write_def Let_def)
qed

lemma mc_server_versioned: "versioned_server mc_server map_of"
  by (auto simp: versioned_server_def mc_server_def mc_write_written frozen_client_def)

lemma EnsureSDSReplicatedVolume_only_once_witness:
  "\<exists>r w'. EnsureSDSReplicatedVolumeModuleEnabled (frozen_cluster\<lparr>ModuleConfigs := mc_server\<rparr>) True
      [(''sds-replicated-volume'', generateModuleConfig ''sds-replicated-volume'' 1 False [])] = Some (Ret r, w') \<and> r \<noteq> None \<and>
    map_of w' ''sds-replicated-volume'' = Some (generateModuleConfig ''sds-replicated-volume'' 1 False [])"
  using EnsureSDSReplicatedVolume_only_once [of "frozen_cluster\<lparr>ModuleConfigs := mc_server\<rparr>" map_of True
      "[(''sds-replicated-volume'', generateModuleConfig ''sds-replicated-volume'' 1 False [])]"]
  by (auto simp: mc_server_versioned)

end
