(* ===== verification/Storage.thy ===== *)
theory Storage
  imports Kube
begin

text \<open>
  \<^verbatim>\<open>testkit_v2/util/kube_storage.go\<close>: block devices, LVM volume groups, storage classes and
  persistent volume claims.
\<close>

section \<open>Block devices\<close>

definition ListBD :: "'w KCluster \<Rightarrow> BdFilter list \<Rightarrow> ('w, go_error + BlockDevice list) io" where
  "ListBD cluster filters =
     listFiltered (cl_list (BDs cluster) []) (BdFilter_Apply (regexp_match cluster)) filters"

definition DeleteBd :: "'w KCluster \<Rightarrow> BdFilter list \<Rightarrow> ('w, go_error option) io" where
  "DeleteBd cluster filters =
     bindIO (ListBD cluster filters) (\<lambda>r. case r of
         Inl err \<Rightarrow> retIO (Some err)
       | Inr bdList \<Rightarrow> forErr (\<lambda>bd. callIO (cl_delete (BDs cluster) bd)) bdList)"

definition DeleteBdAndWait :: "'x world_scheme KCluster \<Rightarrow> BdFilter list \<Rightarrow>
    ('x world_scheme, go_error option) io"
where
  "DeleteBdAndWait cluster filters =
     bindIO (DeleteBd cluster filters) (\<lambda>r. case r of
         Some err \<Rightarrow> retIO (Some err)
       | None \<Rightarrow> RetrySec 20 (none_left (ListBD cluster filters) (\<lambda>bds.
           PlainError (''not deleted BDs: '' @ fmt_d (int (length bds)) @ '' ('' @
             obj_Name (hd bds) @ '', ...)''))))"


section \<open>LVM volume groups\<close>

definition GetLvg :: "'w KCluster \<Rightarrow> string \<Rightarrow> ('w, go_error + LVMVolumeGroup) io" where
  "GetLvg cluster lvgName = callIO (cl_get (LVGs cluster) [] lvgName)"

definition ListLVG :: "'w KCluster \<Rightarrow> LvgFilter list \<Rightarrow> ('w, go_error + LVMVolumeGroup list) io" where
  "ListLVG cluster filters =
     listFiltered (cl_list (LVGs cluster) []) (LvgFilter_Apply (regexp_match cluster)) filters"

fun firstWithoutNodes :: "LVMVolumeGroup list \<Rightarrow> LVMVolumeGroup option" where
  "firstWithoutNodes [] = None"
| "firstWithoutNodes (lvg # lvgs) =
     (if length (lvg_Nodes lvg) = 0 then Some lvg else firstWithoutNodes lvgs)"

definition WaitLVGsReady :: "'x world_scheme KCluster \<Rightarrow> LvgFilter list \<Rightarrow>
    ('x world_scheme, go_error option) io"
where
  "WaitLVGsReady cluster filters =
     (let filtersNotReady = filters @ [noLvgFilter\<lparr>lvgf_Phase := Str ''!Ready''\<rparr>] in
      bindIO (RetrySec 35 (none_left (ListLVG cluster filtersNotReady) (\<lambda>lvgs.
          PlainError (''LVGs not Ready: '' @ fmt_d (int (length lvgs)) @ '' ('' @
            obj_Name (hd lvgs) @ '', ...)'')))) (\<lambda>r. case r of
          Some err \<Rightarrow> retIO (Some err)
        | None \<Rightarrow> bindIO (ListLVG cluster filters) (\<lambda>l. case l of
              Inl err \<Rightarrow> retIO (Some err)
            | Inr lvgs \<Rightarrow> (case firstWithoutNodes lvgs of
                  Some lvg \<Rightarrow> retIO (Some (PlainError (''no nodes in LVG '' @ obj_Name lvg @ '' status'')))
                | None \<Rightarrow> retIO None))))"

definition newLvg :: "string \<Rightarrow> string \<Rightarrow> LabelSelectorRequirement list \<Rightarrow> LvgThinPoolSpec list \<Rightarrow>
    LVMVolumeGroup"
where
  "newLvg name nodeName selector thinPools =
     \<lparr>metadata = newMeta name [], lvg_ActualVGNameOnTheNode = name, lvg_Selector = Some selector,
      lvg_Type = ''Local'', lvg_LocalNodeName = nodeName, lvg_SpecThinPools = thinPools,
      lvg_Nodes = [], lvg_Phase = [], lvg_VGSize = 0, lvg_ThinPools = [],
      lvg_ConfigurationApplied = []\<rparr>"

definition bdRequirement :: "string list \<Rightarrow> LabelSelectorRequirement" where
  "bdRequirement bds = \<lparr>lsr_Key = ''kubernetes.io/metadata.name'', lsr_Operator = ''In'', lsr_Values = bds\<rparr>"

definition CreateLVG :: "'w KCluster \<Rightarrow> string \<Rightarrow> string \<Rightarrow> string list \<Rightarrow> ('w, go_error option) io" where
  "CreateLVG cluster name nodeName bds =
     bindIO (callIO (cl_create (LVGs cluster) (newLvg name nodeName [bdRequirement bds] []))) (\<lambda>r. case r of
         Inl err \<Rightarrow> retIO (Some err)
       | Inr _ \<Rightarrow> retIO None)"

definition CreateLvgWithCheck :: "'x world_scheme KCluster \<Rightarrow> string \<Rightarrow> string \<Rightarrow> string list \<Rightarrow>
    ('x world_scheme, go_error option) io"
where
  "CreateLvgWithCheck cluster name nodeName bds =
     bindIO (CreateLVG cluster name nodeName bds) (\<lambda>r. case r of
         Some err \<Rightarrow> retIO (Some err)
       | None \<Rightarrow> WaitLVGsReady cluster [noLvgFilter\<lparr>lvgf_Name := Str name\<rparr>])"

text \<open>The values of the \<^verbatim>\<open>ext\<close> map; a value of another type fails its type assertion.\<close>

datatype ext_value = ExtStrings "string list" | ExtThinPools "LvgThinPoolSpec list" | ExtOther

definition CreateLvgExt :: "'w KCluster \<Rightarrow> string \<Rightarrow> string \<Rightarrow> (string \<rightharpoonup> ext_value) \<Rightarrow>
    ('w, go_error option) io"
where
  "CreateLvgExt cluster name nodeName ext =
     bindIO (case ext ''bds'' of
         None \<Rightarrow> retIO []
       | Some (ExtStrings bds) \<Rightarrow> retIO [bdRequirement bds]
       | Some _ \<Rightarrow> panicIO ''interface conversion: not []string'') (\<lambda>selector.
     bindIO (case ext ''thinpools'' of
         None \<Rightarrow> retIO []
       | Some (ExtThinPools tp) \<Rightarrow> retIO tp
       | Some _ \<Rightarrow> panicIO ''interface conversion: not []LVMVolumeGroupThinPoolSpec'') (\<lambda>thinPools.
     bindIO (callIO (cl_create (LVGs cluster) (newLvg name nodeName selector thinPools))) (\<lambda>r. case r of
         Inl err \<Rightarrow> retIO (Some err)
       | Inr _ \<Rightarrow> retIO None)))"

definition UpdateLVG :: "'w KCluster \<Rightarrow> LVMVolumeGroup \<Rightarrow> ('w, go_error option) io" where
  "UpdateLVG cluster lvg =
     bindIO (callIO (cl_update (LVGs cluster) lvg)) (\<lambda>r. case r of
         Inl err \<Rightarrow> retIO (Some err)
       | Inr _ \<Rightarrow> retIO None)"

text \<open>The error of the listing is dropped: a failed listing leaves nothing to delete.\<close>

definition DeleteLVG :: "'w KCluster \<Rightarrow> LvgFilter list \<Rightarrow> ('w, go_error option) io" where
  "DeleteLVG cluster filters =
     bindIO (ListLVG cluster filters) (\<lambda>r.
       forErr (\<lambda>lvg. callIO (cl_delete (LVGs cluster) lvg))
         (case r of Inl _ \<Rightarrow> [] | Inr lvgs \<Rightarrow> lvgs))"

definition DeleteLvgAndWait :: "'x world_scheme KCluster \<Rightarrow> LvgFilter list \<Rightarrow>
    ('x world_scheme, go_error option) io"
where
  "DeleteLvgAndWait cluster filters =
     bindIO (DeleteLVG cluster filters) (\<lambda>r. case r of
         Some err \<Rightarrow> retIO (Some err)
       | None \<Rightarrow> RetrySec 15 (none_left (ListLVG cluster filters) (\<lambda>lvgs.
           PlainError (''LVGs not deleted: '' @ fmt_d (int (length lvgs))))))"

text \<open>A default volume group on every node. The size argument is not used.\<close>

definition DefaultLVMVolumeGroupNamePrefix :: string where
  "DefaultLVMVolumeGroupNamePrefix = ''default-lvg-''"

fun ensureLvgs :: "'x world_scheme KCluster \<Rightarrow> LVMVolumeGroup list \<Rightarrow> Node list \<Rightarrow>
    ('x world_scheme, go_error option) io"
where
  "ensureLvgs cluster readyLVGs [] = retIO None"
| "ensureLvgs cluster readyLVGs (node # nodes) =
     (let nodeName = obj_Name node;
          lvgName = DefaultLVMVolumeGroupNamePrefix @ nodeName
      in if \<not> list_ex (\<lambda>lvg. obj_Name lvg = lvgName) readyLVGs
         then bindIO (CreateLvgWithCheck cluster lvgName nodeName []) (\<lambda>r. case r of
             Some err \<Rightarrow> retIO (Some (WrapError (''failed to create LVM Volume Group '' @ lvgName @
               '' for node '' @ nodeName @ '': '') err []))
           | None \<Rightarrow> ensureLvgs cluster readyLVGs nodes)
         else ensureLvgs cluster readyLVGs nodes)"

definition EnsureEveryNodeHasLVMVolumeGroup :: "'x world_scheme KCluster \<Rightarrow> string \<Rightarrow>
    ('x world_scheme, go_error option) io"
where
  "EnsureEveryNodeHasLVMVolumeGroup cluster lvmVolumeGroupSize =
     bindIO (ListLVG cluster [noLvgFilter\<lparr>lvgf_Phase := Str ''Ready''\<rparr>]) (\<lambda>r. case r of
         Inl err \<Rightarrow> retIO (Some (WrapError ''failed to list LVM Volume Groups: '' err []))
       | Inr readyLVGs \<Rightarrow> bindIO (ListNode cluster []) (\<lambda>n. case n of
             Inl err \<Rightarrow> retIO (Some (WrapError ''failed to list nodes: '' err []))
           | Inr nodes \<Rightarrow> ensureLvgs cluster readyLVGs nodes))"


section \<open>Storage classes\<close>

definition localThickStorageClass :: "string \<Rightarrow> StorageClass" where
  "localThickStorageClass name =
     \<lparr>metadata = newMeta name ''default'',
      sc_Provisioner = ''local.csi.storage.deckhouse.io'',
      sc_Parameters =
        [''local.csi.storage.deckhouse.io/lvm-type'' \<mapsto> ''Thick'',
         ''local.csi.storage.deckhouse.io/volume-binding-mode'' \<mapsto> ''Immediate'',
         ''local.csi.storage.deckhouse.io/lvm-volume-groups'' \<mapsto>
           ''- name: vg-w1'' @ [char_of (10 :: nat)] @ ''- name: vg-w2''],
      sc_ReclaimPolicy = Some ''Delete'',
      sc_AllowVolumeExpansion = Some True,
      sc_VolumeBindingMode = Some ''Immediate''\<rparr>"

definition CreateLocalThickStorageClass :: "'w KCluster \<Rightarrow> string \<Rightarrow> ('w, go_error + StorageClass) io" where
  "CreateLocalThickStorageClass cluster name =
     callIO (cl_create (SCs cluster) (localThickStorageClass name))"

text \<open>The pointer result is an option: the code returns a nil storage class and a nil error.\<close>

definition CreateDefaultStorageClass :: "'x world_scheme KCluster \<Rightarrow> string \<Rightarrow>
    ('x world_scheme, go_error + StorageClass option) io"
where
  "CreateDefaultStorageClass cluster name =
     bindIO (EnsureSDSReplicatedVolumeModuleEnabled cluster True) (\<lambda>r. case r of
         Some err \<Rightarrow> retIO (Inl (WrapError ''failed to ensure SDS Replicated Volume module enabled: '' err []))
       | None \<Rightarrow> bindIO (WaitUntilSDSReplicatedVolumeModuleReady cluster) (\<lambda>r. case r of
             Some err \<Rightarrow> retIO (Inl (WrapError
               ''failed to wait until SDS Replicated Volume module is ready: '' err []))
           | None \<Rightarrow> bindIO (EnsureEveryNodeHasLVMVolumeGroup cluster ''10Gi'') (\<lambda>r. case r of
                 Some err \<Rightarrow> retIO (Inl (WrapError
                   ''failed to ensure every node has LVM Volume Group: '' err []))
               | None \<Rightarrow> retIO (Inr None))))"

definition EnsureStorageClass :: "'x world_scheme KCluster \<Rightarrow> string \<Rightarrow>
    ('x world_scheme, go_error + StorageClass option) io"
where
  "EnsureStorageClass cluster storageClassName =
     bindIO (callIO (cl_get (SCs cluster) [] storageClassName)) (\<lambda>r. case r of
         Inr storageClass \<Rightarrow> retIO (Inr (Some storageClass))
       | Inl err \<Rightarrow>
           if \<not> IsNotFound err then retIO (Inl err)
           else bindIO (CreateDefaultStorageClass cluster storageClassName) (\<lambda>c. case c of
               Inl e \<Rightarrow> retIO (Inl (WrapError
                 (''failed to create StorageClass '' @ storageClassName @ '': '') e []))
             | Inr storageClass \<Rightarrow> retIO (Inr storageClass)))"


section \<open>Persistent volume claims\<close>

definition ListPVC :: "'w KCluster \<Rightarrow> string \<Rightarrow> ('w, go_error + PersistentVolumeClaim list) io" where
  "ListPVC cluster nsName = callIO (cl_list (PVCs cluster) nsName)"

definition zeroPVC :: PersistentVolumeClaim where
  "zeroPVC = \<lparr>metadata = newMeta [] [], pvc_StorageClassName = None, pvc_AccessModes = [],
     pvc_Requests = Map.empty, pvc_VolumeMode = None, pvc_Phase = []\<rparr>"

definition newPVC :: "string \<Rightarrow> string \<Rightarrow> string \<Rightarrow> int \<Rightarrow> PersistentVolumeClaim" where
  "newPVC name ns scName sizeStorage =
     \<lparr>metadata = newMeta name ns, pvc_StorageClassName = Some scName,
      pvc_AccessModes = [''ReadWriteOnce''], pvc_Requests = [''storage'' \<mapsto> sizeStorage],
      pvc_VolumeMode = Some ''Filesystem'', pvc_Phase = []\<rparr>"

definition CreatePVCInTestNS :: "'x world_scheme KCluster \<Rightarrow> string \<Rightarrow> string \<Rightarrow> string \<Rightarrow> string \<Rightarrow>
    ('x world_scheme, go_error + PersistentVolumeClaim) io"
where
  "CreatePVCInTestNS cluster TestNS name scName sz =
     bindIO (EnsureStorageClass cluster scName) (\<lambda>r. case r of
         Inl err \<Rightarrow> retIO (Inl err)
       | Inr _ \<Rightarrow> (case parse_quantity cluster sz of
             Inl err \<Rightarrow> retIO (Inl err)
           | Inr sizeStorage \<Rightarrow>
               callIO (cl_create (PVCs cluster) (newPVC name TestNS scName sizeStorage))))"

definition pvcWaitInterval :: int where
  "pvcWaitInterval = 1"

definition pvcWaitIterationCount :: nat where
  "pvcWaitIterationCount = 20"

text \<open>
  The polls of \<^verbatim>\<open>WaitPVCStatus\<close>, \<open>n\<close> of them left. A failed get leaves the claim as the last
  successful one filled it in, so the claim is part of the loop's state.
\<close>

fun pvc_polls :: "nat \<Rightarrow> 'x world_scheme KCluster \<Rightarrow> string \<Rightarrow> string \<Rightarrow> PersistentVolumeClaim \<Rightarrow>
    ('x world_scheme, string \<times> go_error option) io"
where
  "pvc_polls 0 cluster TestNS name pvc =
     retIO (pvc_Phase pvc, Some (PlainError (''the waiting time '' @
       fmt_d (pvcWaitInterval * int pvcWaitIterationCount) @
       '' or the pvc to be ready has expired'')))"
| "pvc_polls (Suc n) cluster TestNS name pvc =
     bindIO (callIO (cl_get (PVCs cluster) TestNS name)) (\<lambda>r.
       let pvc' = (case r of Inl _ \<Rightarrow> pvc | Inr p \<Rightarrow> p) in
       if pvc_Phase pvc' = ''Bound'' then retIO (pvc_Phase pvc', None)
       else if length (pvc_Phase pvc') = 0 then retIO (''Deleted'', None)
       else bindIO (callIO (\<lambda>w. ((), sleep (pvcWaitInterval * second) w)))
         (\<lambda>_. pvc_polls n cluster TestNS name pvc'))"

definition WaitPVCStatus :: "'x world_scheme KCluster \<Rightarrow> string \<Rightarrow> string \<Rightarrow>
    ('x world_scheme, string \<times> go_error option) io"
where
  "WaitPVCStatus cluster TestNS name = pvc_polls pvcWaitIterationCount cluster TestNS name zeroPVC"

definition DeletePVC :: "'w KCluster \<Rightarrow> string \<Rightarrow> string \<Rightarrow> ('w, go_error option) io" where
  "DeletePVC cluster TestNS name =
     callIO (cl_delete (PVCs cluster) (zeroPVC\<lparr>metadata := newMeta name TestNS\<rparr>))"

definition UpdatePVC :: "'w KCluster \<Rightarrow> PersistentVolumeClaim \<Rightarrow> ('w, go_error option) io" where
  "UpdatePVC cluster pvc =
     bindIO (callIO (cl_update (PVCs cluster) pvc)) (\<lambda>r. case r of
         Inl err \<Rightarrow> retIO (Some err)
       | Inr _ \<Rightarrow> retIO None)"


section \<open>Polling a claim\<close>

lemma pvc_polls_ends:
  assumes get: "\<And>v r v'. cl_get (PVCs cluster) ns name v = (r, v') \<Longrightarrow> now v' \<le> now v + d"
    and d0: "0 \<le> d"
  shows "n > 0 \<or> pvc_Phase pvc \<noteq> [] \<and> pvc_Phase pvc \<noteq> ''Bound'' \<Longrightarrow>
    \<exists>s e w'. pvc_polls n cluster ns name pvc w = Some (Ret (s, e), w') \<and>
      now w' \<le> now w + int n * (d + second) \<and>
      (e = None \<and> (s = ''Bound'' \<or> s = ''Deleted'') \<or> e \<noteq> None \<and> s \<noteq> [] \<and> s \<noteq> ''Bound'')"
proof (induction n arbitrary: pvc w)
  case (Suc n)
  obtain r w1 where g: "cl_get (PVCs cluster) ns name w = (r, w1)"
    by (cases "cl_get (PVCs cluster) ns name w")
  define p where "p = (case r of Inl _ \<Rightarrow> pvc | Inr p \<Rightarrow> p)"
  have d: "now w1 \<le> now w + d" using get [OF g] .
  have q: "0 \<le> int n * (d + second)" using d0 by (simp add: second_def)
  have step: "int (Suc n) * (d + second) = int n * (d + second) + (d + second)"
    by (simp add: algebra_simps)
  show ?case
  proof (cases "pvc_Phase p = ''Bound'' \<or> pvc_Phase p = []")
    case True
    then have "\<exists>s. pvc_polls (Suc n) cluster ns name pvc w = Some (Ret (s, None), w1) \<and>
        (s = ''Bound'' \<or> s = ''Deleted'')"
      using g by (auto simp: bindIO_call io_simps p_def [symmetric] Let_def)
    moreover have "now w1 \<le> now w + int (Suc n) * (d + second)"
      unfolding step using d q by (simp add: second_def)
    ultimately show ?thesis by blast
  next
    case False
    let ?w = "sleep (pvcWaitInterval * second) w1"
    have eq: "pvc_polls (Suc n) cluster ns name pvc w = pvc_polls n cluster ns name p ?w"
      using g False by (auto simp: bindIO_call io_simps p_def [symmetric] Let_def)
    obtain s e w' where IH: "pvc_polls n cluster ns name p ?w = Some (Ret (s, e), w')"
      "now w' \<le> now ?w + int n * (d + second)"
      "e = None \<and> (s = ''Bound'' \<or> s = ''Deleted'') \<or> e \<noteq> None \<and> s \<noteq> [] \<and> s \<noteq> ''Bound''"
      using Suc.IH [of p ?w] False by blast
    moreover have "now w' \<le> now w + int (Suc n) * (d + second)"
      unfolding step using IH(2) d by (simp add: sleep_def pvcWaitInterval_def second_def)
    ultimately show ?thesis unfolding eq by blast
  qed
qed (simp add: io_simps)

lemma ensureLvgs_covers:
  assumes "ensureLvgs cluster ready nodes w = Some (Ret None, w')" and "node \<in> set nodes"
  shows "(\<exists>g \<in> set ready. obj_Name g = DefaultLVMVolumeGroupNamePrefix @ obj_Name node) \<or>
    (\<exists>w0 w1. CreateLvgWithCheck cluster (DefaultLVMVolumeGroupNamePrefix @ obj_Name node)
      (obj_Name node) [] w0 = Some (Ret None, w1))"
  using assms
proof (induction nodes arbitrary: w)
  case (Cons n nodes)
  then show ?case
    by (auto simp: Let_def bindIO_Ret_iff io_simps list_ex_iff split: if_splits option.splits)
qed simp


section \<open>Properties\<close>

text \<open>
  C24. When \<^verbatim>\<open>WaitLVGsReady\<close> has no error, its last two listings show it: in the first of them
  every volume group that meets the filters is in the phase \<^verbatim>\<open>Ready\<close>, and in the second, which
  the result is decided on, every one of them has a node in its status.
\<close>

theorem WaitLVGsReady_sound:
  assumes "WaitLVGsReady cluster filters w = Some (Ret None, w')"
  shows "\<exists>w0 xs w1 ys. cl_list (LVGs cluster) [] w0 = (Inr xs, w1) \<and>
    cl_list (LVGs cluster) [] w1 = (Inr ys, w') \<and>
    list_all (\<lambda>g. lvg_Phase g = ''Ready'')
      (filter (\<lambda>g. list_all (\<lambda>f. LvgFilter_keep (regexp_match cluster) f g) filters) xs) \<and>
    list_all (\<lambda>g. lvg_Nodes g \<noteq> [])
      (filter (\<lambda>g. list_all (\<lambda>f. LvgFilter_keep (regexp_match cluster) f g) filters) ys)"
proof -
  let ?nr = "noLvgFilter\<lparr>lvgf_Phase := Str ''!Ready''\<rparr>"
  obtain w1 where wait: "RetrySec 35 (none_left (ListLVG cluster (filters @ [?nr])) (\<lambda>lvgs.
        PlainError (''LVGs not Ready: '' @ fmt_d (int (length lvgs)) @ '' ('' @
          obj_Name (hd lvgs) @ '', ...)''))) w = Some (Ret None, w1)"
    and rest: "bindIO (ListLVG cluster filters) (\<lambda>l. case l of
        Inl err \<Rightarrow> retIO (Some err)
      | Inr lvgs \<Rightarrow> (case firstWithoutNodes lvgs of
            Some lvg \<Rightarrow> retIO (Some (PlainError (''no nodes in LVG '' @ obj_Name lvg @ '' status'')))
          | None \<Rightarrow> retIO None)) w1 = Some (Ret None, w')"
    using assms unfolding WaitLVGsReady_def Let_def
    by (rule bindIO_RetE) (auto simp: io_simps split: option.splits)
  obtain w0 where "ListLVG cluster (filters @ [?nr]) w0 = Some (Ret (Inr []), w1)"
    using retry.wait_none_left [OF wait] by blast
  then obtain xs where xs: "cl_list (LVGs cluster) [] w0 = (Inr xs, w1)"
    and none: "\<forall>x \<in> set xs. \<exists>f \<in> set (filters @ [?nr]). \<not> LvgFilter_keep (regexp_match cluster) f x"
    unfolding ListLVG_def lvg_filter.listed_none by blast
  have "LvgFilter_keep rx ?nr g \<longleftrightarrow> lvg_Phase g \<noteq> ''Ready''" for rx g
    by (simp add: LvgFilter_keep_def noLvgFilter_def CheckStr_parse parse_cond.simps)
  with none have ready: "list_all (\<lambda>g. lvg_Phase g = ''Ready'')
      (filter (\<lambda>g. list_all (\<lambda>f. LvgFilter_keep (regexp_match cluster) f g) filters) xs)"
    by (fastforce simp: list_all_iff)
  have first: "firstWithoutNodes gs = None \<longleftrightarrow> list_all (\<lambda>g. lvg_Nodes g \<noteq> []) gs" for gs
    by (induction gs) auto
  have "\<exists>ys. cl_list (LVGs cluster) [] w1 = (Inr ys, w') \<and> list_all (\<lambda>g. lvg_Nodes g \<noteq> [])
      (filter (\<lambda>g. list_all (\<lambda>f. LvgFilter_keep (regexp_match cluster) f g) filters) ys)"
    using rest
    by (cases "cl_list (LVGs cluster) [] w1")
      (auto simp: ListLVG_def bindIO_run(1) [OF listFiltered_run] io_simps first
        lvg_filter.applyAll_eq list_all_iff split: sum.splits option.splits)
  with xs ready show ?thesis by blast
qed

definition ready_lvg :: LVMVolumeGroup where
  "ready_lvg = (newLvg ''e2e-lvg-1'' ''w1'' [] [])
     \<lparr>lvg_Phase := ''Ready'', lvg_Nodes := [\<lparr>lvgn_Name = ''w1'', lvgn_Devices = []\<rparr>]\<rparr>"

definition lvg_cluster :: "world KCluster" where
  "lvg_cluster = frozen_cluster\<lparr>LVGs := frozen_client [ready_lvg]\<rparr>"

lemma lvg_cluster_ready:
  "WaitLVGsReady lvg_cluster [noLvgFilter\<lparr>lvgf_Name := Str ''e2e-lvg-1''\<rparr>] clock0 =
     Some (Ret None, clock0)"
proof -
  have "RetrySec 35 (none_left (ListLVG lvg_cluster
      ([noLvgFilter\<lparr>lvgf_Name := Str ''e2e-lvg-1''\<rparr>] @ [noLvgFilter\<lparr>lvgf_Phase := Str ''!Ready''\<rparr>])) c) clock0 =
      Some (Ret None, clock0)" for c
    unfolding RetrySec_def
    by (rule retry_n_loop [where n = 1])
      (simp add: none_left_def ListLVG_def bindIO_run(1) [OF listFiltered_run] io_simps lvg_cluster_def
        ready_lvg_def newLvg_def noLvgFilter_def CheckStr_def)
  then show ?thesis
    by (simp add: WaitLVGsReady_def Let_def bindIO_run(1))
      (simp add: ListLVG_def bindIO_run(1) [OF listFiltered_run] io_simps lvg_cluster_def
        ready_lvg_def newLvg_def noLvgFilter_def CheckStr_def)
qed

lemma WaitLVGsReady_sound_witness:
  "\<exists>w0 xs w1 ys. cl_list (LVGs lvg_cluster) [] w0 = (Inr xs, w1) \<and>
    cl_list (LVGs lvg_cluster) [] w1 = (Inr ys, clock0) \<and>
    list_all (\<lambda>g. lvg_Phase g = ''Ready'') (filter (\<lambda>g. list_all (\<lambda>f. LvgFilter_keep
      (regexp_match lvg_cluster) f g) [noLvgFilter\<lparr>lvgf_Name := Str ''e2e-lvg-1''\<rparr>]) xs) \<and>
    list_all (\<lambda>g. lvg_Nodes g \<noteq> []) (filter (\<lambda>g. list_all (\<lambda>f. LvgFilter_keep
      (regexp_match lvg_cluster) f g) [noLvgFilter\<lparr>lvgf_Name := Str ''e2e-lvg-1''\<rparr>]) ys)"
  by (rule WaitLVGsReady_sound [OF lvg_cluster_ready])

text \<open>
  \<^verbatim>\<open>EnsureEveryNodeHasLVMVolumeGroup\<close> covers every node: without an error, each listed node
  has a volume group of its default name, either one that was listed as ready at the start or
  one that \<^verbatim>\<open>CreateLvgWithCheck\<close> created and waited for.
\<close>

theorem EnsureEveryNode_covers:
  assumes "EnsureEveryNodeHasLVMVolumeGroup cluster lvgSize w = Some (Ret None, w')"
  shows "\<exists>lvgs w1 nodes w2. cl_list (LVGs cluster) [] w = (Inr lvgs, w1) \<and>
    cl_list (Nodes cluster) [] w1 = (Inr nodes, w2) \<and>
    list_all (\<lambda>node.
      list_ex (\<lambda>g. obj_Name g = ''default-lvg-'' @ obj_Name node \<and> lvg_Phase g = ''Ready'') lvgs \<or>
      (\<exists>v v'. CreateLvgWithCheck cluster (''default-lvg-'' @ obj_Name node) (obj_Name node) [] v =
         Some (Ret None, v'))) nodes"
proof -
  let ?f = "[noLvgFilter\<lparr>lvgf_Phase := Str ''Ready''\<rparr>]"
  obtain l w1 where l: "cl_list (LVGs cluster) [] w = (l, w1)" by (cases "cl_list (LVGs cluster) [] w")
  obtain n w2 where n: "cl_list (Nodes cluster) [] w1 = (n, w2)" by (cases "cl_list (Nodes cluster) [] w1")
  obtain lvgs nodes where ln: "l = Inr lvgs" "n = Inr nodes"
    and run: "ensureLvgs cluster (applyAll (LvgFilter_Apply (regexp_match cluster)) ?f lvgs) nodes w2 =
      Some (Ret None, w')"
    using assms l n
    by (auto simp: EnsureEveryNodeHasLVMVolumeGroup_def ListLVG_def ListNode_def
        bindIO_run(1) [OF listFiltered_run] io_simps split: sum.splits)
  have "g \<in> set (applyAll (LvgFilter_Apply (regexp_match cluster)) ?f lvgs) \<longleftrightarrow>
      g \<in> set lvgs \<and> lvg_Phase g = ''Ready''" for g
    by (auto simp: lvg_filter.applyAll_iff LvgFilter_keep_def noLvgFilter_def CheckStr_parse
        parse_cond.simps simp del: applyAll.simps)
  with ensureLvgs_covers [OF run] l n ln show ?thesis
    by (fastforce simp: list_all_iff list_ex_iff DefaultLVMVolumeGroupNamePrefix_def)
qed

lemma EnsureEveryNode_covers_witness:
  "\<exists>lvgs w1 nodes w2. cl_list (LVGs frozen_cluster) [] clock0 = (Inr lvgs, w1) \<and>
    cl_list (Nodes (frozen_cluster :: world KCluster)) [] w1 = (Inr nodes, w2) \<and>
    list_all (\<lambda>node.
      list_ex (\<lambda>g. obj_Name g = ''default-lvg-'' @ obj_Name node \<and> lvg_Phase g = ''Ready'') lvgs \<or>
      (\<exists>v v'. CreateLvgWithCheck (frozen_cluster :: world KCluster) (''default-lvg-'' @ obj_Name node)
         (obj_Name node) [] v = Some (Ret None, v'))) nodes"
  by (rule EnsureEveryNode_covers [of _ "''10Gi''"])
    (simp add: EnsureEveryNodeHasLVMVolumeGroup_def ListLVG_def ListNode_def
      bindIO_run(1) [OF listFiltered_run] io_simps)

text \<open>
  \<^verbatim>\<open>EnsureStorageClass\<close> never returns a storage class it had to create: a result without an
  error is either the class the first get found, or, when that get said it was not found, the
  nil pointer.
\<close>

theorem EnsureStorageClass_result:
  assumes "EnsureStorageClass cluster name w = Some (Ret (Inr sc), w')"
  shows "(\<exists>s. cl_get (SCs cluster) [] name w = (Inr s, w') \<and> sc = Some s) \<or>
    (\<exists>e. fst (cl_get (SCs cluster) [] name w) = Inl e \<and> IsNotFound e \<and> sc = None)"
proof -
  have none: "c = None" if "CreateDefaultStorageClass cluster name v = Some (Ret (Inr c), v')" for v c v'
    using that
    by (auto simp: CreateDefaultStorageClass_def bindIO_Ret_iff io_simps split: option.splits)
  obtain g w1 where g: "cl_get (SCs cluster) [] name w = (g, w1)" by (cases "cl_get (SCs cluster) [] name w")
  show ?thesis
  proof (cases g)
    case (Inl err)
    then have "IsNotFound err \<and> CreateDefaultStorageClass cluster name w1 = Some (Ret (Inr sc), w')"
      using assms g
      by (auto simp: EnsureStorageClass_def bindIO_call bindIO_Ret_iff io_simps
          split: if_splits sum.split_asm)
    with g Inl none show ?thesis by auto
  qed (use assms g in \<open>auto simp: EnsureStorageClass_def bindIO_call io_simps\<close>)
qed

definition thick_class :: StorageClass where
  "thick_class = localThickStorageClass ''thick''"

lemma EnsureStorageClass_result_witness:
  "(\<exists>s. cl_get (SCs (frozen_cluster\<lparr>SCs := frozen_client [thick_class]\<rparr>)) [] ''thick'' clock0 = (Inr s, clock0) \<and>
     Some thick_class = Some s) \<or>
   (\<exists>e. fst (cl_get (SCs (frozen_cluster\<lparr>SCs := frozen_client [thick_class]\<rparr>)) [] ''thick'' clock0) = Inl e \<and>
     IsNotFound e \<and> Some thick_class = None)"
  by (rule EnsureStorageClass_result)
    (simp add: EnsureStorageClass_def bindIO_call io_simps thick_class_def localThickStorageClass_def)

text \<open>
  C25. \<^verbatim>\<open>WaitPVCStatus\<close> always returns, after at most 20 polls: with gets that take at most \<open>d\<close>
  it takes at most 20 times \<open>d\<close> and a second. It ends without an error only as bound or as
  deleted, and with the time-out error only in some other phase.
\<close>

theorem WaitPVCStatus_returns:
  assumes "\<And>v r v'. cl_get (PVCs cluster) ns name v = (r, v') \<Longrightarrow> now v' \<le> now v + d" and "0 \<le> d"
  shows "\<exists>s e w'. WaitPVCStatus cluster ns name w = Some (Ret (s, e), w') \<and>
    now w' \<le> now w + 20 * (d + second) \<and>
    (e = None \<and> (s = ''Bound'' \<or> s = ''Deleted'') \<or> e \<noteq> None \<and> s \<noteq> [] \<and> s \<noteq> ''Bound'')"
  using pvc_polls_ends [OF assms, where n = pvcWaitIterationCount and pvc = zeroPVC and w = w]
  by (simp add: WaitPVCStatus_def pvcWaitIterationCount_def)

definition pending_cluster :: "world KCluster" where
  "pending_cluster = frozen_cluster\<lparr>PVCs := frozen_client
     [(newPVC ''test-pvc'' ''e2e'' ''thick'' 1)\<lparr>pvc_Phase := ''Pending''\<rparr>]\<rparr>"

lemma WaitPVCStatus_returns_witness:
  "\<exists>s e w'. WaitPVCStatus pending_cluster ''e2e'' ''test-pvc'' clock0 = Some (Ret (s, e), w') \<and>
    now w' \<le> now clock0 + 20 * (0 + second) \<and>
    (e = None \<and> (s = ''Bound'' \<or> s = ''Deleted'') \<or> e \<noteq> None \<and> s \<noteq> [] \<and> s \<noteq> ''Bound'')"
  by (rule WaitPVCStatus_returns) (auto simp: pending_cluster_def)

text \<open>
  A claim whose first get fails is reported as deleted, without an error, whatever the
  failure was: a refused connection reads like a missing claim, after one poll.
\<close>

theorem WaitPVCStatus_error_reads_deleted:
  assumes "cl_get (PVCs cluster) ns name w = (Inl err, w')"
  shows "WaitPVCStatus cluster ns name w = Some (Ret (''Deleted'', None), w')"
  using assms
  by (simp add: WaitPVCStatus_def pvcWaitIterationCount_def eval_nat_numeral bindIO_call zeroPVC_def io_simps)

lemma WaitPVCStatus_error_reads_deleted_witness:
  "WaitPVCStatus (frozen_cluster\<lparr>PVCs := (frozen_client [])
      \<lparr>cl_get := (\<lambda>ns name w. (Inl (PlainError ''connection refused''), w))\<rparr>\<rparr>) ''e2e'' ''test-pvc'' clock0 =
    Some (Ret (''Deleted'', None), clock0)"
  by (rule WaitPVCStatus_error_reads_deleted [where err = "PlainError ''connection refused''"]) simp

end
