(* ===== verification/Env.thy ===== *)
theory Env
  imports Filters
begin

text \<open>
  \<^verbatim>\<open>testkit_v2/util/env.go\<close>: the flags, the package variables they set, the table of cluster
  types and the table of images. Package variables that only \<^verbatim>\<open>envInit\<close> writes are the fields
  of the record \<open>Env\<close>; the definitions of the other theories take the ones they read as
  arguments.
\<close>

section \<open>Cluster types\<close>

record VmConfig =
  vmc_name :: string
  vmc_roles :: "string list"
  vmc_ip :: string
  vmc_cpu :: int
  vmc_ram :: int
  vmc_diskSize :: int
  vmc_image :: string

definition mkVm :: "string \<Rightarrow> string list \<Rightarrow> string \<Rightarrow> int \<Rightarrow> int \<Rightarrow> int \<Rightarrow> string \<Rightarrow> VmConfig" where
  "mkVm n roles ip cpu ram disk img = \<lparr>vmc_name = n, vmc_roles = roles, vmc_ip = ip,
     vmc_cpu = cpu, vmc_ram = ram, vmc_diskSize = disk, vmc_image = img\<rparr>"

text \<open>The keys of a Go map are distinct, so the maps of the table are association lists.\<close>

record clusterType =
  ct_NodeRequired :: "(string \<times> NodeFilter) list"
  ct_VmCluster :: "VmConfig list"

definition clusterTypes :: "(string \<times> clusterType) list" where
  "clusterTypes = [
   (''Ubuntu 22 mini'',
     \<lparr>ct_NodeRequired =
       [(''Ubu22'', noNodeFilter\<lparr>nf_Name := Str ''!%-master-%'', nf_Os := Str ''%Ubuntu 22.04%''\<rparr>)],
      ct_VmCluster =
       [mkVm ''vm1-ub22'' [''master''] [] 4 8 20 ''Ubuntu_22'',
        mkVm ''vm2-ub22'' [''setup'', ''worker''] [] 2 6 20 ''Ubuntu_22'',
        mkVm ''vm3-ub22'' [''worker''] [] 2 6 20 ''Ubuntu_22'']\<rparr>),
   (''Ubuntu 22 + Ubuntu 24 + Debian 11'',
     \<lparr>ct_NodeRequired =
       [(''Ubu22'', noNodeFilter\<lparr>nf_Name := Str ''!%-master-%'', nf_Os := Str ''%Ubuntu 22.04%''\<rparr>),
        (''Ubu24'', noNodeFilter\<lparr>nf_Name := Str ''!%-master-%'', nf_Os := Str ''%Ubuntu 24%'', nf_Kernel := AWhere (WhereLike [''5.15.0-122'', ''5.15.0-128'', ''5.15.0-127'', ''6.8.0-53'']), nf_Kubelet := AWhere (WhereLike [''v1.28.15''])\<rparr>),
        (''Deb11'', noNodeFilter\<lparr>nf_Name := Str ''!%-master-%'', nf_Os := AWhere (WhereLike [''Debian 11'', ''Debian GNU/Linux 11'']), nf_Kernel := AWhere (WhereLike [''5.10.0-33-cloud-amd64'', ''5.10.0-19-amd64''])\<rparr>)],
      ct_VmCluster =
       [mkVm ''vm1-ub22'' [''master''] [] 4 8 20 ''Ubuntu_22'',
        mkVm ''vm2-ub22'' [''setup'', ''worker''] [] 2 6 20 ''Ubuntu_22'',
        mkVm ''vm3-ub22'' [''worker''] [] 2 4 20 ''Ubuntu_22'',
        mkVm ''vm4-ub24'' [''worker''] [] 2 4 20 ''Ubuntu_24'',
        mkVm ''vm5-de11'' [''worker''] [] 2 4 20 ''Debian_11'']\<rparr>),
   (''Astra 1.7.3 flant'',
     \<lparr>ct_NodeRequired =
       [(''Astra'', noNodeFilter\<lparr>nf_Name := Str ''!%-master-%'', nf_Os := AWhere (WhereLike [''Astra Linux''])\<rparr>)],
      ct_VmCluster =
       [mkVm ''vm1-ub22'' [''master''] [] 4 8 20 ''Ubuntu_22'',
        mkVm ''vm2-ub22'' [''setup'', ''worker''] [] 2 6 20 ''Ubuntu_22'',
        mkVm ''vm3-as173'' [''worker''] [] 2 4 20 ''Astra_173_base'',
        mkVm ''vm4-as173'' [''worker''] [] 2 4 20 ''Astra_173_base'']\<rparr>),
   (''Astra 1.7.5 flant'',
     \<lparr>ct_NodeRequired =
       [(''Astra'', noNodeFilter\<lparr>nf_Name := Str ''!%-master-%'', nf_Os := AWhere (WhereLike [''Astra Linux''])\<rparr>)],
      ct_VmCluster =
       [mkVm ''vm1-ub22'' [''master''] [] 4 8 20 ''Ubuntu_22'',
        mkVm ''vm2-ub22'' [''setup'', ''worker''] [] 2 6 20 ''Ubuntu_22'',
        mkVm ''vm3-as175'' [''worker''] [] 2 4 20 ''Astra_175_flant'',
        mkVm ''vm4-as175'' [''worker''] [] 2 4 20 ''Astra_175_flant'']\<rparr>),
   (''Astra 1.8.1 flant'',
     \<lparr>ct_NodeRequired =
       [(''Astra'', noNodeFilter\<lparr>nf_Name := Str ''!%-master-%'', nf_Os := AWhere (WhereLike [''Astra Linux''])\<rparr>)],
      ct_VmCluster =
       [mkVm ''vm1-ub22'' [''master''] [] 4 8 20 ''Ubuntu_22'',
        mkVm ''vm2-as181'' [''setup'', ''worker''] [] 2 6 20 ''Astra_181_flant'',
        mkVm ''vm3-as181'' [''worker''] [] 2 4 20 ''Astra_181_flant'',
        mkVm ''vm4-as181'' [''worker''] [] 2 4 20 ''Astra_181_flant'']\<rparr>),
   (''RedOS 7.3 flant'',
     \<lparr>ct_NodeRequired =
       [(''Red7'', noNodeFilter\<lparr>nf_Name := Str ''!%-master-%'', nf_Os := AWhere (WhereLike [''RedOS 7.3'', ''RED OS MUROM (7.3''])\<rparr>)],
      ct_VmCluster =
       [mkVm ''vm1-red73'' [''master''] [] 4 8 20 ''RedOS_7_3_flant'',
        mkVm ''vm2-ub22'' [''setup'', ''worker''] [] 2 6 20 ''Ubuntu_22'',
        mkVm ''vm3-red73'' [''worker''] [] 2 4 20 ''RedOS_7_3_flant'',
        mkVm ''vm4-red73'' [''worker''] [] 2 4 20 ''RedOS_7_3_flant'']\<rparr>),
   (''RedOS 8 flant'',
     \<lparr>ct_NodeRequired =
       [(''Red8'', noNodeFilter\<lparr>nf_Name := Str ''!%-master-%'', nf_Os := AWhere (WhereLike [''RED OS 8'']), nf_Kernel := AWhere (WhereLike [''6.6.6-1.red80.x86_64''])\<rparr>)],
      ct_VmCluster =
       [mkVm ''vm1-red8'' [''master''] [] 4 8 20 ''RedOS_8_flant'',
        mkVm ''vm2-ub22'' [''setup'', ''worker''] [] 2 6 20 ''Ubuntu_22'',
        mkVm ''vm3-red8'' [''worker''] [] 2 4 20 ''RedOS_8_flant'',
        mkVm ''vm4-red8'' [''worker''] [] 2 4 20 ''RedOS_8_flant'']\<rparr>),
   (''Alt 10 flant'',
     \<lparr>ct_NodeRequired =
       [(''Alt10'', noNodeFilter\<lparr>nf_Name := Str ''!%-master-%'', nf_Os := AWhere (WhereLike [''Alt 10''])\<rparr>)],
      ct_VmCluster =
       [mkVm ''vm1-alt10'' [''master''] [] 4 8 30 ''Alt_10_flant'',
        mkVm ''vm2-ubu22'' [''setup'', ''worker''] [] 2 6 20 ''Ubuntu_22'',
        mkVm ''vm3-alt10'' [''worker''] [] 2 4 30 ''Alt_10_flant'',
        mkVm ''vm4-alt10'' [''worker''] [] 2 4 30 ''Alt_10_flant'']\<rparr>)]"

definition imageTable :: "(string \<times> string) list" where
  "imageTable = [
     (''Ubuntu_22'',
      ''https://cloud-images.ubuntu.com/jammy/current/jammy-server-cloudimg-amd64.img''),
     (''Ubuntu_24'',
      ''https://cloud-images.ubuntu.com/noble/current/noble-server-cloudimg-amd64.img''),
     (''Ubuntu_24_vmdk'',
      ''https://cloud-images.ubuntu.com/noble/current/noble-server-cloudimg-amd64.vmdk''),
     (''Ubuntu_24_old'',
      ''https://cloud-images.ubuntu.com/noble/20241128/noble-server-cloudimg-amd64.img''),
     (''Debian_11'',
      ''https://cloud.debian.org/images/cloud/bullseye/latest/debian-11-genericcloud-amd64.qcow2''),
     (''Debian_11_raw'',
      ''https://cloud.debian.org/images/cloud/bullseye/latest/debian-11-genericcloud-amd64.raw''),
     (''RedOS_7_3'',
      ''https://files.red-soft.ru/redos/7.3/x86_64/iso/redos-MUROM-7.3.4-20231220.0-Everything-x86_64-DVD1.iso''),
     (''RedOS_7_3_flant'',
      ''https://static.storage-e2e.virtlab.flant.com/media/redos733.qcow2''),
     (''RedOS_8_flant'',
      ''https://static.storage-e2e.virtlab.flant.com/media/redos8.qcow2''),
     (''Alt_10'',
      ''https://ftp.altlinux.ru/pub/distributions/ALTLinux/platform/images/cloud/x86_64/alt-p10-cloud-x86_64.qcow2''),
     (''Alt_10_Server'',
      ''https://ftp.altlinux.ru/pub/distributions/ALTLinux/platform/images/cloud/x86_64/alt-server-p10-cloud-x86_64.qcow2''),
     (''Alt_11'',
      ''https://ftp.altlinux.ru/pub/distributions/ALTLinux/images/p11/cloud/x86_64/alt-p11-cloud-x86_64.qcow2''),
     (''Alt_10_flant'',
      ''https://static.storage-e2e.virtlab.flant.com/media/altp10.qcow2''),
     (''Astra_173_base'',
      ''https://download.astralinux.ru/artifactory/mg-generic/alse/cloudinit/alse-1.7.3-base-cloudinit-mg14.0.0-amd64.qcow2''),
     (''Astra_173_max'',
      ''https://download.astralinux.ru/artifactory/mg-generic/alse/cloudinit/alse-1.7.3-max-cloudinit-mg14.0.0-amd64.qcow2''),
     (''Astra_1_7_Max'',
      ''https://download.astralinux.ru/artifactory/mg-generic/alse/cloudinit/alse-1.7-max-cloudinit-latest-amd64.qcow2''),
     (''Astra_181_Base'',
      ''https://download.astralinux.ru/artifactory/mg-generic/alse/cloud/alse-1.8.1-base-cloud-mg13.3.0-amd64.qcow2''),
     (''Astra_175_flant'',
      ''https://static.storage-e2e.virtlab.flant.com/media/alse175.qcow2''),
     (''Astra_181_flant'',
      ''https://static.storage-e2e.virtlab.flant.com/media/alse181.qcow2''),
     (''CentOS_9'',
      ''https://cloud.centos.org/centos/9-stream/x86_64/images/CentOS-Stream-GenericCloud-x86_64-9-latest.x86_64.qcow2''),
     (''CentOS_10'',
      ''https://cloud.centos.org/centos/10-stream/x86_64/images/CentOS-Stream-GenericCloud-x86_64-10-latest.x86_64.qcow2''),
     (''Alma_9_5'',
      ''https://repo.almalinux.org/almalinux/9/cloud/x86_64/images/AlmaLinux-9-GenericCloud-9.5-20241120.x86_64.qcow2''),
     (''Alpine_3_21'',
      ''https://dl-cdn.alpinelinux.org/alpine/v3.21/releases/cloud/generic_alpine-3.21.2-x86_64-bios-cloudinit-r0.qcow2''),
     (''Arch'',
      ''https://geo.mirror.pkgbuild.com/images/latest/Arch-Linux-x86_64-cloudimg.qcow2''),
     (''Fedora_41'',
      ''https://download.fedoraproject.org/pub/fedora/linux/releases/41/Cloud/x86_64/images/Fedora-Cloud-Base-Generic-41-1.4.x86_64.qcow2''),
     (''FreeBsd_14_2'',
      ''https://object-storage.public.mtl1.vexxhost.net/swift/v1/1dbafeefbd4f4c80864414a441e72dd2/bsd-cloud-image.org/images/freebsd/14.2/2024-12-08/ufs/freebsd-14.2-ufs-2024-12-08.qcow2''),
     (''NetBsd_10_1'',
      ''https://object-storage.public.mtl1.vexxhost.net/swift/v1/1dbafeefbd4f4c80864414a441e72dd2/bsd-cloud-image.org/images/netbsd/10.1/2025-02-15/ufs/netbsd-10.1-2025-02-15.qcow2''),
     (''OpenBsd_7_6'',
      ''https://github.com/hcartiaux/openbsd-cloud-image/releases/download/v7.6_2024-10-08-22-40/openbsd-min.qcow2''),
     (''DragonFlyBsd_6_4'',
      ''https://object-storage.public.mtl1.vexxhost.net/swift/v1/1dbafeefbd4f4c80864414a441e72dd2/bsd-cloud-image.org/images/dragonflybsd/6.4.0/2023-04-23/ufs/dragonflybsd-6.4.0-ufs-2023-04-23.qcow2''),
     (''FreeBsd_15'',
      ''https://download.freebsd.org/ftp/snapshots/ISO-IMAGES/15.0/FreeBSD-15.0-CURRENT-amd64-20250213-6156da866e7d-275409-disc1.iso''),
     (''Slackware_15'',
      ''https://mirrors.slackware.com/slackware/slackware-iso/slackware64-15.0-iso/slackware64-15.0-install-dvd.iso'')]"

definition Images :: "string \<rightharpoonup> string" where
  "Images = map_of imageTable"


section \<open>Flags and package variables\<close>

record Flags =
  nsReinitFlag :: string
  nsCleanupFlag :: string
  nsFlag :: string
  skipOptionalFlag :: bool
  standFlag :: string
  treeFlag :: bool
  notParallelFlag :: bool
  sshhostFlag :: string
  hypervisorkconfigFlag :: string
  sshkeyFlag :: string
  kconfigFlag :: string
  hvStorageClassFlag :: string
  nestedStorageClassFlag :: string
  keepStateFlag :: bool
  logFileFlag :: string
  configTplFlag :: string
  resourcesTplFlag :: string
  clusterTypeFlag :: string

record Env =
  TestNS :: string
  TestNSCleanUp :: string
  registryDockerCfg :: string
  SkipOptional :: bool
  TreeMode :: bool
  Parallel :: bool
  KeepState :: bool
  HypervisorKubeConfig :: string
  HvHost :: string
  HvSshUser :: string
  HvSshKey :: string
  HvStorageClass :: string
  NestedHost :: string
  NestedSshUser :: string
  NestedSshKey :: string
  NestedK8sPort :: string
  NestedClusterKubeConfig :: string
  NestedDefaultStorageClass :: string
  ConfigTplName :: string
  ResourcesTplName :: string
  NodeRequired :: "(string \<times> NodeFilter) list"
  VmCluster :: "VmConfig list"

definition DataPath :: string where "DataPath = ''../data''"
definition KubePath :: string where "KubePath = ''../../../sds-e2e-cfg''"
definition RemoteAppPath :: string where "RemoteAppPath = ''/home/user''"
definition PrivKeyName :: string where "PrivKeyName = ''id_rsa_test''"
definition PubKeyName :: string where "PubKeyName = ''id_rsa_test.pub''"
definition ConfigName :: string where "ConfigName = ''config.yml''"
definition ResourcesName :: string where "ResourcesName = ''resources.yml''"
definition nsCleanUpSeconds :: int where "nsCleanUpSeconds = 30 * 60"

text \<open>The variables as the package initialises them, at a start time of \<open>minute\<close> and \<open>second\<close>.\<close>

definition initialEnv :: "int \<Rightarrow> int \<Rightarrow> Env" where
  "initialEnv minute sec =
     \<lparr>TestNS = ''e2e-tmp-'' @ fmt_d minute @ fmt_d sec, TestNSCleanUp = [],
      registryDockerCfg = ''e30='', SkipOptional = False, TreeMode = False, Parallel = False,
      KeepState = False, HypervisorKubeConfig = [], HvHost = [], HvSshUser = [], HvSshKey = [],
      HvStorageClass = ''linstor-r1'', NestedHost = ''127.0.0.1'', NestedSshUser = ''user'',
      NestedSshKey = [], NestedK8sPort = ''6445'', NestedClusterKubeConfig = ''kube-nested.config'',
      NestedDefaultStorageClass = ''linstor-r1'', ConfigTplName = ''config.yml.tpl'',
      ResourcesTplName = ''resources.yml.tpl'', NodeRequired = [], VmCluster = []\<rparr>"


section \<open>envInit\<close>

text \<open>The steps of \<^verbatim>\<open>envInit\<close>, in its order.\<close>

definition env_namespace :: "Flags \<Rightarrow> Env \<Rightarrow> Env" where
  "env_namespace f g =
     (if nsReinitFlag f \<noteq> [] then g\<lparr>TestNS := nsReinitFlag f, TestNSCleanUp := ''reinit''\<rparr>
      else if nsCleanupFlag f \<noteq> [] then g\<lparr>TestNS := nsCleanupFlag f, TestNSCleanUp := ''delete''\<rparr>
      else if nsFlag f \<noteq> [] then g\<lparr>TestNS := nsFlag f\<rparr>
      else g\<lparr>TestNSCleanUp := ''free tmp''\<rparr>)"

definition env_license :: "string \<Rightarrow> Env \<Rightarrow> Env" where
  "env_license licenseKey g =
     (if licenseKey \<noteq> [] then
        (let registryAuthToken = base64Encode (''license-token:'' @ licenseKey)
         in g\<lparr>registryDockerCfg := base64Encode
              (''{\"auths\":{\"dev-registry.deckhouse.io\":{\"auth\":\"'' @ registryAuthToken @ ''\"}}}'')\<rparr>)
      else g)"

definition env_modes :: "Flags \<Rightarrow> Env \<Rightarrow> Env" where
  "env_modes f g =
     (let g1 = (if skipOptionalFlag f \<and> standFlag f \<noteq> ''stage'' \<and> standFlag f \<noteq> ''ci''
                then g\<lparr>SkipOptional := True\<rparr> else g);
          g2 = (if treeFlag f then g1\<lparr>TreeMode := True\<rparr> else g1)
      in if \<not> notParallelFlag f then g2\<lparr>TreeMode := True, Parallel := True\<rparr> else g2)"

definition env_hosts :: "Flags \<Rightarrow> Env \<Rightarrow> Env" where
  "env_hosts f g =
     (let sshList = split_on CHR ''@'' (sshhostFlag f) in
      if hypervisorkconfigFlag f \<noteq> [] then
        (let g1 = g\<lparr>HypervisorKubeConfig :=
               (if prefix ''/'' (hypervisorkconfigFlag f) then hypervisorkconfigFlag f
                else path_Join KubePath (hypervisorkconfigFlag f))\<rparr>;
             g2 = (if length sshList \<ge> 2
                   then g1\<lparr>HvHost := sshList ! 1, HvSshUser := sshList ! 0\<rparr>
                   else g1\<lparr>HvHost := sshList ! 0\<rparr>)
         in g2\<lparr>HvSshKey := sshkeyFlag f, NestedSshKey := path_Join KubePath PrivKeyName,
               NestedK8sPort := ''6443''\<rparr>)
      else
        (let g2 = (if length sshList \<ge> 2
                   then g\<lparr>NestedHost := sshList ! 1, NestedSshUser := sshList ! 0\<rparr>
                   else g\<lparr>NestedHost := sshList ! 0\<rparr>)
         in g2\<lparr>NestedSshKey := sshkeyFlag f\<rparr>))"

definition env_kconfig :: "Flags \<Rightarrow> Env \<Rightarrow> Env" where
  "env_kconfig f g =
     g\<lparr>NestedClusterKubeConfig :=
         (if prefix ''/'' (kconfigFlag f) then kconfigFlag f else path_Join KubePath (kconfigFlag f)),
       HvStorageClass := hvStorageClassFlag f,
       NestedDefaultStorageClass := nestedStorageClassFlag f,
       KeepState := keepStateFlag f\<rparr>"

text \<open>
  The two ways it ends the process: the log file cannot be opened (\<open>openLog\<close> is the result of
  \<^verbatim>\<open>os.OpenFile\<close>), or the cluster type is not in the table. \<open>Inl\<close> is the message of
  \<^verbatim>\<open>log.Fatalf\<close>.
\<close>

definition envInit :: "Flags \<Rightarrow> string \<Rightarrow> go_error option \<Rightarrow> Env \<Rightarrow> string + Env" where
  "envInit f licenseKey openLog g =
     (let g1 = env_kconfig f (env_hosts f (env_modes f (env_license licenseKey (env_namespace f g))))
      in if logFileFlag f \<noteq> [] \<and> openLog \<noteq> None
         then Inl (''error opening file: '' @ err_text (the openLog))
         else
           (let g2 = g1\<lparr>ConfigTplName := configTplFlag f, ResourcesTplName := resourcesTplFlag f\<rparr>
            in case map_of clusterTypes (clusterTypeFlag f) of
                 None \<Rightarrow> Inl (''invalid cluster type: '' @ clusterTypeFlag f)
               | Some ct \<Rightarrow> Inr (g2\<lparr>NodeRequired := ct_NodeRequired ct, VmCluster := ct_VmCluster ct\<rparr>)))"



section \<open>What each step leaves alone\<close>

lemma env_namespace_sets:
  "(TestNS (env_namespace f g), TestNSCleanUp (env_namespace f g)) =
     (if nsReinitFlag f \<noteq> [] then (nsReinitFlag f, ''reinit'')
      else if nsCleanupFlag f \<noteq> [] then (nsCleanupFlag f, ''delete'')
      else if nsFlag f \<noteq> [] then (nsFlag f, TestNSCleanUp g)
      else (TestNS g, ''free tmp''))"
  by (simp add: env_namespace_def)

lemma env_namespace_keeps [simp]:
  "HypervisorKubeConfig (env_namespace f g) = HypervisorKubeConfig g"
  "Parallel (env_namespace f g) = Parallel g"
  by (simp_all add: env_namespace_def)

lemma env_license_keeps [simp]:
  "TestNS (env_license k g) = TestNS g" "TestNSCleanUp (env_license k g) = TestNSCleanUp g"
  "HypervisorKubeConfig (env_license k g) = HypervisorKubeConfig g"
  "Parallel (env_license k g) = Parallel g"
  by (simp_all add: env_license_def Let_def)

lemma env_modes_keeps [simp]:
  "TestNS (env_modes f g) = TestNS g" "TestNSCleanUp (env_modes f g) = TestNSCleanUp g"
  "HypervisorKubeConfig (env_modes f g) = HypervisorKubeConfig g"
  by (simp_all add: env_modes_def Let_def)

lemma env_modes_parallel: "\<not> Parallel g \<Longrightarrow> Parallel (env_modes f g) \<Longrightarrow> TreeMode (env_modes f g)"
  by (simp add: env_modes_def Let_def split: if_splits)

lemma env_hosts_keeps [simp]:
  "TestNS (env_hosts f g) = TestNS g" "TestNSCleanUp (env_hosts f g) = TestNSCleanUp g"
  "Parallel (env_hosts f g) = Parallel g" "TreeMode (env_hosts f g) = TreeMode g"
  by (simp_all add: env_hosts_def Let_def)

lemma env_hosts_hypervisor:
  "HypervisorKubeConfig g = [] \<Longrightarrow>
     (HypervisorKubeConfig (env_hosts f g) = []) = (hypervisorkconfigFlag f = [])"
  using path_Join_nonempty [of KubePath] by (simp add: env_hosts_def Let_def KubePath_def)

lemma env_kconfig_keeps [simp]:
  "TestNS (env_kconfig f g) = TestNS g" "TestNSCleanUp (env_kconfig f g) = TestNSCleanUp g"
  "Parallel (env_kconfig f g) = Parallel g" "TreeMode (env_kconfig f g) = TreeMode g"
  "HypervisorKubeConfig (env_kconfig f g) = HypervisorKubeConfig g"
  by (simp_all add: env_kconfig_def)


section \<open>Properties\<close>

lemma envInit_goes_on:
  "(\<exists>g. envInit f key openLog g0 = Inr g) \<longleftrightarrow>
     (logFileFlag f = [] \<or> openLog = None) \<and> clusterTypeFlag f \<in> set (map fst clusterTypes)"
proof -
  have found: "(\<exists>ct. map_of tbl t = Some ct) = (t \<in> set (map fst tbl))"
    for tbl :: "(string \<times> clusterType) list" and t
    by (induction tbl) auto
  show ?thesis
    unfolding found [symmetric] by (auto simp: envInit_def Let_def split: option.splits)
qed

lemma envInit_sets:
  assumes "envInit f key openLog g0 = Inr g" and "g0 = initialEnv minute sec"
  shows "map_of clusterTypes (clusterTypeFlag f) =
        Some \<lparr>ct_NodeRequired = NodeRequired g, ct_VmCluster = VmCluster g\<rparr> \<and>
      (TestNS g, TestNSCleanUp g) =
        (if nsReinitFlag f \<noteq> [] then (nsReinitFlag f, ''reinit'')
         else if nsCleanupFlag f \<noteq> [] then (nsCleanupFlag f, ''delete'')
         else if nsFlag f \<noteq> [] then (nsFlag f, [])
         else (TestNS g0, ''free tmp'')) \<and>
      (HypervisorKubeConfig g = [] \<longleftrightarrow> hypervisorkconfigFlag f = []) \<and>
      \<not> (Parallel g \<and> \<not> TreeMode g)"
proof -
  have init: "TestNSCleanUp g0 = []" "HypervisorKubeConfig g0 = []" "\<not> Parallel g0"
    using assms(2) by (simp_all add: initialEnv_def)
  obtain ct where ct: "map_of clusterTypes (clusterTypeFlag f) = Some ct"
    and g: "g = env_kconfig f (env_hosts f (env_modes f (env_license key (env_namespace f g0))))
      \<lparr>ConfigTplName := configTplFlag f, ResourcesTplName := resourcesTplFlag f,
       NodeRequired := ct_NodeRequired ct, VmCluster := ct_VmCluster ct\<rparr>"
    using assms(1) by (auto simp: envInit_def Let_def split: if_splits option.splits)
  have "(TestNS g, TestNSCleanUp g) =
      (if nsReinitFlag f \<noteq> [] then (nsReinitFlag f, ''reinit'')
       else if nsCleanupFlag f \<noteq> [] then (nsCleanupFlag f, ''delete'')
       else if nsFlag f \<noteq> [] then (nsFlag f, [])
       else (TestNS g0, ''free tmp''))"
    using env_namespace_sets [of f g0] init(1) unfolding g by simp
  moreover have "HypervisorKubeConfig g = [] \<longleftrightarrow> hypervisorkconfigFlag f = []"
    unfolding g using init(2) by (simp add: env_hosts_hypervisor)
  moreover have "\<not> (Parallel g \<and> \<not> TreeMode g)"
    unfolding g using init(3) env_modes_parallel by auto
  ultimately show ?thesis using ct g by simp
qed

definition flags_mini :: Flags where
  "flags_mini = \<lparr>nsReinitFlag = [], nsCleanupFlag = [], nsFlag = [], skipOptionalFlag = False,
     standFlag = [], treeFlag = False, notParallelFlag = False, sshhostFlag = ''user@127.0.0.1'',
     hypervisorkconfigFlag = [], sshkeyFlag = [], kconfigFlag = ''kube-nested.config'',
     hvStorageClassFlag = ''linstor-r1'', nestedStorageClassFlag = ''linstor-r1'', keepStateFlag = False,
     logFileFlag = [], configTplFlag = ''config.yml.tpl'', resourcesTplFlag = ''resources.yml.tpl'',
     clusterTypeFlag = ''Ubuntu 22 mini''\<rparr>"

text \<open>
  What a start of the test kit sets up. \<^verbatim>\<open>envInit\<close> goes on if and only if the log file can
  be opened, where one is asked for, and the cluster type is in the table. Then the node
  filters and machines are those of the type; the namespace is the one to reinitialise, else
  the one to clean up, else the named one, else the temporary one, which alone is marked for
  the removal of its stale predecessors; the hypervisor is used exactly when its
  configuration is given; and a parallel run is always a tree run.
\<close>

theorem envInit_result:
  "case envInit f key openLog (initialEnv minute sec) of
     Inl msg \<Rightarrow>
       \<not> ((logFileFlag f = [] \<or> openLog = None) \<and> clusterTypeFlag f \<in> set (map fst clusterTypes))
   | Inr g \<Rightarrow>
       (logFileFlag f = [] \<or> openLog = None) \<and>
       map_of clusterTypes (clusterTypeFlag f) =
         Some \<lparr>ct_NodeRequired = NodeRequired g, ct_VmCluster = VmCluster g\<rparr> \<and>
       (TestNS g, TestNSCleanUp g) =
         (if nsReinitFlag f \<noteq> [] then (nsReinitFlag f, ''reinit'')
          else if nsCleanupFlag f \<noteq> [] then (nsCleanupFlag f, ''delete'')
          else if nsFlag f \<noteq> [] then (nsFlag f, [])
          else (TestNS (initialEnv minute sec), ''free tmp'')) \<and>
       (HypervisorKubeConfig g = [] \<longleftrightarrow> hypervisorkconfigFlag f = []) \<and>
       (TreeMode g \<or> Parallel g = False)"
  using envInit_goes_on [of f key openLog "initialEnv minute sec"]
    envInit_sets [OF _ refl, of f key openLog minute sec]
  by (cases "envInit f key openLog (initialEnv minute sec)") auto

end
