(* ===== verification/VM.thy ===== *)
theory VM
  imports Env Retry
begin

text \<open>
  \<^verbatim>\<open>testkit_v2/util/kube_vm.go\<close>: virtual machines, cluster images, address claims, virtual
  disks and the attachments of disks to machines.
\<close>

section \<open>Cluster images and addresses\<close>

definition ListClusterVirtualImage :: "'w KCluster \<Rightarrow> ('w, go_error + ClusterVirtualImage list) io" where
  "ListClusterVirtualImage cluster = callIO (cl_list (CVIs cluster) [])"

definition GetClusterVirtualImage :: "'w KCluster \<Rightarrow> string \<Rightarrow> ('w, go_error + ClusterVirtualImage) io" where
  "GetClusterVirtualImage cluster cvmiName =
     bindIO (ListClusterVirtualImage cluster) (\<lambda>r. case r of
         Inl err \<Rightarrow> retIO (Inl err)
       | Inr cvmiList \<Rightarrow> (case find (\<lambda>cvmi. cvmiName = obj_Name cvmi) cvmiList of
             Some cvmi \<Rightarrow> retIO (Inr cvmi)
           | None \<Rightarrow> retIO (Inl (PlainError ''NotFound''))))"

definition CreateClusterVirtualImage :: "'w KCluster \<Rightarrow> string \<Rightarrow> string \<Rightarrow>
    ('w, go_error + ClusterVirtualImage) io"
where
  "CreateClusterVirtualImage cluster name url =
     callIO (cl_create (CVIs cluster) \<lparr>metadata = newMeta name [], cvi_Type = ''HTTP'', cvi_URL = url\<rparr>)"

fun ipClaimLoop :: "string \<Rightarrow> VirtualMachineIPAddress list \<Rightarrow> VirtualMachineIPAddress list" where
  "ipClaimLoop search [] = []"
| "ipClaimLoop search (item # items) =
     (if search = [] \<or> search = obj_Name item then item # ipClaimLoop search items
      else ipClaimLoop search items)"

definition ListIPClaim :: "'w KCluster \<Rightarrow> string \<Rightarrow> string \<Rightarrow>
    ('w, go_error + VirtualMachineIPAddress list) io"
where
  "ListIPClaim cluster nsName vmIPClaimSearch =
     bindIO (callIO (cl_list (IPClaims cluster) nsName)) (\<lambda>r. case r of
         Inl err \<Rightarrow> retIO (Inl err)
       | Inr items \<Rightarrow> retIO (Inr (ipClaimLoop vmIPClaimSearch items)))"

definition CreateVirtualMachineIPAddress :: "'w KCluster \<Rightarrow> string \<Rightarrow> string \<Rightarrow> string \<Rightarrow>
    ('w, go_error + VirtualMachineIPAddress) io"
where
  "CreateVirtualMachineIPAddress cluster nsName name ip =
     callIO (cl_create (IPClaims cluster)
       \<lparr>metadata = newMeta name nsName, vmip_Type = ''Static'', vmip_StaticIP = ip\<rparr>)"


section \<open>Virtual disks\<close>

definition GetVD :: "'w KCluster \<Rightarrow> string \<Rightarrow> string \<Rightarrow> ('w, go_error + VirtualDisk) io" where
  "GetVD cluster nsName vdName = callIO (cl_get (VDs cluster) nsName vdName)"

definition ListVD :: "'w KCluster \<Rightarrow> VdFilter list \<Rightarrow> ('w, go_error + VirtualDisk list) io" where
  "ListVD cluster filters =
     listFiltered (cl_list (VDs cluster) []) (VdFilter_Apply (regexp_match cluster)) filters"

definition storageClassRef :: "string \<Rightarrow> string option" where
  "storageClassRef storageClass = (if storageClass \<noteq> [] then Some storageClass else None)"

definition newVD :: "string \<Rightarrow> string \<Rightarrow> string \<Rightarrow> int \<Rightarrow> string option \<Rightarrow> VirtualDisk" where
  "newVD nsName name storageClass sizeInGi source =
     \<lparr>metadata = newMeta name nsName,
      vd_Size = wrap64 (sizeInGi * 1024 * 1024 * 1024),
      vd_StorageClass = storageClassRef storageClass, vd_SourceImage = source, vd_Phase = []\<rparr>"

definition CreateVD :: "'w KCluster \<Rightarrow> string \<Rightarrow> string \<Rightarrow> string \<Rightarrow> int \<Rightarrow> ('w, go_error option) io" where
  "CreateVD cluster nsName name storageClass sizeInGi =
     bindIO (callIO (cl_create (VDs cluster) (newVD nsName name storageClass sizeInGi None))) (\<lambda>r. case r of
         Inl err \<Rightarrow> if \<not> IsAlreadyExists err then retIO (Some err) else retIO None
       | Inr _ \<Rightarrow> retIO None)"

definition UpdateVd :: "'w KCluster \<Rightarrow> VirtualDisk \<Rightarrow> ('w, go_error option) io" where
  "UpdateVd cluster vd =
     bindIO (callIO (cl_update (VDs cluster) vd)) (\<lambda>r. case r of
         Inl err \<Rightarrow> retIO (Some err)
       | Inr _ \<Rightarrow> retIO None)"

definition DeleteVD :: "'w KCluster \<Rightarrow> VdFilter list \<Rightarrow> ('w, go_error option) io" where
  "DeleteVD cluster filters =
     bindIO (ListVD cluster filters) (\<lambda>r. case r of
         Inl err \<Rightarrow> retIO (Some err)
       | Inr vds \<Rightarrow> forErr (\<lambda>vd. callIO (cl_delete (VDs cluster) vd)) vds)"

definition DeleteVdAndWait :: "'x world_scheme KCluster \<Rightarrow> VdFilter list \<Rightarrow>
    ('x world_scheme, go_error option) io"
where
  "DeleteVdAndWait cluster filters =
     bindIO (DeleteVD cluster filters) (\<lambda>r. case r of
         Some err \<Rightarrow> retIO (Some err)
       | None \<Rightarrow> RetrySec 15 (none_left (ListVD cluster filters) (\<lambda>vds.
           PlainError (''VDs not deleted: '' @ fmt_d (int (length vds))))))"

definition CreateVirtualDiskFromClusterVirtualImage :: "'w KCluster \<Rightarrow> string \<Rightarrow> string \<Rightarrow> string \<Rightarrow>
    int \<Rightarrow> ClusterVirtualImage \<Rightarrow> ('w, go_error + VirtualDisk) io"
where
  "CreateVirtualDiskFromClusterVirtualImage cluster nsName name storageClass sizeInGi vmCVMI =
     callIO (cl_create (VDs cluster) (newVD nsName name storageClass sizeInGi (Some (obj_Name vmCVMI))))"


section \<open>Virtual machines\<close>

definition ListVM :: "'w KCluster \<Rightarrow> VmFilter list \<Rightarrow> ('w, go_error + VirtualMachine list) io" where
  "ListVM cluster filters =
     listFiltered (cl_list (VMs cluster) []) (VmFilter_Apply (regexp_match cluster)) filters"

text \<open>\<^verbatim>\<open>strings.ReplaceAll\<close> of one byte by another, and \<^verbatim>\<open>strings.ToLower\<close> on ASCII.\<close>

definition replace_char :: "char \<Rightarrow> char \<Rightarrow> string \<Rightarrow> string" where
  "replace_char a b = map (\<lambda>c. if c = a then b else c)"

definition to_lower :: "string \<Rightarrow> string" where
  "to_lower = map (\<lambda>c. if 65 \<le> (of_char c :: nat) \<and> (of_char c :: nat) \<le> 90
     then char_of (of_char c + 32 :: nat) else c)"

definition imageUrl :: "string \<Rightarrow> string" where
  "imageUrl img = (case Images img of None \<Rightarrow> img | Some url \<Rightarrow> url)"

definition cvmiNameOf :: "'w KCluster \<Rightarrow> string \<Rightarrow> string" where
  "cvmiNameOf cluster img =
     (let base = (case Images img of None \<Rightarrow> ''noname'' | Some _ \<Rightarrow> img)
      in ''test-'' @ to_lower (replace_char CHR '' '' CHR ''-'' (replace_char CHR ''_'' CHR ''-'' base)) @
         ''-'' @ take 4 (md5_hex cluster (imageUrl img)))"

definition userData :: "string \<Rightarrow> string \<Rightarrow> string" where
  "userData vmName sshPubKey =
     ''#cloud-config'' @ nl @
     ''package_update: true'' @ nl @
     ''packages:'' @ nl @
     ''- qemu-guest-agent'' @ nl @
     ''runcmd:'' @ nl @
     ''- [ hostnamectl, set-hostname, '' @ vmName @ '' ]'' @ nl @
     ''- [ systemctl, daemon-reload ]'' @ nl @
     ''- [ systemctl, enable, --now, qemu-guest-agent.service ]'' @ nl @
     ''user: user'' @ nl @
     ''password: user'' @ nl @
     ''ssh_pwauth: True'' @ nl @
     ''chpasswd: { expire: False }'' @ nl @
     ''sudo: ALL=(ALL) NOPASSWD:ALL'' @ nl @
     ''chpasswd: { expire: False }'' @ nl @
     ''ssh_authorized_keys:'' @ nl @
     ''  - '' @ sshPubKey @ nl"

definition newVM :: "string \<Rightarrow> string \<Rightarrow> string \<Rightarrow> int \<Rightarrow> int \<Rightarrow> string \<Rightarrow> string \<Rightarrow> VirtualMachine" where
  "newVM nsName vmName ipClaim cpu memory diskName sshPubKey =
     \<lparr>metadata = (newMeta vmName nsName)\<lparr>om_Labels := [''vm'' \<mapsto> ''linux'', ''service'' \<mapsto> ''v1'']\<rparr>,
      vm_ClassName = ''generic'', vm_EnableParavirtualization = True, vm_RunPolicy = ''AlwaysOn'',
      vm_OsType = ''Generic'', vm_Bootloader = ''BIOS'', vm_IPAddressClaim = ipClaim, vm_Cores = cpu,
      vm_CoreFraction = ''100%'', vm_Memory = memory,
      vm_BlockDeviceRefs = [(''VirtualDisk'', diskName)],
      vm_ProvisioningType = ''UserData'',
      vm_UserData = userData vmName sshPubKey, vm_Phase = [], vm_IPAddress = []\<rparr>"

text \<open>The image: found by name, or created; any error of the lookup leads to a creation.\<close>

definition ensureImage :: "'w KCluster \<Rightarrow> string \<Rightarrow> ('w, go_error + ClusterVirtualImage) io" where
  "ensureImage cluster img =
     (if length (md5_hex cluster (imageUrl img)) < 4 then panicIO ''slice bounds out of range''
      else bindIO (GetClusterVirtualImage cluster (cvmiNameOf cluster img)) (\<lambda>r. case r of
          Inr vmCVMI \<Rightarrow> retIO (Inr vmCVMI)
        | Inl _ \<Rightarrow>
            bindIO (CreateClusterVirtualImage cluster (cvmiNameOf cluster img) (imageUrl img)) (\<lambda>c. case c of
                Inl err \<Rightarrow> retIO (Inl (WrapError ''CreateClusterVirtualImage: '' err []))
              | Inr vmCVMI \<Rightarrow> retIO (Inr vmCVMI))))"

text \<open>The name of the address claim: empty without a static address, else found or created.\<close>

definition ensureIPClaim :: "'w KCluster \<Rightarrow> string \<Rightarrow> string \<Rightarrow> string \<Rightarrow> ('w, go_error + string) io" where
  "ensureIPClaim cluster nsName vmName ip =
     (if ip = [] then retIO (Inr [])
      else
        (let vmIPClaimName = vmName @ ''-ipaddress-0'' in
         bindIO (ListIPClaim cluster nsName vmIPClaimName) (\<lambda>r. case r of
             Inl err \<Rightarrow> retIO (Inl err)
           | Inr [] \<Rightarrow>
               bindIO (CreateVirtualMachineIPAddress cluster nsName vmIPClaimName ip) (\<lambda>c. case c of
                   Inl err \<Rightarrow> retIO (Inl (WrapError ''CreateVirtualMachineIPAddress: '' err []))
                 | Inr vmIPClaim \<Rightarrow> retIO (Inr (obj_Name vmIPClaim)))
           | Inr (vmIPClaim # _) \<Rightarrow> retIO (Inr (obj_Name vmIPClaim)))))"

text \<open>
  The name of the system disk. When the disk already exists the code keeps the empty disk it
  started from, so the name is empty.
\<close>

definition ensureSystemDisk :: "'w KCluster \<Rightarrow> string \<Rightarrow> string \<Rightarrow> string \<Rightarrow> int \<Rightarrow>
    ClusterVirtualImage \<Rightarrow> ('w, go_error + string) io"
where
  "ensureSystemDisk cluster nsName vmName storageClass systemDriveSize vmCVMI =
     (let vmdName = vmName @ ''-system'' in
      bindIO (GetVD cluster nsName vmdName) (\<lambda>r. case r of
          Inr _ \<Rightarrow> retIO (Inr [])
        | Inl _ \<Rightarrow>
            bindIO (CreateVirtualDiskFromClusterVirtualImage cluster nsName vmdName storageClass
                systemDriveSize vmCVMI) (\<lambda>c. case c of
                Inl err \<Rightarrow> retIO (Inl (WrapError ''CreateVirtualDiskFromClusterVirtualImage: '' err []))
              | Inr vmSystemDisk \<Rightarrow> retIO (Inr (obj_Name vmSystemDisk)))))"

definition CreateVM :: "'w KCluster \<Rightarrow> string \<Rightarrow> string \<Rightarrow> string \<Rightarrow> int \<Rightarrow> int \<Rightarrow> string \<Rightarrow> string \<Rightarrow>
    string \<Rightarrow> int \<Rightarrow> ('w, go_error option) io"
where
  "CreateVM cluster nsName vmName ip cpu ram storageClass img sshPubKey systemDriveSize =
     bindIO (ensureImage cluster img) (\<lambda>r. case r of
         Inl err \<Rightarrow> retIO (Some err)
       | Inr vmCVMI \<Rightarrow>
     bindIO (ensureIPClaim cluster nsName vmName ip) (\<lambda>r. case r of
         Inl err \<Rightarrow> retIO (Some err)
       | Inr vmIPClaimName \<Rightarrow>
     bindIO (ensureSystemDisk cluster nsName vmName storageClass systemDriveSize vmCVMI) (\<lambda>r. case r of
         Inl err \<Rightarrow> retIO (Some err)
       | Inr diskName \<Rightarrow>
     (case parse_quantity cluster (fmt_d ram @ ''Gi'') of
         Inl err \<Rightarrow> retIO (Some err)
       | Inr currentMemory \<Rightarrow>
           bindIO (callIO (cl_create (VMs cluster)
               (newVM nsName vmName vmIPClaimName cpu currentMemory diskName sshPubKey))) (\<lambda>r. case r of
               Inl err \<Rightarrow> if \<not> IsAlreadyExists err then retIO (Some err) else retIO None
             | Inr _ \<Rightarrow> retIO None)))))"


section \<open>Block device attachments\<close>

definition ListVMBD :: "'w KCluster \<Rightarrow> VmBdFilter list \<Rightarrow> ('w, go_error + VMBlockDeviceAttachment list) io" where
  "ListVMBD cluster filters =
     listFiltered (cl_list (VMBDs cluster) []) (VmBdFilter_Apply (regexp_match cluster)) filters"

text \<open>
  The closure of \<^verbatim>\<open>WaitVmbdAttached\<close> appends its filter to the captured slice on every attempt,
  so the \<open>n\<close>-th attempt runs with \<open>n\<close> copies of it. The number of attempts so far is thus part
  of the loop's state; the loop itself is \<^verbatim>\<open>RetrySec(25, ...)\<close>.
\<close>

definition notAttached :: VmBdFilter where
  "notAttached = noVmBdFilter\<lparr>vmbdf_Phase := Str ''!Attached''\<rparr>"

definition attachedCheck :: "'w KCluster \<Rightarrow> VmBdFilter list \<Rightarrow> ('w, go_error option) io" where
  "attachedCheck cluster filters = none_left (ListVMBD cluster filters) (\<lambda>vmbds.
     PlainError (''VMBDs not Attached: '' @ fmt_d (int (length vmbds)) @ '' ('' @
       obj_Name (hd vmbds) @ '', ...)''))"

partial_function (option) attached_loop ::
  "'x world_scheme KCluster \<Rightarrow> VmBdFilter list \<Rightarrow> int \<Rightarrow> string \<Rightarrow> ('x world_scheme, go_error option) io"
where
  "attached_loop cluster filters start lastMsg w =
     (case attachedCheck cluster (filters @ [notAttached]) w of
        None \<Rightarrow> None
      | Some (Panic s, w1) \<Rightarrow> Some (Panic s, w1)
      | Some (Exit s, w1) \<Rightarrow> Some (Exit s, w1)
      | Some (Ret err, w1) \<Rightarrow>
          (case err of
             None \<Rightarrow> Some (Ret None, w1)
           | Some e \<Rightarrow>
               if elapsed_sec start (now w1) > 25 then Some (Ret (Some e), w1)
               else if log_due lastMsg e w1
               then attached_loop cluster (filters @ [notAttached]) start (err_text e)
                      (sleep (retry_latency 25 * second) (w1\<lparr>lastLog := now w1\<rparr>))
               else attached_loop cluster (filters @ [notAttached]) start lastMsg
                      (sleep (retry_latency 25 * second) w1)))"

definition WaitVmbdAttached :: "'x world_scheme KCluster \<Rightarrow> VmBdFilter list \<Rightarrow>
    ('x world_scheme, go_error option) io"
where
  "WaitVmbdAttached cluster filters = (\<lambda>w. attached_loop cluster filters (now w) [] w)"

definition AttachVmbd :: "'w KCluster \<Rightarrow> string \<Rightarrow> string \<Rightarrow> string \<Rightarrow> ('w, go_error option) io" where
  "AttachVmbd cluster testNS vmName vmdName =
     bindIO (callIO (cl_create (VMBDs cluster)
         \<lparr>metadata = newMeta vmdName testNS, vmbd_VirtualMachineName = vmName,
          vmbd_BlockDeviceKind = ''VirtualDisk'', vmbd_BlockDeviceName = vmdName, vmbd_Phase = []\<rparr>))
       (\<lambda>r. case r of
          Inl err \<Rightarrow> if \<not> IsAlreadyExists err then retIO (Some err) else retIO None
        | Inr _ \<Rightarrow> retIO None)"

definition DetachVmbd :: "'w KCluster \<Rightarrow> VmBdFilter list \<Rightarrow> ('w, go_error option) io" where
  "DetachVmbd cluster filters =
     bindIO (ListVMBD cluster filters) (\<lambda>r. case r of
         Inl err \<Rightarrow> retIO (Some err)
       | Inr vmbds \<Rightarrow> forErr (\<lambda>vmbd. callIO (cl_delete (VMBDs cluster) vmbd)) vmbds)"

definition CreateVMBD :: "'w KCluster \<Rightarrow> string \<Rightarrow> string \<Rightarrow> string \<Rightarrow> string \<Rightarrow> int \<Rightarrow>
    ('w, go_error option) io"
where
  "CreateVMBD cluster testNS vmName vmdName storageClassName sz =
     bindIO (CreateVD cluster testNS vmdName storageClassName sz) (\<lambda>r. case r of
         Some err \<Rightarrow> retIO (Some err)
       | None \<Rightarrow> AttachVmbd cluster testNS vmName vmdName)"

definition DeleteVMBD :: "'w KCluster \<Rightarrow> VmBdFilter list \<Rightarrow> ('w, go_error option) io" where
  "DeleteVMBD cluster filters =
     bindIO (ListVMBD cluster filters) (\<lambda>r. case r of
         Inl err \<Rightarrow> retIO (Some err)
       | Inr vmbds \<Rightarrow> forErr (\<lambda>vmbd. callIO (cl_delete (VMBDs cluster) vmbd)) vmbds)"

definition DeleteVmbdAndWait :: "'x world_scheme KCluster \<Rightarrow> VmBdFilter list \<Rightarrow>
    ('x world_scheme, go_error option) io"
where
  "DeleteVmbdAndWait cluster filters =
     bindIO (DeleteVMBD cluster filters) (\<lambda>r. case r of
         Some err \<Rightarrow> retIO (Some err)
       | None \<Rightarrow> RetrySec 15 (none_left (ListVMBD cluster filters) (\<lambda>vmbds.
           PlainError (''VMBDs not deleted: '' @ fmt_d (int (length vmbds))))))"


section \<open>The growing filter list is harmless\<close>

text \<open>Every attempt lists the same attachments, so the wait is \<^verbatim>\<open>RetrySec\<close> of a fixed check.\<close>

lemma attachedCheck_again:
  "attachedCheck cluster ((filters @ [notAttached]) @ [notAttached]) =
   attachedCheck cluster (filters @ [notAttached])"
proof -
  have "applyAll (VmBdFilter_Apply rx) ((filters @ [notAttached]) @ [notAttached]) xs =
      applyAll (VmBdFilter_Apply rx) (filters @ [notAttached]) xs" for rx xs
    by (rule vmbd_filter.applyAll_cong) auto
  then show ?thesis unfolding attachedCheck_def ListVMBD_def listFiltered_def by (simp only:)
qed

lemma retry_n_attached:
  assumes "retry_n n 25 (attachedCheck cluster (filters @ [notAttached])) start m w = Some r"
  shows "attached_loop cluster filters start m w = Some r"
  using assms
proof (induction n arbitrary: filters m w)
  case (Suc n)
  have IH: "attached_loop cluster (filters @ [notAttached]) start m' w' = Some r"
    if "retry_n n 25 (attachedCheck cluster (filters @ [notAttached])) start m' w' = Some r" for m' w'
    using Suc.IH [of "filters @ [notAttached]"] that by (simp only: attachedCheck_again)
  from Suc.prems show ?case
    by (subst attached_loop.simps)
      (auto split: option.splits outcome.splits prod.splits if_splits intro: IH)
qed simp

lemma attached_loop_retry:
  assumes "attached_loop cluster filters start m w = Some r"
  shows "retry_loop 25 (attachedCheck cluster (filters @ [notAttached])) start m w = Some r"
proof (rule attached_loop.raw_induct
    [where P = "\<lambda>cluster filters start m w r.
       retry_loop 25 (attachedCheck cluster (filters @ [notAttached])) start m w = Some r", OF _ assms])
  fix loop :: "'a world_scheme KCluster \<Rightarrow> VmBdFilter list \<Rightarrow> int \<Rightarrow> string \<Rightarrow>
      ('a world_scheme, go_error option) io"
  fix cluster filters start m w r
  assume IH: "\<And>cluster filters start m w r. loop cluster filters start m w = Some r \<Longrightarrow>
      retry_loop 25 (attachedCheck cluster (filters @ [notAttached])) start m w = Some r"
    and step: "(case attachedCheck cluster (filters @ [notAttached]) w of
        None \<Rightarrow> None
      | Some (Panic s, w1) \<Rightarrow> Some (Panic s, w1)
      | Some (Exit s, w1) \<Rightarrow> Some (Exit s, w1)
      | Some (Ret err, w1) \<Rightarrow>
          (case err of
             None \<Rightarrow> Some (Ret None, w1)
           | Some e \<Rightarrow>
               if elapsed_sec start (now w1) > 25 then Some (Ret (Some e), w1)
               else if log_due m e w1
               then loop cluster (filters @ [notAttached]) start (err_text e)
                      (sleep (retry_latency 25 * second) (w1\<lparr>lastLog := now w1\<rparr>))
               else loop cluster (filters @ [notAttached]) start m
                      (sleep (retry_latency 25 * second) w1))) = Some r"
  have IH': "retry_loop 25 (attachedCheck cluster (filters @ [notAttached])) start m' w' = Some r"
    if "loop cluster (filters @ [notAttached]) start m' w' = Some r" for m' w'
    using IH [OF that] by (simp only: attachedCheck_again)
  from step show "retry_loop 25 (attachedCheck cluster (filters @ [notAttached])) start m w = Some r"
    by (subst retry_loop.simps)
      (auto split: option.splits outcome.splits prod.splits if_splits intro: IH')
qed

lemma WaitVmbdAttached_eq:
  "WaitVmbdAttached cluster filters = RetrySec 25 (attachedCheck cluster (filters @ [notAttached]))"
proof
  fix w
  show "WaitVmbdAttached cluster filters w =
      RetrySec 25 (attachedCheck cluster (filters @ [notAttached])) w"
  proof (cases "RetrySec 25 (attachedCheck cluster (filters @ [notAttached])) w")
    case None
    then show ?thesis
      by (cases "WaitVmbdAttached cluster filters w")
        (auto simp: WaitVmbdAttached_def RetrySec_def dest: attached_loop_retry)
  next
    case (Some r)
    then obtain n where
      "retry_n n 25 (attachedCheck cluster (filters @ [notAttached])) (now w) [] w = Some r"
      unfolding RetrySec_def by (blast dest: retry_loop_n)
    with Some show ?thesis by (simp add: WaitVmbdAttached_def retry_n_attached)
  qed
qed



section \<open>Properties\<close>

text \<open>
  The slice that \<^verbatim>\<open>WaitVmbdAttached\<close> grows on every attempt does no harm: the wait is the
  same as \<^verbatim>\<open>RetrySec(25, ...)\<close> over the check with its filter added once, in its result, its
  effects and its divergence alike.
\<close>

theorem WaitVmbdAttached_is_RetrySec:
  "WaitVmbdAttached cluster filters =
    RetrySec 25 (none_left (ListVMBD cluster (filters @ [notAttached])) (\<lambda>vmbds.
      PlainError (''VMBDs not Attached: '' @ fmt_d (int (length vmbds)) @ '' ('' @
        obj_Name (hd vmbds) @ '', ...)'')))"
  by (simp add: WaitVmbdAttached_eq attachedCheck_def)

text \<open>
  Creating a machine whose system disk already exists attaches no disk: \<^verbatim>\<open>CreateVM\<close> then
  sends a machine whose only block device reference has the empty name, and an already
  existing machine is not an error.
\<close>

theorem CreateVM_existing_disk:
  assumes "ensureImage cluster img w = Some (Ret (Inr cvi), w1)"
    and "ensureIPClaim cluster nsName vmName ip w1 = Some (Ret (Inr claim), w2)"
    and "cl_get (VDs cluster) nsName (vmName @ ''-system'') w2 = (Inr disk, w3)"
    and "parse_quantity cluster (fmt_d ram @ ''Gi'') = Inr memory"
    and "cl_create (VMs cluster) (newVM nsName vmName claim cpu memory [] key) w3 = (res, w4)"
  shows "CreateVM cluster nsName vmName ip cpu ram sc img key driveSize w =
      Some (Ret (case res of Inl err \<Rightarrow> if IsAlreadyExists err then None else Some err | Inr _ \<Rightarrow> None), w4) \<and>
    vm_BlockDeviceRefs (newVM nsName vmName claim cpu memory [] key) = [(''VirtualDisk'', [])]"
proof -
  have "ensureSystemDisk cluster nsName vmName sc driveSize cvi w2 = Some (Ret (Inr []), w3)"
    using assms(3) by (simp add: ensureSystemDisk_def GetVD_def Let_def bindIO_call io_simps)
  then show ?thesis
    using assms
    by (cases res) (simp_all add: CreateVM_def bindIO_run(1) bindIO_call io_simps newVM_def)
qed

definition disk_cluster :: "unit KCluster" where
  "disk_cluster = frozen_cluster\<lparr>VDs := frozen_client [newVD ''e2e'' ''vm1-system'' [] 20 None]\<rparr>"

lemma CreateVM_existing_disk_witness:
  "CreateVM disk_cluster ''e2e'' ''vm1'' [] 2 4 [] ''Ubuntu_22'' ''key'' 20 () = Some (Ret None, ()) \<and>
   vm_BlockDeviceRefs (newVM ''e2e'' ''vm1'' [] 2 3 [] ''key'') = [(''VirtualDisk'', [])]"
proof -
  have "ensureImage disk_cluster ''Ubuntu_22'' () = Some (Ret (Inr \<lparr>metadata =
      newMeta (cvmiNameOf disk_cluster ''Ubuntu_22'') [], cvi_Type = ''HTTP'', cvi_URL = imageUrl ''Ubuntu_22''\<rparr>), ())"
    by (simp add: ensureImage_def disk_cluster_def GetClusterVirtualImage_def ListClusterVirtualImage_def
        CreateClusterVirtualImage_def bindIO_call bindIO_def run_simps)
  moreover have "ensureIPClaim disk_cluster ''e2e'' ''vm1'' [] () = Some (Ret (Inr []), ())"
    by (simp add: ensureIPClaim_def run_simps)
  moreover have "cl_get (VDs disk_cluster) ''e2e'' (''vm1'' @ ''-system'') () =
      (Inr (newVD ''e2e'' ''vm1-system'' [] 20 None), ())"
    by (simp add: disk_cluster_def newVD_def)
  moreover have "parse_quantity disk_cluster (fmt_d 4 @ ''Gi'') = Inr 3"
    by (simp add: disk_cluster_def fmt_d_def nat_digits.simps)
  moreover have "cl_create (VMs disk_cluster) (newVM ''e2e'' ''vm1'' [] 2 3 [] ''key'') () =
      (Inr (newVM ''e2e'' ''vm1'' [] 2 3 [] ''key''), ())"
    by (simp add: disk_cluster_def)
  ultimately show ?thesis
    using CreateVM_existing_disk [of disk_cluster "''Ubuntu_22''" "()" _ "()" "''e2e''" "''vm1''" "[]" "[]"
      "()" _ "()" 4 3 2 "''key''" _ "()" "[]" 20] by simp
qed

text \<open>
  Deleting the attachments of one namespace deletes those of all: as the filter does not
  look at the namespace, \<^verbatim>\<open>DeleteVmbdAndWait(VmBdFilter{NameSpace: ns})\<close> is the same as
  \<^verbatim>\<open>DeleteVmbdAndWait\<close> with an empty filter, and it waits until no attachment is left anywhere.
\<close>

theorem DeleteVmbdAndWait_all_namespaces:
  "DeleteVmbdAndWait cluster [noVmBdFilter\<lparr>vmbdf_NameSpace := ns\<rparr>] = DeleteVmbdAndWait cluster []"
proof -
  have "applyAll (VmBdFilter_Apply rx) [noVmBdFilter\<lparr>vmbdf_NameSpace := ns\<rparr>] xs =
      applyAll (VmBdFilter_Apply rx) [] xs" for rx xs
    unfolding vmbd_filter.applyAll_eq
    by (rule filter_cong [OF refl]) (simp add: VmBdFilter_keep_def noVmBdFilter_def)
  then have "ListVMBD cluster [noVmBdFilter\<lparr>vmbdf_NameSpace := ns\<rparr>] = ListVMBD cluster []"
    unfolding ListVMBD_def listFiltered_def by (simp only:)
  then show ?thesis unfolding DeleteVmbdAndWait_def DeleteVMBD_def by (simp only:)
qed

end
