(* ===== verification/Ssh.thy ===== *)
theory Ssh
  imports Retry
begin

text \<open>
  \<^verbatim>\<open>testkit_v2/util/ssh.go\<close>: keys, ssh configurations, connections and commands. The ssh,
  sftp, crypto, terminal and file libraries are the fields of \<open>SshLib\<close>; \<open>'c\<close> is a connected
  client, \<open>'n\<close> a network connection, \<open>'s\<close> a signer, \<open>'k\<close> an RSA key.
\<close>

datatype 's SshAuth = PasswordAuth string | KeyAuth 's

record 's SshClientConfig =
  cfg_User :: string
  cfg_Auth :: "'s SshAuth"
  cfg_InsecureIgnoreHostKey :: bool
  cfg_Timeout :: int

text \<open>What a deferred \<^verbatim>\<open>Close\<close> closes.\<close>

datatype 'c SshResource =
    Client 'c | Session 'c | SftpClient 'c | RemoteFile 'c string | LocalFile string | Terminal

record ('w, 'c, 'n, 's, 'k) SshLib =
  sl_verbose :: bool
  sl_stdinIsTerminal :: bool
  sl_openTty :: "'w \<Rightarrow> go_error option \<times> 'w"
  sl_ReadPassword :: "bool \<Rightarrow> 'w \<Rightarrow> (go_error + string) \<times> 'w"
  sl_passphraseEnv :: string
  sl_ReadFile :: "string \<Rightarrow> 'w \<Rightarrow> (go_error + string) \<times> 'w"
  sl_WriteFile :: "string \<Rightarrow> string \<Rightarrow> nat \<Rightarrow> 'w \<Rightarrow> go_error option \<times> 'w"
  sl_Stat :: "string \<Rightarrow> 'w \<Rightarrow> go_error option \<times> 'w"
  sl_GenerateKey :: "int \<Rightarrow> 'w \<Rightarrow> (go_error + 'k) \<times> 'w"
  sl_Validate :: "'k \<Rightarrow> go_error option"
  sl_MarshalPKCS1 :: "'k \<Rightarrow> string"
  sl_EncodePem :: "string \<Rightarrow> string \<Rightarrow> string"
  sl_NewPublicKey :: "'k \<Rightarrow> go_error + string"
  sl_MarshalAuthorizedKey :: "string \<Rightarrow> string"
  sl_ParsePrivateKey :: "string \<Rightarrow> go_error + 's"
  sl_ParseWithPassphrase :: "string \<Rightarrow> string \<Rightarrow> go_error + 's"
  sl_Dial :: "string \<Rightarrow> string \<Rightarrow> 's SshClientConfig \<Rightarrow> 'w \<Rightarrow> (go_error + 'c) \<times> 'w"
  sl_ClientDial :: "'c \<Rightarrow> string \<Rightarrow> string \<Rightarrow> 'w \<Rightarrow> (go_error + 'n) \<times> 'w"
  sl_NewClientConn :: "'n \<Rightarrow> string \<Rightarrow> 's SshClientConfig \<Rightarrow> 'w \<Rightarrow> (go_error + 'c) \<times> 'w"
  sl_NewSession :: "'c \<Rightarrow> 'w \<Rightarrow> go_error option \<times> 'w"
  sl_CombinedOutput :: "'c \<Rightarrow> string \<Rightarrow> 'w \<Rightarrow> (string \<times> go_error option) \<times> 'w"
  sl_OpenLocal :: "string \<Rightarrow> 'w \<Rightarrow> go_error option \<times> 'w"
  sl_CreateLocal :: "string \<Rightarrow> 'w \<Rightarrow> go_error option \<times> 'w"
  sl_NewSftp :: "'c \<Rightarrow> 'w \<Rightarrow> go_error option \<times> 'w"
  sl_CreateRemote :: "'c \<Rightarrow> string \<Rightarrow> 'w \<Rightarrow> go_error option \<times> 'w"
  sl_OpenRemote :: "'c \<Rightarrow> string \<Rightarrow> 'w \<Rightarrow> go_error option \<times> 'w"
  sl_Copy :: "'c \<Rightarrow> string \<Rightarrow> string \<Rightarrow> 'w \<Rightarrow> go_error option \<times> 'w"
  sl_SyncLocal :: "string \<Rightarrow> 'w \<Rightarrow> go_error option \<times> 'w"
  sl_Close :: "'c SshResource \<Rightarrow> 'w \<Rightarrow> go_error option \<times> 'w"

definition deferClose :: "('w, 'c, 'n, 's, 'k) SshLib \<Rightarrow> 'c SshResource \<Rightarrow> ('w, 'a) io \<Rightarrow> ('w, 'a) io" where
  "deferClose lib r = deferIO (\<lambda>w. snd (sl_Close lib r w))"

section \<open>Keys\<close>

definition generatePrivateKey :: "('w, 'c, 'n, 's, 'k) SshLib \<Rightarrow> int \<Rightarrow> ('w, go_error + 'k) io" where
  "generatePrivateKey lib bitSize =
     bindIO (callIO (sl_GenerateKey lib bitSize)) (\<lambda>r. case r of
         Inl err \<Rightarrow> retIO (Inl err)
       | Inr k \<Rightarrow> (case sl_Validate lib k of
             Some err \<Rightarrow> retIO (Inl err)
           | None \<Rightarrow> retIO (Inr k)))"

definition encodePrivateKeyToPEM :: "('w, 'c, 'n, 's, 'k) SshLib \<Rightarrow> 'k \<Rightarrow> string" where
  "encodePrivateKeyToPEM lib privateKey =
     sl_EncodePem lib ''RSA PRIVATE KEY'' (sl_MarshalPKCS1 lib privateKey)"

definition generatePublicKey :: "('w, 'c, 'n, 's, 'k) SshLib \<Rightarrow> 'k \<Rightarrow> go_error + string" where
  "generatePublicKey lib privateKey =
     (case sl_NewPublicKey lib privateKey of
        Inl err \<Rightarrow> Inl err
      | Inr publicRsaKey \<Rightarrow> Inr (sl_MarshalAuthorizedKey lib publicRsaKey))"

text \<open>File modes are written in octal in the code: 0600 is 384, 0644 is 420.\<close>

definition writeKeyToFile :: "('w, 'c, 'n, 's, 'k) SshLib \<Rightarrow> string \<Rightarrow> string \<Rightarrow>
    ('w, go_error option) io"
where
  "writeKeyToFile lib keyBytes saveFileTo = callIO (sl_WriteFile lib saveFileTo keyBytes 384)"

text \<open>\<^verbatim>\<open>if err != nil { Fatalf(err.Error()) }\<close>\<close>

definition orFatal :: "('w, go_error option) io \<Rightarrow> ('w, unit) io" where
  "orFatal m = bindIO m (\<lambda>r. case r of Some err \<Rightarrow> exitIO (err_text err) | None \<Rightarrow> retIO ())"

definition GenerateRSAKeys :: "('w, 'c, 'n, 's, 'k) SshLib \<Rightarrow> string \<Rightarrow> string \<Rightarrow> ('w, unit) io" where
  "GenerateRSAKeys lib privateFilename publicFilename =
     bindIO (callIO (sl_Stat lib privateFilename)) (\<lambda>st. case st of
         None \<Rightarrow> retIO ()
       | Some _ \<Rightarrow> bindIO (generatePrivateKey lib 4096) (\<lambda>r. case r of
             Inl err \<Rightarrow> exitIO (err_text err)
           | Inr k \<Rightarrow> (case generatePublicKey lib k of
                 Inl err \<Rightarrow> exitIO (err_text err)
               | Inr publicKeyBytes \<Rightarrow>
                   bindIO (orFatal (writeKeyToFile lib (encodePrivateKeyToPEM lib k) privateFilename))
                     (\<lambda>_. orFatal (writeKeyToFile lib publicKeyBytes publicFilename)))))"

definition CheckAndGetSSHKeys :: "('w, 'c, 'n, 's, 'k) SshLib \<Rightarrow> string \<Rightarrow> string \<Rightarrow> string \<Rightarrow>
    ('w, string) io"
where
  "CheckAndGetSSHKeys lib dir privateKeyName pubKeyName =
     bindIO (GenerateRSAKeys lib (path_Join dir privateKeyName) (path_Join dir pubKeyName)) (\<lambda>_.
     bindIO (callIO (sl_ReadFile lib (path_Join dir pubKeyName))) (\<lambda>r. case r of
         Inl err \<Rightarrow> exitIO (err_text err)
       | Inr sshPubKey \<Rightarrow> retIO sshPubKey))"


section \<open>Configurations\<close>

definition readPassword :: "('w, 'c, 'n, 's, 'k) SshLib \<Rightarrow> ('w, go_error + string) io" where
  "readPassword lib =
     (if \<not> sl_verbose lib then panicIO ''Can't read password in not verbose mode''
      else if sl_stdinIsTerminal lib then callIO (sl_ReadPassword lib True)
      else bindIO (callIO (sl_openTty lib)) (\<lambda>r. case r of
          Some _ \<Rightarrow> retIO (Inl (PlainError ''error allocating terminal''))
        | None \<Rightarrow> deferClose lib Terminal (callIO (sl_ReadPassword lib False))))"

definition clientConfig :: "string \<Rightarrow> 's SshAuth \<Rightarrow> 's SshClientConfig" where
  "clientConfig user auth = \<lparr>cfg_User = user, cfg_Auth = auth, cfg_InsecureIgnoreHostKey = True,
     cfg_Timeout = 20 * second\<rparr>"

definition newSshPassConfig :: "('w, 'c, 'n, 's, 'k) SshLib \<Rightarrow> string \<Rightarrow>
    ('w, 's SshClientConfig) io"
where
  "newSshPassConfig lib user =
     bindIO (readPassword lib) (\<lambda>r. case r of
         Inl err \<Rightarrow> exitIO (''unable to get ssh password: '' @ err_text err)
       | Inr pass \<Rightarrow> retIO (clientConfig user (PasswordAuth pass)))"

definition keySigner :: "('w, 'c, 'n, 's, 'k) SshLib \<Rightarrow> string \<Rightarrow> string \<Rightarrow> ('w, 's) io" where
  "keySigner lib keyPath key =
     (case sl_ParsePrivateKey lib key of
        Inr signer \<Rightarrow> retIO signer
      | Inl err \<Rightarrow>
          if err_text err \<noteq> ''ssh: this private key is passphrase protected''
          then exitIO (''unable to parse private key: '' @ err_text err)
          else bindIO
            (if sl_passphraseEnv lib \<noteq> [] then retIO (sl_passphraseEnv lib)
             else bindIO (readPassword lib) (\<lambda>r. case r of
                 Inl readErr \<Rightarrow> exitIO (''SSH key '' @ quoted keyPath @
                   '' is passphrase protected. Set SSH_PASSPHRASE environment variable: export SSH_PASSPHRASE='' @
                   quoted ''your-passphrase'' @ nl @ ''Original error: '' @ err_text readErr)
               | Inr pass \<Rightarrow> retIO pass))
            (\<lambda>pass. case sl_ParseWithPassphrase lib key pass of
                Inl err2 \<Rightarrow> exitIO (''unable to parse private key: '' @ err_text err2)
              | Inr signer \<Rightarrow> retIO signer))"

definition newSshConfig :: "('w, 'c, 'n, 's, 'k) SshLib \<Rightarrow> string \<Rightarrow> string \<Rightarrow>
    ('w, 's SshClientConfig) io"
where
  "newSshConfig lib user keyPath =
     (if keyPath = [] then newSshPassConfig lib user
      else bindIO (callIO (sl_ReadFile lib keyPath)) (\<lambda>r. case r of
          Inl err \<Rightarrow> exitIO (''unable to read private key: '' @ err_text err)
        | Inr key \<Rightarrow> bindIO (keySigner lib keyPath key) (\<lambda>signer.
            retIO (clientConfig user (KeyAuth signer)))))"


section \<open>Connections and commands\<close>

definition GetSshClient :: "('w, 'c, 'n, 's, 'k) SshLib \<Rightarrow> string \<Rightarrow> string \<Rightarrow> string \<Rightarrow> ('w, 'c) io" where
  "GetSshClient lib user addr keyPath =
     bindIO (newSshConfig lib user keyPath) (\<lambda>config.
     bindIO (callIO (sl_Dial lib ''tcp'' addr config)) (\<lambda>r. case r of
         Inl err \<Rightarrow> exitIO (''Ssh Dial '' @ user @ ''@'' @ addr @ '' error: '' @ err_text err)
       | Inr client \<Rightarrow> retIO client))"

definition Close :: "('w, 'c, 'n, 's, 'k) SshLib \<Rightarrow> 'c \<Rightarrow> ('w, go_error option) io" where
  "Close lib c = callIO (sl_Close lib (Client c))"

text \<open>The dialling loop with \<open>k\<close> retries left (\<open>retries - i\<close> of the code).\<close>

fun dial_loop :: "('x world_scheme, 'c, 'n, 's, 'k) SshLib \<Rightarrow> 'c \<Rightarrow> string \<Rightarrow> string \<Rightarrow> nat \<Rightarrow>
    ('x world_scheme, 'n \<times> go_error option) io"
where
  "dial_loop lib c n addr k =
     bindIO (callIO (sl_ClientDial lib c n addr)) (\<lambda>r. case r of
         Inr conn \<Rightarrow> retIO (conn, None)
       | Inl err \<Rightarrow> (case k of
             0 \<Rightarrow> exitIO (''Fwd Dial '' @ quoted addr @ '' error: '' @ err_text err)
           | Suc k' \<Rightarrow> bindIO (callIO (\<lambda>w. ((), sleep (10 * second) w)))
               (\<lambda>_. dial_loop lib c n addr k')))"

declare dial_loop.simps [simp del]

definition retries :: nat where
  "retries = 100"

definition Dial :: "('x world_scheme, 'c, 'n, 's, 'k) SshLib \<Rightarrow> 'c \<Rightarrow> string \<Rightarrow> string \<Rightarrow>
    ('x world_scheme, 'n \<times> go_error option) io"
where
  "Dial lib c n addr = dial_loop lib c n addr retries"

definition GetFwdClient :: "('x world_scheme, 'c, 'n, 's, 'k) SshLib \<Rightarrow> 'c \<Rightarrow> string \<Rightarrow> string \<Rightarrow>
    string \<Rightarrow> ('x world_scheme, 'c) io"
where
  "GetFwdClient lib c user addr keyPath =
     bindIO (Dial lib c ''tcp'' addr) (\<lambda>(conn, _).
     bindIO (newSshConfig lib user keyPath) (\<lambda>config.
     bindIO (callIO (sl_NewClientConn lib conn addr config)) (\<lambda>r. case r of
         Inl err \<Rightarrow> exitIO (''NewClientConn '' @ quoted (user @ ''@'' @ addr) @ '' error: '' @ err_text err)
       | Inr client \<Rightarrow> retIO client)))"

definition Exec :: "('w, 'c, 'n, 's, 'k) SshLib \<Rightarrow> 'c \<Rightarrow> string \<Rightarrow> ('w, string \<times> go_error option) io" where
  "Exec lib c cmd =
     bindIO (callIO (sl_NewSession lib c)) (\<lambda>r. case r of
         Some err \<Rightarrow> retIO ([], Some err)
       | None \<Rightarrow> deferClose lib (Session c) (callIO (sl_CombinedOutput lib c cmd)))"

definition ExecFatal :: "('w, 'c, 'n, 's, 'k) SshLib \<Rightarrow> 'c \<Rightarrow> string \<Rightarrow> ('w, string) io" where
  "ExecFatal lib c cmd =
     bindIO (Exec lib c cmd) (\<lambda>(out, err). case err of
         Some e \<Rightarrow> exitIO (''Exec ssh '' @ cmd @ '':'' @ nl @ out @ nl @ ''Error: '' @ err_text e)
       | None \<Rightarrow> retIO out)"


section \<open>File transfer\<close>

text \<open>The first failing step returns its error; what has been opened is closed, last first.\<close>

definition andNext :: "('w, go_error option) io \<Rightarrow> ('w, go_error option) io \<Rightarrow> ('w, go_error option) io" where
  "andNext m k = bindIO m (\<lambda>r. case r of Some err \<Rightarrow> retIO (Some err) | None \<Rightarrow> k)"

definition Upload :: "('w, 'c, 'n, 's, 'k) SshLib \<Rightarrow> 'c \<Rightarrow> string \<Rightarrow> string \<Rightarrow>
    ('w, go_error option) io"
where
  "Upload lib c localPath remotePath =
     andNext (callIO (sl_OpenLocal lib localPath)) (deferClose lib (LocalFile localPath)
       (andNext (callIO (sl_NewSftp lib c)) (deferClose lib (SftpClient c)
         (andNext (callIO (sl_CreateRemote lib c remotePath)) (deferClose lib (RemoteFile c remotePath)
           (callIO (sl_Copy lib c localPath remotePath)))))))"

definition Download :: "('w, 'c, 'n, 's, 'k) SshLib \<Rightarrow> 'c \<Rightarrow> string \<Rightarrow> string \<Rightarrow>
    ('w, go_error option) io"
where
  "Download lib c remotePath localPath =
     andNext (callIO (sl_CreateLocal lib localPath)) (deferClose lib (LocalFile localPath)
       (andNext (callIO (sl_NewSftp lib c)) (deferClose lib (SftpClient c)
         (andNext (callIO (sl_OpenRemote lib c remotePath)) (deferClose lib (RemoteFile c remotePath)
           (andNext (callIO (sl_Copy lib c remotePath localPath))
             (callIO (sl_SyncLocal lib localPath))))))))"


section \<open>Properties\<close>

lemma dial_loop_ends:
  assumes mono: "\<And>v r v'. sl_ClientDial lib c n addr v = (r, v') \<Longrightarrow> now v \<le> now v'"
  shows "\<exists>r w'. dial_loop lib c n addr k w = Some (r, w') \<and>
    ((\<exists>conn w0. r = Ret (conn, None) \<and> sl_ClientDial lib c n addr w0 = (Inr conn, w')) \<or>
     (\<exists>msg w0 e. r = Exit msg \<and> sl_ClientDial lib c n addr w0 = (Inl e, w') \<and>
        now w + int k * (10 * second) \<le> now w'))"
proof (induction k arbitrary: w)
  case (0 w)
  obtain x w1 where x: "sl_ClientDial lib c n addr w = (x, w1)" by (cases "sl_ClientDial lib c n addr w")
  with mono [OF x] show ?case
    by (cases x) (auto simp: dial_loop.simps bindIO_call io_simps)
next
  case (Suc k w)
  obtain x w1 where x: "sl_ClientDial lib c n addr w = (x, w1)" by (cases "sl_ClientDial lib c n addr w")
  show ?case
  proof (cases x)
    case (Inr conn)
    with x show ?thesis by (auto simp: dial_loop.simps [of _ _ _ _ "Suc k"] bindIO_call io_simps)
  next
    case (Inl e)
    let ?w = "sleep (10 * second) w1"
    have eq: "dial_loop lib c n addr (Suc k) w = dial_loop lib c n addr k ?w"
      using x Inl by (simp add: dial_loop.simps [of _ _ _ _ "Suc k"] bindIO_call)
    have "now w + 10 * second \<le> now ?w"
      using mono [OF x] by (simp add: sleep_def second_def)
    then have "now w + int (Suc k) * (10 * second) \<le> now v" if "now ?w + int k * (10 * second) \<le> now v" for v
      using that by (simp add: algebra_simps)
    with Suc.IH [of ?w] show ?thesis unfolding eq by fast
  qed
qed

text \<open>
  C26. Forwarded dialling never hangs: \<^verbatim>\<open>Dial\<close> either returns a connection that its last attempt
  made, or ends the process after a failed attempt, and then only when the 100 pauses of ten
  seconds between the attempts have passed.
\<close>

theorem Dial_result:
  assumes "\<And>v r v'. sl_ClientDial lib c n addr v = (r, v') \<Longrightarrow> now v \<le> now v'"
  shows "\<exists>r w'. Dial lib c n addr w = Some (r, w') \<and>
    ((\<exists>conn w0. r = Ret (conn, None) \<and> sl_ClientDial lib c n addr w0 = (Inr conn, w')) \<or>
     (\<exists>msg w0 e. r = Exit msg \<and> sl_ClientDial lib c n addr w0 = (Inl e, w') \<and>
        now w + 1000 * second \<le> now w'))"
  using dial_loop_ends [OF assms, where k = retries and w = w] by (simp add: Dial_def retries_def)

text \<open>Libraries whose every call fails, but for the field a witness sets.\<close>

definition dead_lib :: "('w, 'c, 'n, 's, 'k) SshLib" where
  "dead_lib =
     \<lparr>sl_verbose = False, sl_stdinIsTerminal = False, sl_openTty = (\<lambda>w. (Some (PlainError []), w)),
      sl_ReadPassword = (\<lambda>t w. (Inl (PlainError []), w)), sl_passphraseEnv = [],
      sl_ReadFile = (\<lambda>f w. (Inl (PlainError []), w)), sl_WriteFile = (\<lambda>f s m w. (Some (PlainError []), w)),
      sl_Stat = (\<lambda>f w. (Some (PlainError []), w)), sl_GenerateKey = (\<lambda>n w. (Inl (PlainError []), w)),
      sl_Validate = (\<lambda>k. Some (PlainError [])), sl_MarshalPKCS1 = (\<lambda>k. []),
      sl_EncodePem = (\<lambda>t b. []), sl_NewPublicKey = (\<lambda>k. Inl (PlainError [])),
      sl_MarshalAuthorizedKey = (\<lambda>k. []), sl_ParsePrivateKey = (\<lambda>s. Inl (PlainError [])),
      sl_ParseWithPassphrase = (\<lambda>s p. Inl (PlainError [])), sl_Dial = (\<lambda>n a c w. (Inl (PlainError []), w)),
      sl_ClientDial = (\<lambda>c n a w. (Inl (PlainError []), w)),
      sl_NewClientConn = (\<lambda>n a c w. (Inl (PlainError []), w)),
      sl_NewSession = (\<lambda>c w. (Some (PlainError []), w)),
      sl_CombinedOutput = (\<lambda>c s w. (([], Some (PlainError [])), w)),
      sl_OpenLocal = (\<lambda>f w. (Some (PlainError []), w)), sl_CreateLocal = (\<lambda>f w. (Some (PlainError []), w)),
      sl_NewSftp = (\<lambda>c w. (Some (PlainError []), w)), sl_CreateRemote = (\<lambda>c f w. (Some (PlainError []), w)),
      sl_OpenRemote = (\<lambda>c f w. (Some (PlainError []), w)), sl_Copy = (\<lambda>c f g w. (Some (PlainError []), w)),
      sl_SyncLocal = (\<lambda>f w. (Some (PlainError []), w)),
      sl_Close = (\<lambda>r w. (None, w))\<rparr>"

lemma Dial_result_witness:
  "\<exists>r w'. Dial (dead_lib :: (world, unit, unit, unit, unit) SshLib) () ''tcp'' ''10.0.0.2:22'' clock0 = Some (r, w') \<and>
    ((\<exists>conn w0. r = Ret (conn, None) \<and> sl_ClientDial (dead_lib :: (world, unit, unit, unit, unit) SshLib) ()
        ''tcp'' ''10.0.0.2:22'' w0 = (Inr conn, w')) \<or>
     (\<exists>msg w0 e. r = Exit msg \<and> sl_ClientDial (dead_lib :: (world, unit, unit, unit, unit) SshLib) ()
        ''tcp'' ''10.0.0.2:22'' w0 = (Inl e, w') \<and> now clock0 + 1000 * second \<le> now w'))"
  by (rule Dial_result) (auto simp: dead_lib_def)

end
