(* ===== verification/Cluster.thy ===== *)
theory Cluster
  imports Kube VM Ssh
begin

text \<open>
  \<^verbatim>\<open>testkit_v2/util/kube_vm_cluster.go\<close> and \<^verbatim>\<open>kube_cluster.go\<close>: the creation of a nested
  cluster on virtual machines, and the cache of clusters the tests share. \<^verbatim>\<open>NewTunnel\<close> runs in
  a goroutine that returns nothing, so its start is left out (\<^verbatim>\<open>Tunnel\<close> models what it does). The
  message of an exit has the text of the error where the code formats it with \<^verbatim>\<open>%w\<close>, which
  \<^verbatim>\<open>log.Fatalf\<close> prints as a Go value.
\<close>

section \<open>Roles of the virtual machines\<close>

text \<open>
  The loop over \<^verbatim>\<open>vms\<close>: masters, workers and the bootstrap machine so far. A master is nothing
  else; the last \<^verbatim>\<open>setup\<close> machine wins.
\<close>

fun rolesLoop :: "VmConfig list \<Rightarrow> VmConfig list \<Rightarrow> VmConfig list \<Rightarrow> VmConfig option \<Rightarrow>
    VmConfig list \<times> VmConfig list \<times> VmConfig option"
where
  "rolesLoop [] vmMasters vmWorkers vmBootstrap = (vmMasters, vmWorkers, vmBootstrap)"
| "rolesLoop (vm # vms) vmMasters vmWorkers vmBootstrap =
     (if ''master'' \<in> set (vmc_roles vm)
        then rolesLoop vms (vmMasters @ [vm]) vmWorkers vmBootstrap
      else
        (let vmBootstrap' = (if ''setup'' \<in> set (vmc_roles vm) then Some vm else vmBootstrap);
             vmWorkers' = (if ''worker'' \<in> set (vmc_roles vm) then vmWorkers @ [vm] else vmWorkers)
         in rolesLoop vms vmMasters vmWorkers' vmBootstrap'))"

definition rolesError :: go_error where
  "rolesError = PlainError ''VmCluster: 1 master and 1 setup record is required''"

definition identifyVmRoles :: "VmConfig list \<Rightarrow>
    go_error + (VmConfig list \<times> VmConfig list \<times> VmConfig)"
where
  "identifyVmRoles vms =
     (case rolesLoop vms [] [] None of (vmMasters, vmWorkers, vmBootstrap) \<Rightarrow>
        (let vmBootstrap' = (case (vmBootstrap, vmWorkers) of
               (None, w # _) \<Rightarrow> Some w
             | _ \<Rightarrow> vmBootstrap)
         in if length vmMasters \<noteq> 1 then Inl rolesError
            else (case vmBootstrap' of
                None \<Rightarrow> Inl rolesError
              | Some b \<Rightarrow> Inr (vmMasters, vmWorkers, b))))"


section \<open>Creating the machines\<close>

text \<open>\<^verbatim>\<open>Fatalf\<close> on the first machine that cannot be created.\<close>

fun vmCreateLoop :: "'w KCluster \<Rightarrow> string \<Rightarrow> string \<Rightarrow> string \<Rightarrow> VmConfig list \<Rightarrow> ('w, unit) io" where
  "vmCreateLoop cluster hvStorageClass nsName sshPubKey [] = retIO ()"
| "vmCreateLoop cluster hvStorageClass nsName sshPubKey (vmItem # vms) =
     bindIO (CreateVM cluster nsName (vmc_name vmItem) (vmc_ip vmItem) (vmc_cpu vmItem)
         (vmc_ram vmItem) hvStorageClass (vmc_image vmItem) sshPubKey (vmc_diskSize vmItem)) (\<lambda>r. case r of
         Some err \<Rightarrow> exitIO (''creating: '' @ err_text err)
       | None \<Rightarrow> vmCreateLoop cluster hvStorageClass nsName sshPubKey vms)"

definition vmCreate :: "'w KCluster \<Rightarrow> ('w, 'c, 'n, 's, 'k) SshLib \<Rightarrow> string \<Rightarrow> VmConfig list \<Rightarrow>
    string \<Rightarrow> ('w, unit) io"
where
  "vmCreate cluster lib hvStorageClass vms nsName =
     bindIO (CheckAndGetSSHKeys lib KubePath PrivKeyName PubKeyName) (\<lambda>sshPubKey.
       vmCreateLoop cluster hvStorageClass nsName sshPubKey vms)"

text \<open>The closure of \<^verbatim>\<open>vmSync\<close>, which assigns the listing it waited for to \<^verbatim>\<open>vmList\<close>.\<close>

definition runningVMs :: "'w KCluster \<Rightarrow> string \<Rightarrow> nat \<Rightarrow> ('w, go_error + VirtualMachine list) io" where
  "runningVMs cluster nsName cnt =
     bindIO (ListVM cluster [noVmFilter\<lparr>vmf_NameSpace := Str nsName, vmf_Phase := Str ''Running''\<rparr>])
       (\<lambda>r. case r of
          Inl err \<Rightarrow> retIO (Inl err)
        | Inr vmList \<Rightarrow>
            if length vmList < cnt
            then retIO (Inl (PlainError (''VMs are ready: '' @ fmt_d (int (length vmList)) @ '' of '' @
              fmt_d (int cnt))))
            else retIO (Inr vmList))"

text \<open>
  Each listed machine gives its address to the first configuration of its name. The slice
  \<^verbatim>\<open>vms\<close> is the package variable's own backing array, so the new addresses are the result.
\<close>

fun setIp :: "string \<Rightarrow> string \<Rightarrow> VmConfig list \<Rightarrow> VmConfig list" where
  "setIp name ip [] = []"
| "setIp name ip (cfg # vms) =
     (if name = vmc_name cfg then cfg\<lparr>vmc_ip := ip\<rparr> # vms else cfg # setIp name ip vms)"

fun assignIps :: "VirtualMachine list \<Rightarrow> VmConfig list \<Rightarrow> VmConfig list" where
  "assignIps [] vms = vms"
| "assignIps (vm # vmList) vms = assignIps vmList (setIp (obj_Name vm) (vm_IPAddress vm) vms)"

definition vmSync :: "'x world_scheme KCluster \<Rightarrow> ('x world_scheme, 'c, 'n, 's, 'k) SshLib \<Rightarrow> string \<Rightarrow>
    VmConfig list \<Rightarrow> string \<Rightarrow> ('x world_scheme, VmConfig list) io"
where
  "vmSync cluster lib hvStorageClass vms nsName =
     bindIO (ListVM cluster [noVmFilter\<lparr>vmf_NameSpace := Str nsName\<rparr>]) (\<lambda>r.
     bindIO (if (case r of Inl _ \<Rightarrow> True | Inr vmList \<Rightarrow> length vmList < length vms)
             then vmCreate cluster lib hvStorageClass vms nsName else retIO ()) (\<lambda>_.
     bindIO (RetryVal (8 * 60) (runningVMs cluster nsName (length vms))) (\<lambda>r. case r of
         Inl err \<Rightarrow> exitIO (err_text err)
       | Inr vmList \<Rightarrow> retIO (assignIps vmList vms))))"


section \<open>Installing Deckhouse\<close>

definition installDocker :: "string" where
  "installDocker = ''sudo apt update && sudo apt install -y docker.io''"

text \<open>The error text differs for a held apt lock; both are retried until the time is up.\<close>

definition installAttempt :: "('w, 'c, 'n, 's, 'k) SshLib \<Rightarrow> 'c \<Rightarrow> ('w, go_error option) io" where
  "installAttempt lib client =
     bindIO (Exec lib client installDocker) (\<lambda>(out, err). case err of
         None \<Rightarrow> retIO None
       | Some e \<Rightarrow>
           if sublist ''Could not get lock'' out \<or> sublist ''Unable to lock directory'' out
           then retIO (Some (WrapError ''apt is locked, retrying: '' e (nl @ ''Output: '' @ out)))
           else retIO (Some (WrapError ''failed to install docker.io: '' e (nl @ ''Output: '' @ out))))"

definition ensureDockerInstalled :: "('x world_scheme, 'c, 'n, 's, 'k) SshLib \<Rightarrow> 'c \<Rightarrow>
    ('x world_scheme, go_error option) io"
where
  "ensureDockerInstalled lib client =
     bindIO (Exec lib client ''docker --version'') (\<lambda>(out, err).
       if err = None \<and> sublist ''Docker version'' out then retIO None
       else bindIO (RetrySec 120 (installAttempt lib client)) (\<lambda>r. case r of
           Some e \<Rightarrow> retIO (Some e)
         | None \<Rightarrow> bindIO (Exec lib client ''docker --version'') (\<lambda>(out, err). case err of
               Some e \<Rightarrow> retIO (Some (WrapError
                 ''docker installation completed but docker command failed: '' e (nl @ ''Output: '' @ out)))
             | None \<Rightarrow>
                 if \<not> sublist ''Docker version'' out
                 then retIO (Some (PlainError (''docker installation verification failed: expected '' @
                   quoted ''Docker version'' @ '' in output, got: '' @ out)))
                 else retIO None)))"

definition removalError :: "string \<Rightarrow> string \<Rightarrow> go_error \<Rightarrow> string \<Rightarrow> go_error" where
  "removalError what ip err out = PlainError (''failed to '' @ what @ '' on bootstrap node '' @ ip @
     '': '' @ err_text err @ '': '' @ out)"

definition removalStep :: "('w, 'c, 'n, 's, 'k) SshLib \<Rightarrow> 'c \<Rightarrow> string \<Rightarrow> string \<Rightarrow> string \<Rightarrow>
    ('w, go_error option) io"
where
  "removalStep lib client ip cmd what =
     bindIO (Exec lib client cmd) (\<lambda>(out, err). case err of
         Some e \<Rightarrow> retIO (Some (removalError what ip e out))
       | None \<Rightarrow> retIO None)"

definition ensureDockerRemoved :: "('x world_scheme, 'c, 'n, 's, 'k) SshLib \<Rightarrow> 'c \<Rightarrow> string \<Rightarrow>
    string \<Rightarrow> ('x world_scheme, go_error option) io"
where
  "ensureDockerRemoved lib hvClient nestedSshKey bootstrapIp =
     bindIO (GetFwdClient lib hvClient ''user'' (bootstrapIp @ '':22'') nestedSshKey) (\<lambda>client.
     deferClose lib (Client client) (bindIO (Exec lib client ''docker --version'') (\<lambda>(out, _).
       if \<not> sublist ''Docker version'' out then retIO None
       else andNext (removalStep lib client bootstrapIp ''sudo apt-get purge docker.io -y --autoremove''
              ''purge packages'')
            (andNext (removalStep lib client bootstrapIp ''sudo rm -rf /var/lib/docker'' ''remove /var/lib/docker'')
              (removalStep lib client bootstrapIp ''sudo rm -rf /etc/docker'' ''remove /etc/docker'')))))"

definition DhDevImg :: string where
  "DhDevImg = ''dev-registry.deckhouse.io/sys/deckhouse-oss/install:main''"

definition DhCeImg :: string where
  "DhCeImg = ''registry.deckhouse.io/deckhouse/ce/install:stable''"

definition RegistryLoginCmd :: "string \<Rightarrow> string" where
  "RegistryLoginCmd key = ''sudo docker login -u license-token -p '' @ key @ '' dev-registry.deckhouse.io''"

definition authenticateRegistry :: "('w, 'c, 'n, 's, 'k) SshLib \<Rightarrow> string \<Rightarrow> 'c \<Rightarrow> ('w, string) io" where
  "authenticateRegistry lib licenseKey client =
     (if licenseKey \<noteq> []
      then bindIO (ExecFatal lib client
             (RegistryLoginCmd licenseKey))
           (\<lambda>_. retIO DhDevImg)
      else retIO DhCeImg)"

definition DhInstallCommand :: "string \<Rightarrow> string \<Rightarrow> string" where
  "DhInstallCommand img host = ''docker run --network=host -t -v '' @
     quoted ''/home/user/config.yml:/config.yml'' @ '' -v '' @ quoted ''/home/user/:/tmp/'' @ '' '' @ img @
     '' dhctl bootstrap --ssh-user=user --ssh-host='' @ host @
     '' --ssh-agent-private-keys=/tmp/id_rsa_test --config=/config.yml''"

definition DhResourcesInstallCommand :: "string \<Rightarrow> string \<Rightarrow> string" where
  "DhResourcesInstallCommand img host = ''docker run --network=host -t -v '' @
     quoted ''/home/user/resources.yml:/resources.yml'' @ '' -v '' @ quoted ''/home/user/:/tmp/'' @ '' '' @ img @
     '' dhctl bootstrap-phase create-resources --ssh-user=user --ssh-host='' @ host @
     '' --ssh-agent-private-keys=/tmp/id_rsa_test --resources=/resources.yml''"

definition bootstrapTail :: string where
  "bootstrapTail = '' > /tmp/bootstrap.out || {(tail -30 /tmp/bootstrap.out; exit 124)}''"

definition bootstrapConfig :: "('w, 'c, 'n, 's, 'k) SshLib \<Rightarrow> 'c \<Rightarrow> string \<Rightarrow> string \<Rightarrow>
    ('w, go_error option) io"
where
  "bootstrapConfig lib client dhImg masterIp =
     bindIO (Exec lib client (''sudo -i timeout 900 '' @ DhInstallCommand dhImg masterIp @ bootstrapTail))
       (\<lambda>(out, err). case err of
          Some e \<Rightarrow> retIO (Some (WrapError ''dhctl bootstrap config error: '' e []))
        | None \<Rightarrow> retIO None)"

definition bootstrapResources :: "('w, 'c, 'n, 's, 'k) SshLib \<Rightarrow> 'c \<Rightarrow> string \<Rightarrow> string \<Rightarrow>
    ('w, go_error option) io"
where
  "bootstrapResources lib client dhImg masterIp =
     bindIO (Exec lib client (''sudo -i timeout 600 '' @ DhResourcesInstallCommand dhImg masterIp @ bootstrapTail))
       (\<lambda>(out, err). case err of
          Some e \<Rightarrow> retIO (Some (WrapError ''dhctl bootstrap resources error: '' e []))
        | None \<Rightarrow> retIO None)"

definition installVmDh :: "('x world_scheme, 'c, 'n, 's, 'k) SshLib \<Rightarrow> string \<Rightarrow> 'c \<Rightarrow> string \<Rightarrow>
    ('x world_scheme, go_error option) io"
where
  "installVmDh lib licenseKey client masterIp =
     andNext (ensureDockerInstalled lib client)
       (bindIO (authenticateRegistry lib licenseKey client) (\<lambda>dhImg.
         andNext (bootstrapConfig lib client dhImg masterIp)
           (bootstrapResources lib client dhImg masterIp)))"

definition checkDeckhouseInstalled :: "('w, 'c, 'n, 's, 'k) SshLib \<Rightarrow> 'c \<Rightarrow> ('w, bool) io" where
  "checkDeckhouseInstalled lib nestedClient =
     bindIO (Exec lib nestedClient ''ls /opt/deckhouse'') (\<lambda>(out, _).
       retIO (\<not> sublist (''cannot access '' @ quoted ''/opt/deckhouse'') out))"

text \<open>\<^verbatim>\<open>fmt.Sprintf\<close> of a template read from a file is a parameter: the verbs are the file's.\<close>

definition mkTemplateFile :: "('w, 'c, 'n, 's, 'k) SshLib \<Rightarrow> (string \<Rightarrow> string \<Rightarrow> string) \<Rightarrow> string \<Rightarrow>
    string \<Rightarrow> string \<Rightarrow> ('w, unit) io"
where
  "mkTemplateFile lib sprintf tplPath resPath a =
     bindIO (callIO (sl_ReadFile lib tplPath)) (\<lambda>r. case r of
         Inl err \<Rightarrow> exitIO (err_text err)
       | Inr template \<Rightarrow> orFatal (callIO (sl_WriteFile lib resPath (sprintf template a) 420)))"

definition mkConfig :: "('w, 'c, 'n, 's, 'k) SshLib \<Rightarrow> (string \<Rightarrow> string \<Rightarrow> string) \<Rightarrow> Env \<Rightarrow> ('w, unit) io" where
  "mkConfig lib sprintf g = mkTemplateFile lib sprintf (path_Join DataPath (ConfigTplName g))
     (path_Join DataPath ConfigName) (registryDockerCfg g)"

definition mkResources :: "('w, 'c, 'n, 's, 'k) SshLib \<Rightarrow> (string \<Rightarrow> string \<Rightarrow> string) \<Rightarrow> Env \<Rightarrow> ('w, unit) io" where
  "mkResources lib sprintf g = mkTemplateFile lib sprintf (path_Join DataPath (ResourcesTplName g))
     (path_Join DataPath ResourcesName) (registryDockerCfg g)"

definition uploadBootstrapFiles :: "('w, 'c, 'n, 's, 'k) SshLib \<Rightarrow> 'c \<Rightarrow> ('w, go_error option) io" where
  "uploadBootstrapFiles lib client =
     andNext (forErr (\<lambda>f. Upload lib client (path_Join DataPath f) (path_Join RemoteAppPath f))
         [ConfigName, ResourcesName])
       (forErr (\<lambda>f. Upload lib client (path_Join KubePath f) (path_Join RemoteAppPath f)) [PrivKeyName])"

definition getKubeconfig :: "('w, 'c, 'n, 's, 'k) SshLib \<Rightarrow> 'c \<Rightarrow> Env \<Rightarrow> ('w, go_error option) io" where
  "getKubeconfig lib nestedClient g =
     bindIO (ExecFatal lib nestedClient ''sudo cat /root/.kube/config'') (\<lambda>out.
       callIO (sl_WriteFile lib (NestedClusterKubeConfig g)
         (replace_all 0 ''127.0.0.1:6445'' (''127.0.0.1:'' @ NestedK8sPort g) out) 384))"

definition fatalIf :: "string \<Rightarrow> ('w, go_error option) io \<Rightarrow> ('w, unit) io" where
  "fatalIf what m = bindIO m (\<lambda>r. case r of
       Some err \<Rightarrow> exitIO (what @ err_text err) | None \<Rightarrow> retIO ())"

definition initVmD8 :: "('x world_scheme, 'c, 'n, 's, 'k) SshLib \<Rightarrow> (string \<Rightarrow> string \<Rightarrow> string) \<Rightarrow>
    string \<Rightarrow> Env \<Rightarrow> 'c \<Rightarrow> 'c \<Rightarrow> VmConfig \<Rightarrow> VmConfig \<Rightarrow> string \<Rightarrow> ('x world_scheme, unit) io"
where
  "initVmD8 lib sprintf licenseKey g hvClient nestedClient masterVm bootstrapVm vmKeyPath =
     (let finish = fatalIf ''failed to get kubeconfig: '' (getKubeconfig lib nestedClient g) in
      bindIO (checkDeckhouseInstalled lib nestedClient) (\<lambda>installed.
        if installed then finish
        else if licenseKey = []
        then exitIO (''Deckhouse EE license key is required: export licensekey='' @ [char_of (34 :: nat)] @
               ''<license key>'' @ [char_of (34 :: nat)])
        else bindIO (mkConfig lib sprintf g) (\<lambda>_.
             bindIO (mkResources lib sprintf g) (\<lambda>_.
             bindIO (GetFwdClient lib hvClient ''user'' (vmc_ip bootstrapVm @ '':22'') vmKeyPath) (\<lambda>client.
               deferClose lib (Client client)
                 (bindIO (fatalIf ''failed to upload bootstrap files: '' (uploadBootstrapFiles lib client)) (\<lambda>_.
                  bindIO (fatalIf ''failed to install Deckhouse on the test cluster: ''
                      (installVmDh lib licenseKey client (vmc_ip masterVm))) (\<lambda>_. finish))))))))"


section \<open>Namespaces of earlier runs\<close>

text \<open>Which listed namespaces are deleted: old ones of the test kit, never the current one.\<close>

definition isStale :: "string \<Rightarrow> int \<Rightarrow> Namespace \<Rightarrow> bool" where
  "isStale testNS unixNow ns \<longleftrightarrow>
     \<not> (obj_Name ns = testNS \<or> \<not> prefix ''e2e-tmp-'' (obj_Name ns)) \<and>
     unixNow - om_CreationTimestamp (metadata ns) > nsCleanUpSeconds"

fun cleanUpLoop :: "'w KCluster \<Rightarrow> string \<Rightarrow> int \<Rightarrow> Namespace list \<Rightarrow> ('w, unit) io" where
  "cleanUpLoop cluster testNS unixNow [] = retIO ()"
| "cleanUpLoop cluster testNS unixNow (ns # nss) =
     (if isStale testNS unixNow ns
      then bindIO (DeleteNs cluster [noNsFilter\<lparr>nsf_Name := Str (obj_Name ns)\<rparr>]) (\<lambda>r. case r of
          Some err \<Rightarrow> exitIO (''Can't delete old namespace '' @ obj_Name ns @ '': '' @ err_text err)
        | None \<Rightarrow> cleanUpLoop cluster testNS unixNow nss)
      else cleanUpLoop cluster testNS unixNow nss)"

definition cleanUpNs :: "'w KCluster \<Rightarrow> string \<Rightarrow> int \<Rightarrow> ('w, unit) io" where
  "cleanUpNs cluster testNS unixNow =
     bindIO (ListNs cluster [noNsFilter\<lparr>nsf_Name := Str ''%e2e-tmp-%''\<rparr>]) (\<lambda>r.
       cleanUpLoop cluster testNS unixNow (case r of Inl _ \<Rightarrow> [] | Inr nsExists \<Rightarrow> nsExists))"

definition prepareNamespace :: "'x world_scheme KCluster \<Rightarrow> ('x world_scheme, 'c, 'n, 's, 'k) SshLib \<Rightarrow>
    Env \<Rightarrow> int \<Rightarrow> string \<Rightarrow> ('x world_scheme, unit) io"
where
  "prepareNamespace cluster lib g unixNow nsName =
     bindIO (if TestNSCleanUp g = ''reinit''
             then fatalIf (''failed to delete old namespace '' @ nsName @ '': '')
               (DeleteNsAndWait cluster [noNsFilter\<lparr>nsf_Name := Str nsName\<rparr>])
             else if TestNSCleanUp g = ''free tmp'' then cleanUpNs cluster (TestNS g) unixNow
             else retIO ()) (\<lambda>_.
     bindIO (GenerateRSAKeys lib (NestedSshKey g) (path_Join KubePath PubKeyName)) (\<lambda>_.
       fatalIf (''failed to create namespace '' @ nsName @ '': '') (CreateNs cluster nsName)))"


section \<open>Waiting for the cluster\<close>

definition nodeReady :: "Node \<Rightarrow> bool" where
  "nodeReady node = list_ex (\<lambda>(ty, st). ty = ''Ready'' \<and> st = ''True'') (node_Conditions node)"

fun countReady :: "Node list \<Rightarrow> nat" where
  "countReady [] = 0"
| "countReady (node # nodes) = (if nodeReady node then Suc (countReady nodes) else countReady nodes)"

definition nodesReadyCheck :: "'w KCluster \<Rightarrow> nat \<Rightarrow> ('w, go_error option) io" where
  "nodesReadyCheck cluster expectedNodeCount =
     bindIO (ListNode cluster []) (\<lambda>r. case r of
         Inl err \<Rightarrow> retIO (Some (WrapError ''failed to list nodes: '' err []))
       | Inr nodes \<Rightarrow>
           if countReady nodes < expectedNodeCount
           then retIO (Some (PlainError (''nodes ready: '' @ fmt_d (int (countReady nodes)) @ '' of '' @
             fmt_d (int expectedNodeCount))))
           else retIO None)"

definition NodesReadyTimeout :: int where
  "NodesReadyTimeout = 600"

definition ensureNodesReady :: "'x world_scheme KCluster \<Rightarrow> nat \<Rightarrow> ('x world_scheme, go_error option) io" where
  "ensureNodesReady cluster expectedNodeCount =
     RetrySec NodesReadyTimeout (nodesReadyCheck cluster expectedNodeCount)"

definition orWrap :: "string \<Rightarrow> ('w, go_error option) io \<Rightarrow> ('w, go_error option) io" where
  "orWrap what m = bindIO m (\<lambda>r. case r of
       Some err \<Rightarrow> retIO (Some (WrapError what err [])) | None \<Rightarrow> retIO None)"

definition ensureClusterReady :: "'x world_scheme KCluster \<Rightarrow> ('x world_scheme, go_error option) io" where
  "ensureClusterReady cluster =
     andNext (orWrap ''snapshot-controller module is not ready: ''
         (WaitUntilDeploymentReady cluster ''d8-snapshot-controller'' ''snapshot-controller'' ModuleReadyTimeout))
       (andNext (orWrap ''sds-local-volume module deployment is not ready: ''
           (WaitUntilDeploymentReady cluster ''d8-sds-local-volume'' ''csi-controller'' ModuleReadyTimeout))
         (andNext (orWrap ''sds-local-volume module daemonset is not ready: ''
             (WaitUntilDaemonSetReady cluster ''d8-sds-local-volume'' ''csi-node'' ModuleReadyTimeout))
           (orWrap ''sds-node-configurator module is not ready: ''
             (WaitUntilDaemonSetReady cluster ''d8-sds-node-configurator'' ''sds-node-configurator''
               ModuleReadyTimeout))))"


section \<open>Clients of a cluster\<close>

text \<open>
  The four library calls of \<^verbatim>\<open>InitKCluster\<close>: the rest configuration (whose error is wrapped) and
  the three clients built from it. \<open>kl_assemble\<close> is the cluster the clients make up.
\<close>

record ('w, 'r) KubeLib =
  kl_config :: "string \<Rightarrow> string \<Rightarrow> 'w \<Rightarrow> (go_error + 'r) \<times> 'w"
  kl_schemes :: "go_error option list"
  kl_rtClient :: "'r \<Rightarrow> 'w \<Rightarrow> go_error option \<times> 'w"
  kl_goClient :: "'r \<Rightarrow> go_error option"
  kl_dyClient :: "'r \<Rightarrow> go_error option"
  kl_assemble :: "'r \<Rightarrow> 'w KCluster"
  kl_nodeGroups :: "'r \<Rightarrow> 'w NodeGroupApi"

definition NewRestConfig :: "('w, 'r) KubeLib \<Rightarrow> string \<Rightarrow> string \<Rightarrow> ('w, go_error + 'r) io" where
  "NewRestConfig kl configPath clusterName =
     bindIO (callIO (kl_config kl configPath clusterName)) (\<lambda>r. case r of
         Inl err \<Rightarrow> retIO (Inl (WrapError ''failed create rest config: '' err []))
       | Inr cfg \<Rightarrow> retIO (Inr cfg))"

text \<open>The schemes are registered in order; the first failure is the result.\<close>

definition NewKubeRTClient :: "('w, 'r) KubeLib \<Rightarrow> 'r \<Rightarrow> ('w, go_error option) io" where
  "NewKubeRTClient kl cfg =
     (case firstError (kl_schemes kl) of
        Some err \<Rightarrow> retIO (Some err)
      | None \<Rightarrow> callIO (kl_rtClient kl cfg))"

definition InitKCluster :: "('w, 'r) KubeLib \<Rightarrow> string \<Rightarrow> Env \<Rightarrow> string \<Rightarrow> string \<Rightarrow>
    ('w, go_error + ('w KCluster \<times> 'w NodeGroupApi)) io"
where
  "InitKCluster kl clusterNameFlag g configPath clusterName =
     (let clusterName' = (if clusterName = [] then clusterNameFlag else clusterName);
          configPath' = (if configPath = [] then NestedClusterKubeConfig g else configPath)
      in bindIO (NewRestConfig kl configPath' clusterName') (\<lambda>r. case r of
          Inl err \<Rightarrow> retIO (Inl err)
        | Inr cfg \<Rightarrow> bindIO (NewKubeRTClient kl cfg) (\<lambda>e. case e of
              Some err \<Rightarrow> retIO (Inl err)
            | None \<Rightarrow> (case kl_goClient kl cfg of
                  Some err \<Rightarrow> retIO (Inl err)
                | None \<Rightarrow> (case kl_dyClient kl cfg of
                      Some err \<Rightarrow> retIO (Inl err)
                    | None \<Rightarrow> retIO (Inr (kl_assemble kl cfg, kl_nodeGroups kl cfg)))))))"


section \<open>Commands on a node over ssh\<close>

text \<open>
  The loop over the addresses of the node: the first internal one is dialled through the client of the
  master, \<^verbatim>\<open>NestedSshClient\<close>. The forwarded client is not closed.
\<close>

fun sshAddresses :: "('x world_scheme, 'c, 'n, 's, 'k) SshLib \<Rightarrow> Env \<Rightarrow> 'c \<Rightarrow> string \<Rightarrow> (string \<times> string) list \<Rightarrow>
    ('x world_scheme, string \<times> go_error option) io"
where
  "sshAddresses lib g nestedClient cmd [] = retIO ([], Some (PlainError ''no node InternalIP''))"
| "sshAddresses lib g nestedClient cmd ((type, address) # addrs) =
     (if type = ''InternalIP''
      then bindIO (GetFwdClient lib nestedClient (NestedSshUser g) (address @ '':22'') (NestedSshKey g)) (\<lambda>client.
        Exec lib client cmd)
      else sshAddresses lib g nestedClient cmd addrs)"

definition ExecNodeSsh :: "('x world_scheme, 'c, 'n, 's, 'k) SshLib \<Rightarrow> Env \<Rightarrow> 'c \<Rightarrow> 'x world_scheme KCluster \<Rightarrow>
    string \<Rightarrow> string \<Rightarrow> ('x world_scheme, string \<times> go_error option) io"
where
  "ExecNodeSsh lib g nestedClient cluster name cmd =
     bindIO (GetNode cluster name) (\<lambda>(node, err). case err of
         Some e \<Rightarrow> retIO ([], Some e)
       | None \<Rightarrow> sshAddresses lib g nestedClient cmd (node_Addresses node))"

lemma ExecNodeSsh_missing:
  assumes "cl_get (Nodes cluster) [] name w = (Inl (ApiError ReasonNotFound m), w')"
  shows "ExecNodeSsh lib g nestedClient cluster name cmd w = Some (Ret ([], Some (PlainError ''no node InternalIP'')), w')"
  using assms by (simp add: ExecNodeSsh_def GetNode_def io_simps zeroNode_def)


section \<open>ClusterCreate\<close>

text \<open>
  The process-wide inputs of a run: libraries, the licence key, the cluster flag, the wall
  clock at the clean-up.
\<close>

record ('w, 'c, 'n, 's, 'k, 'r) Runtime =
  rt_ssh :: "('w, 'c, 'n, 's, 'k) SshLib"
  rt_kube :: "('w, 'r) KubeLib"
  rt_sprintf :: "string \<Rightarrow> string \<Rightarrow> string"
  rt_licenseKey :: string
  rt_clusterNameFlag :: string
  rt_unixNow :: int

definition setupHypervisorConnection :: "('w, 'c, 'n, 's, 'k, 'r) Runtime \<Rightarrow> Env \<Rightarrow>
    ('w, 'c \<times> (go_error + ('w KCluster \<times> 'w NodeGroupApi))) io"
where
  "setupHypervisorConnection rt g =
     bindIO (GetSshClient (rt_ssh rt) (HvSshUser g) (HvHost g @ '':22'') (HvSshKey g)) (\<lambda>hvClient.
     bindIO (InitKCluster (rt_kube rt) (rt_clusterNameFlag rt) g (HypervisorKubeConfig g) []) (\<lambda>r.
       retIO (hvClient, r)))"

text \<open>
  The result is the environment with the addresses \<^verbatim>\<open>vmSync\<close> wrote into \<^verbatim>\<open>VmCluster\<close>, and the
  ssh client of the master, which the code keeps in \<^verbatim>\<open>NestedSshClient\<close>.
\<close>

definition ClusterCreate :: "('x world_scheme, 'c, 'n, 's, 'k, 'r) Runtime \<Rightarrow> Env \<Rightarrow>
    ('x world_scheme, Env \<times> 'c) io"
where
  "ClusterCreate rt g =
     (let lib = rt_ssh rt; nsName = TestNS g in
      bindIO (setupHypervisorConnection rt g) (\<lambda>(hvClient, r). case r of
          Inl err \<Rightarrow> exitIO (err_text err)
        | Inr (hvCluster, _) \<Rightarrow>
      bindIO (prepareNamespace hvCluster lib g (rt_unixNow rt) nsName) (\<lambda>_.
      bindIO (vmSync hvCluster lib (HvStorageClass g) (VmCluster g) nsName) (\<lambda>vms.
      (let g' = g\<lparr>VmCluster := vms\<rparr> in
       case identifyVmRoles vms of
          Inl err \<Rightarrow> exitIO (err_text err)
        | Inr (vmMasters, vmWorkers, vmBootstrap) \<Rightarrow>
            (let master = hd vmMasters in
             bindIO (GetFwdClient lib hvClient (NestedSshUser g) (vmc_ip master @ '':22'') (NestedSshKey g)) (\<lambda>nestedClient.
             bindIO (initVmD8 lib (rt_sprintf rt) (rt_licenseKey rt) g' hvClient nestedClient master
                 vmBootstrap (NestedSshKey g)) (\<lambda>_.
             bindIO (InitKCluster (rt_kube rt) (rt_clusterNameFlag rt) g' [] []) (\<lambda>k. case k of
                 Inl err \<Rightarrow> exitIO (err_text err)
               | Inr (cluster, api) \<Rightarrow>
                   (let nodeIps = map vmc_ip vmWorkers in
                    bindIO (fatalIf ''Failed to remove Docker from bootstrap node: ''
                        (ensureDockerRemoved lib hvClient (NestedSshKey g) (vmc_ip vmBootstrap))) (\<lambda>_.
                    bindIO (fatalIf []
                        (AddStaticNodes cluster api (sl_ReadFile lib) (NestedSshKey g) ''e2e'' ''user'' nodeIps)) (\<lambda>_.
                    bindIO (fatalIf ''Nodes are not ready: ''
                        (ensureNodesReady cluster (length nodeIps))) (\<lambda>_.
                    bindIO (fatalIf [] (ensureClusterReady cluster)) (\<lambda>_.
                      retIO (g', nestedClient)))))))))))))))"


section \<open>The cache of clusters\<close>

text \<open>\<^verbatim>\<open>clrCache\<close>, the environment and the nested ssh client are what \<^verbatim>\<open>EnsureCluster\<close> keeps.\<close>

record ('w, 'c) CacheState =
  clrCache :: "(string \<times> 'w KCluster) list"
  cs_env :: Env
  cs_nested :: "'c option"

definition firstUse :: "('x world_scheme, 'c, 'n, 's, 'k, 'r) Runtime \<Rightarrow> Flags \<Rightarrow> go_error option \<Rightarrow>
    Env \<Rightarrow> ('x world_scheme, Env \<times> 'c) io"
where
  "firstUse rt flags openLog g0 =
     (case envInit flags (rt_licenseKey rt) openLog g0 of
        Inl msg \<Rightarrow> exitIO msg
      | Inr g \<Rightarrow>
          if HypervisorKubeConfig g \<noteq> [] then ClusterCreate rt g
          else bindIO (GetSshClient (rt_ssh rt) (NestedSshUser g) (NestedHost g @ '':22'') (NestedSshKey g))
            (\<lambda>nestedClient. retIO (g, nestedClient)))"

definition EnsureCluster :: "('x world_scheme, 'c, 'n, 's, 'k, 'r) Runtime \<Rightarrow> Flags \<Rightarrow> go_error option \<Rightarrow>
    string \<Rightarrow> string \<Rightarrow> ('x world_scheme, 'c) CacheState \<Rightarrow>
    ('x world_scheme, ('x world_scheme, 'c) CacheState \<times> 'x world_scheme KCluster) io"
where
  "EnsureCluster rt flags openLog configPath clusterName s =
     bindIO (if length (clrCache s) = 0
             then bindIO (firstUse rt flags openLog (cs_env s)) (\<lambda>(g, c).
               retIO (s\<lparr>cs_env := g, cs_nested := Some c\<rparr>))
             else retIO s) (\<lambda>s1.
     (let k = configPath @ '':'' @ clusterName in
      case map_of (clrCache s1) k of
        Some cluster \<Rightarrow> retIO (s1, cluster)
      | None \<Rightarrow>
          bindIO (InitKCluster (rt_kube rt) (rt_clusterNameFlag rt) (cs_env s1) configPath clusterName) (\<lambda>r. case r of
              Inl err \<Rightarrow> exitIO (''Kubeclient '' @ quoted k @ '' problem: '' @ err_text err)
            | Inr (cluster, _) \<Rightarrow>
                bindIO (CreateNs cluster (TestNS (cs_env s1))) (\<lambda>_.
                  retIO (s1\<lparr>clrCache := (k, cluster) # clrCache s1\<rparr>, cluster)))))"



section \<open>Roles and addresses\<close>

definition isMaster :: "VmConfig \<Rightarrow> bool" where
  "isMaster vm \<longleftrightarrow> ''master'' \<in> set (vmc_roles vm)"

definition isWorker :: "VmConfig \<Rightarrow> bool" where
  "isWorker vm \<longleftrightarrow> \<not> isMaster vm \<and> ''worker'' \<in> set (vmc_roles vm)"

definition isSetup :: "VmConfig \<Rightarrow> bool" where
  "isSetup vm \<longleftrightarrow> \<not> isMaster vm \<and> ''setup'' \<in> set (vmc_roles vm)"

lemmas role_defs = isMaster_def isWorker_def isSetup_def

lemma rolesLoop_eq:
  "rolesLoop vms ms ws b = (ms @ filter isMaster vms, ws @ filter isWorker vms,
     if filter isSetup vms = [] then b else Some (last (filter isSetup vms)))"
proof (induction vms arbitrary: ms ws b)
  case (Cons vm vms)
  have roles: "(''master'' \<in> set (vmc_roles vm)) = isMaster vm"
    "isWorker vm = (\<not> isMaster vm \<and> ''worker'' \<in> set (vmc_roles vm))"
    "isSetup vm = (\<not> isMaster vm \<and> ''setup'' \<in> set (vmc_roles vm))"
    by (simp_all add: role_defs)
  show ?case using Cons.IH by (simp add: Let_def roles)
qed simp

lemma identifyVmRoles_iff:
  "identifyVmRoles vms = Inr (ms, ws, b) \<longleftrightarrow>
     ms = filter isMaster vms \<and> length ms = 1 \<and> ws = filter isWorker vms \<and>
     (if filter isSetup vms = [] then ws \<noteq> [] \<and> b = hd ws else b = last (filter isSetup vms))"
  by (auto simp: identifyVmRoles_def rolesLoop_eq Let_def split: option.splits list.splits if_splits)

text \<open>The address a listing gives to a name: the last machine of that name decides.\<close>

definition ipOf :: "VirtualMachine list \<Rightarrow> VmConfig \<Rightarrow> string" where
  "ipOf vmList cfg = (case find (\<lambda>vm. obj_Name vm = vmc_name cfg) (rev vmList) of
     Some vm \<Rightarrow> vm_IPAddress vm | None \<Rightarrow> vmc_ip cfg)"

lemma setIp_map:
  "distinct (map vmc_name vms) \<Longrightarrow>
     setIp name ip vms = map (\<lambda>cfg. if vmc_name cfg = name then cfg\<lparr>vmc_ip := ip\<rparr> else cfg) vms"
  by (induction vms) (auto simp: image_iff intro!: map_idI [symmetric])

lemma setIp_names: "map vmc_name (setIp name ip vms) = map vmc_name vms"
  by (induction vms) auto

lemma find_append: "find P (xs @ ys) = (case find P xs of None \<Rightarrow> find P ys | Some x \<Rightarrow> Some x)"
  by (induction xs) auto

lemma assignIps_map:
  "distinct (map vmc_name vms) \<Longrightarrow>
     assignIps vmList vms = map (\<lambda>cfg. cfg\<lparr>vmc_ip := ipOf vmList cfg\<rparr>) vms"
proof (induction vmList arbitrary: vms)
  case (Cons vm vmList)
  then have "assignIps (vm # vmList) vms =
      map (\<lambda>cfg. cfg\<lparr>vmc_ip := ipOf vmList cfg\<rparr>) (setIp (obj_Name vm) (vm_IPAddress vm) vms)"
    by (simp add: setIp_names)
  then show ?case
    using Cons.prems by (auto simp: setIp_map ipOf_def find_append split: option.splits)
qed (simp add: ipOf_def)


section \<open>What the clean-up may delete\<close>

lemma forErr_preserves:
  assumes "forErr (\<lambda>x. callIO (f x)) xs w = Some (r, w')" and "P w"
    and "\<And>x v. x \<in> set xs \<Longrightarrow> P v \<Longrightarrow> P (snd (f x v))"
  shows "P w'"
  using assms
proof (induction xs arbitrary: w)
  case (Cons x xs)
  from Cons.prems(1) consider
    "fst (f x w) \<noteq> None" "w' = snd (f x w)"
    | "forErr (\<lambda>x. callIO (f x)) xs (snd (f x w)) = Some (r, w')"
    by (auto simp: bindIO_call retIO_def split: option.splits)
  then show ?case
  proof cases
    case 1
    then show ?thesis using Cons.prems by auto
  next
    case 2
    then show ?thesis using Cons.IH Cons.prems by auto
  qed
qed (simp add: run_simps)

lemma DeleteNs_preserves:
  assumes run: "DeleteNs cluster filters w = Some (r, w')" and P: "P w"
    and list: "\<And>v. P v \<Longrightarrow> P (snd (cl_list (NSs cluster) [] v))"
    and del: "\<And>ns v. P v \<Longrightarrow> list_all (\<lambda>f. NsFilter_keep (regexp_match cluster) f ns) filters \<Longrightarrow>
      P (snd (cl_delete (NSs cluster) ns v))"
  shows "P w'"
proof -
  obtain a w1 where a: "cl_list (NSs cluster) [] w = (a, w1)" by (cases "cl_list (NSs cluster) [] w")
  obtain b w2 where b: "cl_list (NSs cluster) [] w1 = (b, w2)" by (cases "cl_list (NSs cluster) [] w1")
  have P1: "P w1" and P2: "P w2" using list [OF P] list [of w1] a b by auto
  show ?thesis
  proof (cases "w' = w1 \<or> w' = w2")
    case False
    then obtain xs where "forErr (\<lambda>ns. callIO (cl_delete (NSs cluster) ns))
        (applyAll (NsFilter_Apply (regexp_match cluster)) filters xs) w2 = Some (r, w')"
      using run a b
      by (auto simp: DeleteNs_def ListNs_eq bindIO_run(1) [OF listFiltered_run] run_simps
          split: sum.splits if_splits)
    then show ?thesis
      by (rule forErr_preserves [where P = P, OF _ P2]) (auto simp: ns_filter.applyAll_iff list_all_iff intro: del)
  qed (use P1 P2 in auto)
qed

lemma cleanUpLoop_preserves:
  assumes "cleanUpLoop cluster testNS unixNow nss w = Some (r, w')" and "P w"
    and list: "\<And>v. P v \<Longrightarrow> P (snd (cl_list (NSs cluster) [] v))"
    and del: "\<And>ns v m. P v \<Longrightarrow> m \<in> set nss \<Longrightarrow> isStale testNS unixNow m \<Longrightarrow> obj_Name ns = obj_Name m \<Longrightarrow>
      P (snd (cl_delete (NSs cluster) ns v))"
  shows "P w'"
  using assms
proof (induction nss arbitrary: w)
  case (Cons m nss)
  show ?case
  proof (cases "isStale testNS unixNow m")
    case False
    with Cons.prems(1) have "cleanUpLoop cluster testNS unixNow nss w = Some (r, w')" by simp
    then show ?thesis by (rule Cons.IH [OF _ Cons.prems(2,3)]) (auto intro: Cons.prems(4))
  next
    case True
    then have "prefix ''e2e-tmp-'' (obj_Name m)" by (simp add: isStale_def)
    then have "hd (obj_Name m) = CHR ''e''" by (auto simp: prefix_def)
    then have keep: "NsFilter_keep rx (noNsFilter\<lparr>nsf_Name := Str (obj_Name m)\<rparr>) ns \<Longrightarrow>
        obj_Name ns = obj_Name m" for rx ns
      by (cases "obj_Name m")
        (auto simp: NsFilter_keep_def noNsFilter_def CheckStr_parse parse_cond.simps split: if_splits)
    obtain d w1 where d: "DeleteNs cluster [noNsFilter\<lparr>nsf_Name := Str (obj_Name m)\<rparr>] w = Some (d, w1)"
      using Cons.prems(1) True by (auto simp: bindIO_def split: option.splits)
    have P1: "P w1"
      by (rule DeleteNs_preserves [OF d Cons.prems(2,3)])
        (use True keep in \<open>auto intro!: Cons.prems(4) [of _ m]\<close>)
    show ?thesis
    proof (cases "w' = w1")
      case False
      then have "cleanUpLoop cluster testNS unixNow nss w1 = Some (r, w')"
        using Cons.prems(1) True d
        by (auto simp: bindIO_def run_simps split: outcome.splits option.splits)
      then show ?thesis by (rule Cons.IH [OF _ P1 Cons.prems(3)]) (auto intro: Cons.prems(4))
    qed (use P1 in simp)
  qed
qed (simp add: run_simps)



section \<open>Properties\<close>

text \<open>
  C16. \<^verbatim>\<open>identifyVmRoles\<close>: it succeeds exactly when there is one master, and a machine to
  bootstrap from. A master has no other role; the workers are the other machines with the
  worker role, in their order; the bootstrap machine is the last one with the setup role, or
  else the first worker. So no machine with the setup role is needed, and any number of them is
  accepted, while \<^verbatim>\<open>testkit_v2/README.md\<close> and the text of the error ask for exactly one.
\<close>

theorem identifyVmRoles_result:
  "identifyVmRoles vms = Inr (ms, ws, b) \<longleftrightarrow>
     ms = filter (\<lambda>vm. ''master'' \<in> set (vmc_roles vm)) vms \<and> length ms = 1 \<and>
     ws = filter (\<lambda>vm. ''master'' \<notin> set (vmc_roles vm) \<and> ''worker'' \<in> set (vmc_roles vm)) vms \<and>
     (case rev (filter (\<lambda>vm. ''master'' \<notin> set (vmc_roles vm) \<and> ''setup'' \<in> set (vmc_roles vm)) vms) of
        [] \<Rightarrow> ws \<noteq> [] \<and> b = hd ws
      | s # _ \<Rightarrow> b = s)"
proof -
  have roles: "isMaster = (\<lambda>vm. ''master'' \<in> set (vmc_roles vm))"
    "isWorker = (\<lambda>vm. ''master'' \<notin> set (vmc_roles vm) \<and> ''worker'' \<in> set (vmc_roles vm))"
    "isSetup = (\<lambda>vm. ''master'' \<notin> set (vmc_roles vm) \<and> ''setup'' \<in> set (vmc_roles vm))"
    by (simp_all add: role_defs fun_eq_iff)
  have "(if S = [] then ws \<noteq> [] \<and> b = hd ws else b = last S) =
      (case rev S of [] \<Rightarrow> ws \<noteq> [] \<and> b = hd ws | s # _ \<Rightarrow> b = s)" for S
    by (cases S rule: rev_cases) auto
  then show ?thesis unfolding identifyVmRoles_iff roles by (simp only:)
qed

definition buildable :: "clusterType \<Rightarrow> bool" where
  "buildable ct \<longleftrightarrow>
     distinct (map vmc_name (ct_VmCluster ct)) \<and>
     list_all (\<lambda>vm. map_of imageTable (vmc_image vm) \<noteq> None) (ct_VmCluster ct) \<and>
     (case identifyVmRoles (ct_VmCluster ct) of
        Inl _ \<Rightarrow> False
      | Inr (ms, ws, b) \<Rightarrow> vmc_name b \<noteq> vmc_name (hd ms) \<and> length ws \<ge> 2)"

text \<open>
  Every cluster type of the table can be built: its machines have distinct names and
  known images, and \<^verbatim>\<open>identifyVmRoles\<close> finds one master, a bootstrap machine that is not the
  master, and at least two workers. The keys of the table are distinct.
\<close>

theorem clusterTypes_buildable:
  "distinct (map fst clusterTypes) \<and> list_all (\<lambda>(name, ct). buildable ct) clusterTypes"
  by code_simp

text \<open>
  C27. When \<^verbatim>\<open>vmSync\<close> returns, its last listing held at least as many running machines in the
  namespace as are configured, and for configurations of distinct names the result is the
  configuration with the address of each such machine filled in, and nothing else changed.
\<close>

theorem vmSync_result:
  assumes "vmSync cluster lib sc vms nsName w = Some (Ret vms', w')" and "distinct (map vmc_name vms)"
  shows "\<exists>w0 listed running. cl_list (VMs cluster) [] w0 = (Inr listed, w') \<and>
    running = filter (\<lambda>vm. cond_holds (parse_cond nsName) (obj_Namespace vm) \<and> vm_Phase vm = ''Running'') listed \<and>
    length vms \<le> length running \<and>
    vms' = map (\<lambda>cfg. cfg\<lparr>vmc_ip :=
      case find (\<lambda>vm. obj_Name vm = vmc_name cfg) (rev running) of
        Some vm \<Rightarrow> vm_IPAddress vm | None \<Rightarrow> vmc_ip cfg\<rparr>) vms"
proof -
  let ?f = "[noVmFilter\<lparr>vmf_NameSpace := Str nsName, vmf_Phase := Str ''Running''\<rparr>]"
  obtain v running where wait: "RetryVal (8 * 60) (runningVMs cluster nsName (length vms)) v = Some (Ret (Inr running), w')"
    and vms': "vms' = assignIps running vms"
    using assms(1) unfolding vmSync_def
    by (auto simp: bindIO_Ret_iff run_simps split: sum.split_asm)
  obtain w0 where last: "runningVMs cluster nsName (length vms) w0 = Some (Ret (Inr running), w')"
    using RetryVal_last [OF wait] by blast
  obtain l v1 where l: "cl_list (VMs cluster) [] w0 = (l, v1)" by (cases "cl_list (VMs cluster) [] w0")
  obtain listed where listed: "l = Inr listed" "v1 = w'"
    and running: "running = applyAll (VmFilter_Apply (regexp_match cluster)) ?f listed"
    and len: "length vms \<le> length running"
    using last l
    by (auto simp: runningVMs_def ListVM_def bindIO_run(1) [OF listFiltered_run] run_simps
        split: sum.split_asm if_splits)
  have "VmFilter_keep rx (noVmFilter\<lparr>vmf_NameSpace := Str nsName, vmf_Phase := Str ''Running''\<rparr>) vm \<longleftrightarrow>
      cond_holds (parse_cond nsName) (obj_Namespace vm) \<and> vm_Phase vm = ''Running''" for rx vm
    by (auto simp: VmFilter_keep_def noVmFilter_def CheckStr_parse parse_cond.simps [of "''Running''"])
  then have "running = filter (\<lambda>vm. cond_holds (parse_cond nsName) (obj_Namespace vm) \<and>
      vm_Phase vm = ''Running'') listed"
    unfolding running vm_filter.applyAll_eq by simp
  with l listed len vms' assms(2) show ?thesis by (auto simp: assignIps_map ipOf_def)
qed

definition vm_running :: "string \<Rightarrow> string \<Rightarrow> VirtualMachine" where
  "vm_running name ip = (newVM ''e2e'' name [] 2 4 (name @ ''-system'') [])
     \<lparr>vm_Phase := ''Running'', vm_IPAddress := ip\<rparr>"

definition vm_cluster :: "world KCluster" where
  "vm_cluster = frozen_cluster\<lparr>VMs := frozen_client [vm_running ''vm1'' ''10.0.0.5'']\<rparr>"

lemma vm_cluster_sync:
  "vmSync vm_cluster (dead_lib :: (world, unit, unit, unit, unit) SshLib) [] [mkVm ''vm1'' [''master''] [] 4 8 20 ''Ubuntu_22'']
     ''e2e'' clock0 = Some (Ret [mkVm ''vm1'' [''master''] ''10.0.0.5'' 4 8 20 ''Ubuntu_22''], clock0)"
proof -
  have list: "ListVM vm_cluster [noVmFilter\<lparr>vmf_NameSpace := Str ''e2e''\<rparr>] clock0 =
      Some (Ret (Inr [vm_running ''vm1'' ''10.0.0.5'']), clock0)"
    by (simp add: ListVM_def listFiltered_run vm_cluster_def vm_running_def newVM_def noVmFilter_def CheckStr_def)
  have "runningVMs vm_cluster ''e2e'' 1 clock0 = Some (Ret (Inr [vm_running ''vm1'' ''10.0.0.5'']), clock0)"
    by (simp add: runningVMs_def ListVM_def bindIO_run(1) [OF listFiltered_run] run_simps vm_cluster_def
        vm_running_def newVM_def noVmFilter_def CheckStr_def)
  from RetryVal_now [where f = "runningVMs vm_cluster ''e2e'' 1", OF this] show ?thesis
    by (simp add: vmSync_def list bindIO_run(1) run_simps)
      (simp add: mkVm_def vm_running_def newVM_def)
qed

lemma vmSync_result_witness:
  "\<exists>w0 listed running. cl_list (VMs vm_cluster) [] w0 = (Inr listed, clock0) \<and>
    running = filter (\<lambda>vm. cond_holds (parse_cond ''e2e'') (obj_Namespace vm) \<and> vm_Phase vm = ''Running'') listed \<and>
    length [mkVm ''vm1'' [''master''] [] 4 8 20 ''Ubuntu_22''] \<le> length running \<and>
    [mkVm ''vm1'' [''master''] ''10.0.0.5'' 4 8 20 ''Ubuntu_22''] = map (\<lambda>cfg. cfg\<lparr>vmc_ip :=
      case find (\<lambda>vm. obj_Name vm = vmc_name cfg) (rev running) of
        Some vm \<Rightarrow> vm_IPAddress vm | None \<Rightarrow> vmc_ip cfg\<rparr>) [mkVm ''vm1'' [''master''] [] 4 8 20 ''Ubuntu_22'']"
  by (rule vmSync_result [OF vm_cluster_sync]) simp


text \<open>
  C8. The clean-up of stale namespaces spares everything else: a property of the world that
  survives listings and the deletion of namespaces which carry the name of a listed one that
  is stale (a temporary test namespace, not the current one, created more than 30 minutes
  before) survives \<^verbatim>\<open>cleanUpNs\<close>, however it ends. In particular neither the current test
  namespace nor one without the temporary prefix is ever deleted.
\<close>

theorem cleanUpNs_spares:
  assumes "cleanUpNs cluster testNS unixNow w = Some (r, w')" and "P w"
    and "\<And>v. P v \<Longrightarrow> P (snd (cl_list (NSs cluster) [] v))"
    and "\<And>ns v. P v \<Longrightarrow> obj_Name ns \<noteq> testNS \<Longrightarrow> prefix ''e2e-tmp-'' (obj_Name ns) \<Longrightarrow>
      (case fst (cl_list (NSs cluster) [] w) of Inl _ \<Rightarrow> False
       | Inr nss \<Rightarrow> list_ex (\<lambda>m. obj_Name m = obj_Name ns \<and>
           unixNow - om_CreationTimestamp (metadata m) > 1800) nss) \<Longrightarrow>
      P (snd (cl_delete (NSs cluster) ns v))"
  shows "P w'"
proof -
  obtain l w1 where l: "cl_list (NSs cluster) [] w = (l, w1)" by (cases "cl_list (NSs cluster) [] w")
  have P1: "P w1" using assms(3) [OF assms(2)] l by simp
  define nss where "nss = (case l of Inl _ \<Rightarrow> [] | Inr xs \<Rightarrow>
    applyAll (NsFilter_Apply (regexp_match cluster)) [noNsFilter\<lparr>nsf_Name := Str ''%e2e-tmp-%''\<rparr>] xs)"
  have "cleanUpLoop cluster testNS unixNow nss w1 = Some (r, w')"
    using assms(1) l
    by (cases l) (auto simp: cleanUpNs_def ListNs_eq bindIO_run(1) [OF listFiltered_run] nss_def)
  then show ?thesis
  proof (rule cleanUpLoop_preserves [where P = P, OF _ P1 assms(3)])
    fix ns :: Namespace and v m
    assume "P v" and m: "m \<in> set nss" and "isStale testNS unixNow m" and "obj_Name ns = obj_Name m"
    moreover obtain xs where "l = Inr xs" and "m \<in> set xs"
      using m by (cases l) (auto simp: nss_def ns_filter.applyAll_iff simp del: applyAll.simps)
    ultimately show "P (snd (cl_delete (NSs cluster) ns v))"
      using l by (intro assms(4)) (auto simp: isStale_def nsCleanUpSeconds_def list_ex_iff)
  qed
qed

definition ns_store :: "Namespace list KCluster" where
  "ns_store = frozen_cluster\<lparr>NSs := store_client id id\<rparr>"

definition old_ns :: "string \<Rightarrow> Namespace" where
  "old_ns name = \<lparr>metadata = (newMeta name [])\<lparr>om_CreationTimestamp := 0\<rparr>\<rparr>"

lemma cleanUpNs_run:
  "cleanUpNs ns_store ''e2e-tmp-77'' 9999 (map old_ns [''e2e-tmp-12'', ''e2e-tmp-77'', ''default'']) =
     Some (Ret (), map old_ns [''e2e-tmp-77'', ''default''])"
  by (simp add: cleanUpNs_def ns_store_def store_client_def old_ns_def ListNs_eq bindIO_run(1) [OF listFiltered_run]
      run_simps noNsFilter_def CheckStr_def sublist_code isStale_def nsCleanUpSeconds_def DeleteNs_def bindIO_call
      bindIO_def retIO_def callIO_def listFiltered_run)

lemma cleanUpNs_spares_witness:
  "old_ns ''e2e-tmp-77'' \<in> set (map old_ns [''e2e-tmp-77'', ''default''])"
  by (rule cleanUpNs_spares [OF cleanUpNs_run, where P = "\<lambda>w. old_ns ''e2e-tmp-77'' \<in> set w"])
    (auto simp: ns_store_def store_client_def old_ns_def)

lemma countReady_eq: "countReady nodes = length (filter nodeReady nodes)"
  by (induction nodes) auto

lemma nodesReadyCheck_iff:
  "nodesReadyCheck cluster n w = Some (Ret None, w') \<longleftrightarrow>
     (\<exists>nodes. cl_list (Nodes cluster) [] w = (Inr nodes, w') \<and> n \<le> length (filter nodeReady nodes))"
  by (cases "cl_list (Nodes cluster) [] w")
    (auto simp: nodesReadyCheck_def ListNode_def bindIO_run(1) [OF listFiltered_run] run_simps
      countReady_eq split: sum.splits)

text \<open>
  When \<^verbatim>\<open>ensureNodesReady\<close> has no error, its last listing of the nodes held at least the
  expected number of nodes with the condition \<^verbatim>\<open>Ready\<close> true.
\<close>

theorem ensureNodesReady_sound:
  assumes "ensureNodesReady cluster n w = Some (Ret None, w')"
  shows "\<exists>w0 nodes. cl_list (Nodes cluster) [] w0 = (Inr nodes, w') \<and>
    n \<le> length (filter (\<lambda>node. list_ex (\<lambda>c. c = (''Ready'', ''True'')) (node_Conditions node)) nodes)"
proof -
  have "nodeReady = (\<lambda>node. list_ex (\<lambda>c. c = (''Ready'', ''True'')) (node_Conditions node))"
    by (auto simp: nodeReady_def list_ex_iff fun_eq_iff)
  then show ?thesis
    using retry.last_attempt [OF assms [unfolded ensureNodesReady_def]] nodesReadyCheck_iff by metis
qed

definition three_nodes :: "world KCluster" where
  "three_nodes = frozen_cluster\<lparr>Nodes := frozen_client [node_named ''master-0'' [],
     (node_named ''w1'' [])\<lparr>node_Conditions := [(''Ready'', ''False'')]\<rparr>, node_named ''w2'' []]\<rparr>"

lemma ensureNodesReady_sound_witness:
  "\<exists>w0 nodes. cl_list (Nodes three_nodes) [] w0 = (Inr nodes, clock0) \<and>
    2 \<le> length (filter (\<lambda>node. list_ex (\<lambda>c. c = (''Ready'', ''True'')) (node_Conditions node)) nodes)"
proof (rule ensureNodesReady_sound)
  have "nodesReadyCheck three_nodes 2 clock0 = Some (Ret None, clock0)"
    unfolding nodesReadyCheck_iff by (simp add: three_nodes_def node_named_def nodeReady_def)
  then show "ensureNodesReady three_nodes 2 clock0 = Some (Ret None, clock0)"
    unfolding ensureNodesReady_def by (rule RetrySec_now)
qed

text \<open>
  The master counts as a worker: \<^verbatim>\<open>ClusterCreate\<close> expects as many ready nodes as there are
  workers, but the count is over all nodes, so a cluster whose master and all workers but one
  are ready is taken for complete.
\<close>

theorem nodesReadyCheck_misses_worker:
  assumes "cl_list (Nodes cluster) [] w = (Inr (master # late # workers), w')"
    and "nodeReady master" and "\<not> nodeReady late" and "list_all nodeReady workers"
  shows "nodesReadyCheck cluster (length (late # workers)) w = Some (Ret None, w')"
  using assms by (simp add: nodesReadyCheck_iff list_all_iff)

lemma nodesReadyCheck_misses_worker_witness:
  "nodesReadyCheck three_nodes 2 clock0 = Some (Ret None, clock0)"
proof -
  let ?late = "(node_named ''w1'' [])\<lparr>node_Conditions := [(''Ready'', ''False'')]\<rparr>"
  have "nodesReadyCheck three_nodes (length (?late # [node_named ''w2'' []])) clock0 = Some (Ret None, clock0)"
    by (rule nodesReadyCheck_misses_worker [where master = "node_named ''master-0'' []"])
      (simp_all add: three_nodes_def node_named_def nodeReady_def)
  then show ?thesis by (simp add: numeral_2_eq_2)
qed

text \<open>
  C28. The cache of clusters: after \<^verbatim>\<open>EnsureCluster\<close> returned a cluster for a configuration path and
  a name, it returns the same cluster for them again, at once and with no effect on the world
  or the environment, and the clusters cached before are still cached.
\<close>

theorem EnsureCluster_caches:
  assumes "EnsureCluster rt flags openLog configPath clusterName s w = Some (Ret (s', cluster), w')"
  shows "EnsureCluster rt flags openLog configPath clusterName s' v = Some (Ret (s', cluster), v) \<and>
    map_of (clrCache s) \<subseteq>\<^sub>m map_of (clrCache s')"
proof -
  let ?k = "configPath @ '':'' @ clusterName"
  obtain s1 w1 where first: "(if length (clrCache s) = 0
        then bindIO (firstUse rt flags openLog (cs_env s)) (\<lambda>(g, c). retIO (s\<lparr>cs_env := g, cs_nested := Some c\<rparr>))
        else retIO s) w = Some (Ret s1, w1)"
    and rest: "(case map_of (clrCache s1) ?k of
        Some cluster \<Rightarrow> retIO (s1, cluster)
      | None \<Rightarrow>
          bindIO (InitKCluster (rt_kube rt) (rt_clusterNameFlag rt) (cs_env s1) configPath clusterName) (\<lambda>r. case r of
              Inl err \<Rightarrow> exitIO (''Kubeclient '' @ quoted ?k @ '' problem: '' @ err_text err)
            | Inr (cluster, _) \<Rightarrow>
                bindIO (CreateNs cluster (TestNS (cs_env s1))) (\<lambda>_.
                  retIO (s1\<lparr>clrCache := (?k, cluster) # clrCache s1\<rparr>, cluster)))) w1 = Some (Ret (s', cluster), w')"
    using assms unfolding EnsureCluster_def Let_def by (rule bindIO_RetE)
  have same: "clrCache s1 = clrCache s"
    using first by (auto simp: bindIO_Ret_iff run_simps split: if_splits prod.split_asm)
  have hit: "map_of (clrCache s') ?k = Some cluster" and le: "map_of (clrCache s1) \<subseteq>\<^sub>m map_of (clrCache s')"
    using rest
    by (auto simp: bindIO_Ret_iff run_simps map_le_def split: option.split_asm sum.split_asm prod.split_asm)
  then have "clrCache s' \<noteq> []" by auto
  with hit have "EnsureCluster rt flags openLog configPath clusterName s' v = Some (Ret (s', cluster), v)"
    by (simp add: EnsureCluster_def Let_def run_simps)
  with le show ?thesis by (simp add: same)
qed

definition demo_env :: Env where
  "demo_env = (initialEnv 12 34)\<lparr>TestNS := ''e2e''\<rparr>"

definition demo_runtime :: "(world, unit, unit, unit, unit, unit) Runtime" where
  "demo_runtime = \<lparr>rt_ssh = dead_lib,
     rt_kube = \<lparr>kl_config = (\<lambda>p n w. (Inr (), w)), kl_schemes = [None], kl_rtClient = (\<lambda>r w. (None, w)),
       kl_goClient = (\<lambda>r. None), kl_dyClient = (\<lambda>r. None), kl_assemble = (\<lambda>r. three_nodes),
       kl_nodeGroups = (\<lambda>r. \<lparr>ng_list = (\<lambda>w. (Inr [], w)), ng_create = (\<lambda>j w. (None, w)),
         ng_patch = (\<lambda>a b w. (None, w)), ng_delete = (\<lambda>a w. (None, w)), ng_marshal = (\<lambda>j. Inr [])\<rparr>)\<rparr>,
     rt_sprintf = (\<lambda>f a. f), rt_licenseKey = [], rt_clusterNameFlag = [], rt_unixNow = 0\<rparr>"

lemma demo_ensure:
  "EnsureCluster demo_runtime flags_mini None [] ''nested''
     \<lparr>clrCache = [('':'', frozen_cluster)], cs_env = demo_env, cs_nested = None\<rparr> clock0 =
   Some (Ret (\<lparr>clrCache = [('':nested'', three_nodes), ('':'', frozen_cluster)], cs_env = demo_env,
     cs_nested = None\<rparr>, three_nodes), clock0)"
  by (simp add: EnsureCluster_def run_simps demo_runtime_def InitKCluster_def Let_def NewRestConfig_def
      NewKubeRTClient_def bindIO_call bindIO_def retIO_def callIO_def CreateNs_def three_nodes_def)

lemma EnsureCluster_caches_witness:
  "EnsureCluster demo_runtime flags_mini None [] ''nested''
     \<lparr>clrCache = [('':nested'', three_nodes), ('':'', frozen_cluster)], cs_env = demo_env,
       cs_nested = None\<rparr> clock0 =
   Some (Ret (\<lparr>clrCache = [('':nested'', three_nodes), ('':'', frozen_cluster)], cs_env = demo_env,
     cs_nested = None\<rparr>, three_nodes), clock0)"
  using EnsureCluster_caches [OF demo_ensure, of clock0] by simp

end
