(* ===== verification/ClusterRun.thy ===== *)
theory ClusterRun
  imports Cluster
begin

text \<open>
  What a run of \<^verbatim>\<open>ClusterCreate\<close> that comes to its end has done, over all the components it is made of:
  the hypervisor, the machines, the SSH connections, the nested cluster, its static nodes and its modules.
\<close>

section \<open>The steps\<close>

lemma fatalIf_RetE:
  assumes "bindIO (fatalIf what m) k w = Some (Ret y, w')"
  obtains w1 where "m w = Some (Ret None, w1)" and "k () w1 = Some (Ret y, w')"
  using assms by (auto simp: fatalIf_def bindIO_Ret_iff run_simps split: option.split_asm)

lemma pair_RetE:
  assumes "bindIO m (\<lambda>(a, b). k a b) w = Some (Ret y, w')"
  obtains a b w1 where "m w = Some (Ret (a, b), w1)" and "k a b w1 = Some (Ret y, w')"
  using assms by (auto simp: bindIO_Ret_iff)

lemma case_sum_RetE:
  assumes "(case r of Inl e \<Rightarrow> exitIO (msg e) | Inr x \<Rightarrow> k x) w = Some (Ret y, w')"
  obtains x where "r = Inr x" and "k x w = Some (Ret y, w')"
  using assms by (auto simp: run_simps split: sum.split_asm)

lemma case_pair_RetE:
  assumes "(case p of (a, b) \<Rightarrow> k a b) w = Some (Ret y, w')"
  obtains a b where "p = (a, b)" and "k a b w = Some (Ret y, w')"
  using assms by (cases p) auto

lemma andNext_NoneE:
  assumes "andNext m k w = Some (Ret None, w')"
  obtains w1 where "m w = Some (Ret None, w1)" and "k w1 = Some (Ret None, w')"
  using assms by (auto simp: andNext_def bindIO_Ret_iff run_simps split: option.split_asm)

lemma orWrap_None: "orWrap what m w = Some (Ret None, w') \<longleftrightarrow> m w = Some (Ret None, w')"
  by (auto simp: orWrap_def bindIO_Ret_iff run_simps split: option.splits)

lemma createStaticInstances_all:
  assumes "createStaticInstances cluster name role ips cred w = Some (Ret None, w')"
  shows "list_all (\<lambda>ip. \<exists>v v'. EnsureStaticInstance cluster (siName cluster name ip) role ip cred v = Some (Ret None, v')) ips"
  using assms
  by (induction ips arbitrary: w)
    (auto simp: panicIO_def bindIO_Ret_iff run_simps split: if_split_asm option.split_asm)

lemma AddStaticNodes_all:
  assumes "AddStaticNodes cluster api readFile key name user ips w = Some (Ret None, w')"
  shows "list_all (\<lambda>ip. \<exists>v v'. EnsureStaticInstance cluster (siName cluster name ip) (''vm-'' @ name @ ''-worker'') ip
    (name @ ''rsa'') v = Some (Ret None, v')) ips"
proof -
  obtain cred w1 w2 where c: "createSSHCredentials cluster readFile key name user w = Some (Ret (Inr cred), w1)"
    and i: "createStaticInstances cluster name (''vm-'' @ name @ ''-worker'') ips cred w1 = Some (Ret None, w2)"
    using assms unfolding AddStaticNodes_def Let_def by (elim bind_sum_NoneE bind_option_NoneE)
  have "cred = name @ ''rsa''"
    using c by (auto simp: createSSHCredentials_def bindIO_Ret_iff run_simps split: sum.split_asm option.split_asm)
  with createStaticInstances_all [OF i] show ?thesis by simp
qed

text \<open>A daemon set all of whose desired pods are scheduled, ready and running, at the end of the wait.\<close>

definition daemonSetRuns :: "'w KCluster \<Rightarrow> string \<Rightarrow> string \<Rightarrow> bool" where
  "daemonSetRuns cluster nsName dsName \<longleftrightarrow>
     (\<exists>v ds v1 pods v2. cl_get (DaemonSets cluster) nsName dsName v = (Inr ds, v1) \<and>
        cl_list (Pods cluster) nsName v1 = (Inr pods, v2) \<and>
        ds_CurrentNumberScheduled ds = ds_DesiredNumberScheduled ds \<and>
        ds_NumberReady ds = ds_DesiredNumberScheduled ds \<and>
        int (length (filter (\<lambda>p. sublist (dsName @ ''-'') (obj_Name p)) pods)) = ds_DesiredNumberScheduled ds \<and>
        list_all (\<lambda>p. pod_Phase p = ''Running'') (filter (\<lambda>p. sublist (dsName @ ''-'') (obj_Name p)) pods))"

definition deploymentReady :: "'w KCluster \<Rightarrow> string \<Rightarrow> string \<Rightarrow> bool" where
  "deploymentReady cluster nsName name \<longleftrightarrow>
     (\<exists>v d v'. cl_get (Deployments cluster) nsName name v = (Inr d, v') \<and> dep_ReadyReplicas d = dep_Replicas d)"

lemma WaitUntilDaemonSetReady_runs:
  assumes "WaitUntilDaemonSetReady cluster nsName dsName timeout w = Some (Ret None, w')"
  shows "daemonSetRuns cluster nsName dsName"
  using WaitUntilDaemonSetReady_sound [OF assms] unfolding daemonSetRuns_def by blast

lemma WaitUntilDeploymentReady_ready:
  assumes "WaitUntilDeploymentReady cluster nsName name timeout w = Some (Ret None, w')"
  shows "deploymentReady cluster nsName name"
proof -
  obtain w0 where "bindIO (CheckDeploymentReady cluster nsName name)
      (\<lambda>r. case r of Some err \<Rightarrow> retIO (Some err) | None \<Rightarrow> retIO None) w0 = Some (Ret None, w')"
    using retry.last_attempt [OF assms [unfolded WaitUntilDeploymentReady_def]] by blast
  then have c: "CheckDeploymentReady cluster nsName name w0 = Some (Ret None, w')"
    by (auto simp: bindIO_Ret_iff run_simps split: option.split_asm)
  obtain d v where "cl_get (Deployments cluster) nsName name w0 = (d, v)" by fastforce
  with c show ?thesis
    unfolding deploymentReady_def
    by (cases d) (auto simp: CheckDeploymentReady_def bindIO_call run_simps split: if_split_asm)
qed

text \<open>The four waits of \<^verbatim>\<open>ensureClusterReady\<close>.\<close>

definition modulesRun :: "'w KCluster \<Rightarrow> bool" where
  "modulesRun cluster \<longleftrightarrow>
     deploymentReady cluster ''d8-snapshot-controller'' ''snapshot-controller'' \<and>
     deploymentReady cluster ''d8-sds-local-volume'' ''csi-controller'' \<and>
     daemonSetRuns cluster ''d8-sds-local-volume'' ''csi-node'' \<and>
     daemonSetRuns cluster ''d8-sds-node-configurator'' ''sds-node-configurator''"

lemma ensureClusterReady_runs:
  assumes "ensureClusterReady cluster w = Some (Ret None, w')"
  shows "modulesRun cluster"
  using assms unfolding ensureClusterReady_def modulesRun_def
  by (elim andNext_NoneE, unfold orWrap_None)
    (blast intro: WaitUntilDaemonSetReady_runs WaitUntilDeploymentReady_ready)


section \<open>The run\<close>

lemma ensureNodesReady_counts:
  assumes "ensureNodesReady cluster n w = Some (Ret None, w')"
  obtains v nodes where "cl_list (Nodes cluster) [] v = (Inr nodes, w')"
    and "n \<le> length (filter (\<lambda>node. list_ex (\<lambda>c. c = (''Ready'', ''True'')) (node_Conditions node)) nodes)"
  using ensureNodesReady_sound [OF assms] by blast

lemma identifyVmRoles_one:
  assumes "identifyVmRoles vms = Inr (ms, ws, b)"
  shows "\<exists>m. ms = [m]"
  using assms unfolding identifyVmRoles_iff by (auto simp: length_Suc_conv)

lemma fatalIf_lastE:
  assumes "fatalIf what m w = Some (Ret u, w')"
  obtains "m w = Some (Ret None, w')"
  using assms by (auto simp: fatalIf_def bindIO_Ret_iff run_simps split: option.split_asm)

text \<open>The steps of a run that ends, with the state between any two of them.\<close>

lemma ClusterCreate_steps:
  assumes "ClusterCreate rt g w = Some (Ret (g', nestedClient), w')"
  obtains hvClient hvCluster api0 vms master workers bootstrap cluster api w1 w2 w3 w4 w5 w6 w7 w8 w9
  where "setupHypervisorConnection rt g w = Some (Ret (hvClient, Inr (hvCluster, api0)), w1)"
    and "prepareNamespace hvCluster (rt_ssh rt) g (rt_unixNow rt) (TestNS g) w1 = Some (Ret (), w2)"
    and "vmSync hvCluster (rt_ssh rt) (HvStorageClass g) (VmCluster g) (TestNS g) w2 = Some (Ret vms, w3)"
    and "g' = g\<lparr>VmCluster := vms\<rparr>" and "identifyVmRoles vms = Inr ([master], workers, bootstrap)"
    and "GetFwdClient (rt_ssh rt) hvClient (NestedSshUser g) (vmc_ip master @ '':22'') (NestedSshKey g) w3 =
      Some (Ret nestedClient, w4)"
    and "initVmD8 (rt_ssh rt) (rt_sprintf rt) (rt_licenseKey rt) g' hvClient nestedClient master bootstrap
      (NestedSshKey g) w4 = Some (Ret (), w5)"
    and "InitKCluster (rt_kube rt) (rt_clusterNameFlag rt) g' [] [] w5 = Some (Ret (Inr (cluster, api)), w6)"
    and "ensureDockerRemoved (rt_ssh rt) hvClient (NestedSshKey g) (vmc_ip bootstrap) w6 = Some (Ret None, w7)"
    and "AddStaticNodes cluster api (sl_ReadFile (rt_ssh rt)) (NestedSshKey g) ''e2e'' ''user'' (map vmc_ip workers) w7 =
      Some (Ret None, w8)"
    and "ensureNodesReady cluster (length workers) w8 = Some (Ret None, w9)"
    and "ensureClusterReady cluster w9 = Some (Ret None, w')"
  using assms unfolding ClusterCreate_def Let_def
  apply -
  apply (elim fatalIf_RetE pair_RetE case_sum_RetE case_pair_RetE bindIO_RetE)
  apply (simp add: run_simps)
  apply (frule identifyVmRoles_one)
  apply (elim exE conjE)
  apply hypsubst
  apply (rule that)
  apply (assumption | simp)+
  done

text \<open>
  C2. When \<^verbatim>\<open>ClusterCreate\<close> returns, its steps were taken one after the other: the machines of
  \<^verbatim>\<open>vmSync\<close> with their addresses are the only change of the environment and have exactly one master; the
  SSH client that is kept was dialled to that master through the hypervisor; each worker became a static
  instance of the nested cluster without an error; the listing of nodes that ended the wait, in the state
  the waits for the modules start from, held at least as many ready nodes as there are workers; and both
  deployments and both daemon sets of the storage modules were seen ready, with every pod running.
\<close>

theorem ClusterCreate_result:
  assumes "ClusterCreate rt g w = Some (Ret (g', nestedClient), w')"
  shows "\<exists>hvClient hvCluster api0 vms master workers bootstrap cluster api w1 w2 w3 w4 w5 w6 v nodes w9.
    setupHypervisorConnection rt g w = Some (Ret (hvClient, Inr (hvCluster, api0)), w1) \<and>
    prepareNamespace hvCluster (rt_ssh rt) g (rt_unixNow rt) (TestNS g) w1 = Some (Ret (), w2) \<and>
    vmSync hvCluster (rt_ssh rt) (HvStorageClass g) (VmCluster g) (TestNS g) w2 = Some (Ret vms, w3) \<and>
    g' = g\<lparr>VmCluster := vms\<rparr> \<and> identifyVmRoles vms = Inr ([master], workers, bootstrap) \<and>
    GetFwdClient (rt_ssh rt) hvClient (NestedSshUser g) (vmc_ip master @ '':22'') (NestedSshKey g) w3 =
      Some (Ret nestedClient, w4) \<and>
    initVmD8 (rt_ssh rt) (rt_sprintf rt) (rt_licenseKey rt) g' hvClient nestedClient master bootstrap (NestedSshKey g) w4 =
      Some (Ret (), w5) \<and>
    InitKCluster (rt_kube rt) (rt_clusterNameFlag rt) g' [] [] w5 = Some (Ret (Inr (cluster, api)), w6) \<and>
    list_all (\<lambda>vm. \<exists>v v'. EnsureStaticInstance cluster (siName cluster ''e2e'' (vmc_ip vm)) ''vm-e2e-worker'' (vmc_ip vm)
      ''e2ersa'' v = Some (Ret None, v')) workers \<and>
    cl_list (Nodes cluster) [] v = (Inr nodes, w9) \<and>
    length workers \<le> length (filter (\<lambda>node. list_ex (\<lambda>c. c = (''Ready'', ''True'')) (node_Conditions node)) nodes) \<and>
    ensureClusterReady cluster w9 = Some (Ret None, w') \<and> modulesRun cluster"
  using assms
  apply (rule ClusterCreate_steps)
  apply (frule AddStaticNodes_all)
  apply (frule ensureClusterReady_runs)
  apply (erule ensureNodesReady_counts)
  apply (intro exI conjI)
  apply (assumption | simp add: list.pred_map comp_def)+
  done

text \<open>A library whose calls all succeed, and a cluster on which all there is to wait for is ready.\<close>

definition live_lib :: "(world, string, string, unit, unit) SshLib" where
  "live_lib = dead_lib
     \<lparr>sl_Stat := (\<lambda>f w. (None, w)), sl_ReadFile := (\<lambda>f w. (Inr [], w)), sl_WriteFile := (\<lambda>f s m w. (None, w)),
      sl_ParsePrivateKey := (\<lambda>k. Inr ()), sl_Dial := (\<lambda>n a c w. (Inr a, w)), sl_ClientDial := (\<lambda>c n a w. (Inr a, w)),
      sl_NewClientConn := (\<lambda>n a c w. (Inr a, w)), sl_NewSession := (\<lambda>c w. (None, w)),
      sl_CombinedOutput := (\<lambda>c s w. (([], None), w))\<rparr>"

definition running_set :: "string \<Rightarrow> DaemonSet" where
  "running_set name = \<lparr>metadata = newMeta name [], ds_DesiredNumberScheduled = 1,
     ds_CurrentNumberScheduled = 1, ds_NumberReady = 1\<rparr>"

definition ready_cluster :: "world KCluster" where
  "ready_cluster = frozen_cluster
     \<lparr>VMs := frozen_client [vm_running ''vm1'' ''10.0.0.5'', vm_running ''vm2'' ''10.0.0.6''],
      Nodes := frozen_client [node_named ''vm1'' [], node_named ''vm2'' []],
      Deployments := frozen_client [\<lparr>metadata = newMeta ''snapshot-controller'' [], dep_ReadyReplicas = 1, dep_Replicas = 1\<rparr>,
        \<lparr>metadata = newMeta ''csi-controller'' [], dep_ReadyReplicas = 2, dep_Replicas = 2\<rparr>],
      DaemonSets := frozen_client [running_set ''csi-node'', running_set ''sds-node-configurator''],
      Pods := frozen_client [zeroPod\<lparr>metadata := newMeta ''csi-node-x1'' [], pod_Phase := ''Running''\<rparr>,
        zeroPod\<lparr>metadata := newMeta ''sds-node-configurator-y2'' [], pod_Phase := ''Running''\<rparr>],
      SSHCreds := frozen_client [\<lparr>metadata = newMeta ''e2ersa'' [], sshc_Spec = credSpec [] []\<rparr>]\<rparr>"

definition live_runtime :: "(world, string, string, unit, unit, unit) Runtime" where
  "live_runtime =
     \<lparr>rt_ssh = live_lib, rt_kube = (rt_kube demo_runtime)\<lparr>kl_assemble := (\<lambda>r. ready_cluster)\<rparr>,
      rt_sprintf = (\<lambda>f a. f), rt_licenseKey = [], rt_clusterNameFlag = [], rt_unixNow = 0\<rparr>"

definition live_env :: Env where
  "live_env = demo_env\<lparr>HvSshKey := ''id_hv'', NestedSshKey := ''id_rsa_test'',
     VmCluster := [mkVm ''vm1'' [''master''] [] 4 8 20 ''Ubuntu_22'', mkVm ''vm2'' [''setup'', ''worker''] [] 2 6 20 ''Ubuntu_22'']\<rparr>"

definition live_vms :: "VmConfig list" where
  "live_vms = [mkVm ''vm1'' [''master''] ''10.0.0.5'' 4 8 20 ''Ubuntu_22'',
     mkVm ''vm2'' [''setup'', ''worker''] ''10.0.0.6'' 2 6 20 ''Ubuntu_22'']"

lemma live_ssh:
  "k \<noteq> [] \<Longrightarrow> GetSshClient live_lib user addr k w = Some (Ret addr, w)"
  "k \<noteq> [] \<Longrightarrow> GetFwdClient live_lib c user addr k w = Some (Ret addr, w)"
  "Exec live_lib c cmd w = Some (Ret ([], None), w)"
  "GenerateRSAKeys live_lib f1 f2 w = Some (Ret (), w)"
  "sl_ReadFile live_lib f w = (Inr [], w)" "sl_WriteFile live_lib f t m w = (None, w)" "sl_Close live_lib r w = (None, w)"
  by (simp_all add: GetSshClient_def GetFwdClient_def Dial_def dial_loop.simps newSshConfig_def keySigner_def Exec_def
      GenerateRSAKeys_def deferClose_def deferIO_run live_lib_def dead_lib_def bindIO_call bindIO_run run_simps)

lemma live_runtime_ssh: "rt_ssh live_runtime = live_lib"
  by (simp add: live_runtime_def)

lemma live_kube: "InitKCluster (rt_kube live_runtime) c g p n w =
    Some (Ret (Inr (ready_cluster, kl_nodeGroups (rt_kube demo_runtime) ())), w)"
  by (simp add: InitKCluster_def Let_def NewRestConfig_def NewKubeRTClient_def live_runtime_def demo_runtime_def
      bindIO_call bindIO_run run_simps)

lemma live_setup:
  "setupHypervisorConnection live_runtime live_env w =
     Some (Ret (HvHost live_env @ '':22'', Inr (ready_cluster, kl_nodeGroups (rt_kube demo_runtime) ())), w)"
  "prepareNamespace ready_cluster live_lib live_env t ns w = Some (Ret (), w)"
  by (simp_all add: setupHypervisorConnection_def prepareNamespace_def CreateNs_def fatalIf_def live_ssh live_kube
      live_runtime_ssh live_env_def demo_env_def initialEnv_def ready_cluster_def
      bindIO_call bindIO_run run_simps)

lemma live_sync: "vmSync ready_cluster live_lib sc (VmCluster live_env) ''e2e'' clock0 = Some (Ret live_vms, clock0)"
proof -
  let ?vms = "[vm_running ''vm1'' ''10.0.0.5'', vm_running ''vm2'' ''10.0.0.6'']"
  have list: "ListVM ready_cluster [noVmFilter\<lparr>vmf_NameSpace := Str ''e2e''\<rparr>] clock0 = Some (Ret (Inr ?vms), clock0)"
    by (simp add: ListVM_def listFiltered_run ready_cluster_def vm_running_def newVM_def noVmFilter_def CheckStr_def)
  have "runningVMs ready_cluster ''e2e'' 2 clock0 = Some (Ret (Inr ?vms), clock0)"
    by (simp add: runningVMs_def ListVM_def bindIO_run(1) [OF listFiltered_run] run_simps ready_cluster_def
        vm_running_def newVM_def noVmFilter_def CheckStr_def)
  from RetryVal_now [where f = "runningVMs ready_cluster ''e2e'' 2", OF this] show ?thesis
    by (simp add: vmSync_def list bindIO_run(1) run_simps live_env_def live_vms_def numeral_2_eq_2)
      (simp add: mkVm_def vm_running_def newVM_def)
qed

lemma live_waits:
  "ensureNodesReady ready_cluster (Suc 0) clock0 = Some (Ret None, clock0)"
  "ensureClusterReady ready_cluster clock0 = Some (Ret None, clock0)"
proof -
  have "nodesReadyCheck ready_cluster (Suc 0) clock0 = Some (Ret None, clock0)"
    unfolding nodesReadyCheck_iff by (simp add: ready_cluster_def node_named_def nodeReady_def)
  then show "ensureNodesReady ready_cluster (Suc 0) clock0 = Some (Ret None, clock0)"
    unfolding ensureNodesReady_def by (rule RetrySec_now)
  have d: "CheckDeploymentReady ready_cluster ns d clock0 = Some (Ret None, clock0)
    \<Longrightarrow> WaitUntilDeploymentReady ready_cluster ns d t clock0 = Some (Ret None, clock0)" for ns d t
    unfolding WaitUntilDeploymentReady_def by (rule RetrySec_now) (simp add: bindIO_run run_simps)
  have s: "CheckDaemonSetReady ready_cluster ns d clock0 = Some (Ret None, clock0)
    \<Longrightarrow> WaitUntilDaemonSetReady ready_cluster ns d t clock0 = Some (Ret None, clock0)" for ns d t
    unfolding WaitUntilDaemonSetReady_def by (rule RetrySec_now) (simp add: bindIO_run run_simps)
  have "CheckDeploymentReady ready_cluster ns ''snapshot-controller'' clock0 = Some (Ret None, clock0)"
    "CheckDeploymentReady ready_cluster ns ''csi-controller'' clock0 = Some (Ret None, clock0)" for ns
    by (simp_all add: CheckDeploymentReady_def ready_cluster_def bindIO_call run_simps)
  moreover have "CheckDaemonSetReady ready_cluster ns ''csi-node'' clock0 = Some (Ret None, clock0)"
    "CheckDaemonSetReady ready_cluster ns ''sds-node-configurator'' clock0 = Some (Ret None, clock0)" for ns
    unfolding CheckDaemonSetReady_iff by (simp_all add: ready_cluster_def running_set_def zeroPod_def sublist_code)
  ultimately show "ensureClusterReady ready_cluster clock0 = Some (Ret None, clock0)"
    by (simp add: ensureClusterReady_def andNext_def orWrap_def bindIO_run run_simps d s)
qed

lemma live_nodes:
  "AddStaticNodes ready_cluster (kl_nodeGroups (rt_kube demo_runtime) ()) (sl_ReadFile live_lib) k ''e2e'' ''user''
     [''10.0.0.6''] clock0 = Some (Ret None, clock0)"
  by (simp add: AddStaticNodes_def createSSHCredentials_def CreateOrUpdSSHCredential_def CreateSSHCredential_def
      GetSSHCredential_def createNodeGroupForStatic_def CreateNodeGroupStatic_def CreateNodeGroup_def nodeGroupObj_def
      EnsureStaticInstance_def demo_runtime_def ready_cluster_def live_ssh Let_def bindIO_call bindIO_run run_simps)

lemma live_roles: "identifyVmRoles live_vms = Inr (take 1 live_vms, tl live_vms, last live_vms)"
  by (simp add: identifyVmRoles_def live_vms_def mkVm_def Let_def)

lemma live_run:
  "ClusterCreate live_runtime live_env clock0 = Some (Ret (live_env\<lparr>VmCluster := live_vms\<rparr>, ''10.0.0.5:22''), clock0)"
proof -
  have env: "TestNS live_env = ''e2e''" "NestedSshKey live_env = ''id_rsa_test''"
    by (simp_all add: live_env_def demo_env_def)
  have vms: "map vmc_ip (tl live_vms) = [''10.0.0.6'']" "length live_vms = 2" "vmc_ip (hd live_vms) = ''10.0.0.5''"
    by (simp_all add: live_vms_def mkVm_def)
  have d: "initVmD8 live_lib f l (live_env\<lparr>VmCluster := live_vms\<rparr>) h c m b k w = Some (Ret (), w)" for f l h c m b k w
    by (simp add: initVmD8_def checkDeckhouseInstalled_def getKubeconfig_def fatalIf_def ExecFatal_def live_ssh Let_def
        bindIO_call bindIO_run run_simps sublist_code)
  have r: "ensureDockerRemoved live_lib h ''id_rsa_test'' ip w = Some (Ret None, w)" for h ip w
    by (simp add: ensureDockerRemoved_def deferClose_def deferIO_run live_ssh bindIO_run run_simps sublist_code)
  show ?thesis
    by (simp add: ClusterCreate_def Let_def live_runtime_ssh live_kube live_setup live_sync live_roles live_nodes live_waits
        live_ssh env vms d r fatalIf_def bindIO_run run_simps)
qed

lemma ClusterCreate_result_witness:
  "\<exists>hvClient hvCluster api0 vms master workers bootstrap cluster api w1 w2 w3 w4 w5 w6 v nodes w9.
    setupHypervisorConnection live_runtime live_env clock0 = Some (Ret (hvClient, Inr (hvCluster, api0)), w1) \<and>
    prepareNamespace hvCluster (rt_ssh live_runtime) live_env (rt_unixNow live_runtime) (TestNS live_env) w1 =
      Some (Ret (), w2) \<and>
    vmSync hvCluster (rt_ssh live_runtime) (HvStorageClass live_env) (VmCluster live_env) (TestNS live_env) w2 =
      Some (Ret vms, w3) \<and>
    live_env\<lparr>VmCluster := live_vms\<rparr> = live_env\<lparr>VmCluster := vms\<rparr> \<and>
    identifyVmRoles vms = Inr ([master], workers, bootstrap) \<and>
    GetFwdClient (rt_ssh live_runtime) hvClient (NestedSshUser live_env) (vmc_ip master @ '':22'') (NestedSshKey live_env) w3 =
      Some (Ret ''10.0.0.5:22'', w4) \<and>
    initVmD8 (rt_ssh live_runtime) (rt_sprintf live_runtime) (rt_licenseKey live_runtime) (live_env\<lparr>VmCluster := live_vms\<rparr>)
      hvClient ''10.0.0.5:22'' master bootstrap (NestedSshKey live_env) w4 = Some (Ret (), w5) \<and>
    InitKCluster (rt_kube live_runtime) (rt_clusterNameFlag live_runtime) (live_env\<lparr>VmCluster := live_vms\<rparr>) [] [] w5 =
      Some (Ret (Inr (cluster, api)), w6) \<and>
    list_all (\<lambda>vm. \<exists>v v'. EnsureStaticInstance cluster (siName cluster ''e2e'' (vmc_ip vm)) ''vm-e2e-worker'' (vmc_ip vm)
      ''e2ersa'' v = Some (Ret None, v')) workers \<and>
    cl_list (Nodes cluster) [] v = (Inr nodes, w9) \<and>
    length workers \<le> length (filter (\<lambda>node. list_ex (\<lambda>c. c = (''Ready'', ''True'')) (node_Conditions node)) nodes) \<and>
    ensureClusterReady cluster w9 = Some (Ret None, clock0) \<and> modulesRun cluster"
  by (rule ClusterCreate_result [OF live_run])

end
