(* ===== verification/Tester.thy ===== *)
theory Tester
  imports Nodes "HOL-Library.Multiset"
begin

text \<open>
  \<^verbatim>\<open>testkit_v2/util/kube_tester.go\<close>: skipping, and running one test function on the nodes of every
  label, in one goroutine or as a tree of subtests. The \<^verbatim>\<open>testing\<close> package is modelled as far as
  these functions use it: a test is failed or skipped, its goroutine finishes or leaves by
  \<^verbatim>\<open>runtime.Goexit\<close>, and the subtests that called \<^verbatim>\<open>t.Parallel\<close> are paused until it has ended. Go visits a
  map in no fixed order, so the order of the labels is an argument.
\<close>

section \<open>Tests\<close>

record testT =
  tFailed :: bool
  tSkipped :: bool

definition freshT :: testT where
  "freshT = \<lparr>tFailed = False, tSkipped = False\<rparr>"

datatype ending = Finished | Goexit

text \<open>A test function gets its \<^verbatim>\<open>*testing.T\<close>, and leaves it changed.\<close>

type_synonym 'w test = "testT \<Rightarrow> ('w, ending \<times> testT) io"

definition t_Errorf :: "testT \<Rightarrow> testT" where
  "t_Errorf t = t\<lparr>tFailed := True\<rparr>"

definition t_Fatal :: "'w test" where
  "t_Fatal t = retIO (Goexit, t\<lparr>tFailed := True\<rparr>)"

definition t_SkipNow :: "'w test" where
  "t_SkipNow t = retIO (Goexit, t\<lparr>tSkipped := True\<rparr>)"

text \<open>
  A subtest that has called \<^verbatim>\<open>t.Parallel\<close> as its first statement is paused there. When it is resumed it runs to
  its end, and leaves its state and the subtests of its own that are paused then.
\<close>

datatype 'w subtest = Subtest (resume: "'w \<Rightarrow> ((testT \<times> 'w subtest list) outcome \<times> 'w) option")

text \<open>A test function that may leave paused subtests behind, and one that has none.\<close>

type_synonym 'w group = "testT \<Rightarrow> ('w, ending \<times> testT \<times> 'w subtest list) io"

definition plain :: "'w test \<Rightarrow> 'w group" where
  "plain f t = bindIO (f t) (\<lambda>(e, t'). retIO (e, t', []))"

text \<open>
  What \<^verbatim>\<open>tRunner\<close> does when the function of a test has ended: the paused subtests are resumed, and it waits for
  all of them and for those they leave. Each number of the schedule picks one of the paused subtests, which
  runs to its end; a schedule that is too short has no result. The result is whether any of them failed.
\<close>

fun drain :: "nat list \<Rightarrow> 'w subtest list \<Rightarrow> bool \<Rightarrow> ('w, bool) io" where
  "drain [] pool failed = (if length pool = 0 then retIO failed else (\<lambda>w. None))"
| "drain (k # ks) pool failed =
     (if length pool = 0 then retIO failed
      else (let i = k mod length pool in
        bindIO (resume (pool ! i)) (\<lambda>(c, ps).
          drain ks (take i pool @ drop (Suc i) pool @ ps) (failed \<or> tFailed c))))"

text \<open>
  \<^verbatim>\<open>t.Run\<close>: the subtest has a fresh \<^verbatim>\<open>T\<close> and a goroutine of its own; its failure is its parent's, its skip
  is not. A subtest that begins with \<^verbatim>\<open>t.Parallel\<close> hands the control back at once.
\<close>

definition t_Run :: "nat list \<Rightarrow> bool \<Rightarrow> 'w group \<Rightarrow> 'w group" where
  "t_Run sched par f t =
     (if par then retIO (Finished, t, [Subtest (bindIO (f freshT) (\<lambda>(_, c, ps). retIO (c, ps)))])
      else bindIO (f freshT) (\<lambda>(_, c, ps). bindIO (drain sched ps (tFailed c)) (\<lambda>failed.
        retIO (Finished, t\<lparr>tFailed := tFailed t \<or> failed\<rparr>, []))))"

record TestNode =
  tn_Id :: nat
  tn_Name :: string
  tn_GroupName :: string
  tn_Raw :: Node

text \<open>The code after \<^verbatim>\<open>t.T.Skip\<close> is not reached: that call does not return.\<close>

definition T_Skip :: "bool \<Rightarrow> 'w test" where
  "T_Skip SkipOptional t = (if SkipOptional then t_SkipNow t else t_Fatal t)"

definition T_Skipf :: "bool \<Rightarrow> 'w test" where
  "T_Skipf SkipOptional t = (if SkipOptional then t_SkipNow t else t_Fatal t)"


section \<open>Running a test on every node\<close>

text \<open>A \<^verbatim>\<open>Goexit\<close> of the test function leaves the loops and the test they run in.\<close>

fun flatNodes :: "(TestNode \<Rightarrow> 'w test) \<Rightarrow> string \<Rightarrow> nat \<Rightarrow> Node list \<Rightarrow> 'w test" where
  "flatNodes f label i [] t = retIO (Finished, t)"
| "flatNodes f label i (node # nodes) t =
     bindIO (f \<lparr>tn_Id = i, tn_Name = obj_Name node, tn_GroupName = label, tn_Raw = node\<rparr> t) (\<lambda>(e, t').
       case e of Goexit \<Rightarrow> retIO (Goexit, t') | Finished \<Rightarrow> flatNodes f label (Suc i) nodes t')"

fun flatLabels :: "bool \<Rightarrow> (TestNode \<Rightarrow> 'w test) \<Rightarrow> (string \<times> Node list) list \<Rightarrow> 'w test" where
  "flatLabels SkipOptional f [] t = retIO (Finished, t)"
| "flatLabels SkipOptional f ((label, nodes) # groups) t =
     (if length nodes = 0 \<and> \<not> SkipOptional then flatLabels SkipOptional f groups (t_Errorf t)
      else bindIO (flatNodes f label 0 nodes t) (\<lambda>(e, t').
        case e of Goexit \<Rightarrow> retIO (Goexit, t') | Finished \<Rightarrow> flatLabels SkipOptional f groups t'))"

text \<open>
  In the tree every node is a subtest of its label, every label a subtest of the test. Either all of them are
  parallel or none, so the subtests that \<^verbatim>\<open>t.Run\<close> waits for here have none of their own that are paused, and
  the schedule is empty.
\<close>

fun treeNodes :: "bool \<Rightarrow> (TestNode \<Rightarrow> 'w test) \<Rightarrow> string \<Rightarrow> nat \<Rightarrow> Node list \<Rightarrow> 'w group" where
  "treeNodes Parallel f label i [] t = retIO (Finished, t, [])"
| "treeNodes Parallel f label i (node # nodes) t =
     bindIO (t_Run [] Parallel
         (plain (f \<lparr>tn_Id = i, tn_Name = obj_Name node, tn_GroupName = label, tn_Raw = node\<rparr>)) t)
       (\<lambda>(_, t', ps). bindIO (treeNodes Parallel f label (Suc i) nodes t') (\<lambda>(e, t'', qs).
         retIO (e, t'', ps @ qs)))"

definition treeLabel :: "bool \<Rightarrow> bool \<Rightarrow> (TestNode \<Rightarrow> 'w test) \<Rightarrow> string \<Rightarrow> Node list \<Rightarrow> 'w group" where
  "treeLabel SkipOptional Parallel f label nodes t =
     (if length nodes = 0 then plain (if SkipOptional then t_SkipNow else t_Fatal) t
      else treeNodes Parallel f label 0 nodes t)"

fun treeLabels :: "bool \<Rightarrow> bool \<Rightarrow> (TestNode \<Rightarrow> 'w test) \<Rightarrow> (string \<times> Node list) list \<Rightarrow> 'w group" where
  "treeLabels SkipOptional Parallel f [] t = retIO (Finished, t, [])"
| "treeLabels SkipOptional Parallel f ((label, nodes) # groups) t =
     bindIO (t_Run [] Parallel (treeLabel SkipOptional Parallel f label nodes) t)
       (\<lambda>(_, t', ps). bindIO (treeLabels SkipOptional Parallel f groups t') (\<lambda>(e, t'', qs).
         retIO (e, t'', ps @ qs)))"

text \<open>The entries of the map in the order the \<^verbatim>\<open>range\<close> visits them.\<close>

definition entries :: "string list \<Rightarrow> (string \<rightharpoonup> Node list) \<Rightarrow> (string \<times> Node list) list" where
  "entries order m = List.map_filter (\<lambda>l. map_option (Pair l) (m l)) order"

definition RunTestTreeGroupNodes :: "'w KCluster \<Rightarrow> (string \<rightharpoonup> NodeFilter) \<Rightarrow> string list \<Rightarrow> bool \<Rightarrow> bool \<Rightarrow>
    any \<Rightarrow> (TestNode \<Rightarrow> 'w test) \<Rightarrow> NodeFilter list \<Rightarrow> 'w group"
where
  "RunTestTreeGroupNodes cluster required order SkipOptional Parallel label f filters t =
     bindIO (MapLabelNodes cluster required label filters) (\<lambda>m.
       treeLabels SkipOptional Parallel f (entries order m) t)"

definition RunTestGroupNodes :: "'w KCluster \<Rightarrow> (string \<rightharpoonup> NodeFilter) \<Rightarrow> string list \<Rightarrow> bool \<Rightarrow> bool \<Rightarrow> bool \<Rightarrow>
    any \<Rightarrow> (TestNode \<Rightarrow> 'w test) \<Rightarrow> NodeFilter list \<Rightarrow> 'w group"
where
  "RunTestGroupNodes cluster required order TreeMode Parallel SkipOptional label f filters t =
     (if TreeMode then RunTestTreeGroupNodes cluster required order SkipOptional Parallel label f filters t
      else bindIO (MapLabelNodes cluster required label filters) (\<lambda>m.
        plain (flatLabels SkipOptional f (entries order m)) t))"


section \<open>Which nodes are tested\<close>

text \<open>
  A test function that leaves a mark: it appends its node to the world, and ends and fails as
  \<open>verdict\<close> says of the node.
\<close>

definition probe :: "(TestNode \<Rightarrow> ending \<times> bool) \<Rightarrow> TestNode \<Rightarrow> TestNode list test" where
  "probe verdict n t = (\<lambda>w. Some (Ret (fst (verdict n), t\<lparr>tFailed := tFailed t \<or> snd (verdict n)\<rparr>), w @ [n]))"

fun numbered :: "string \<Rightarrow> nat \<Rightarrow> Node list \<Rightarrow> TestNode list" where
  "numbered label i [] = []"
| "numbered label i (node # nodes) =
     \<lparr>tn_Id = i, tn_Name = obj_Name node, tn_GroupName = label, tn_Raw = node\<rparr> # numbered label (Suc i) nodes"

definition all_nodes :: "(string \<times> Node list) list \<Rightarrow> TestNode list" where
  "all_nodes groups = concat (map (\<lambda>(label, nodes). numbered label 0 nodes) groups)"

lemma all_nodes_simps [simp]:
  "all_nodes [] = []" "all_nodes ((l, ns) # groups) = numbered l 0 ns @ all_nodes groups"
  by (simp_all add: all_nodes_def)

lemma probe_run:
  "probe verdict n t w = Some (Ret (fst (verdict n), t\<lparr>tFailed := tFailed t \<or> snd (verdict n)\<rparr>), w @ [n])"
  by (simp add: probe_def)

lemma t_Run_run:
  "f freshT w = Some (Ret (e, c, []), w') \<Longrightarrow>
     t_Run [] False f t w = Some (Ret (Finished, t\<lparr>tFailed := tFailed t \<or> tFailed c\<rparr>, []), w')"
  by (simp add: t_Run_def bindIO_run run_simps)

lemma plain_run: "f t w = Some (Ret (e, t'), w') \<Longrightarrow> plain f t w = Some (Ret (e, t', []), w')"
  by (simp add: plain_def bindIO_run run_simps)

lemma treeNodes_probe:
  "treeNodes False (probe v) label i nodes t w =
     Some (Ret (Finished, t\<lparr>tFailed := tFailed t \<or> list_ex (\<lambda>n. snd (v n)) (numbered label i nodes)\<rparr>, []),
       w @ numbered label i nodes)"
proof (induction nodes arbitrary: i t w)
  case (Cons node nodes)
  show ?case
    by (simp add: bindIO_run(1) [OF t_Run_run [OF plain_run [OF probe_run]]] bindIO_run(1) [OF Cons.IH]
        freshT_def run_simps disj_assoc)
qed (simp add: run_simps)

lemma treeLabels_probe:
  "treeLabels so False (probe v) groups t w =
     Some (Ret (Finished, t\<lparr>tFailed := tFailed t \<or> list_ex (\<lambda>n. snd (v n)) (all_nodes groups) \<or>
       (\<not> so \<and> list_ex (\<lambda>(l, ns). ns = []) groups)\<rparr>, []), w @ all_nodes groups)"
proof (induction groups arbitrary: t w)
  case (Cons g groups)
  obtain l ns where g: "g = (l, ns)" by (cases g)
  show ?case
  proof (cases ns)
    case Nil
    then have "treeLabel so False (probe v) l ns freshT w =
        Some (Ret (Goexit, \<lparr>tFailed = \<not> so, tSkipped = so\<rparr>, []), w)"
      by (simp add: treeLabel_def plain_def t_SkipNow_def t_Fatal_def freshT_def bindIO_run run_simps)
    from t_Run_run [where f = "treeLabel so False (probe v) l ns", OF this] show ?thesis
      by (simp add: g bindIO_run(1) [OF Cons.IH] bindIO_run(1) run_simps Nil disj_ac)
  next
    case (Cons n ns')
    then have "treeLabel so False (probe v) l ns freshT w =
        Some (Ret (Finished, \<lparr>tFailed = list_ex (\<lambda>n. snd (v n)) (numbered l 0 ns), tSkipped = False\<rparr>, []),
          w @ numbered l 0 ns)"
      using treeNodes_probe [of v l 0 ns freshT w] by (simp add: treeLabel_def freshT_def)
    from t_Run_run [where f = "treeLabel so False (probe v) l ns", OF this] show ?thesis
      by (simp add: g Cons bindIO_run(1) [OF Cons.IH] bindIO_run(1) run_simps disj_assoc)
  qed
qed (simp add: run_simps)

text \<open>What a loop that stops at the first \<open>Goexit\<close> runs.\<close>

fun upto_exit :: "('a \<Rightarrow> bool) \<Rightarrow> 'a list \<Rightarrow> 'a list" where
  "upto_exit stop [] = []"
| "upto_exit stop (x # xs) = (if stop x then [x] else x # upto_exit stop xs)"

lemma upto_exit_append:
  "upto_exit stop (xs @ ys) = (if list_ex stop xs then upto_exit stop xs else xs @ upto_exit stop ys)"
  by (induction xs) auto

lemma flatNodes_probe:
  "\<exists>t'. flatNodes (probe v) label i nodes t w =
     Some (Ret (if list_ex (\<lambda>n. fst (v n) = Goexit) (numbered label i nodes) then Goexit else Finished, t'),
       w @ upto_exit (\<lambda>n. fst (v n) = Goexit) (numbered label i nodes))"
proof (induction nodes arbitrary: i t w)
  case (Cons node nodes)
  let ?n = "\<lparr>tn_Id = i, tn_Name = obj_Name node, tn_GroupName = label, tn_Raw = node\<rparr>"
  show ?case
    using Cons.IH [of "Suc i" "t\<lparr>tFailed := tFailed t \<or> snd (v ?n)\<rparr>" "w @ [?n]"]
    by (cases "fst (v ?n)") (auto simp: bindIO_def probe_run run_simps)
qed (simp add: run_simps)

lemma flatLabels_probe:
  "\<exists>e t'. flatLabels so (probe v) groups t w =
     Some (Ret (e, t'), w @ upto_exit (\<lambda>n. fst (v n) = Goexit) (all_nodes groups))"
proof (induction groups arbitrary: t w)
  case (Cons g groups)
  obtain l ns where g: "g = (l, ns)" by (cases g)
  obtain t' where f: "flatNodes (probe v) l 0 ns t w =
     Some (Ret (if list_ex (\<lambda>n. fst (v n) = Goexit) (numbered l 0 ns) then Goexit else Finished, t'),
       w @ upto_exit (\<lambda>n. fst (v n) = Goexit) (numbered l 0 ns))" using flatNodes_probe by blast
  have all: "upto_exit stop xs = xs" if "\<not> list_ex stop xs" for stop and xs :: "TestNode list"
    using that by (induction xs) auto
  show ?case
  proof (cases "list_ex (\<lambda>n. fst (v n) = Goexit) (numbered l 0 ns)")
    case True
    with f show ?thesis
      by (cases ns) (auto simp: g bindIO_def run_simps upto_exit_append simp del: flatNodes.simps)
  next
    case False
    then have n: "upto_exit (\<lambda>n. fst (v n) = Goexit) (numbered l 0 ns) = numbered l 0 ns" by (rule all)
    have "flatNodes (probe v) l 0 ns t w = Some (Ret (Finished, t'), w @ numbered l 0 ns)"
      using f False by (simp add: n)
    then show ?thesis
      using False Cons.IH [of t' "w @ numbered l 0 ns"] Cons.IH [of "t_Errorf t" w]
      by (cases ns) (auto simp: g bindIO_def run_simps upto_exit_append
          simp del: flatNodes.simps numbered.simps(2))
  qed
qed (simp add: run_simps)


section \<open>Parallel subtests\<close>

text \<open>The paused subtests of a parallel run of \<open>probe\<close>: labels, and the nodes of those that were resumed.\<close>

datatype paused = PausedLabel string "Node list" | PausedNode TestNode

fun pausedSub :: "bool \<Rightarrow> (TestNode \<Rightarrow> ending \<times> bool) \<Rightarrow> paused \<Rightarrow> TestNode list subtest" where
  "pausedSub so v (PausedLabel l ns) =
     Subtest (bindIO (treeLabel so True (probe v) l ns freshT) (\<lambda>(_, c, ps). retIO (c, ps)))"
| "pausedSub so v (PausedNode n) = Subtest (bindIO (plain (probe v n) freshT) (\<lambda>(_, c, ps). retIO (c, ps)))"

fun pausedNodes :: "paused \<Rightarrow> TestNode list" where
  "pausedNodes (PausedLabel l ns) = numbered l 0 ns"
| "pausedNodes (PausedNode n) = [n]"

fun pausedFails :: "bool \<Rightarrow> (TestNode \<Rightarrow> ending \<times> bool) \<Rightarrow> paused \<Rightarrow> bool" where
  "pausedFails so v (PausedLabel l ns) \<longleftrightarrow> \<not> so \<and> ns = [] \<or> list_ex (\<lambda>n. snd (v n)) (numbered l 0 ns)"
| "pausedFails so v (PausedNode n) \<longleftrightarrow> snd (v n)"

fun pausedSteps :: "paused \<Rightarrow> nat" where
  "pausedSteps (PausedLabel l ns) = Suc (length ns)"
| "pausedSteps (PausedNode n) = 1"

lemma treeNodes_paused:
  "treeNodes True (probe v) l i ns t w =
     Some (Ret (Finished, t, map (pausedSub so v) (map PausedNode (numbered l i ns))), w)"
  by (induction ns arbitrary: i t) (simp_all add: t_Run_def bindIO_run run_simps)

lemma treeLabels_paused:
  "treeLabels so True (probe v) groups t w =
     Some (Ret (Finished, t, map (pausedSub so v) (map (\<lambda>(l, ns). PausedLabel l ns) groups)), w)"
  by (induction groups arbitrary: t) (auto simp: t_Run_def bindIO_run run_simps)

lemma resume_label:
  "resume (pausedSub so v (PausedLabel l ns)) w =
     Some (Ret (\<lparr>tFailed = \<not> so \<and> ns = [], tSkipped = so \<and> ns = []\<rparr>,
       map (pausedSub so v) (map PausedNode (numbered l 0 ns))), w)"
  by (cases ns)
    (auto simp: treeLabel_def plain_def t_SkipNow_def t_Fatal_def freshT_def bindIO_run run_simps
      bindIO_run(1) [OF treeNodes_paused [where so = so]] simp del: treeNodes.simps numbered.simps(2))

lemma resume_node:
  "resume (pausedSub so v (PausedNode n)) w = Some (Ret (freshT\<lparr>tFailed := snd (v n)\<rparr>, []), w @ [n])"
  by (simp add: bindIO_run(1) [OF plain_run [OF probe_run]] run_simps freshT_def)

lemma length_numbered [simp]: "length (numbered l i ns) = length ns"
  by (induction ns arbitrary: i) auto

text \<open>Resuming one of them: the rest, what it leaves paused, and what it has run itself.\<close>

lemma resume_paused:
  "\<exists>c items ran. resume (pausedSub so v p) w = Some (Ret (c, map (pausedSub so v) items), w @ ran) \<and>
     pausedSteps p = Suc (sum_list (map pausedSteps items)) \<and>
     (pausedFails so v p \<longleftrightarrow> tFailed c \<or> list_ex (pausedFails so v) items) \<and>
     mset (pausedNodes p) = mset ran + mset (concat (map pausedNodes items))"
proof (cases p)
  case (PausedLabel l ns)
  have "sum_list (map pausedSteps (map PausedNode xs)) = length xs"
    "concat (map pausedNodes (map PausedNode xs)) = xs"
    "list_ex (pausedFails so v) (map PausedNode xs) = list_ex (\<lambda>n. snd (v n)) xs" for xs
    by (induction xs) auto
  then show ?thesis
    using resume_label [of so v l ns w] unfolding PausedLabel
    by (intro exI [of _ "\<lparr>tFailed = \<not> so \<and> ns = [], tSkipped = so \<and> ns = []\<rparr>"]
        exI [of _ "map PausedNode (numbered l 0 ns)"] exI [of _ "[]"]) simp
next
  case (PausedNode n)
  then show ?thesis
    using resume_node [of so v n w]
    by (intro exI [of _ "freshT\<lparr>tFailed := snd (v n)\<rparr>"] exI [of _ "[]"] exI [of _ "[n]"]) simp
qed

lemma drain_paused:
  assumes "sum_list (map pausedSteps items) \<le> length ks"
  shows "\<exists>ran. drain ks (map (pausedSub so v) items) failed w =
      Some (Ret (failed \<or> list_ex (pausedFails so v) items), w @ ran) \<and>
    mset ran = mset (concat (map pausedNodes items))"
  using assms
proof (induction ks arbitrary: items failed w)
  case Nil
  then have "items = []" by (cases items; cases "hd items") auto
  then show ?case by (simp add: run_simps)
next
  case (Cons k ks)
  show ?case
  proof (cases "items = []")
    case False
    define i where "i = k mod length items"
    have i: "i < length items" using False by (simp add: i_def)
    define p rest where "p = items ! i" and "rest = take i items @ drop (Suc i) items"
    have split: "items = take i items @ p # drop (Suc i) items"
      using i by (simp add: p_def id_take_nth_drop)
    obtain c ps ran where r: "resume (pausedSub so v p) w = Some (Ret (c, map (pausedSub so v) ps), w @ ran)"
      and steps: "pausedSteps p = Suc (sum_list (map pausedSteps ps))"
      and fails: "pausedFails so v p \<longleftrightarrow> tFailed c \<or> list_ex (pausedFails so v) ps"
      and nodes: "mset (pausedNodes p) = mset ran + mset (concat (map pausedNodes ps))"
      using resume_paused by blast
    have sum: "sum_list (map pausedSteps items) = pausedSteps p + sum_list (map pausedSteps rest)"
      by (subst split) (simp add: rest_def)
    have ex: "list_ex (pausedFails so v) items \<longleftrightarrow> pausedFails so v p \<or> list_ex (pausedFails so v) rest"
      by (subst split) (auto simp: rest_def)
    have ms: "mset (concat (map pausedNodes items)) = mset (pausedNodes p) + mset (concat (map pausedNodes rest))"
      by (subst split) (simp add: rest_def)
    have "sum_list (map pausedSteps (rest @ ps)) \<le> length ks"
      using Cons.prems sum steps by simp
    from Cons.IH [OF this, of "failed \<or> tFailed c" "w @ ran"] obtain ran' where
      d: "drain ks (map (pausedSub so v) (rest @ ps)) (failed \<or> tFailed c) (w @ ran) =
        Some (Ret (failed \<or> tFailed c \<or> list_ex (pausedFails so v) (rest @ ps)), w @ ran @ ran')"
      and m: "mset ran' = mset (concat (map pausedNodes (rest @ ps)))"
      by auto
    have "drain (k # ks) (map (pausedSub so v) items) failed w =
        drain ks (map (pausedSub so v) (rest @ ps)) (failed \<or> tFailed c) (w @ ran)"
      using False i r by (simp add: Let_def i_def [symmetric] p_def rest_def bindIO_run(1) take_map drop_map)
    with d show ?thesis
      using m by (intro exI [of _ "ran @ ran'"]) (auto simp: ex fails ms nodes)
  qed (simp add: run_simps)
qed


section \<open>Properties\<close>

text \<open>
  C9. In tree mode every node of every label is tested exactly once, in the order of the labels
  and of the listing, numbered from zero within its label, whatever the test function does on
  the other nodes. The test fails if and only if it had failed, the function failed on some
  node, or a label has no node and optional tests are not skipped; the run itself goes on to
  its end.
\<close>

theorem tree_tests_every_node:
  assumes "MapLabelNodes cluster required label filters w = Some (Ret m, w)"
  shows "RunTestGroupNodes cluster required order True False so label (probe verdict) filters t w =
    Some (Ret (Finished, t\<lparr>tFailed := tFailed t \<or>
        list_ex (\<lambda>n. snd (verdict n)) (all_nodes (entries order m)) \<or>
        (\<not> so \<and> list_ex (\<lambda>(l, ns). ns = []) (entries order m))\<rparr>, []),
      w @ all_nodes (entries order m))"
  using assms
  by (simp add: RunTestGroupNodes_def RunTestTreeGroupNodes_def bindIO_run(1) treeLabels_probe)

definition two_nodes :: "TestNode list KCluster" where
  "two_nodes = frozen_cluster\<lparr>Nodes := frozen_client [node_named ''w1'' [], node_named ''w2'' []]\<rparr>"

lemma two_nodes_map:
  "MapLabelNodes two_nodes [''Any'' \<mapsto> noNodeFilter] Nil [] [] =
     Some (Ret [''Any'' \<mapsto> [node_named ''w1'' [], node_named ''w2'' []]], [])"
  by (simp add: MapLabelNodes_def ListNode_def bindIO_run(1) [OF listFiltered_run] run_simps two_nodes_def
      fun_eq_iff noNodeFilter_def)

lemma tree_tests_every_node_witness:
  "RunTestGroupNodes two_nodes [''Any'' \<mapsto> noNodeFilter] [''Any''] True False False Nil
     (probe (\<lambda>n. (Goexit, tn_Id n = 0))) [] freshT [] =
   Some (Ret (Finished, \<lparr>tFailed = True, tSkipped = False\<rparr>, []),
     [\<lparr>tn_Id = 0, tn_Name = ''w1'', tn_GroupName = ''Any'', tn_Raw = node_named ''w1'' []\<rparr>,
      \<lparr>tn_Id = 1, tn_Name = ''w2'', tn_GroupName = ''Any'', tn_Raw = node_named ''w2'' []\<rparr>])"
  using tree_tests_every_node [OF two_nodes_map, of "[''Any'']" False "\<lambda>n. (Goexit, tn_Id n = 0)" freshT]
  by (simp add: entries_def List.map_filter_def freshT_def node_named_def)

text \<open>
  Without the tree, the nodes are tested in the same order but in one goroutine: the first
  node on which the test function ends by \<^verbatim>\<open>Fatal\<close> or \<^verbatim>\<open>Skip\<close> is the last one that is tested, in
  its own label and in all that follow.
\<close>

theorem flat_stops_at_first_exit:
  assumes "MapLabelNodes cluster required label filters w = Some (Ret m, w)"
  shows "\<exists>e t'. RunTestGroupNodes cluster required order False par so label (probe verdict) filters t w =
    Some (Ret (e, t', []), w @ upto_exit (\<lambda>n. fst (verdict n) = Goexit) (all_nodes (entries order m)))"
proof -
  obtain e t' where "flatLabels so (probe verdict) (entries order m) t w =
      Some (Ret (e, t'), w @ upto_exit (\<lambda>n. fst (verdict n) = Goexit) (all_nodes (entries order m)))"
    using flatLabels_probe by blast
  from plain_run [where f = "flatLabels so (probe verdict) (entries order m)", OF this] assms show ?thesis
    by (simp add: RunTestGroupNodes_def bindIO_run(1))
qed

lemma flat_stops_at_first_exit_witness:
  "\<exists>e t'. RunTestGroupNodes two_nodes [''Any'' \<mapsto> noNodeFilter] [''Any''] False False False Nil
     (probe (\<lambda>n. (Goexit, tn_Id n = 0))) [] freshT [] =
   Some (Ret (e, t', []),
     [\<lparr>tn_Id = 0, tn_Name = ''w1'', tn_GroupName = ''Any'', tn_Raw = node_named ''w1'' []\<rparr>])"
  using flat_stops_at_first_exit [OF two_nodes_map, of "[''Any'']" False False "\<lambda>n. (Goexit, tn_Id n = 0)" freshT]
  by (simp add: entries_def List.map_filter_def node_named_def)

text \<open>
  C13. In the parallel mode, which is the default, \<^verbatim>\<open>RunTestGroupNodes\<close> returns before any node has been tested.
  A test that runs it and goes on to leave the mark \<open>after\<close> leaves that mark first; then, in whatever
  order the paused subtests are resumed, every node of every label is tested exactly once, and the test fails
  if and only if the function failed on some node or a label has no node and optional tests are not skipped.
  A schedule of as many steps as there are labels and nodes is enough.
\<close>

theorem parallel_tests_after_body:
  assumes "MapLabelNodes cluster required label filters w = Some (Ret m, w)"
    and "length (entries order m) + length (all_nodes (entries order m)) \<le> length sched"
  shows "\<exists>ran. t_Run sched False (\<lambda>t.
      bindIO (RunTestGroupNodes cluster required order True True so label (probe verdict) filters t) (\<lambda>(e, t', ps).
      bindIO (callIO (\<lambda>v. ((), v @ [after]))) (\<lambda>_. retIO (e, t', ps)))) t w =
    Some (Ret (Finished, t\<lparr>tFailed := tFailed t \<or>
        list_ex (\<lambda>n. snd (verdict n)) (all_nodes (entries order m)) \<or>
        (\<not> so \<and> list_ex (\<lambda>(l, ns). ns = []) (entries order m))\<rparr>, []),
      w @ [after] @ ran) \<and>
    mset ran = mset (all_nodes (entries order m))"
proof -
  let ?items = "map (\<lambda>(l, ns). PausedLabel l ns) (entries order m)"
  have "sum_list (map pausedSteps (map (\<lambda>(l, ns). PausedLabel l ns) gs)) = length gs + length (all_nodes gs)" for gs
    by (induction gs) auto
  with assms(2) have le: "sum_list (map pausedSteps ?items) \<le> length sched" by simp
  obtain ran where d: "drain sched (map (pausedSub so verdict) ?items) False (w @ [after]) =
      Some (Ret (False \<or> list_ex (pausedFails so verdict) ?items), (w @ [after]) @ ran)"
    and m: "mset ran = mset (concat (map pausedNodes ?items))"
    using drain_paused [OF le] by blast
  have nodes: "concat (map pausedNodes (map (\<lambda>(l, ns). PausedLabel l ns) gs)) = all_nodes gs" for gs
    by (induction gs) auto
  have fails: "list_ex (pausedFails so verdict) (map (\<lambda>(l, ns). PausedLabel l ns) gs) \<longleftrightarrow>
      list_ex (\<lambda>n. snd (verdict n)) (all_nodes gs) \<or> \<not> so \<and> list_ex (\<lambda>(l, ns). ns = []) gs" for gs
    by (induction gs) auto
  have "RunTestGroupNodes cluster required order True True so label (probe verdict) filters freshT w =
      Some (Ret (Finished, freshT, map (pausedSub so verdict) ?items), w)"
    using assms(1) treeLabels_paused
    by (simp add: RunTestGroupNodes_def RunTestTreeGroupNodes_def bindIO_run(1))
  then show ?thesis
    using d m
    by (intro exI [of _ ran])
      (simp only: t_Run_def bindIO_run(1) bindIO_call run_simps nodes fails if_False case_prod_conv,
       simp add: bindIO_run(1) run_simps freshT_def)
qed

definition node_test :: "nat \<Rightarrow> string \<Rightarrow> TestNode" where
  "node_test i name = \<lparr>tn_Id = i, tn_Name = name, tn_GroupName = ''Any'', tn_Raw = node_named name []\<rparr>"

lemma parallel_tests_after_body_witness:
  "\<exists>ran. t_Run [2, 1, 0] False (\<lambda>t.
      bindIO (RunTestGroupNodes two_nodes [''Any'' \<mapsto> noNodeFilter] [''Any''] True True False Nil
        (probe (\<lambda>n. (Goexit, tn_Id n = 0))) [] t) (\<lambda>(e, t', ps).
      bindIO (callIO (\<lambda>v. ((), v @ [node_test 9 ''after'']))) (\<lambda>_. retIO (e, t', ps)))) freshT [] =
    Some (Ret (Finished, \<lparr>tFailed = True, tSkipped = False\<rparr>, []), [node_test 9 ''after''] @ ran) \<and>
    mset ran = mset [node_test 0 ''w1'', node_test 1 ''w2'']"
  using parallel_tests_after_body [OF two_nodes_map, of "[''Any'']" "[2, 1, 0]" False "\<lambda>n. (Goexit, tn_Id n = 0)"
      "node_test 9 ''after''" freshT]
  by (simp add: entries_def List.map_filter_def freshT_def node_named_def node_test_def)

end
