(* ===== verification/Tunnel.thy ===== *)
theory Tunnel
  imports Ssh
begin

text \<open>
  \<^verbatim>\<open>NewTunnel\<close> of \<^verbatim>\<open>testkit_v2/util/ssh.go\<close>: a listener accepts local connections for ever, and each
  of them is served by three goroutines, a handler that dials the remote side and two copiers,
  one for each direction. The copiers report their end on an unbuffered channel from which the
  handler receives once. The goroutines are interleaved freely, so the tunnel is a step
  relation: one rule for each statement that another goroutine or the network can see.
\<close>

section \<open>One connection\<close>

text \<open>
  Where the handler is: dialling, about to start the first and the second copier, at the receive
  \<^verbatim>\<open><-done\<close>, at the two closes, at its end. A copier copies until its source ends or fails, then
  it is at the send \<^verbatim>\<open>done <- struct{}{}\<close>, which needs the handler at the receive.
\<close>

datatype handler = Dialing | StartDown | StartUp | Receiving | ClosingRemote | ClosingLocal | Finished

datatype copier = NotStarted | Copying | Sending | Ended

record conn =
  c_handler :: handler
  c_down :: copier
  c_up :: copier
  c_remoteOpen :: bool
  c_localOpen :: bool

definition accepted :: conn where
  "accepted = \<lparr>c_handler = Dialing, c_down = NotStarted, c_up = NotStarted, c_remoteOpen = False,
     c_localOpen = True\<rparr>"

inductive conn_step :: "conn \<Rightarrow> conn \<Rightarrow> bool" where
  dialed: "c_handler c = Dialing \<Longrightarrow> conn_step c (c\<lparr>c_handler := StartDown, c_remoteOpen := True\<rparr>)"
| start_down: "c_handler c = StartDown \<Longrightarrow> conn_step c (c\<lparr>c_handler := StartUp, c_down := Copying\<rparr>)"
| start_up: "c_handler c = StartUp \<Longrightarrow> conn_step c (c\<lparr>c_handler := Receiving, c_up := Copying\<rparr>)"
| down_ends: "c_down c = Copying \<Longrightarrow> conn_step c (c\<lparr>c_down := Sending\<rparr>)"
| up_ends: "c_up c = Copying \<Longrightarrow> conn_step c (c\<lparr>c_up := Sending\<rparr>)"
| done_down: "c_handler c = Receiving \<Longrightarrow> c_down c = Sending \<Longrightarrow>
    conn_step c (c\<lparr>c_handler := ClosingRemote, c_down := Ended\<rparr>)"
| done_up: "c_handler c = Receiving \<Longrightarrow> c_up c = Sending \<Longrightarrow>
    conn_step c (c\<lparr>c_handler := ClosingRemote, c_up := Ended\<rparr>)"
| close_remote: "c_handler c = ClosingRemote \<Longrightarrow>
    conn_step c (c\<lparr>c_handler := ClosingLocal, c_remoteOpen := False\<rparr>)"
| close_local: "c_handler c = ClosingLocal \<Longrightarrow>
    conn_step c (c\<lparr>c_handler := Finished, c_localOpen := False\<rparr>)"


section \<open>The tunnel\<close>

text \<open>
  The listening goroutine has not called \<^verbatim>\<open>net.Listen\<close>, is at \<^verbatim>\<open>Accept\<close>, or has ended the process
  by \<^verbatim>\<open>Fatalf\<close>, as a failing dial does; after that nothing runs.
\<close>

datatype listener = Opening | Accepting | Exited

record tunnel =
  t_listener :: listener
  t_conns :: "conn list"

definition new_tunnel :: tunnel where
  "new_tunnel = \<lparr>t_listener = Opening, t_conns = []\<rparr>"

inductive NewTunnel :: "tunnel \<Rightarrow> tunnel \<Rightarrow> bool" where
  listen: "t_listener t = Opening \<Longrightarrow> NewTunnel t (t\<lparr>t_listener := Accepting\<rparr>)"
| listen_fails: "t_listener t = Opening \<Longrightarrow> NewTunnel t (t\<lparr>t_listener := Exited\<rparr>)"
| accept: "t_listener t = Accepting \<Longrightarrow> NewTunnel t (t\<lparr>t_conns := t_conns t @ [accepted]\<rparr>)"
| accept_fails: "t_listener t = Accepting \<Longrightarrow> NewTunnel t (t\<lparr>t_listener := Exited\<rparr>)"
| dial_fails: "t_listener t \<noteq> Exited \<Longrightarrow> i < length (t_conns t) \<Longrightarrow> c_handler (t_conns t ! i) = Dialing \<Longrightarrow>
    NewTunnel t (t\<lparr>t_listener := Exited\<rparr>)"
| goroutine: "t_listener t \<noteq> Exited \<Longrightarrow> i < length (t_conns t) \<Longrightarrow> conn_step (t_conns t ! i) c \<Longrightarrow>
    NewTunnel t (t\<lparr>t_conns := (t_conns t)[i := c]\<rparr>)"

abbreviation reaches :: "tunnel \<Rightarrow> tunnel \<Rightarrow> bool" where
  "reaches \<equiv> NewTunnel\<^sup>*\<^sup>*"

inductive_cases conn_stepE: "conn_step c c'"
inductive_cases NewTunnelE: "NewTunnel t t'"


section \<open>The invariant of a connection\<close>

definition ended :: "conn \<Rightarrow> nat" where
  "ended c = (if c_down c = Ended then 1 else 0) + (if c_up c = Ended then 1 else 0)"

text \<open>
  The copiers run from their start to their end, the handler has received exactly one end when it
  closes, the remote side is open from the dial to its close, the local side until its close.
\<close>

fun phase :: "handler \<Rightarrow> nat" where
  "phase Dialing = 0" | "phase StartDown = 1" | "phase StartUp = 2" | "phase Receiving = 3"
| "phase ClosingRemote = 4" | "phase ClosingLocal = 5" | "phase Finished = 6"

definition conn_ok :: "conn \<Rightarrow> bool" where
  "conn_ok c \<longleftrightarrow>
     (c_down c = NotStarted \<longleftrightarrow> phase (c_handler c) < 2) \<and>
     (c_up c = NotStarted \<longleftrightarrow> phase (c_handler c) < 3) \<and>
     ended c = (if phase (c_handler c) < 4 then 0 else 1) \<and>
     (c_remoteOpen c \<longleftrightarrow> 0 < phase (c_handler c) \<and> phase (c_handler c) < 5) \<and>
     (c_localOpen c \<longleftrightarrow> c_handler c \<noteq> Finished)"

lemma accepted_ok: "conn_ok accepted"
  by (simp add: conn_ok_def accepted_def ended_def)

lemma conn_step_ok: "conn_step c c' \<Longrightarrow> conn_ok c \<Longrightarrow> conn_ok c'"
  by (erule conn_stepE) (auto simp: conn_ok_def ended_def split: if_splits)

text \<open>A finished handler stays finished, and the copier that has not ended never ends.\<close>

lemma conn_step_finished:
  "conn_step c c' \<Longrightarrow> c_handler c = Finished \<Longrightarrow>
     c_handler c' = Finished \<and> (c_down c' = Ended) = (c_down c = Ended) \<and> (c_up c' = Ended) = (c_up c = Ended)"
  by (erule conn_stepE) auto


section \<open>The invariant of the tunnel\<close>

lemma NewTunnel_ok:
  assumes "NewTunnel t t'" and "list_all conn_ok (t_conns t)"
  shows "list_all conn_ok (t_conns t')"
  using assms
proof (cases rule: NewTunnel.cases)
  case (goroutine i c)
  then show ?thesis
    using assms(2) by (auto simp: list_all_length nth_list_update intro: conn_step_ok)
qed (auto simp: accepted_ok)

lemma reaches_ok: "reaches new_tunnel t \<Longrightarrow> list_all conn_ok (t_conns t)"
  by (induction rule: rtranclp_induct) (auto simp: new_tunnel_def dest: NewTunnel_ok)

lemma NewTunnel_length: "NewTunnel t t' \<Longrightarrow> length (t_conns t) \<le> length (t_conns t')"
  by (erule NewTunnelE) auto

lemma reaches_length: "reaches t t' \<Longrightarrow> length (t_conns t) \<le> length (t_conns t')"
  by (induction rule: rtranclp_induct) (auto dest: NewTunnel_length)

text \<open>What one connection sees of a step of the tunnel: nothing, or a step of its own.\<close>

lemma NewTunnel_conn:
  assumes "NewTunnel t t'" and "i < length (t_conns t)"
  shows "t_conns t' ! i = t_conns t ! i \<or> conn_step (t_conns t ! i) (t_conns t' ! i)"
  using assms
proof (cases rule: NewTunnel.cases)
  case (goroutine j c)
  then show ?thesis using assms(2) by (cases "i = j") auto
qed (auto simp: nth_append)

lemma reaches_finished:
  assumes "reaches t t'" and "i < length (t_conns t)" and "c_handler (t_conns t ! i) = Finished"
  shows "c_handler (t_conns t' ! i) = Finished \<and>
    (c_down (t_conns t' ! i) = Ended) = (c_down (t_conns t ! i) = Ended) \<and>
    (c_up (t_conns t' ! i) = Ended) = (c_up (t_conns t ! i) = Ended)"
  using assms(1)
proof (induction rule: rtranclp_induct)
  case (step u v)
  have "i < length (t_conns u)" using reaches_length [OF step.hyps(1)] assms(2) by simp
  from NewTunnel_conn [OF step.hyps(2) this] show ?case
  proof
    assume "conn_step (t_conns u ! i) (t_conns v ! i)"
    from conn_step_finished [OF this] step.IH show ?thesis by blast
  qed (use step.IH in simp)
qed (simp add: assms(3))

text \<open>
  C10. Every connection of a tunnel is closed in order and only when one direction has ended: in
  every state the tunnel can reach, whatever the interleaving, the local side of a connection is
  closed only after the remote one, a side is closed only after exactly one of the two copiers
  has ended, and before that both sides stay open.
\<close>

theorem tunnel_closes_in_order:
  assumes "reaches new_tunnel t" and "i < length (t_conns t)"
  shows "(c_localOpen (t_conns t ! i) \<or> c_remoteOpen (t_conns t ! i) = False \<and> ended (t_conns t ! i) = 1) \<and>
    (c_handler (t_conns t ! i) = Dialing \<or> c_remoteOpen (t_conns t ! i) \<or> ended (t_conns t ! i) = 1) \<and>
    ended (t_conns t ! i) \<le> 1"
proof -
  have "conn_ok (t_conns t ! i)" using reaches_ok [OF assms(1)] assms(2) by (simp add: list_all_length)
  then show ?thesis
    by (cases "c_handler (t_conns t ! i)") (auto simp: conn_ok_def)
qed

text \<open>
  C30. Every served connection leaks a goroutine: when the handler of a connection is through, one of
  its copiers has not ended, and in no state the tunnel reaches later has it, since nobody
  receives a second time from the unbuffered channel.
\<close>

theorem tunnel_leaks_copier:
  assumes "reaches new_tunnel t" and "i < length (t_conns t)"
    and "c_handler (t_conns t ! i) = Finished" and "reaches t t'"
  shows "(c_down (t_conns t' ! i) = Ended) = (c_up (t_conns t' ! i) \<noteq> Ended) \<and>
    c_handler (t_conns t' ! i) = Finished"
proof -
  have "ended (t_conns t ! i) = 1"
    using reaches_ok [OF assms(1)] assms(2,3) by (simp add: list_all_length conn_ok_def)
  then show ?thesis
    using reaches_finished [OF assms(4,2,3)] by (auto simp: ended_def split: if_splits)
qed


section \<open>A run\<close>

text \<open>One connection from the accept to the end of its handler; its upward copier is still copying.\<close>

definition served :: conn where
  "served = \<lparr>c_handler = Finished, c_down = Ended, c_up = Copying, c_remoteOpen = False, c_localOpen = False\<rparr>"

lemma conn_step_lift:
  "conn_step\<^sup>*\<^sup>* c c' \<Longrightarrow> reaches \<lparr>t_listener = Accepting, t_conns = [c]\<rparr> \<lparr>t_listener = Accepting, t_conns = [c']\<rparr>"
proof (induction rule: rtranclp_induct)
  case (step d d')
  have "NewTunnel \<lparr>t_listener = Accepting, t_conns = [d]\<rparr> \<lparr>t_listener = Accepting, t_conns = [d']\<rparr>"
    using NewTunnel.goroutine [of "\<lparr>t_listener = Accepting, t_conns = [d]\<rparr>" 0 d'] step.hyps(2) by simp
  with step.IH show ?case by (rule rtranclp.rtrancl_into_rtrancl)
qed simp

lemma served_run: "conn_step\<^sup>*\<^sup>* accepted served"
proof -
  note step = converse_rtranclp_into_rtranclp
  show ?thesis
    unfolding accepted_def
    apply (rule step, rule dialed, simp)
    apply (simp, rule step, rule start_down, simp)
    apply (simp, rule step, rule start_up, simp)
    apply (simp, rule step, rule down_ends, simp)
    apply (simp, rule step, rule done_down, simp, simp)
    apply (simp, rule step, rule close_remote, simp)
    apply (simp, rule step, rule close_local, simp)
    apply (simp add: served_def)
    done
qed

lemma served_reachable: "reaches new_tunnel \<lparr>t_listener = Accepting, t_conns = [served]\<rparr>"
proof -
  have "NewTunnel new_tunnel \<lparr>t_listener = Accepting, t_conns = []\<rparr>"
    using NewTunnel.listen [of new_tunnel] by (simp add: new_tunnel_def)
  moreover have "NewTunnel \<lparr>t_listener = Accepting, t_conns = []\<rparr> \<lparr>t_listener = Accepting, t_conns = [accepted]\<rparr>"
    using NewTunnel.accept [of "\<lparr>t_listener = Accepting, t_conns = []\<rparr>"] by simp
  ultimately show ?thesis
    using conn_step_lift [OF served_run] by (meson converse_rtranclp_into_rtranclp)
qed

lemma tunnel_closes_in_order_witness:
  "(c_localOpen served \<or> c_remoteOpen served = False \<and> ended served = 1) \<and>
   (c_handler served = Dialing \<or> c_remoteOpen served \<or> ended served = 1) \<and> ended served \<le> 1"
  using tunnel_closes_in_order [OF served_reachable, of 0] by simp

lemma tunnel_leaks_copier_witness:
  "(c_down (served\<lparr>c_up := Sending\<rparr>) = Ended) = (c_up (served\<lparr>c_up := Sending\<rparr>) \<noteq> Ended) \<and>
   c_handler (served\<lparr>c_up := Sending\<rparr>) = Finished"
proof -
  have "conn_step served (served\<lparr>c_up := Sending\<rparr>)"
    by (rule up_ends) (simp add: served_def)
  then have "reaches \<lparr>t_listener = Accepting, t_conns = [served]\<rparr>
      \<lparr>t_listener = Accepting, t_conns = [served\<lparr>c_up := Sending\<rparr>]\<rparr>"
    by (intro conn_step_lift r_into_rtranclp)
  from tunnel_leaks_copier [OF served_reachable _ _ this, of 0] show ?thesis
    by (simp add: served_def)
qed

end
