(* ===== verification/Tools.thy ===== *)
theory Tools
  imports Retry
begin

text \<open>
  \<^verbatim>\<open>testkit_v2/util/log.go\<close> and what \<^verbatim>\<open>Retry\<close> leaves of \<^verbatim>\<open>tools.go\<close>: the log with its two
  destinations, and random strings and digests. The generator of random numbers, \<^verbatim>\<open>md5.Sum\<close> and
  \<^verbatim>\<open>fmt.Sprintf\<close> are parameters. The time stamps of the log file are not part of its lines here.
\<close>

section \<open>Logging\<close>

text \<open>The state of the process-wide loggers; \<open>lg_lines\<close> is what the standard logger has written.\<close>

record LogState =
  lg_GOOS :: string
  lg_startTime :: int
  lg_clock :: int
  lg_debugFlag :: bool
  lg_verboseFlag :: bool
  lg_fileLogger :: "string list option"
  lg_flags :: int
  lg_prefix :: string
  lg_lines :: "string list"

definition getPrefix :: string where
  "getPrefix = ''    ''"

text \<open>The encoding of a code point, as \<^verbatim>\<open>%c\<close> prints it.\<close>

definition utf8 :: "nat \<Rightarrow> string" where
  "utf8 c = map char_of
     (if c < 128 then [c]
      else if c < 2048 then [192 + c div 64, 128 + c mod 64]
      else if c < 65536 then [224 + c div 4096, 128 + c div 64 mod 64, 128 + c mod 64]
      else [240 + c div 262144, 128 + c div 4096 mod 64, 128 + c div 64 mod 64, 128 + c mod 64])"

text \<open>The segmented digit zero has the code point 1FBF0 (hexadecimal).\<close>

definition segDigit :: "int \<Rightarrow> string" where
  "segDigit d = utf8 (nat (130032 + d))"

definition getDuration :: "LogState \<Rightarrow> string" where
  "getDuration s =
     (let i = elapsed_sec (lg_startTime s) (lg_clock s) in
      if lg_GOOS s \<noteq> ''linux'' then fmt_d (i div 60) @ ''m''
      else if 1000 \<le> i then (let m = i div 60 in segDigit (m mod 100 div 10) @ segDigit (m mod 10) @ ''m'')
      else segDigit (i mod 1000 div 100) @ segDigit (i mod 100 div 10) @ segDigit (i mod 10))"

text \<open>The standard logger puts its prefix before the text and ends the line if the text does not.\<close>

definition endLine :: "string \<Rightarrow> string" where
  "endLine t = (if t \<noteq> [] \<and> last t = char_of (10 :: nat) then t else t @ nl)"

definition log_Printf :: "string \<Rightarrow> LogState \<Rightarrow> LogState" where
  "log_Printf t s = s\<lparr>lg_flags := 0, lg_prefix := getPrefix, lg_lines := lg_lines s @ [endLine (getPrefix @ t)]\<rparr>"

definition Filelogf :: "(string \<Rightarrow> 'v list \<Rightarrow> string) \<Rightarrow> string \<Rightarrow> 'v list \<Rightarrow> LogState \<Rightarrow> LogState" where
  "Filelogf sprintf format v s =
     (case lg_fileLogger s of
        None \<Rightarrow> s
      | Some ls \<Rightarrow> s\<lparr>lg_fileLogger := Some (ls @ [endLine (sprintf format v)])\<rparr>)"

text \<open>The colour \<open>code\<close> of the terminal, and the marks of the levels.\<close>

definition esc :: "string \<Rightarrow> string" where
  "esc code = [char_of (27 :: nat)] @ ''['' @ code @ ''m''"

definition Debugf :: "(string \<Rightarrow> 'v list \<Rightarrow> string) \<Rightarrow> string \<Rightarrow> 'v list \<Rightarrow> LogState \<Rightarrow> LogState" where
  "Debugf sprintf format v s =
     (let s1 = Filelogf sprintf (utf8 129431 @ format) v s in
      if \<not> lg_debugFlag s1 then s1
      else log_Printf (sprintf (esc ''32'' @ utf8 129431 @ esc ''2'' @ getDuration s1 @ '' '' @ esc ''0'' @ format @ esc ''0'') v) s1)"

definition Infof :: "(string \<Rightarrow> 'v list \<Rightarrow> string) \<Rightarrow> string \<Rightarrow> 'v list \<Rightarrow> LogState \<Rightarrow> LogState" where
  "Infof sprintf format v s =
     (let s1 = Filelogf sprintf (utf8 9998 @ '' '' @ format) v s in
      if \<not> lg_verboseFlag s1 \<and> \<not> lg_debugFlag s1 then s1
      else log_Printf (sprintf (esc ''2'' @ utf8 9998 @ '' '' @ getDuration s1 @ '' '' @ esc ''2'' @ format @ esc ''0'') v) s1)"

definition Warnf :: "(string \<Rightarrow> 'v list \<Rightarrow> string) \<Rightarrow> string \<Rightarrow> 'v list \<Rightarrow> LogState \<Rightarrow> LogState" where
  "Warnf sprintf format v s =
     (let s1 = Filelogf sprintf (utf8 128456 @ '' '' @ format) v s in
      log_Printf (sprintf (esc ''93'' @ utf8 128456 @ '' '' @ esc ''2'' @ getDuration s1 @ '' '' @ esc ''0;2'' @ format @ esc ''0'') v) s1)"

text \<open>The text of \<^verbatim>\<open>Warn\<close> becomes the format of \<^verbatim>\<open>Warnf\<close>.\<close>

definition Warn :: "(string \<Rightarrow> 'v list \<Rightarrow> string) \<Rightarrow> ('v list \<Rightarrow> string) \<Rightarrow> 'v list \<Rightarrow> LogState \<Rightarrow> LogState" where
  "Warn sprintf sprint v = Warnf sprintf (sprint v) []"

definition Errorf :: "(string \<Rightarrow> 'v list \<Rightarrow> string) \<Rightarrow> string \<Rightarrow> 'v list \<Rightarrow> LogState \<Rightarrow> LogState" where
  "Errorf sprintf format v s =
     (let s1 = Filelogf sprintf (utf8 10069 @ format) v s in
      log_Printf (sprintf (esc ''91'' @ utf8 10069 @ esc ''2'' @ getDuration s1 @ '' '' @ esc ''0'' @ format @ esc ''0'') v) s1)"

definition Critf :: "(string \<Rightarrow> 'v list \<Rightarrow> string) \<Rightarrow> string \<Rightarrow> 'v list \<Rightarrow> LogState \<Rightarrow> LogState" where
  "Critf sprintf format v s =
     (let s1 = Filelogf sprintf (utf8 9888 @ utf8 65039 @ '' '' @ format) v s in
      log_Printf (sprintf (esc ''91;5'' @ utf8 9888 @ utf8 65039 @ '' '' @ esc ''2'' @ getDuration s1 @ '' '' @ esc ''0;91'' @ format @ esc ''0'') v) s1)"

text \<open>Only \<^verbatim>\<open>Fatalf\<close> ends the process, after its line.\<close>

definition Fatalf :: "(string \<Rightarrow> 'v list \<Rightarrow> string) \<Rightarrow> string \<Rightarrow> 'v list \<Rightarrow> (LogState, unit) io" where
  "Fatalf sprintf format v s =
     (let s1 = Filelogf sprintf (utf8 129984 @ '' '' @ format) v s in
      Some (Exit (sprintf format v),
        log_Printf (sprintf (esc ''31'' @ utf8 129984 @ '' '' @ getDuration s1 @ '' '' @ esc ''0'' @ format) v) s1))"


section \<open>Digests and random strings\<close>

text \<open>\<^verbatim>\<open>hex.EncodeToString\<close>, over the bytes of \<^verbatim>\<open>md5.Sum\<close>.\<close>

definition hex_digit :: "nat \<Rightarrow> char" where
  "hex_digit n = ''0123456789abcdef'' ! (n mod 16)"

definition hexEncode :: "string \<Rightarrow> string" where
  "hexEncode bs = concat (map (\<lambda>b. [hex_digit (of_char b div 16), hex_digit (of_char b)]) bs)"

definition hashMd5 :: "(string \<Rightarrow> string) \<Rightarrow> string \<Rightarrow> string" where
  "hashMd5 md5_Sum s = hexEncode (md5_Sum s)"

definition letters :: string where
  "letters = ''abcdefghijklmnopqrstuvwxyz0123456789''"

text \<open>\<open>rand_Intn\<close> is \<^verbatim>\<open>rand.Intn\<close>; an index out of range and a negative length panic.\<close>

fun randLoop :: "(nat \<Rightarrow> 'w \<Rightarrow> int \<times> 'w) \<Rightarrow> nat \<Rightarrow> ('w, string) io" where
  "randLoop rand_Intn 0 = retIO []"
| "randLoop rand_Intn (Suc n) =
     bindIO (callIO (rand_Intn (length letters))) (\<lambda>k.
       if 0 \<le> k \<and> k < int (length letters)
       then bindIO (randLoop rand_Intn n) (\<lambda>b. retIO (letters ! nat k # b))
       else panicIO ''index out of range'')"

definition RandString :: "(nat \<Rightarrow> 'w \<Rightarrow> int \<times> 'w) \<Rightarrow> int \<Rightarrow> ('w, string) io" where
  "RandString rand_Intn n =
     (if n < 0 then panicIO ''makeslice: len out of range'' else randLoop rand_Intn (nat n))"


section \<open>Properties of the log\<close>

text \<open>Every message of every level goes to the log file, whatever the flags are.\<close>

lemma file_gets_all:
  assumes "lg_fileLogger s = Some ls"
  shows "\<exists>l. lg_fileLogger (Debugf sprintf format v s) = Some (ls @ [l])"
    and "\<exists>l. lg_fileLogger (Infof sprintf format v s) = Some (ls @ [l])"
    and "\<exists>l. lg_fileLogger (Warnf sprintf format v s) = Some (ls @ [l])"
    and "\<exists>l. lg_fileLogger (Errorf sprintf format v s) = Some (ls @ [l])"
    and "\<exists>l. lg_fileLogger (Critf sprintf format v s) = Some (ls @ [l])"
  using assms by (simp_all add: Debugf_def Infof_def Warnf_def Errorf_def Critf_def Filelogf_def log_Printf_def Let_def)

lemma screen_by_flags:
  "lg_lines (Debugf sprintf format v s) = lg_lines s \<longleftrightarrow> \<not> lg_debugFlag s"
  "lg_lines (Infof sprintf format v s) = lg_lines s \<longleftrightarrow> \<not> lg_debugFlag s \<and> \<not> lg_verboseFlag s"
  by (auto simp: Debugf_def Infof_def Filelogf_def log_Printf_def Let_def split: option.splits)

text \<open>
  Up to a thousand seconds the three digits are the seconds. From then on there are two digits of
  minutes, and a hundred minutes look like none.
\<close>

lemma getDuration_seconds:
  assumes "lg_GOOS s = ''linux''" and "elapsed_sec (lg_startTime s) (lg_clock s) = 100 * a + 10 * b + c"
    and "0 \<le> a" "a < 10" "0 \<le> b" "b < 10" "0 \<le> c" "c < 10"
  shows "getDuration s = segDigit a @ segDigit b @ segDigit c"
proof -
  have "(100 * a + 10 * b + c) mod 1000 = 100 * a + 10 * b + c" "\<not> 1000 \<le> 100 * a + 10 * b + c"
    using assms(3-) by auto
  moreover have "(100 * a + 10 * b + c) div 100 = a"
    by (rule int_div_pos_eq [of _ _ _ "10 * b + c"]) (use assms(3-) in auto)
  moreover have "(100 * a + 10 * b + c) mod 100 = 10 * b + c"
    by (rule int_mod_pos_eq [of _ _ a]) (use assms(3-) in auto)
  moreover have "(10 * b + c) div 10 = b" by (rule int_div_pos_eq [of _ _ _ c]) (use assms(3-) in auto)
  moreover have "(100 * a + 10 * b + c) mod 10 = c"
    by (rule int_mod_pos_eq [of _ _ "10 * a + b"]) (use assms(3-) in auto)
  ultimately show ?thesis using assms(1,2) by (simp add: getDuration_def Let_def)
qed

lemma getDuration_wraps:
  assumes "lg_GOOS s = ''linux''" and "1000 \<le> elapsed_sec (lg_startTime s) (lg_clock s)"
    and "elapsed_sec (lg_startTime s) t = elapsed_sec (lg_startTime s) (lg_clock s) + 6000"
  shows "getDuration (s\<lparr>lg_clock := t\<rparr>) = getDuration s"
proof -
  define i where "i = elapsed_sec (lg_startTime s) (lg_clock s)"
  have "(i + 6000) div 60 = i div 60 + 100" by simp
  moreover have "(m + 100) mod 100 = m mod 100" "(m + 100) mod 10 = m mod 10" for m :: int
    by (simp, presburger)
  ultimately show ?thesis using assms by (simp add: getDuration_def Let_def i_def)
qed


section \<open>Properties of random strings\<close>

lemma hexEncode_length: "length (hexEncode bs) = 2 * length bs"
  by (induction bs) (simp_all add: hexEncode_def)

lemma hashMd5_length: "length (md5_Sum s) = 16 \<Longrightarrow> length (hashMd5 md5_Sum s) = 32"
  by (simp add: hashMd5_def hexEncode_length)

lemma randLoop_letters:
  assumes "\<And>v k v'. rand_Intn (length letters) v = (k, v') \<Longrightarrow> 0 \<le> k \<and> k < int (length letters)"
  shows "\<exists>b w'. randLoop rand_Intn n w = Some (Ret b, w') \<and> length b = n \<and> list_all (\<lambda>c. c \<in> set letters) b"
proof (induction n arbitrary: w)
  case (Suc n)
  obtain k w1 where k: "rand_Intn (length letters) w = (k, w1)" by fastforce
  from assms [OF k] have "nat k < length letters" by linarith
  then have "letters ! nat k \<in> set letters" by simp
  with Suc [of w1] k assms [OF k] show ?case by (auto simp: io_simps)
qed (simp add: io_simps)

text \<open>\<^verbatim>\<open>RandString(n)\<close> has \<open>n\<close> characters, all of them small letters and digits.\<close>

theorem RandString_letters:
  assumes "\<And>v k v'. rand_Intn (length letters) v = (k, v') \<Longrightarrow> 0 \<le> k \<and> k < int (length letters)" and "0 \<le> n"
  shows "\<exists>b w'. RandString rand_Intn n w = Some (Ret b, w') \<and> int (length b) = n \<and> list_all (\<lambda>c. c \<in> set letters) b"
  using randLoop_letters [where rand_Intn = rand_Intn and n = "nat n" and w = w] assms
  by (auto simp: RandString_def)

end
