(* ===== verification/DeepCopies.thy ===== *)
theory DeepCopies
  imports Objects
begin

text \<open>
  The deep copies of \<^verbatim>\<open>testkit_v2/util/kube_modules.go\<close> and of
  \<^verbatim>\<open>images/sds-lvm-e2e/src/v1alpha1\<close>, over an explicit heap: pointers and slices are addresses of
  cells, and \<^verbatim>\<open>nil\<close> is \<open>None\<close>. A type has a shape: when a value of it is well typed in a heap,
  which cells are reached from it, and what it stands for with all its pointers followed. The deep
  copies of the API machinery's own types (\<^verbatim>\<open>ObjectMeta\<close>, \<^verbatim>\<open>ListMeta\<close>, \<^verbatim>\<open>Time\<close>, \<^verbatim>\<open>Condition\<close>) are a
  parameter over the type \<open>'x\<close> of their values. A quantity counts as a value.
\<close>

section \<open>The types\<close>

type_synonym addr = nat

record 'x SSHCredentialsVal =
  cr_TypeMeta :: "string \<times> string"
  cr_ObjectMeta :: 'x
  cr_Spec :: SSHCredentialsSpec

record 'x SSHCredentialsList =
  crl_TypeMeta :: "string \<times> string"
  crl_ListMeta :: 'x
  crl_Items :: "addr option"

record StaticInstanceSpecVal =
  isp_Address :: string
  isp_CredentialsRef :: "addr option"

record 'x StaticInstanceStatusCurrentStatus =
  cur_LastUpdateTime :: 'x
  cur_Phase :: string

record StaticInstanceStatus =
  ist_MachineRef :: "addr option"
  ist_NodeRef :: "addr option"
  ist_CurrentStatus :: "addr option"
  ist_Conditions :: "addr option"

record 'x StaticInstanceVal =
  in_TypeMeta :: "string \<times> string"
  in_ObjectMeta :: 'x
  in_Spec :: StaticInstanceSpecVal
  in_Status :: StaticInstanceStatus

record 'x StaticInstanceList =
  inl_TypeMeta :: "string \<times> string"
  inl_ListMeta :: 'x
  inl_Items :: "addr option"

record SpecThinPool =
  stp_Name :: string
  stp_Size :: int

record LvmVolumeGroupSpec =
  vgs_ActualVGNameOnTheNode :: string
  vgs_BlockDeviceNames :: "addr option"
  vgs_ThinPools :: "addr option"
  vgs_Type :: string

record LvmVolumeGroupDevice =
  vgd_BlockDevice :: string
  vgd_DevSize :: int
  vgd_PVSize :: string
  vgd_PVUuid :: string
  vgd_Path :: string

record LvmVolumeGroupNode =
  vgn_Devices :: "addr option"
  vgn_Name :: string

record StatusThinPool =
  ttp_Name :: string
  ttp_ActualSize :: int
  ttp_UsedSize :: string

record LvmVolumeGroupStatus =
  vgt_AllocatedSize :: string
  vgt_Health :: string
  vgt_Message :: string
  vgt_Nodes :: "addr option"
  vgt_ThinPools :: "addr option"
  vgt_VGSize :: string
  vgt_VGUuid :: string

record 'x LvmVolumeGroup =
  vg_TypeMeta :: "string \<times> string"
  vg_ObjectMeta :: 'x
  vg_Spec :: LvmVolumeGroupSpec
  vg_Status :: LvmVolumeGroupStatus

record 'x LvmVolumeGroupList =
  vgl_TypeMeta :: "string \<times> string"
  vgl_ListMeta :: 'x
  vgl_Items :: "addr option"

record ThinLogicalVolumeSpec =
  thin_PoolName :: string

record LvmLogicalVolumeSpec =
  lvs_Type :: string
  lvs_Size :: int
  lvs_LvmVolumeGroup :: string
  lvs_Thin :: "addr option"

record LvmLogicalVolumeStatus =
  lvt_Phase :: string
  lvt_Reason :: string
  lvt_ActualSize :: int

record 'x LvmLogicalVolume =
  lv_TypeMeta :: "string \<times> string"
  lv_ObjectMeta :: 'x
  lv_Spec :: LvmLogicalVolumeSpec
  lv_Status :: "addr option"

record 'x LvmLogicalVolumeList =
  lvl_TypeMeta :: "string \<times> string"
  lvl_ListMeta :: 'x
  lvl_Items :: "addr option"


section \<open>The heap\<close>

text \<open>A cell holds a value that a pointer points to, or the array under a slice.\<close>

datatype 'x cell =
    LibCell (theLib: 'x)
  | RefCell (theRef: ObjectReference)
  | CurCell (theCur: "'x StaticInstanceStatusCurrentStatus")
  | CondArr (theConds: "'x list")
  | CredSpecCell (theCredSpec: SSHCredentialsSpec)
  | CredCell (theCred: "'x SSHCredentialsVal")
  | CredArr (theCreds: "'x SSHCredentialsVal list")
  | CredListCell (theCredList: "'x SSHCredentialsList")
  | InstSpecCell (theInstSpec: StaticInstanceSpecVal)
  | InstStatusCell (theInstStatus: StaticInstanceStatus)
  | InstCell (theInst: "'x StaticInstanceVal")
  | InstArr (theInsts: "'x StaticInstanceVal list")
  | InstListCell (theInstList: "'x StaticInstanceList")
  | StrArr (theStrs: "string list")
  | SpecThinArr (theSpecThins: "SpecThinPool list")
  | DeviceArr (theDevices: "LvmVolumeGroupDevice list")
  | VgNodeArr (theVgNodes: "LvmVolumeGroupNode list")
  | StatusThinArr (theStatusThins: "StatusThinPool list")
  | VgCell (theVg: "'x LvmVolumeGroup")
  | VgArr (theVgs: "'x LvmVolumeGroup list")
  | VgListCell (theVgList: "'x LvmVolumeGroupList")
  | ThinCell (theThin: ThinLogicalVolumeSpec)
  | LvStatusCell (theLvStatus: LvmLogicalVolumeStatus)
  | LvCell (theLv: "'x LvmLogicalVolume")
  | LvArr (theLvs: "'x LvmLogicalVolume list")
  | LvListCell (theLvList: "'x LvmLogicalVolumeList")

text \<open>The addresses below \<open>hp_next\<close> are in use.\<close>

record 'x heap =
  hp_next :: nat
  hp_cells :: "addr \<Rightarrow> 'x cell"

definition alloc :: "'x cell \<Rightarrow> 'x heap \<Rightarrow> addr \<times> 'x heap" where
  "alloc c h = (hp_next h, h\<lparr>hp_next := hp_next h + 1, hp_cells := (hp_cells h)(hp_next h := c)\<rparr>)"

definition store :: "addr \<Rightarrow> 'x cell \<Rightarrow> 'x heap \<Rightarrow> 'x heap" where
  "store a c h = h\<lparr>hp_cells := (hp_cells h)(a := c)\<rparr>"

text \<open>
  Copies are state transformers: a struct is copied to the struct that is returned. \<open>plainCopy\<close> is
  the assignment \<^verbatim>\<open>*out = *in\<close>; \<open>newCopy\<close> follows a pointer that is not nil, makes a new cell with that
  assignment and copies into it; \<open>copyItems\<close> is the loop over the items of a slice.
\<close>

type_synonym ('v, 'x) copier = "'v \<Rightarrow> 'x heap \<Rightarrow> 'v \<times> 'x heap"

definition plainCopy :: "('v, 'x) copier" where
  "plainCopy v h = (v, h)"

definition newCopy :: "('v \<Rightarrow> 'x cell) \<Rightarrow> ('x cell \<Rightarrow> 'v) \<Rightarrow> ('v, 'x) copier \<Rightarrow> (addr option, 'x) copier" where
  "newCopy mk get copyInto p h =
     (case p of
        None \<Rightarrow> (None, h)
      | Some a \<Rightarrow>
          (let v = get (hp_cells h a);
               (out, h1) = alloc (mk v) h;
               (v', h2) = copyInto v h1
           in (Some out, store out (mk v') h2)))"

fun copyItems :: "('v, 'x) copier \<Rightarrow> ('v list, 'x) copier" where
  "copyItems copyInto [] h = ([], h)"
| "copyItems copyInto (v # vs) h =
     (let (v', h1) = copyInto v h; (vs', h2) = copyItems copyInto vs h1 in (v' # vs', h2))"

text \<open>A nil pointer becomes a nil interface, not an interface that holds a nil pointer.\<close>

definition copyObject :: "(addr option, 'x) copier \<Rightarrow> (addr option, 'x) copier" where
  "copyObject deepCopy p h =
     (case deepCopy p h of (Some c, h') \<Rightarrow> (Some c, h') | (None, h') \<Rightarrow> (None, h'))"


section \<open>The deep copies of kube\_modules.go\<close>

definition SSHCredentialsSpec_DeepCopyInto :: "(SSHCredentialsSpec, 'x) copier" where
  "SSHCredentialsSpec_DeepCopyInto = plainCopy"

definition SSHCredentialsSpec_DeepCopy :: "(addr option, 'x) copier" where
  "SSHCredentialsSpec_DeepCopy = newCopy CredSpecCell theCredSpec SSHCredentialsSpec_DeepCopyInto"

definition SSHCredentials_DeepCopyInto :: "('x, 'x) copier \<Rightarrow> ('x SSHCredentialsVal, 'x) copier" where
  "SSHCredentials_DeepCopyInto lib v h =
     (let (m, h1) = lib (cr_ObjectMeta v) h in (v\<lparr>cr_ObjectMeta := m\<rparr>, h1))"

definition SSHCredentials_DeepCopy :: "('x, 'x) copier \<Rightarrow> (addr option, 'x) copier" where
  "SSHCredentials_DeepCopy lib = newCopy CredCell theCred (SSHCredentials_DeepCopyInto lib)"

definition SSHCredentials_DeepCopyObject :: "('x, 'x) copier \<Rightarrow> (addr option, 'x) copier" where
  "SSHCredentials_DeepCopyObject lib = copyObject (SSHCredentials_DeepCopy lib)"

definition SSHCredentialsList_DeepCopyInto :: "('x, 'x) copier \<Rightarrow> ('x SSHCredentialsList, 'x) copier" where
  "SSHCredentialsList_DeepCopyInto lib v h =
     (let (m, h1) = lib (crl_ListMeta v) h;
          (items, h2) = newCopy CredArr theCreds (copyItems (SSHCredentials_DeepCopyInto lib)) (crl_Items v) h1
      in (v\<lparr>crl_ListMeta := m, crl_Items := items\<rparr>, h2))"

definition SSHCredentialsList_DeepCopy :: "('x, 'x) copier \<Rightarrow> (addr option, 'x) copier" where
  "SSHCredentialsList_DeepCopy lib = newCopy CredListCell theCredList (SSHCredentialsList_DeepCopyInto lib)"

definition SSHCredentialsList_DeepCopyObject :: "('x, 'x) copier \<Rightarrow> (addr option, 'x) copier" where
  "SSHCredentialsList_DeepCopyObject lib = copyObject (SSHCredentialsList_DeepCopy lib)"

definition StaticInstanceSpec_DeepCopyInto :: "(StaticInstanceSpecVal, 'x) copier" where
  "StaticInstanceSpec_DeepCopyInto v h =
     (let (r, h1) = newCopy RefCell theRef plainCopy (isp_CredentialsRef v) h
      in (v\<lparr>isp_CredentialsRef := r\<rparr>, h1))"

definition StaticInstanceSpec_DeepCopy :: "(addr option, 'x) copier" where
  "StaticInstanceSpec_DeepCopy = newCopy InstSpecCell theInstSpec StaticInstanceSpec_DeepCopyInto"

definition CurrentStatus_DeepCopyInto :: "('x, 'x) copier \<Rightarrow> ('x StaticInstanceStatusCurrentStatus, 'x) copier" where
  "CurrentStatus_DeepCopyInto lib v h =
     (let (t, h1) = lib (cur_LastUpdateTime v) h in (v\<lparr>cur_LastUpdateTime := t\<rparr>, h1))"

definition CurrentStatus_DeepCopy :: "('x, 'x) copier \<Rightarrow> (addr option, 'x) copier" where
  "CurrentStatus_DeepCopy lib = newCopy CurCell theCur (CurrentStatus_DeepCopyInto lib)"

definition StaticInstanceStatus_DeepCopyInto :: "('x, 'x) copier \<Rightarrow> (StaticInstanceStatus, 'x) copier" where
  "StaticInstanceStatus_DeepCopyInto lib v h =
     (let (machine, h1) = newCopy RefCell theRef plainCopy (ist_MachineRef v) h;
          (node, h2) = newCopy RefCell theRef plainCopy (ist_NodeRef v) h1;
          (current, h3) = newCopy CurCell theCur (CurrentStatus_DeepCopyInto lib) (ist_CurrentStatus v) h2;
          (conditions, h4) = newCopy CondArr theConds (copyItems lib) (ist_Conditions v) h3
      in (v\<lparr>ist_MachineRef := machine, ist_NodeRef := node, ist_CurrentStatus := current,
            ist_Conditions := conditions\<rparr>, h4))"

definition StaticInstanceStatus_DeepCopy :: "('x, 'x) copier \<Rightarrow> (addr option, 'x) copier" where
  "StaticInstanceStatus_DeepCopy lib = newCopy InstStatusCell theInstStatus (StaticInstanceStatus_DeepCopyInto lib)"

definition StaticInstance_DeepCopyInto :: "('x, 'x) copier \<Rightarrow> ('x StaticInstanceVal, 'x) copier" where
  "StaticInstance_DeepCopyInto lib v h =
     (let (m, h1) = lib (in_ObjectMeta v) h;
          (spec, h2) = StaticInstanceSpec_DeepCopyInto (in_Spec v) h1;
          (status, h3) = StaticInstanceStatus_DeepCopyInto lib (in_Status v) h2
      in (v\<lparr>in_ObjectMeta := m, in_Spec := spec, in_Status := status\<rparr>, h3))"

definition StaticInstance_DeepCopy :: "('x, 'x) copier \<Rightarrow> (addr option, 'x) copier" where
  "StaticInstance_DeepCopy lib = newCopy InstCell theInst (StaticInstance_DeepCopyInto lib)"

definition StaticInstance_DeepCopyObject :: "('x, 'x) copier \<Rightarrow> (addr option, 'x) copier" where
  "StaticInstance_DeepCopyObject lib = copyObject (StaticInstance_DeepCopy lib)"

definition StaticInstanceList_DeepCopyInto :: "('x, 'x) copier \<Rightarrow> ('x StaticInstanceList, 'x) copier" where
  "StaticInstanceList_DeepCopyInto lib v h =
     (let (m, h1) = lib (inl_ListMeta v) h;
          (items, h2) = newCopy InstArr theInsts (copyItems (StaticInstance_DeepCopyInto lib)) (inl_Items v) h1
      in (v\<lparr>inl_ListMeta := m, inl_Items := items\<rparr>, h2))"

definition StaticInstanceList_DeepCopy :: "('x, 'x) copier \<Rightarrow> (addr option, 'x) copier" where
  "StaticInstanceList_DeepCopy lib = newCopy InstListCell theInstList (StaticInstanceList_DeepCopyInto lib)"

definition StaticInstanceList_DeepCopyObject :: "('x, 'x) copier \<Rightarrow> (addr option, 'x) copier" where
  "StaticInstanceList_DeepCopyObject lib = copyObject (StaticInstanceList_DeepCopy lib)"

definition GetConditions :: "'x StaticInstanceVal \<Rightarrow> addr option" where
  "GetConditions v = ist_Conditions (in_Status v)"

definition SetConditions :: "addr option \<Rightarrow> 'x StaticInstanceVal \<Rightarrow> 'x StaticInstanceVal" where
  "SetConditions conditions v = v\<lparr>in_Status := (in_Status v)\<lparr>ist_Conditions := conditions\<rparr>\<rparr>"


section \<open>The deep copies of zz\_generated.deepcopy.go\<close>

text \<open>\<^verbatim>\<open>*out = *in\<close> carries the spec and the status over, and only the metadata are copied deeply.\<close>

definition LvmVolumeGroup_DeepCopyInto :: "('x, 'x) copier \<Rightarrow> ('x LvmVolumeGroup, 'x) copier" where
  "LvmVolumeGroup_DeepCopyInto lib v h =
     (let (m, h1) = lib (vg_ObjectMeta v) h in (v\<lparr>vg_ObjectMeta := m\<rparr>, h1))"

definition LvmVolumeGroup_DeepCopy :: "('x, 'x) copier \<Rightarrow> (addr option, 'x) copier" where
  "LvmVolumeGroup_DeepCopy lib = newCopy VgCell theVg (LvmVolumeGroup_DeepCopyInto lib)"

definition LvmVolumeGroup_DeepCopyObject :: "('x, 'x) copier \<Rightarrow> (addr option, 'x) copier" where
  "LvmVolumeGroup_DeepCopyObject lib = copyObject (LvmVolumeGroup_DeepCopy lib)"

definition LvmVolumeGroupList_DeepCopyInto :: "('x, 'x) copier \<Rightarrow> ('x LvmVolumeGroupList, 'x) copier" where
  "LvmVolumeGroupList_DeepCopyInto lib v h =
     (let (m, h1) = lib (vgl_ListMeta v) h;
          (items, h2) = newCopy VgArr theVgs (copyItems (LvmVolumeGroup_DeepCopyInto lib)) (vgl_Items v) h1
      in (v\<lparr>vgl_ListMeta := m, vgl_Items := items\<rparr>, h2))"

definition LvmVolumeGroupList_DeepCopy :: "('x, 'x) copier \<Rightarrow> (addr option, 'x) copier" where
  "LvmVolumeGroupList_DeepCopy lib = newCopy VgListCell theVgList (LvmVolumeGroupList_DeepCopyInto lib)"

definition LvmVolumeGroupList_DeepCopyObject :: "('x, 'x) copier \<Rightarrow> (addr option, 'x) copier" where
  "LvmVolumeGroupList_DeepCopyObject lib = copyObject (LvmVolumeGroupList_DeepCopy lib)"

definition LvmLogicalVolume_DeepCopyInto :: "('x, 'x) copier \<Rightarrow> ('x LvmLogicalVolume, 'x) copier" where
  "LvmLogicalVolume_DeepCopyInto lib v h =
     (let (m, h1) = lib (lv_ObjectMeta v) h in (v\<lparr>lv_ObjectMeta := m\<rparr>, h1))"

definition LvmLogicalVolume_DeepCopy :: "('x, 'x) copier \<Rightarrow> (addr option, 'x) copier" where
  "LvmLogicalVolume_DeepCopy lib = newCopy LvCell theLv (LvmLogicalVolume_DeepCopyInto lib)"

definition LvmLogicalVolume_DeepCopyObject :: "('x, 'x) copier \<Rightarrow> (addr option, 'x) copier" where
  "LvmLogicalVolume_DeepCopyObject lib = copyObject (LvmLogicalVolume_DeepCopy lib)"

definition LvmLogicalVolumeList_DeepCopyInto :: "('x, 'x) copier \<Rightarrow> ('x LvmLogicalVolumeList, 'x) copier" where
  "LvmLogicalVolumeList_DeepCopyInto lib v h =
     (let (m, h1) = lib (lvl_ListMeta v) h;
          (items, h2) = newCopy LvArr theLvs (copyItems (LvmLogicalVolume_DeepCopyInto lib)) (lvl_Items v) h1
      in (v\<lparr>lvl_ListMeta := m, lvl_Items := items\<rparr>, h2))"

definition LvmLogicalVolumeList_DeepCopy :: "('x, 'x) copier \<Rightarrow> (addr option, 'x) copier" where
  "LvmLogicalVolumeList_DeepCopy lib = newCopy LvListCell theLvList (LvmLogicalVolumeList_DeepCopyInto lib)"

definition LvmLogicalVolumeList_DeepCopyObject :: "('x, 'x) copier \<Rightarrow> (addr option, 'x) copier" where
  "LvmLogicalVolumeList_DeepCopyObject lib = copyObject (LvmLogicalVolumeList_DeepCopy lib)"


section \<open>Shapes\<close>

text \<open>
  \<open>sh_wt\<close>: the pointers of the value point to cells of the heap with the right kind of content;
  \<open>sh_owned\<close>: the cells that are reached; \<open>sh_value\<close>: the value with its pointers followed.
\<close>

record ('v, 'x, 'c) shape =
  sh_wt :: "'v \<Rightarrow> 'x heap \<Rightarrow> bool"
  sh_owned :: "'v \<Rightarrow> 'x heap \<Rightarrow> addr set"
  sh_value :: "'v \<Rightarrow> 'x heap \<Rightarrow> 'c"

definition plainShape :: "('v, 'x, 'v) shape" where
  "plainShape = \<lparr>sh_wt = (\<lambda>v h. True), sh_owned = (\<lambda>v h. {}), sh_value = (\<lambda>v h. v)\<rparr>"

definition ptrShape :: "('x cell \<Rightarrow> bool) \<Rightarrow> ('x cell \<Rightarrow> 'v) \<Rightarrow> ('v, 'x, 'c) shape \<Rightarrow> (addr option, 'x, 'c option) shape" where
  "ptrShape is_kind get s =
     \<lparr>sh_wt = (\<lambda>p h. case p of None \<Rightarrow> True
        | Some a \<Rightarrow> a < hp_next h \<and> is_kind (hp_cells h a) \<and> sh_wt s (get (hp_cells h a)) h),
      sh_owned = (\<lambda>p h. case p of None \<Rightarrow> {} | Some a \<Rightarrow> insert a (sh_owned s (get (hp_cells h a)) h)),
      sh_value = (\<lambda>p h. map_option (\<lambda>a. sh_value s (get (hp_cells h a)) h) p)\<rparr>"

definition itemsShape :: "('v, 'x, 'c) shape \<Rightarrow> ('v list, 'x, 'c list) shape" where
  "itemsShape s =
     \<lparr>sh_wt = (\<lambda>vs h. list_all (\<lambda>v. sh_wt s v h) vs),
      sh_owned = (\<lambda>vs h. \<Union>v\<in>set vs. sh_owned s v h),
      sh_value = (\<lambda>vs h. map (\<lambda>v. sh_value s v h) vs)\<rparr>"

definition pairShape :: "('v, 'x, 'c) shape \<Rightarrow> ('u, 'x, 'd) shape \<Rightarrow> ('v \<times> 'u, 'x, 'c \<times> 'd) shape" where
  "pairShape s t =
     \<lparr>sh_wt = (\<lambda>(v, u) h. sh_wt s v h \<and> sh_wt t u h),
      sh_owned = (\<lambda>(v, u) h. sh_owned s v h \<union> sh_owned t u h),
      sh_value = (\<lambda>(v, u) h. (sh_value s v h, sh_value t u h))\<rparr>"

text \<open>A struct, by its fields with pointers \<open>parts\<close>; \<open>mk\<close> adds the plain ones.\<close>

definition structShape :: "('r \<Rightarrow> 'v) \<Rightarrow> ('r \<Rightarrow> 'c \<Rightarrow> 'd) \<Rightarrow> ('v, 'x, 'c) shape \<Rightarrow> ('r, 'x, 'd) shape" where
  "structShape parts mk s =
     \<lparr>sh_wt = (\<lambda>r. sh_wt s (parts r)), sh_owned = (\<lambda>r. sh_owned s (parts r)),
      sh_value = (\<lambda>r h. mk r (sh_value s (parts r) h))\<rparr>"

lemmas shape_defs = plainShape_def ptrShape_def itemsShape_def pairShape_def structShape_def

definition extends :: "'x heap \<Rightarrow> 'x heap \<Rightarrow> bool" where
  "extends h h' \<longleftrightarrow> hp_next h \<le> hp_next h' \<and> (\<forall>a < hp_next h. hp_cells h' a = hp_cells h a)"

lemma extends_refl [simp]: "extends h h"
  by (simp add: extends_def)

lemma extends_trans: "extends h h1 \<Longrightarrow> extends h1 h2 \<Longrightarrow> extends h h2"
  by (auto simp: extends_def)


section \<open>The interface of a deep copy\<close>

text \<open>
  A deep copy of a well-typed value is well typed, stands for the same, reaches new cells only, and
  leaves all cells in use as they are. What a value stands for depends on its own cells only.
\<close>

locale deep_copier =
  fixes copyInto :: "'v \<Rightarrow> 'x heap \<Rightarrow> 'v \<times> 'x heap" and s :: "('v, 'x, 'c) shape"
  assumes copy: "sh_wt s v h \<Longrightarrow> copyInto v h = (v', h') \<Longrightarrow>
      extends h h' \<and> sh_wt s v' h' \<and> sh_owned s v' h' \<subseteq> {hp_next h..} \<and> sh_value s v' h' = sh_value s v h"
    and wt_owned: "sh_wt s v h \<Longrightarrow> sh_owned s v h \<subseteq> {..<hp_next h}"
    and own: "sh_wt s v h \<Longrightarrow> hp_next h \<le> hp_next h' \<Longrightarrow> (\<forall>a\<in>sh_owned s v h. hp_cells h' a = hp_cells h a) \<Longrightarrow>
      sh_wt s v h' \<and> sh_owned s v h' = sh_owned s v h \<and> sh_value s v h' = sh_value s v h"
begin

lemma kept:
  assumes "sh_wt s v h" and "extends h h'"
  shows "sh_wt s v h'" and "sh_owned s v h' = sh_owned s v h" and "sh_value s v h' = sh_value s v h"
  using own [OF assms(1), of h'] assms(2) wt_owned [OF assms(1)] by (auto simp: extends_def)

text \<open>Whatever is stored in the cells of the copy, the original stands for what it stood for.\<close>

lemma independent:
  assumes "sh_wt s v h" and "copyInto v h = (v', h')" and "a \<in> sh_owned s v' h'"
  shows "sh_value s v (store a c h') = sh_value s v h"
proof -
  from copy [OF assms(1,2)] assms(3) have "extends h h'" "hp_next h \<le> a" by auto
  with wt_owned [OF assms(1)] show ?thesis
    by (intro own [OF assms(1), THEN conjunct2, THEN conjunct2]) (auto simp: extends_def store_def)
qed

lemma copyItems_deep: "deep_copier (copyItems copyInto) (itemsShape s)"
proof
  fix vs h vs' h'
  assume "sh_wt (itemsShape s) vs h" and "copyItems copyInto vs h = (vs', h')"
  then show "extends h h' \<and> sh_wt (itemsShape s) vs' h' \<and> sh_owned (itemsShape s) vs' h' \<subseteq> {hp_next h..} \<and>
      sh_value (itemsShape s) vs' h' = sh_value (itemsShape s) vs h"
  proof (induction vs arbitrary: h vs')
    case (Cons v vs)
    obtain v1 h1 where 1: "copyInto v h = (v1, h1)" by fastforce
    obtain vs2 h2 where 2: "copyItems copyInto vs h1 = (vs2, h2)" by fastforce
    have e: "vs' = v1 # vs2" "h2 = h'" using Cons.prems(2) 1 2 by auto
    have w: "sh_wt s v h" "\<And>u. u \<in> set vs \<Longrightarrow> sh_wt s u h"
      using Cons.prems(1) by (auto simp: itemsShape_def list_all_iff)
    note c = copy [OF w(1) 1]
    have "sh_wt s u h1 \<and> sh_value s u h1 = sh_value s u h" if "u \<in> set vs" for u
      using kept [OF w(2) [OF that], of h1] c by auto
    then have "sh_wt (itemsShape s) vs h1" and v: "sh_value (itemsShape s) vs h1 = sh_value (itemsShape s) vs h"
      by (auto simp: itemsShape_def list_all_iff)
    note r = Cons.IH [OF this(1) 2 [unfolded e(2)]]
    have "hp_next h \<le> hp_next h1" using c by (simp add: extends_def)
    then have "{hp_next h1..} \<subseteq> {hp_next h..}" by auto
    moreover have "sh_wt s v1 h2" "sh_owned s v1 h2 = sh_owned s v1 h1" "sh_value s v1 h2 = sh_value s v1 h1"
      using kept [of v1 h1 h2] c r e(2) by auto
    moreover have "extends h h'" using c r extends_trans by blast
    ultimately show ?case using c r v e by (auto simp: itemsShape_def)
  qed (simp add: itemsShape_def)
next
  fix vs h
  show "sh_wt (itemsShape s) vs h \<Longrightarrow> sh_owned (itemsShape s) vs h \<subseteq> {..<hp_next h}"
    using wt_owned by (fastforce simp: itemsShape_def list_all_iff)
next
  fix vs h and h' :: "'x heap"
  assume "sh_wt (itemsShape s) vs h" "hp_next h \<le> hp_next h'"
    "\<forall>a\<in>sh_owned (itemsShape s) vs h. hp_cells h' a = hp_cells h a"
  then have "sh_wt s v h' \<and> sh_owned s v h' = sh_owned s v h \<and> sh_value s v h' = sh_value s v h" if "v \<in> set vs" for v
    using that own [of v h h'] by (auto simp: itemsShape_def list_all_iff)
  then show "sh_wt (itemsShape s) vs h' \<and> sh_owned (itemsShape s) vs h' = sh_owned (itemsShape s) vs h \<and>
      sh_value (itemsShape s) vs h' = sh_value (itemsShape s) vs h"
    by (auto simp: itemsShape_def list_all_iff)
qed

lemma newCopy_deep:
  assumes mk: "\<And>v. is_kind (mk v)" "\<And>v. get (mk v) = v"
  shows "deep_copier (newCopy mk get copyInto) (ptrShape is_kind get s)"
proof
  fix p h p' h'
  assume w: "sh_wt (ptrShape is_kind get s) p h" and c: "newCopy mk get copyInto p h = (p', h')"
  show "extends h h' \<and> sh_wt (ptrShape is_kind get s) p' h' \<and> sh_owned (ptrShape is_kind get s) p' h' \<subseteq> {hp_next h..} \<and>
      sh_value (ptrShape is_kind get s) p' h' = sh_value (ptrShape is_kind get s) p h"
  proof (cases p)
    case None
    with c show ?thesis by (simp add: newCopy_def ptrShape_def)
  next
    case (Some a)
    define v where "v = get (hp_cells h a)"
    define h1 where "h1 = snd (alloc (mk v) h)"
    obtain v' h2 where v': "copyInto v h1 = (v', h2)" by fastforce
    have e: "p' = Some (hp_next h)" "h' = store (hp_next h) (mk v') h2"
      using c Some v' by (simp_all add: newCopy_def v_def [symmetric] h1_def alloc_def)
    have wv: "sh_wt s v h" using w Some by (simp add: ptrShape_def v_def)
    have x1: "extends h h1" and n1: "hp_next h1 = Suc (hp_next h)" by (auto simp: extends_def h1_def alloc_def)
    note k1 = kept [OF wv x1]
    note c2 = copy [OF k1(1) v']
    have n2: "Suc (hp_next h) \<le> hp_next h2" using c2 n1 by (simp add: extends_def)
    have x: "extends h h'"
      using extends_trans [OF x1, of h2] c2 n2 by (auto simp: e(2) store_def extends_def)
    have o2: "sh_owned s v' h2 \<subseteq> {Suc (hp_next h)..}" using c2 n1 by auto
    then have "sh_wt s v' h' \<and> sh_owned s v' h' = sh_owned s v' h2 \<and> sh_value s v' h' = sh_value s v' h2"
      using c2 by (intro own) (auto simp: e(2) store_def)
    moreover have "hp_cells h' (hp_next h) = mk v'" "hp_next h < hp_next h'" using n2 by (auto simp: e(2) store_def)
    ultimately show ?thesis
      using x c2 k1(3) o2 mk by (auto simp: ptrShape_def e(1) Some v_def [symmetric])
  qed
next
  fix p h
  show "sh_wt (ptrShape is_kind get s) p h \<Longrightarrow> sh_owned (ptrShape is_kind get s) p h \<subseteq> {..<hp_next h}"
    using wt_owned by (cases p) (fastforce simp: ptrShape_def)+
next
  fix p h and h' :: "'x heap"
  assume "sh_wt (ptrShape is_kind get s) p h" "hp_next h \<le> hp_next h'"
    "\<forall>a\<in>sh_owned (ptrShape is_kind get s) p h. hp_cells h' a = hp_cells h a"
  then show "sh_wt (ptrShape is_kind get s) p h' \<and> sh_owned (ptrShape is_kind get s) p h' = sh_owned (ptrShape is_kind get s) p h \<and>
      sh_value (ptrShape is_kind get s) p h' = sh_value (ptrShape is_kind get s) p h"
    by (cases p) (auto simp: ptrShape_def dest: own)
qed

text \<open>Two parts that are copied one after the other.\<close>

lemma pair_deep:
  assumes "deep_copier d t"
  shows "deep_copier (\<lambda>(v, u) h. let (v', h1) = copyInto v h; (u', h2) = d u h1 in ((v', u'), h2)) (pairShape s t)"
proof -
  from assms have d: "deep_copier d t" .
  show ?thesis
  proof
    fix vu h vu' and h' :: "'x heap"
    assume w: "sh_wt (pairShape s t) vu h"
      and c: "(case vu of (v, u) \<Rightarrow> \<lambda>h. let (v', h1) = copyInto v h; (u', h2) = d u h1 in ((v', u'), h2)) h = (vu', h')"
    obtain v u where vu: "vu = (v, u)" by fastforce
    obtain v' h1 where 1: "copyInto v h = (v', h1)" by fastforce
    obtain u' h2 where 2: "d u h1 = (u', h2)" by fastforce
    have e: "vu' = (v', u')" "h' = h2" using c vu 1 2 by auto
    have wv: "sh_wt s v h" "sh_wt t u h" using w vu by (auto simp: pairShape_def)
    note c1 = copy [OF wv(1) 1]
    note k = deep_copier.kept [OF d wv(2), of h1]
    note c2 = deep_copier.copy [OF d k(1) 2]
    have x: "extends h h1" "extends h1 h2" using c1 c2 by auto
    have "{hp_next h1..} \<subseteq> {hp_next h..}" using x by (auto simp: extends_def)
    moreover have "sh_wt s v' h2" "sh_owned s v' h2 = sh_owned s v' h1" "sh_value s v' h2 = sh_value s v' h1"
      using kept [of v' h1 h2] c1 x(2) by auto
    ultimately show "extends h h' \<and> sh_wt (pairShape s t) vu' h' \<and> sh_owned (pairShape s t) vu' h' \<subseteq> {hp_next h..} \<and>
        sh_value (pairShape s t) vu' h' = sh_value (pairShape s t) vu h"
      using c1 c2 k x extends_trans [OF x] by (auto simp: pairShape_def e vu)
  next
    fix vu h
    show "sh_wt (pairShape s t) vu h \<Longrightarrow> sh_owned (pairShape s t) vu h \<subseteq> {..<hp_next h}"
      using wt_owned deep_copier.wt_owned [OF d] by (cases vu) (fastforce simp: pairShape_def)
  next
    fix vu h and h' :: "'x heap"
    assume "sh_wt (pairShape s t) vu h" "hp_next h \<le> hp_next h'"
      "\<forall>a\<in>sh_owned (pairShape s t) vu h. hp_cells h' a = hp_cells h a"
    then show "sh_wt (pairShape s t) vu h' \<and> sh_owned (pairShape s t) vu h' = sh_owned (pairShape s t) vu h \<and>
        sh_value (pairShape s t) vu h' = sh_value (pairShape s t) vu h"
      using own [of "fst vu" h h'] deep_copier.own [OF d, of "snd vu" h h'] by (cases vu) (auto simp: pairShape_def)
  qed
qed

text \<open>A struct is copied by copying its parts with pointers.\<close>

lemma struct_deep:
  assumes "\<And>r h. copyStruct r h = (let (v', h') = copyInto (parts r) h in (upd r v', h'))"
    and "\<And>r v. parts (upd r v) = v" and "\<And>r v. mk (upd r v) = mk r"
  shows "deep_copier copyStruct (structShape parts mk s)"
proof
  fix r h r' and h' :: "'x heap"
  assume "sh_wt (structShape parts mk s) r h" and "copyStruct r h = (r', h')"
  then show "extends h h' \<and> sh_wt (structShape parts mk s) r' h' \<and> sh_owned (structShape parts mk s) r' h' \<subseteq> {hp_next h..} \<and>
      sh_value (structShape parts mk s) r' h' = sh_value (structShape parts mk s) r h"
    using copy [of "parts r" h] assms by (auto simp: structShape_def split: prod.splits)
next
  fix r h
  show "sh_wt (structShape parts mk s) r h \<Longrightarrow> sh_owned (structShape parts mk s) r h \<subseteq> {..<hp_next h}"
    using wt_owned by (simp add: structShape_def)
next
  fix r h and h' :: "'x heap"
  show "sh_wt (structShape parts mk s) r h \<Longrightarrow> hp_next h \<le> hp_next h' \<Longrightarrow>
      \<forall>a\<in>sh_owned (structShape parts mk s) r h. hp_cells h' a = hp_cells h a \<Longrightarrow>
      sh_wt (structShape parts mk s) r h' \<and> sh_owned (structShape parts mk s) r h' = sh_owned (structShape parts mk s) r h \<and>
      sh_value (structShape parts mk s) r h' = sh_value (structShape parts mk s) r h"
    using own [of "parts r" h h'] by (simp add: structShape_def)
qed

end

interpretation plain: deep_copier plainCopy "plainShape :: ('v, 'x, 'v) shape"
  by unfold_locales (auto simp: plainCopy_def plainShape_def)


section \<open>The shapes of the types\<close>

abbreviation refShape :: "(addr option, 'x, ObjectReference option) shape" where
  "refShape \<equiv> ptrShape is_RefCell theRef plainShape"

definition credShape where
  "credShape ls = structShape cr_ObjectMeta (\<lambda>r c. (cr_TypeMeta r, c, cr_Spec r)) ls"

definition credListShape where
  "credListShape ls = structShape (\<lambda>r. (crl_ListMeta r, crl_Items r)) (\<lambda>r c. (crl_TypeMeta r, c))
     (pairShape ls (ptrShape is_CredArr theCreds (itemsShape (credShape ls))))"

text \<open>A spec with its reference followed is the spec that the operations on static instances use.\<close>

definition specShape :: "(StaticInstanceSpecVal, 'x, StaticInstanceSpec) shape" where
  "specShape = structShape isp_CredentialsRef
     (\<lambda>r c. \<lparr>sis_Address = isp_Address r, sis_CredentialsRef = c\<rparr>) refShape"

definition currentShape where
  "currentShape ls = structShape cur_LastUpdateTime (\<lambda>r c. (c, cur_Phase r)) ls"

definition statusShape where
  "statusShape ls =
     structShape (\<lambda>r. (ist_MachineRef r, ist_NodeRef r, ist_CurrentStatus r, ist_Conditions r)) (\<lambda>r c. c)
       (pairShape refShape (pairShape refShape
         (pairShape (ptrShape is_CurCell theCur (currentShape ls)) (ptrShape is_CondArr theConds (itemsShape ls)))))"

definition instShape where
  "instShape ls = structShape (\<lambda>r. (in_ObjectMeta r, in_Spec r, in_Status r)) (\<lambda>r c. (in_TypeMeta r, c))
     (pairShape ls (pairShape specShape (statusShape ls)))"

definition instListShape where
  "instListShape ls = structShape (\<lambda>r. (inl_ListMeta r, inl_Items r)) (\<lambda>r c. (inl_TypeMeta r, c))
     (pairShape ls (ptrShape is_InstArr theInsts (itemsShape (instShape ls))))"

definition vgSpecShape where
  "vgSpecShape = structShape (\<lambda>r. (vgs_BlockDeviceNames r, vgs_ThinPools r))
     (\<lambda>r c. (vgs_ActualVGNameOnTheNode r, vgs_Type r, c))
     (pairShape (ptrShape is_StrArr theStrs plainShape) (ptrShape is_SpecThinArr theSpecThins plainShape))"

definition vgNodeShape where
  "vgNodeShape = structShape vgn_Devices (\<lambda>r c. (vgn_Name r, c)) (ptrShape is_DeviceArr theDevices plainShape)"

definition vgStatusShape where
  "vgStatusShape = structShape (\<lambda>r. (vgt_Nodes r, vgt_ThinPools r))
     (\<lambda>r c. (vgt_AllocatedSize r, vgt_Health r, vgt_Message r, vgt_VGSize r, vgt_VGUuid r, c))
     (pairShape (ptrShape is_VgNodeArr theVgNodes (itemsShape vgNodeShape))
       (ptrShape is_StatusThinArr theStatusThins plainShape))"

definition vgShape where
  "vgShape ls = structShape (\<lambda>r. (vg_ObjectMeta r, vg_Spec r, vg_Status r)) (\<lambda>r c. (vg_TypeMeta r, c))
     (pairShape ls (pairShape vgSpecShape vgStatusShape))"

definition lvSpecShape where
  "lvSpecShape = structShape lvs_Thin (\<lambda>r c. (lvs_Type r, lvs_Size r, lvs_LvmVolumeGroup r, c))
     (ptrShape is_ThinCell theThin plainShape)"

definition lvShape where
  "lvShape ls = structShape (\<lambda>r. (lv_ObjectMeta r, lv_Spec r, lv_Status r)) (\<lambda>r c. (lv_TypeMeta r, c))
     (pairShape ls (pairShape lvSpecShape (ptrShape is_LvStatusCell theLvStatus plainShape)))"


section \<open>The copies of kube\_modules.go are deep\<close>

interpretation credSpec: deep_copier SSHCredentialsSpec_DeepCopyInto "plainShape :: (SSHCredentialsSpec, 'x, SSHCredentialsSpec) shape"
  unfolding SSHCredentialsSpec_DeepCopyInto_def by (rule plain.deep_copier_axioms)

interpretation ref: deep_copier "newCopy RefCell theRef plainCopy" "refShape :: (addr option, 'x, ObjectReference option) shape"
  by (rule plain.newCopy_deep) simp_all

interpretation spec: deep_copier StaticInstanceSpec_DeepCopyInto "specShape :: (StaticInstanceSpecVal, 'x, StaticInstanceSpec) shape"
  unfolding specShape_def
  by (rule ref.struct_deep [where upd = "\<lambda>r v. r\<lparr>isp_CredentialsRef := v\<rparr>"])
    (simp_all add: StaticInstanceSpec_DeepCopyInto_def)

interpretation specPtr: deep_copier StaticInstanceSpec_DeepCopy
    "ptrShape is_InstSpecCell theInstSpec specShape :: (addr option, 'x, StaticInstanceSpec option) shape"
  unfolding StaticInstanceSpec_DeepCopy_def by (rule spec.newCopy_deep) simp_all

lemma copyObject_is: "copyObject deepCopy = deepCopy"
  by (simp add: copyObject_def fun_eq_iff split: prod.splits option.splits)

lemma cred_deep:
  assumes lib: "deep_copier lib ls"
  shows "deep_copier (SSHCredentials_DeepCopyInto lib) (credShape ls)"
  unfolding credShape_def
  by (rule deep_copier.struct_deep [OF lib, where upd = "\<lambda>r v. r\<lparr>cr_ObjectMeta := v\<rparr>"]) (simp_all add: SSHCredentials_DeepCopyInto_def)

lemma credPtr_deep:
  assumes lib: "deep_copier lib ls"
  shows "deep_copier (SSHCredentials_DeepCopy lib) (ptrShape is_CredCell theCred (credShape ls))"
  unfolding SSHCredentials_DeepCopy_def by (rule deep_copier.newCopy_deep [OF cred_deep [OF lib]]) simp_all

lemma credList_deep:
  assumes lib: "deep_copier lib ls"
  shows "deep_copier (SSHCredentialsList_DeepCopyInto lib) (credListShape ls)"
proof -
  have "deep_copier (newCopy CredArr theCreds (copyItems (SSHCredentials_DeepCopyInto lib)))
      (ptrShape is_CredArr theCreds (itemsShape (credShape ls)))"
    by (rule deep_copier.newCopy_deep [OF deep_copier.copyItems_deep [OF cred_deep [OF lib]]]) simp_all
  from deep_copier.pair_deep [OF lib this] show ?thesis
    unfolding credListShape_def
    by (rule deep_copier.struct_deep [where upd = "\<lambda>r v. r\<lparr>crl_ListMeta := fst v, crl_Items := snd v\<rparr>"])
      (simp_all add: SSHCredentialsList_DeepCopyInto_def split_beta Let_def)
qed

lemma credListPtr_deep:
  assumes lib: "deep_copier lib ls"
  shows "deep_copier (SSHCredentialsList_DeepCopy lib) (ptrShape is_CredListCell theCredList (credListShape ls))"
  unfolding SSHCredentialsList_DeepCopy_def by (rule deep_copier.newCopy_deep [OF credList_deep [OF lib]]) simp_all

lemma current_deep:
  assumes lib: "deep_copier lib ls"
  shows "deep_copier (CurrentStatus_DeepCopyInto lib) (currentShape ls)"
  unfolding currentShape_def
  by (rule deep_copier.struct_deep [OF lib, where upd = "\<lambda>r v. r\<lparr>cur_LastUpdateTime := v\<rparr>"]) (simp_all add: CurrentStatus_DeepCopyInto_def)

lemma currentPtr_deep:
  assumes lib: "deep_copier lib ls"
  shows "deep_copier (CurrentStatus_DeepCopy lib) (ptrShape is_CurCell theCur (currentShape ls))"
  unfolding CurrentStatus_DeepCopy_def by (rule deep_copier.newCopy_deep [OF current_deep [OF lib]]) simp_all

lemma status_deep:
  assumes lib: "deep_copier lib ls"
  shows "deep_copier (StaticInstanceStatus_DeepCopyInto lib) (statusShape ls)"
proof -
  have "deep_copier (newCopy CondArr theConds (copyItems lib)) (ptrShape is_CondArr theConds (itemsShape ls))"
    by (rule deep_copier.newCopy_deep [OF deep_copier.copyItems_deep [OF lib]]) simp_all
  note parts = ref.pair_deep [OF ref.pair_deep [OF deep_copier.pair_deep [OF currentPtr_deep [OF lib] this]]]
  show ?thesis
    unfolding statusShape_def
    by (rule deep_copier.struct_deep [OF parts, where upd = "\<lambda>r v. r\<lparr>ist_MachineRef := fst v,
        ist_NodeRef := fst (snd v), ist_CurrentStatus := fst (snd (snd v)), ist_Conditions := snd (snd (snd v))\<rparr>"])
      (simp_all add: StaticInstanceStatus_DeepCopyInto_def CurrentStatus_DeepCopy_def split_beta Let_def)
qed

lemma statusPtr_deep:
  assumes lib: "deep_copier lib ls"
  shows "deep_copier (StaticInstanceStatus_DeepCopy lib) (ptrShape is_InstStatusCell theInstStatus (statusShape ls))"
  unfolding StaticInstanceStatus_DeepCopy_def by (rule deep_copier.newCopy_deep [OF status_deep [OF lib]]) simp_all

lemma inst_deep:
  assumes lib: "deep_copier lib ls"
  shows "deep_copier (StaticInstance_DeepCopyInto lib) (instShape ls)"
proof -
  note parts = deep_copier.pair_deep [OF lib spec.pair_deep [OF status_deep [OF lib]]]
  show ?thesis
    unfolding instShape_def
    by (rule deep_copier.struct_deep [OF parts, where upd = "\<lambda>r v. r\<lparr>in_ObjectMeta := fst v,
        in_Spec := fst (snd v), in_Status := snd (snd v)\<rparr>"])
      (simp_all add: StaticInstance_DeepCopyInto_def split_beta Let_def)
qed

lemma instPtr_deep:
  assumes lib: "deep_copier lib ls"
  shows "deep_copier (StaticInstance_DeepCopy lib) (ptrShape is_InstCell theInst (instShape ls))"
  unfolding StaticInstance_DeepCopy_def by (rule deep_copier.newCopy_deep [OF inst_deep [OF lib]]) simp_all

lemma instList_deep:
  assumes lib: "deep_copier lib ls"
  shows "deep_copier (StaticInstanceList_DeepCopyInto lib) (instListShape ls)"
proof -
  have "deep_copier (newCopy InstArr theInsts (copyItems (StaticInstance_DeepCopyInto lib)))
      (ptrShape is_InstArr theInsts (itemsShape (instShape ls)))"
    by (rule deep_copier.newCopy_deep [OF deep_copier.copyItems_deep [OF inst_deep [OF lib]]]) simp_all
  from deep_copier.pair_deep [OF lib this] show ?thesis
    unfolding instListShape_def
    by (rule deep_copier.struct_deep [where upd = "\<lambda>r v. r\<lparr>inl_ListMeta := fst v, inl_Items := snd v\<rparr>"])
      (simp_all add: StaticInstanceList_DeepCopyInto_def split_beta Let_def)
qed

lemma instListPtr_deep:
  assumes lib: "deep_copier lib ls"
  shows "deep_copier (StaticInstanceList_DeepCopy lib) (ptrShape is_InstListCell theInstList (instListShape ls))"
  unfolding StaticInstanceList_DeepCopy_def by (rule deep_copier.newCopy_deep [OF instList_deep [OF lib]]) simp_all


lemma instListObject_deep:
  assumes lib: "deep_copier lib ls"
  shows "deep_copier (StaticInstanceList_DeepCopyObject lib) (ptrShape is_InstListCell theInstList (instListShape ls))"
  using instListPtr_deep [OF lib] by (simp add: StaticInstanceList_DeepCopyObject_def copyObject_is)

lemma credListObject_deep:
  assumes lib: "deep_copier lib ls"
  shows "deep_copier (SSHCredentialsList_DeepCopyObject lib) (ptrShape is_CredListCell theCredList (credListShape ls))"
  using credListPtr_deep [OF lib] by (simp add: SSHCredentialsList_DeepCopyObject_def copyObject_is)

text \<open>
  C6. The copy of a list of static instances, metadata, references, statuses and conditions included: a
  well-typed list, nil or not, is copied to a well-typed one that stands for the same, reaches no
  cell of the original, changes none, and through which no store, of whatever in whichever of its
  cells, changes what the original stands for. It rests on the copies of the metadata, times and
  conditions being of the kind themselves.
\<close>

theorem StaticInstanceList_copy_is_deep:
  assumes "deep_copier lib ls"
    and "sh_wt (ptrShape is_InstListCell theInstList (instListShape ls)) p h"
    and "StaticInstanceList_DeepCopyObject lib p h = (p', h')"
  shows "extends h h' \<and> sh_wt (ptrShape is_InstListCell theInstList (instListShape ls)) p' h' \<and>
    sh_value (ptrShape is_InstListCell theInstList (instListShape ls)) p' h' =
      sh_value (ptrShape is_InstListCell theInstList (instListShape ls)) p h \<and>
    sh_owned (ptrShape is_InstListCell theInstList (instListShape ls)) p' h' \<inter>
      sh_owned (ptrShape is_InstListCell theInstList (instListShape ls)) p h = {} \<and>
    sh_owned (ptrShape is_InstListCell theInstList (instListShape ls)) p' h' \<subseteq>
      {a. \<forall>c. sh_value (ptrShape is_InstListCell theInstList (instListShape ls)) p (store a c h') =
        sh_value (ptrShape is_InstListCell theInstList (instListShape ls)) p h}"
proof -
  note d = instListObject_deep [OF assms(1)]
  note c = deep_copier.copy [OF d assms(2,3)]
  show ?thesis
    using c deep_copier.wt_owned [OF d assms(2)] deep_copier.independent [OF d assms(2,3)] by fastforce
qed


section \<open>The copies of zz\_generated.deepcopy.go are not\<close>

lemma LvmVolumeGroup_copy_shares:
  assumes "LvmVolumeGroup_DeepCopyInto lib v h = (v', h')" and "vgs_BlockDeviceNames (vg_Spec v') = Some a"
  shows "fst (snd (snd (sh_value vgSpecShape (vg_Spec v) (store a (StrArr names) h')))) = Some names"
  using assms by (auto simp: LvmVolumeGroup_DeepCopyInto_def vgSpecShape_def shape_defs store_def split: prod.splits)

lemma LvmLogicalVolume_copy_shares:
  assumes "LvmLogicalVolume_DeepCopyInto lib v h = (v', h')" and "lv_Status v' = Some a"
  shows "sh_value (ptrShape is_LvStatusCell theLvStatus plainShape) (lv_Status v) (store a (LvStatusCell st) h') = Some st"
  using assms by (auto simp: LvmLogicalVolume_DeepCopyInto_def shape_defs store_def split: prod.splits)

definition oneDevice :: "'x \<Rightarrow> addr \<Rightarrow> 'x LvmVolumeGroup" where
  "oneDevice m a =
     \<lparr>vg_TypeMeta = ([], []), vg_ObjectMeta = m,
      vg_Spec = \<lparr>vgs_ActualVGNameOnTheNode = ''vg'', vgs_BlockDeviceNames = Some a, vgs_ThinPools = None, vgs_Type = ''Local''\<rparr>,
      vg_Status = \<lparr>vgt_AllocatedSize = [], vgt_Health = [], vgt_Message = [], vgt_Nodes = None, vgt_ThinPools = None,
        vgt_VGSize = [], vgt_VGUuid = []\<rparr>\<rparr>"

definition oneStatus :: "'x \<Rightarrow> addr \<Rightarrow> 'x LvmLogicalVolume" where
  "oneStatus m a =
     \<lparr>lv_TypeMeta = ([], []), lv_ObjectMeta = m,
      lv_Spec = \<lparr>lvs_Type = ''Thick'', lvs_Size = 1, lvs_LvmVolumeGroup = ''vg'', lvs_Thin = None\<rparr>, lv_Status = Some a\<rparr>"

text \<open>
  However well the metadata are copied, the copies are not deep: where there is a value of the metadata's type at all, there is
  a volume group whose copy still reaches the array of device names of the original, and a logical volume whose copy
  reaches its status.
\<close>

lemma Lvm_copies_not_deep:
  assumes "deep_copier lib ls" and "sh_wt ls m h"
  shows "\<not> deep_copier (LvmVolumeGroup_DeepCopyInto lib) (vgShape ls) \<and>
    \<not> deep_copier (LvmLogicalVolume_DeepCopyInto lib) (lvShape ls)"
proof
  define h1 where "h1 = snd (alloc (StrArr [''bd-1'']) h)"
  have "extends h h1" by (simp add: h1_def alloc_def extends_def)
  from deep_copier.kept(1) [OF assms this] have m: "sh_wt ls m h1" .
  obtain m' h' where c: "lib m h1 = (m', h')" by fastforce
  let ?v = "oneDevice m (hp_next h)"
  have "sh_wt (vgShape ls) ?v h1"
    using m by (simp add: vgShape_def vgSpecShape_def vgStatusShape_def shape_defs oneDevice_def h1_def alloc_def)
  moreover have "LvmVolumeGroup_DeepCopyInto lib ?v h1 = (oneDevice m' (hp_next h), h')"
    using c by (simp add: LvmVolumeGroup_DeepCopyInto_def oneDevice_def)
  moreover have "hp_next h \<in> sh_owned (vgShape ls) (oneDevice m' (hp_next h)) h'" "hp_next h < hp_next h1"
    by (simp_all add: vgShape_def vgSpecShape_def shape_defs oneDevice_def h1_def alloc_def)
  ultimately show "\<not> deep_copier (LvmVolumeGroup_DeepCopyInto lib) (vgShape ls)"
    using deep_copier.copy by fastforce
next
  define h1 where "h1 = snd (alloc (LvStatusCell \<lparr>lvt_Phase = ''Created'', lvt_Reason = [], lvt_ActualSize = 1\<rparr>) h)"
  have "extends h h1" by (simp add: h1_def alloc_def extends_def)
  from deep_copier.kept(1) [OF assms this] have m: "sh_wt ls m h1" .
  obtain m' h' where c: "lib m h1 = (m', h')" by fastforce
  let ?v = "oneStatus m (hp_next h)"
  have "sh_wt (lvShape ls) ?v h1"
    using m by (simp add: lvShape_def lvSpecShape_def shape_defs oneStatus_def h1_def alloc_def)
  moreover have "LvmLogicalVolume_DeepCopyInto lib ?v h1 = (oneStatus m' (hp_next h), h')"
    using c by (simp add: LvmLogicalVolume_DeepCopyInto_def oneStatus_def)
  moreover have "hp_next h \<in> sh_owned (lvShape ls) (oneStatus m' (hp_next h)) h'" "hp_next h < hp_next h1"
    by (simp_all add: lvShape_def lvSpecShape_def shape_defs oneStatus_def h1_def alloc_def)
  ultimately show "\<not> deep_copier (LvmLogicalVolume_DeepCopyInto lib) (lvShape ls)"
    using deep_copier.copy by fastforce
qed


text \<open>
  C29. The copies of volume groups and of logical volumes copy the metadata and nothing else. All slices of the spec and the status
  of the group, and the two pointers of the logical volume, are those of the original: what is stored through the copy as
  the device names, the thin pools, the nodes or the status is what the original then has. So neither is a deep
  copy, however deep the copies of the metadata are.
\<close>

theorem Lvm_copies_share:
  assumes "deep_copier lib ls" and "sh_wt ls (vg_ObjectMeta v) h"
    and "LvmVolumeGroup_DeepCopyInto lib v h = (v', h1)" and "LvmLogicalVolume_DeepCopyInto lib l h = (l', h2)"
    and "vgs_BlockDeviceNames (vg_Spec v') = Some a1" and "vgs_ThinPools (vg_Spec v') = Some a2"
    and "vgt_Nodes (vg_Status v') = Some a3" and "vgt_ThinPools (vg_Status v') = Some a4" and "lv_Status l' = Some a5"
  shows "(vg_ObjectMeta v', h1) = lib (vg_ObjectMeta v) h \<and> (lv_ObjectMeta l', h2) = lib (lv_ObjectMeta l) h \<and>
    vg_Spec v' = vg_Spec v \<and> vg_Status v' = vg_Status v \<and> lv_Spec l' = lv_Spec l \<and> lv_Status l' = lv_Status l \<and>
    sh_value (ptrShape is_StrArr theStrs plainShape) (vgs_BlockDeviceNames (vg_Spec v)) (store a1 (StrArr names) h1) = Some names \<and>
    sh_value (ptrShape is_SpecThinArr theSpecThins plainShape) (vgs_ThinPools (vg_Spec v)) (store a2 (SpecThinArr pools) h1) =
      Some pools \<and>
    sh_value (ptrShape is_VgNodeArr theVgNodes plainShape) (vgt_Nodes (vg_Status v)) (store a3 (VgNodeArr nodes) h1) = Some nodes \<and>
    sh_value (ptrShape is_StatusThinArr theStatusThins plainShape) (vgt_ThinPools (vg_Status v))
      (store a4 (StatusThinArr thins) h1) = Some thins \<and>
    sh_value (ptrShape is_LvStatusCell theLvStatus plainShape) (lv_Status l) (store a5 (LvStatusCell st) h2) = Some st \<and>
    \<not> deep_copier (LvmVolumeGroup_DeepCopyInto lib) (vgShape ls) \<and> \<not> deep_copier (LvmLogicalVolume_DeepCopyInto lib) (lvShape ls)"
proof -
  have same: "vg_Spec v' = vg_Spec v" "vg_Status v' = vg_Status v" "(vg_ObjectMeta v', h1) = lib (vg_ObjectMeta v) h"
    using assms(3) by (auto simp: LvmVolumeGroup_DeepCopyInto_def split: prod.splits)
  have same': "lv_Spec l' = lv_Spec l" "lv_Status l' = lv_Status l" "(lv_ObjectMeta l', h2) = lib (lv_ObjectMeta l) h"
    using assms(4) by (auto simp: LvmLogicalVolume_DeepCopyInto_def split: prod.splits)
  have "lv_Status l = Some a5" using same'(2) assms(9) by simp
  then show ?thesis
    using same same'(1,3) assms(5-9) Lvm_copies_not_deep [OF assms(1,2)] by (simp add: shape_defs store_def)
qed

section \<open>A heap for the witnesses\<close>

text \<open>Metadata that are strings, and a list of one instance with its reference.\<close>

definition demo_inst :: "string StaticInstanceVal" where
  "demo_inst =
     \<lparr>in_TypeMeta = (''StaticInstance'', ''deckhouse.io/v1alpha1''), in_ObjectMeta = ''node-1'',
      in_Spec = \<lparr>isp_Address = ''10.10.10.181'', isp_CredentialsRef = Some 0\<rparr>,
      in_Status = \<lparr>ist_MachineRef = None, ist_NodeRef = Some 0, ist_CurrentStatus = None, ist_Conditions = None\<rparr>\<rparr>"

definition demo_heap :: "string heap" where
  "demo_heap =
     \<lparr>hp_next = 3, hp_cells = (\<lambda>a. LibCell [])
       (0 := RefCell (GetSSHCredentialsRef ''ssh''),
        1 := InstArr [demo_inst],
        2 := InstListCell \<lparr>inl_TypeMeta = (''StaticInstanceList'', ''deckhouse.io/v1alpha1''), inl_ListMeta = [],
          inl_Items = Some 1\<rparr>)\<rparr>"

lemma demo_wt: "sh_wt (ptrShape is_InstListCell theInstList (instListShape plainShape)) (Some 2) demo_heap"
  by (simp add: shape_defs instListShape_def instShape_def specShape_def statusShape_def demo_heap_def demo_inst_def)

abbreviation demoShape where
  "demoShape \<equiv> ptrShape is_InstListCell theInstList (instListShape (plainShape :: (string, string, string) shape))"

abbreviation demo_copy where
  "demo_copy \<equiv> StaticInstanceList_DeepCopyObject (plainCopy :: (string, string) copier) (Some 2) demo_heap"

lemma StaticInstanceList_copy_is_deep_witness:
  "extends demo_heap (snd demo_copy) \<and> sh_wt demoShape (fst demo_copy) (snd demo_copy) \<and>
    sh_value demoShape (fst demo_copy) (snd demo_copy) = sh_value demoShape (Some 2) demo_heap \<and>
    sh_owned demoShape (fst demo_copy) (snd demo_copy) \<inter> sh_owned demoShape (Some 2) demo_heap = {} \<and>
    sh_owned demoShape (fst demo_copy) (snd demo_copy) \<subseteq>
      {a. \<forall>c. sh_value demoShape (Some 2) (store a c (snd demo_copy)) = sh_value demoShape (Some 2) demo_heap}"
  by (rule StaticInstanceList_copy_is_deep [OF plain.deep_copier_axioms demo_wt]) simp

definition fullGroup :: "string LvmVolumeGroup" where
  "fullGroup =
     \<lparr>vg_TypeMeta = ([], []), vg_ObjectMeta = ''vg-1'',
      vg_Spec = \<lparr>vgs_ActualVGNameOnTheNode = ''vg'', vgs_BlockDeviceNames = Some 0, vgs_ThinPools = Some 1, vgs_Type = ''Local''\<rparr>,
      vg_Status = \<lparr>vgt_AllocatedSize = [], vgt_Health = [], vgt_Message = [], vgt_Nodes = Some 2, vgt_ThinPools = Some 3,
        vgt_VGSize = [], vgt_VGUuid = []\<rparr>\<rparr>"

lemma Lvm_copies_share_witness:
  "sh_value (ptrShape is_StrArr theStrs plainShape) (vgs_BlockDeviceNames (vg_Spec fullGroup))
      (store 0 (StrArr [''bd-2'']) demo_heap) = Some [''bd-2''] \<and>
    \<not> deep_copier (LvmVolumeGroup_DeepCopyInto (plainCopy :: (string, string) copier)) (vgShape plainShape)"
  using Lvm_copies_share [OF plain.deep_copier_axioms, of fullGroup demo_heap fullGroup demo_heap "oneStatus ''lv-1'' 4"
      "oneStatus ''lv-1'' 4" demo_heap 0 1 2 3 4 "[''bd-2'']"]
  by (simp add: fullGroup_def oneStatus_def plainShape_def plainCopy_def LvmVolumeGroup_DeepCopyInto_def
      LvmLogicalVolume_DeepCopyInto_def)

end
