(* ===== verification/Units.thy ===== *)
theory Units
  imports Prelude "HOL-Library.Log_Nat"
begin

text \<open>
  \<^verbatim>\<open>testkit/funcs/helper.go\<close>: the conversion of sizes between binary units, and
  \<^verbatim>\<open>LogFatalIfError\<close>. A \<^verbatim>\<open>float64\<close> that is not negative is an exact rational or an infinity, and
  every operation rounds to the nearest representable number, ties to even.
\<close>

section \<open>Floating point numbers\<close>

datatype float64 = Fin rat | Infinity

definition scale2 :: "int \<Rightarrow> rat \<Rightarrow> rat" where
  "scale2 e x = (if 0 \<le> e then x * 2 ^ nat e else x / 2 ^ nat (- e))"

definition round_half_even :: "rat \<Rightarrow> int" where
  "round_half_even x =
     (let f = \<lfloor>x\<rfloor>; r = x - of_int f
      in if r < 1 / 2 then f else if 1 / 2 < r then f + 1 else if even f then f else f + 1)"

text \<open>The exponent of the leading bit of a positive number, from the lengths of its quotient.\<close>

definition ilog2 :: "rat \<Rightarrow> int" where
  "ilog2 x =
     (case quotient_of x of (p, q) \<Rightarrow>
        (let d = bitlen p - bitlen q
         in if of_int q * scale2 d 1 \<le> of_int p then d else d - 1))"

text \<open>53 bits of significand, exponents down to the denormals, infinity from \<open>2 ^ 1024\<close> on.\<close>

definition round64 :: "rat \<Rightarrow> float64" where
  "round64 x =
     (if x = 0 then Fin 0
      else (let e = max (ilog2 x - 52) (- 1074);
                y = scale2 e (of_int (round_half_even (scale2 (- e) x)))
            in if 2 ^ 1024 \<le> y then Infinity else Fin y))"

fun fmul :: "float64 \<Rightarrow> rat \<Rightarrow> float64" where
  "fmul (Fin x) k = round64 (x * k)"
| "fmul Infinity k = Infinity"

fun fdiv :: "float64 \<Rightarrow> rat \<Rightarrow> float64" where
  "fdiv (Fin x) k = round64 (x / k)"
| "fdiv Infinity k = Infinity"

text \<open>\<^verbatim>\<open>%.2f\<close>: the decimal number with two places nearest to the value, ties to even.\<close>

fun fmt_2f :: "float64 \<Rightarrow> string" where
  "fmt_2f (Fin x) =
     (let n = nat (round_half_even (x * 100))
      in nat_digits (n div 100) @ ''.'' @ nat_digits (n div 10 mod 10) @ nat_digits (n mod 10))"
| "fmt_2f Infinity = ''+Inf''"


section \<open>Conversions\<close>

definition GiBToMiB :: "float64 \<Rightarrow> float64" where "GiBToMiB gib = fmul gib 1024"
definition MiBToGiB :: "float64 \<Rightarrow> float64" where "MiBToGiB mib = fdiv mib 1024"
definition GiBToKiB :: "float64 \<Rightarrow> float64" where "GiBToKiB gib = fmul gib (2 ^ 20)"
definition KiBToGiB :: "float64 \<Rightarrow> float64" where "KiBToGiB kib = fdiv kib (2 ^ 20)"
definition MiBToKiB :: "float64 \<Rightarrow> float64" where "MiBToKiB mib = fmul mib 1024"
definition KiBToMiB :: "float64 \<Rightarrow> float64" where "KiBToMiB kib = fdiv kib 1024"


section \<open>Parsing\<close>

definition is_digit :: "char \<Rightarrow> bool" where
  "is_digit c \<longleftrightarrow> 48 \<le> (of_char c :: nat) \<and> (of_char c :: nat) \<le> 57"

definition is_alpha :: "char \<Rightarrow> bool" where
  "is_alpha c \<longleftrightarrow> 65 \<le> (of_char c :: nat) \<and> (of_char c :: nat) \<le> 90 \<or>
     97 \<le> (of_char c :: nat) \<and> (of_char c :: nat) \<le> 122"

definition is_space :: "char \<Rightarrow> bool" where
  "is_space c \<longleftrightarrow> 9 \<le> (of_char c :: nat) \<and> (of_char c :: nat) \<le> 13 \<or> (of_char c :: nat) = 32"

text \<open>\<^verbatim>\<open>strings.TrimSpace\<close> and \<^verbatim>\<open>strings.ToUpper\<close> on ASCII.\<close>

definition trim_space :: "string \<Rightarrow> string" where
  "trim_space s = rev (dropWhile is_space (rev (dropWhile is_space s)))"

definition to_upper :: "string \<Rightarrow> string" where
  "to_upper = map (\<lambda>c. if 97 \<le> (of_char c :: nat) \<and> (of_char c :: nat) \<le> 122
     then char_of (of_char c - 32 :: nat) else c)"

definition digits_value :: "string \<Rightarrow> nat" where
  "digits_value ds = foldl (\<lambda>n c. 10 * n + (of_char c - 48)) 0 ds"

text \<open>
  \<^verbatim>\<open>strconv.ParseFloat\<close> of a text of digits and points: at least one digit and at most one point; a
  value that rounds to infinity is a range error.
\<close>

definition parse_float :: "string \<Rightarrow> go_error + float64" where
  "parse_float s =
     (let whole = takeWhile is_digit s; rest = dropWhile is_digit s; frac = tl rest
      in if whole @ frac = [] \<or> \<not> list_all is_digit frac
         then Inl (PlainError (''strconv.ParseFloat: parsing '' @ [char_of (34 :: nat)] @ s @ [char_of (34 :: nat)] @
           '': invalid syntax''))
         else (case round64 (of_nat (digits_value (whole @ frac)) / 10 ^ length frac) of
             Infinity \<Rightarrow> Inl (PlainError (''strconv.ParseFloat: parsing '' @ [char_of (34 :: nat)] @ s @
               [char_of (34 :: nat)] @ '': value out of range''))
           | Fin x \<Rightarrow> Inr (Fin x)))"

text \<open>
  The expression \<^verbatim>\<open>^([0-9.]+)([a-zA-Z]+)$\<close>: its groups have no character in common, so the first
  one is the longest prefix of digits and points.
\<close>

definition value_unit_match :: "string \<Rightarrow> (string \<times> string) option" where
  "value_unit_match s =
     (let num = takeWhile (\<lambda>c. is_digit c \<or> c = CHR ''.'') s;
          unt = dropWhile (\<lambda>c. is_digit c \<or> c = CHR ''.'') s
      in if num \<noteq> [] \<and> unt \<noteq> [] \<and> list_all is_alpha unt then Some (num, unt) else None)"

definition parseValueUnit :: "string \<Rightarrow> go_error + (float64 \<times> string)" where
  "parseValueUnit input =
     (case value_unit_match (trim_space input) of
        None \<Rightarrow> Inl (PlainError ''invalid input format'')
      | Some (num, unt) \<Rightarrow> (case parse_float num of
            Inl err \<Rightarrow> Inl err
          | Inr value \<Rightarrow> Inr (value, to_upper unt)))"

definition unsupported :: "string \<Rightarrow> string \<Rightarrow> go_error" where
  "unsupported fromUnit toUnit =
     PlainError (''unsupported unit conversion: '' @ fromUnit @ '' to '' @ toUnit)"

definition ConvertUnit :: "string \<Rightarrow> string \<Rightarrow> go_error + string" where
  "ConvertUnit fromValue toUnit =
     (case parseValueUnit fromValue of
        Inl err \<Rightarrow> Inl (PlainError (''incorrect value '' @ fromValue))
      | Inr (value, fromUnit) \<Rightarrow>
          (let converted =
             (if fromUnit = ''GI'' then
                (if toUnit = ''MI'' then Some (GiBToMiB value)
                 else if toUnit = ''KI'' then Some (GiBToKiB value)
                 else if toUnit = ''GI'' then Some value else None)
              else if fromUnit = ''MI'' then
                (if toUnit = ''GI'' then Some (MiBToGiB value)
                 else if toUnit = ''KI'' then Some (MiBToKiB value)
                 else if toUnit = ''MI'' then Some value else None)
              else if fromUnit = ''KI'' then
                (if toUnit = ''GI'' then Some (KiBToGiB value)
                 else if toUnit = ''MI'' then Some (KiBToMiB value)
                 else if toUnit = ''KI'' then Some value else None)
              else None)
           in case converted of
                None \<Rightarrow> Inl (unsupported fromUnit toUnit)
              | Some convertedValue \<Rightarrow> Inr (fmt_2f convertedValue @ toUnit)))"


section \<open>Fatal errors\<close>

text \<open>An error ends the process, unless its text is one of the excluded ones.\<close>

definition LogFatalIfError :: "go_error option \<Rightarrow> string list \<Rightarrow> ('w, unit) io" where
  "LogFatalIfError err exclude =
     (case err of
        None \<Rightarrow> retIO ()
      | Some e \<Rightarrow> if err_text e \<in> set exclude then retIO () else exitIO (err_text e))"


section \<open>Exact values\<close>

lemma scale2_powi: "scale2 e x = x * power_int 2 e"
  unfolding scale2_def power_int_def by (simp only: divide_inverse power_inverse split: if_split) simp

lemma ilog2_le:
  assumes "0 < x"
  shows "power_int 2 (ilog2 x) \<le> x"
proof -
  obtain p q where pq: "quotient_of x = (p, q)" by (cases "quotient_of x")
  have x: "x = of_int p / of_int q" and q: "0 < q"
    using quotient_of_div [OF pq] quotient_of_denom_pos [OF pq] by auto
  with assms have p: "0 < p" by (simp add: zero_less_divide_iff)
  let ?d = "bitlen p - bitlen q"
  have lg: "ilog2 x = (if of_int q * scale2 ?d 1 \<le> (of_int p :: rat) then ?d else ?d - 1)"
    by (simp add: ilog2_def pq Let_def)
  show ?thesis
  proof (cases "of_int q * scale2 ?d 1 \<le> (of_int p :: rat)")
    case True
    then have "power_int 2 ?d * of_int q \<le> (of_int p :: rat)" by (simp add: scale2_powi mult.commute)
    then show ?thesis using q True unfolding lg by (simp add: x pos_le_divide_eq)
  next
    case False
    have one: "1 \<le> bitlen p" using p bitlen_eq_zero_iff [of p] bitlen_nonneg [of p] by linarith
    have "(power_int 2 (?d - 1) :: rat) = power_int 2 ((bitlen p - 1) - bitlen q)" by (simp add: algebra_simps)
    also have "\<dots> = power_int 2 (bitlen p - 1) / power_int 2 (bitlen q)"
      by (rule power_int_diff) simp
    also have "\<dots> = 2 ^ nat (bitlen p - 1) / 2 ^ nat (bitlen q)"
      using one by (simp only: power_int_def bitlen_nonneg) simp
    also have "\<dots> \<le> of_int p / of_int q"
    proof (rule frac_le)
      have "(of_int (2 ^ nat (bitlen p - 1)) :: rat) \<le> of_int p"
        unfolding of_int_le_iff using bitlen_bounds [OF p] by blast
      then show "2 ^ nat (bitlen p - 1) \<le> (of_int p :: rat)" by simp
      have "(of_int q :: rat) \<le> of_int (2 ^ nat (bitlen q))"
        unfolding of_int_le_iff using bitlen_bounds [OF q] by simp
      then show "of_int q \<le> (2 ^ nat (bitlen q) :: rat)" by simp
    qed (use p q in auto)
    finally show ?thesis using False unfolding lg by (simp add: x)
  qed
qed

lemma round_half_even_int [simp]: "round_half_even (of_int n) = n"
  by (simp add: round_half_even_def)

lemma power_int_less_exp: "power_int 2 a < (power_int 2 b :: rat) \<Longrightarrow> a < b"
  by (metis not_less power_int_increasing one_le_numeral)

text \<open>A number of at most 53 bits over a power of two is represented exactly.\<close>

lemma round64_exact:
  assumes "n < 2 ^ 53" and "k \<le> 1000"
  shows "round64 (of_nat n / 2 ^ k) = Fin (of_nat n / 2 ^ k)"
proof (cases "n = 0")
  case False
  let ?x = "of_nat n / 2 ^ k :: rat"
  let ?e = "max (ilog2 ?x - 52) (- 1074)"
  have pos: "0 < ?x" using False by simp
  have "(of_nat n :: rat) < of_nat (2 ^ 53)" using assms(1) unfolding of_nat_less_iff .
  then have "?x < 2 ^ 53 / 2 ^ k" by (simp add: divide_strict_right_mono)
  also have "\<dots> = power_int 2 (53 - int k)" by (simp add: power_int_diff)
  finally have small: "?x < power_int 2 (53 - int k)" .
  with ilog2_le [OF pos] have "power_int 2 (ilog2 ?x) < (power_int 2 (53 - int k) :: rat)" by linarith
  then have e: "?e \<le> - int k" using power_int_less_exp assms(2) by fastforce
  have int: "scale2 (- ?e) ?x = of_int (int n * 2 ^ nat (- ?e - int k))"
  proof -
    have "scale2 (- ?e) ?x = of_nat n * power_int 2 (- ?e - int k)"
      by (simp add: scale2_powi power_int_diff)
    also have "power_int 2 (- ?e - int k) = (2 :: rat) ^ nat (- ?e - int k)"
    proof -
      from e have "0 \<le> - ?e - int k" by linarith
      then show ?thesis unfolding power_int_def by simp
    qed
    finally show ?thesis by simp
  qed
  have again: "scale2 ?e (scale2 (- ?e) ?x) = ?x"
    by (simp add: scale2_powi power_int_minus)
  have "power_int 2 (53 - int k) \<le> (power_int 2 1024 :: rat)" by (rule power_int_increasing) auto
  then have "?x < 2 ^ 1024" using small by simp
  with again show ?thesis
    using pos unfolding round64_def Let_def int round_half_even_int by (simp add: int [symmetric])
qed (simp add: round64_def)

lemma round64_nat: "n < 2 ^ 53 \<Longrightarrow> round64 (of_nat n) = Fin (of_nat n)"
  using round64_exact [of n 0] by simp


section \<open>Printing and parsing whole numbers\<close>

lemma digit_char: "d < 10 \<Longrightarrow> is_digit (char_of (48 + d :: nat)) \<and> (of_char (char_of (48 + d :: nat) :: char) :: nat) = 48 + d"
  by (simp add: is_digit_def)

lemma nat_digits_all: "list_all is_digit (nat_digits n)"
  by (induction n rule: nat_digits.induct) (subst nat_digits.simps, simp add: digit_char)

lemma nat_digits_nonempty [simp]: "nat_digits n \<noteq> []"
  by (subst nat_digits.simps) simp

lemma digits_value_snoc: "digits_value (ds @ [c]) = 10 * digits_value ds + (of_char c - 48)"
  by (simp add: digits_value_def)

lemma digits_value_nat_digits [simp]: "digits_value (nat_digits n) = n"
proof (induction n rule: nat_digits.induct)
  case (1 n)
  show ?case
  proof (cases "n < 10")
    case True
    then show ?thesis by (subst nat_digits.simps) (simp add: digits_value_def)
  next
    case False
    then have "digits_value (nat_digits n) = 10 * (n div 10) + n mod 10"
      by (subst nat_digits.simps) (simp add: digits_value_snoc 1)
    then show ?thesis by simp
  qed
qed

lemma digits_value_zeros: "digits_value (ds @ ''00'') = digits_value ds * 100"
  using digits_value_snoc [of "ds @ ''0''" "CHR ''0''"] digits_value_snoc [of ds "CHR ''0''"] by simp

lemma nat_digits_0 [simp]: "nat_digits 0 = ''0''"
  by code_simp

lemma fmt_2f_nat: "fmt_2f (Fin (of_nat n)) = nat_digits n @ ''.00''"
proof -
  have "round_half_even (of_nat n * 100) = int (n * 100)"
    using round_half_even_int [of "int (n * 100)"] by simp
  moreover have "nat (int (n * 100)) = n * 100" by simp
  moreover have "n * 100 div 10 mod 10 = 0" by presburger
  ultimately show ?thesis by (simp only: fmt_2f.simps Let_def) simp
qed

lemma takeWhile_all: "list_all P xs \<Longrightarrow> takeWhile P (xs @ ys) = xs @ takeWhile P ys"
  and dropWhile_all: "list_all P xs \<Longrightarrow> dropWhile P (xs @ ys) = dropWhile P ys"
  by (induction xs) auto

lemma point_no_digit [simp]: "\<not> is_digit CHR ''.''" "is_digit CHR ''0''"
  by (simp_all add: is_digit_def)

lemma parse_float_nat:
  assumes "n < 2 ^ 53"
  shows "parse_float (nat_digits n) = Inr (Fin (of_nat n))"
    and "parse_float (nat_digits n @ ''.00'') = Inr (Fin (of_nat n))"
proof -
  have "parse_float (nat_digits n @ []) = Inr (Fin (of_nat n))"
    unfolding parse_float_def by (simp only: takeWhile_all dropWhile_all nat_digits_all) (simp add: round64_nat [OF assms])
  then show "parse_float (nat_digits n) = Inr (Fin (of_nat n))" by simp
  have "digits_value (nat_digits n @ ''00'') = n * 100" by (simp only: digits_value_zeros digits_value_nat_digits)
  then show "parse_float (nat_digits n @ ''.00'') = Inr (Fin (of_nat n))"
    unfolding parse_float_def
    by (simp only: takeWhile_all dropWhile_all nat_digits_all) (simp add: round64_nat [OF assms] Let_def)
qed

text \<open>A number and a unit are taken apart as they were put together.\<close>

lemma digit_or_point: "list_all is_digit xs \<Longrightarrow> list_all (\<lambda>c. is_digit c \<or> c = CHR ''.'') xs"
  by (induction xs) auto

lemma not_space: "is_digit c \<Longrightarrow> \<not> is_space c" "is_alpha c \<Longrightarrow> \<not> is_space c"
  by (auto simp: is_digit_def is_alpha_def is_space_def)

lemma point_not_space: "\<not> is_space CHR ''.''"
  by code_simp

lemma not_number: "is_alpha c \<Longrightarrow> \<not> (is_digit c \<or> c = CHR ''.'')"
  by (auto simp: is_digit_def is_alpha_def)

lemma dropWhile_hd: "xs \<noteq> [] \<Longrightarrow> \<not> P (hd xs) \<Longrightarrow> dropWhile P xs = xs"
  by (cases xs) auto

lemma parseValueUnit_append:
  assumes "list_all (\<lambda>c. is_digit c \<or> c = CHR ''.'') num" and "num \<noteq> []"
    and "list_all is_alpha unt" and "unt \<noteq> []"
  shows "parseValueUnit (num @ unt) = (case parse_float num of Inl e \<Rightarrow> Inl e | Inr v \<Rightarrow> Inr (v, to_upper unt))"
proof -
  have hd: "\<not> is_space (hd (num @ unt))"
    using assms(1,2) by (cases num) (auto dest: not_space simp: point_not_space)
  have "\<not> is_space (last unt)" using assms(3,4) by (simp add: not_space list_all_iff)
  then have "\<not> is_space (hd (rev (num @ unt)))" using assms(4) by (simp add: hd_rev)
  with hd have trim: "trim_space (num @ unt) = num @ unt"
    unfolding trim_space_def using assms(2)
    by (simp only: dropWhile_hd append_is_Nil_conv rev_is_Nil_conv rev_rev_ident simp_thms)
  have "\<not> (is_digit (hd unt) \<or> hd unt = CHR ''.'')" using assms(3,4) not_number by (cases unt) auto
  then have "takeWhile (\<lambda>c. is_digit c \<or> c = CHR ''.'') unt = []" "dropWhile (\<lambda>c. is_digit c \<or> c = CHR ''.'') unt = unt"
    using assms(4) by (cases unt; simp)+
  then have "value_unit_match (num @ unt) = Some (num, unt)"
    using assms unfolding value_unit_match_def Let_def
    by (simp only: takeWhile_all dropWhile_all) simp
  then show ?thesis unfolding parseValueUnit_def trim by simp
qed

lemma parseValueUnit_nat:
  assumes "n < 2 ^ 53" and "list_all is_alpha unt" and "unt \<noteq> []"
  shows "parseValueUnit (nat_digits n @ unt) = Inr (Fin (of_nat n), to_upper unt)"
    and "parseValueUnit ((nat_digits n @ ''.00'') @ unt) = Inr (Fin (of_nat n), to_upper unt)"
proof -
  have "list_all (\<lambda>c. is_digit c \<or> c = CHR ''.'') (nat_digits n)"
    by (rule digit_or_point) (rule nat_digits_all)
  then show "parseValueUnit (nat_digits n @ unt) = Inr (Fin (of_nat n), to_upper unt)"
    and "parseValueUnit ((nat_digits n @ ''.00'') @ unt) = Inr (Fin (of_nat n), to_upper unt)"
    using parseValueUnit_append [of "nat_digits n" unt] parseValueUnit_append [of "nat_digits n @ ''.00''" unt]
      parse_float_nat [OF assms(1)] assms(2,3) by auto
qed

lemma units:
  "list_all is_alpha ''Gi''" "list_all is_alpha ''Ki''" "list_all is_alpha ''MI''" "list_all is_alpha ''KI''"
  by code_simp+

lemma upper:
  "to_upper ''Gi'' = ''GI''" "to_upper ''Ki'' = ''KI''" "to_upper ''MI'' = ''MI''" "to_upper ''KI'' = ''KI''"
  by code_simp+

lemma convert:
  "parseValueUnit s = Inr (v, ''GI'') \<Longrightarrow> ConvertUnit s ''MI'' = Inr (fmt_2f (GiBToMiB v) @ ''MI'')"
  "parseValueUnit s = Inr (v, ''GI'') \<Longrightarrow> ConvertUnit s ''KI'' = Inr (fmt_2f (GiBToKiB v) @ ''KI'')"
  "parseValueUnit s = Inr (v, ''MI'') \<Longrightarrow> ConvertUnit s ''GI'' = Inr (fmt_2f (MiBToGiB v) @ ''GI'')"
  "parseValueUnit s = Inr (v, ''KI'') \<Longrightarrow> ConvertUnit s ''GI'' = Inr (fmt_2f (KiBToGiB v) @ ''GI'')"
  by (simp_all add: ConvertUnit_def)

lemma scaled:
  assumes "n * 2 ^ k < 2 ^ 53"
  shows "fmul (Fin (of_nat n)) (2 ^ k) = Fin (of_nat (n * 2 ^ k))"
    and "fdiv (Fin (of_nat (n * 2 ^ k))) (2 ^ k) = Fin (of_nat n)"
proof -
  have "n \<le> n * 2 ^ k" by simp
  then have "n < 2 ^ 53" using assms by linarith
  then show "fmul (Fin (of_nat n)) (2 ^ k) = Fin (of_nat (n * 2 ^ k))"
    and "fdiv (Fin (of_nat (n * 2 ^ k))) (2 ^ k) = Fin (of_nat n)"
    using round64_nat [OF assms] round64_nat [of n] by simp_all
qed

text \<open>
  C17. Whole sizes survive a conversion and its inverse: up to \<open>2 ^ 33\<close> GiB, a number of GiB converted to
  KiB or MiB is the exact number of them, printed with two zero places, and converting the text
  back gives the number that was there.
\<close>

theorem ConvertUnit_roundtrip:
  assumes "n < 2 ^ 33"
  shows "ConvertUnit (nat_digits n @ ''Gi'') ''KI'' = Inr (nat_digits (n * 2 ^ 20) @ ''.00KI'') \<and>
    ConvertUnit (nat_digits (n * 2 ^ 20) @ ''.00KI'') ''GI'' = Inr (nat_digits n @ ''.00GI'') \<and>
    ConvertUnit (nat_digits n @ ''Gi'') ''MI'' = Inr (nat_digits (n * 2 ^ 10) @ ''.00MI'') \<and>
    ConvertUnit (nat_digits (n * 2 ^ 10) @ ''.00MI'') ''GI'' = Inr (nat_digits n @ ''.00GI'')"
proof -
  have k: "n * 2 ^ 20 < 2 ^ 53" and m: "n * 2 ^ 10 < 2 ^ 53" and g: "n < 2 ^ 53" using assms by simp_all
  note print = fmt_2f_nat [of n] fmt_2f_nat [of "n * 2 ^ 20"] fmt_2f_nat [of "n * 2 ^ 10"]
  note from_gi = parseValueUnit_nat(1) [OF g units(1), unfolded upper]
  have "ConvertUnit (nat_digits n @ ''Gi'') ''KI'' = Inr (nat_digits (n * 2 ^ 20) @ ''.00KI'')"
    using convert(2) [OF from_gi] scaled(1) [OF k] print by (simp add: GiBToKiB_def del: fmt_2f.simps)
  moreover have "ConvertUnit (nat_digits n @ ''Gi'') ''MI'' = Inr (nat_digits (n * 2 ^ 10) @ ''.00MI'')"
    using convert(1) [OF from_gi] scaled(1) [OF m] print by (simp add: GiBToMiB_def del: fmt_2f.simps)
  moreover have "ConvertUnit (nat_digits (n * 2 ^ 20) @ ''.00KI'') ''GI'' = Inr (nat_digits n @ ''.00GI'')"
    using convert(4) [OF parseValueUnit_nat(2) [OF k units(4), unfolded upper]] scaled(2) [OF k] print
    by (simp add: KiBToGiB_def del: fmt_2f.simps)
  moreover have "ConvertUnit (nat_digits (n * 2 ^ 10) @ ''.00MI'') ''GI'' = Inr (nat_digits n @ ''.00GI'')"
    using convert(3) [OF parseValueUnit_nat(2) [OF m units(3), unfolded upper]] scaled(2) [OF m] print
    by (simp add: MiBToGiB_def del: fmt_2f.simps)
  ultimately show ?thesis by blast
qed

lemma ConvertUnit_roundtrip_witness:
  "ConvertUnit (nat_digits 20 @ ''Gi'') ''KI'' = Inr (nat_digits (20 * 2 ^ 20) @ ''.00KI'') \<and>
   ConvertUnit (nat_digits (20 * 2 ^ 20) @ ''.00KI'') ''GI'' = Inr (nat_digits 20 @ ''.00GI'') \<and>
   ConvertUnit (nat_digits 20 @ ''Gi'') ''MI'' = Inr (nat_digits (20 * 2 ^ 10) @ ''.00MI'') \<and>
   ConvertUnit (nat_digits (20 * 2 ^ 10) @ ''.00MI'') ''GI'' = Inr (nat_digits 20 @ ''.00GI'')"
  by (rule ConvertUnit_roundtrip) simp

text \<open>
  Small sizes are lost: every size up to 5242 KiB (5 MiB) converted to GiB prints as zero, because
  only two places are kept.
\<close>

theorem ConvertUnit_loses_small:
  assumes "n \<le> 5242"
  shows "ConvertUnit (nat_digits n @ ''Ki'') ''GI'' = Inr ''0.00GI''"
proof -
  have n: "n < 2 ^ 53" using assms by simp
  have f: "fdiv (Fin (of_nat n)) (2 ^ 20) = Fin (of_nat n / 2 ^ 20)"
    using round64_exact [OF n, of 20] by simp
  have "(of_nat n :: rat) \<le> of_nat 5242" using assms unfolding of_nat_le_iff .
  then have "(of_nat n / 2 ^ 20 * 100 :: rat) < 1 / 2" and "\<lfloor>of_nat n / 2 ^ 20 * 100 :: rat\<rfloor> = 0"
    by (simp_all add: floor_eq_iff)
  then have "fmt_2f (Fin (of_nat n / 2 ^ 20)) = ''0.00''"
    by (simp add: round_half_even_def Let_def)
  with f convert(4) [OF parseValueUnit_nat(1) [OF n units(2), unfolded upper]] show ?thesis
    by (simp add: KiBToGiB_def del: fmt_2f.simps)
qed

lemma ConvertUnit_loses_small_witness: "ConvertUnit (nat_digits 5242 @ ''Ki'') ''GI'' = Inr ''0.00GI''"
  by (rule ConvertUnit_loses_small) simp
end
