(* ===== verification/Kit.thy ===== *)
theory Kit
  imports VM Units
begin

text \<open>
  The API operations of the first test kit, \<^verbatim>\<open>testkit/funcs/\<close>: \<^verbatim>\<open>virtual.go\<close>, \<^verbatim>\<open>namespace.go\<close>, \<^verbatim>\<open>service.go\<close>,
  \<^verbatim>\<open>statefulset.go\<close>, \<^verbatim>\<open>replicatedstorage_pool_class.go\<close> and \<^verbatim>\<open>kubeclient.go\<close>. Functions that share their name
  with one of the second kit end in \<open>_kit\<close>. The generic client of the code is a record with a
  client for each kind of object.
\<close>

section \<open>Objects and clients\<close>

record EnvVar =
  ev_Name :: string
  ev_Value :: string

record VolumeMount =
  vmt_Name :: string
  vmt_MountPath :: string

record Container =
  co_Name :: string
  co_Image :: string
  co_Command :: "string list"
  co_Args :: "string list"
  co_Env :: "EnvVar list"
  co_VolumeMounts :: "VolumeMount list"

record StatefulSet = KObject +
  sts_Replicas :: "int option"
  sts_MatchLabels :: "string \<rightharpoonup> string"
  sts_TemplateLabels :: "string \<rightharpoonup> string"
  sts_Containers :: "Container list"
  sts_RestartPolicy :: string
  sts_DNSPolicy :: string
  sts_ServiceAccountName :: string
  sts_VolumeClaims :: "PersistentVolumeClaim list"

record ReplicatedStoragePool = KObject +
  rsp_LvmVolumeGroups :: "(string \<times> string) list"
  rsp_Type :: string
  rsp_Phase :: string

record ReplicatedStorageClass = KObject +
  rsc_IsDefault :: bool
  rsc_StoragePool :: string
  rsc_ReclaimPolicy :: string
  rsc_Replication :: string
  rsc_VolumeAccess :: string
  rsc_Topology :: string
  rsc_Zones :: "string list"

record 'w KitClient =
  kc_parse_quantity :: "string \<Rightarrow> go_error + int"
  kc_VMs :: "('w, VirtualMachine) client"
  kc_VDs :: "('w, VirtualDisk) client"
  kc_CVIs :: "('w, ClusterVirtualImage) client"
  kc_IPClaims :: "('w, VirtualMachineIPAddress) client"
  kc_VMBDs :: "('w, VMBlockDeviceAttachment) client"
  kc_NSs :: "('w, Namespace) client"
  kc_Services :: "('w, Service) client"
  kc_StatefulSets :: "('w, StatefulSet) client"
  kc_StoragePools :: "('w, ReplicatedStoragePool) client"
  kc_StorageClasses :: "('w, ReplicatedStorageClass) client"
  kc_LVGs :: "('w, LVMVolumeGroup) client"

text \<open>The answer of a creation or an update of which only the error counts.\<close>

definition onlyError :: "('w, go_error + 'a) io \<Rightarrow> ('w, go_error option) io" where
  "onlyError m = bindIO m (\<lambda>r. retIO (case r of Inl err \<Rightarrow> Some err | Inr _ \<Rightarrow> None))"

text \<open>
  The loop all the listings share: an item is taken when nothing is searched or its name is
  the searched one; \<open>mk\<close> is the element that is appended.
\<close>

fun searchLoop :: "('a KObject_scheme \<Rightarrow> 'b) \<Rightarrow> string \<Rightarrow> 'a KObject_scheme list \<Rightarrow> 'b list" where
  "searchLoop mk search [] = []"
| "searchLoop mk search (item # items) =
     (if search = [] \<or> search = obj_Name item then mk item # searchLoop mk search items
      else searchLoop mk search items)"

definition listSearch :: "('w \<Rightarrow> (go_error + 'a KObject_scheme list) \<times> 'w) \<Rightarrow>
    ('a KObject_scheme \<Rightarrow> 'b) \<Rightarrow> string \<Rightarrow> ('w, go_error + 'b list) io"
where
  "listSearch lst mk search =
     bindIO (callIO lst) (\<lambda>r. case r of
         Inl err \<Rightarrow> retIO (Inl err)
       | Inr items \<Rightarrow> retIO (Inr (searchLoop mk search items)))"


section \<open>Clients and namespaces\<close>

record ('w, 'r) KitKubeLib =
  kk_kubeconfigEnv :: string
  kk_BuildConfig :: "string \<Rightarrow> 'w \<Rightarrow> (go_error + 'r) \<times> 'w"
  kk_schemes :: "go_error option list"
  kk_New :: "'r \<Rightarrow> 'w \<Rightarrow> (go_error + 'w KitClient) \<times> 'w"

definition NewKubeClient :: "('w, 'r) KitKubeLib \<Rightarrow> string \<Rightarrow> ('w, go_error + 'w KitClient) io" where
  "NewKubeClient kk kubeconfigPath =
     (let path = (if kubeconfigPath = [] then kk_kubeconfigEnv kk else kubeconfigPath) in
      bindIO (callIO (kk_BuildConfig kk path)) (\<lambda>r. case r of
          Inl err \<Rightarrow> retIO (Inl err)
        | Inr config \<Rightarrow> (case firstError (kk_schemes kk) of
              Some err \<Rightarrow> retIO (Inl err)
            | None \<Rightarrow> callIO (kk_New kk config))))"

record NamespaceInfo =
  ni_Name :: string

definition CreateNamespace :: "'w KitClient \<Rightarrow> string \<Rightarrow> ('w, go_error option) io" where
  "CreateNamespace cl namespaceName =
     onlyError (callIO (cl_create (kc_NSs cl) \<lparr>metadata = newMeta namespaceName []\<rparr>))"

definition DeleteNamespace :: "'w KitClient \<Rightarrow> string \<Rightarrow> ('w, go_error option) io" where
  "DeleteNamespace cl namespaceName =
     callIO (cl_delete (kc_NSs cl) \<lparr>metadata = newMeta namespaceName []\<rparr>)"

definition ListNamespace :: "'w KitClient \<Rightarrow> string \<Rightarrow> ('w, go_error + NamespaceInfo list) io" where
  "ListNamespace cl namespaceSearch =
     listSearch (cl_list (kc_NSs cl) []) (\<lambda>item. \<lparr>ni_Name = obj_Name item\<rparr>) namespaceSearch"


section \<open>Services\<close>

record Svc =
  si_Name :: string

definition ListServices :: "'w KitClient \<Rightarrow> string \<Rightarrow> string \<Rightarrow> ('w, go_error + Svc list) io" where
  "ListServices cl namespaceName svcSearch =
     listSearch (cl_list (kc_Services cl) namespaceName) (\<lambda>item. \<lparr>si_Name = obj_Name item\<rparr>) svcSearch"

definition CreateService :: "'w KitClient \<Rightarrow> string \<Rightarrow> string \<Rightarrow> ('w, go_error + Service) io" where
  "CreateService cl namespaceName name =
     callIO (cl_create (kc_Services cl)
       \<lparr>metadata = (newMeta name namespaceName)\<lparr>om_Labels := [''service'' \<mapsto> ''v1'']\<rparr>, svc_Type = [],
        svc_Selector = [''service'' \<mapsto> ''v1''],
        svc_Ports = [\<lparr>sp_Protocol = ''TCP'', sp_Port = 31022, sp_TargetPort = 22, sp_NodePort = 0\<rparr>]\<rparr>)"


section \<open>Virtual machines\<close>

record VMInfo =
  vi_Name :: string
  vi_Status :: string

record CVMIInfo =
  ci_Name :: string

definition ListVM_kit :: "'w KitClient \<Rightarrow> string \<Rightarrow> ('w, go_error + VMInfo list) io" where
  "ListVM_kit cl namespaceName =
     bindIO (callIO (cl_list (kc_VMs cl) namespaceName)) (\<lambda>r. case r of
         Inl err \<Rightarrow> retIO (Inl err)
       | Inr items \<Rightarrow> retIO (Inr (map (\<lambda>item. \<lparr>vi_Name = obj_Name item, vi_Status = vm_Phase item\<rparr>) items)))"

definition ListVMD :: "'w KitClient \<Rightarrow> string \<Rightarrow> string \<Rightarrow> ('w, go_error + VirtualDisk list) io" where
  "ListVMD cl namespaceName VMDSearch =
     listSearch (cl_list (kc_VDs cl) namespaceName) (\<lambda>item. item) VMDSearch"

definition ListCVMI :: "'w KitClient \<Rightarrow> string \<Rightarrow> ('w, go_error + CVMIInfo list) io" where
  "ListCVMI cl CVMISearch =
     listSearch (cl_list (kc_CVIs cl) []) (\<lambda>item. \<lparr>ci_Name = obj_Name item\<rparr>) CVMISearch"

definition ListIPClaim_kit :: "'w KitClient \<Rightarrow> string \<Rightarrow> string \<Rightarrow> ('w, go_error + VirtualMachineIPAddress list) io" where
  "ListIPClaim_kit cl namespaceName vmIPClaimSearch =
     listSearch (cl_list (kc_IPClaims cl) namespaceName) (\<lambda>item. item) vmIPClaimSearch"

definition CreateCVMI :: "'w KitClient \<Rightarrow> string \<Rightarrow> string \<Rightarrow> ('w, go_error + ClusterVirtualImage) io" where
  "CreateCVMI cl name url =
     callIO (cl_create (kc_CVIs cl) \<lparr>metadata = newMeta name [], cvi_Type = ''HTTP'', cvi_URL = url\<rparr>)"

definition CreateVMIPClaim :: "'w KitClient \<Rightarrow> string \<Rightarrow> string \<Rightarrow> string \<Rightarrow>
    ('w, go_error + VirtualMachineIPAddress) io"
where
  "CreateVMIPClaim cl namespaceName name ip =
     callIO (cl_create (kc_IPClaims cl)
       \<lparr>metadata = newMeta name namespaceName, vmip_Type = ''Static'', vmip_StaticIP = ip\<rparr>)"

text \<open>Unlike the second kit, a disk always points to a storage class, be its name empty.\<close>

definition newVMD :: "string \<Rightarrow> string \<Rightarrow> string \<Rightarrow> int \<Rightarrow> string option \<Rightarrow> VirtualDisk" where
  "newVMD namespaceName name storageClass sizeInGi source =
     \<lparr>metadata = newMeta name namespaceName, vd_Size = wrap64 (sizeInGi * 1024 * 1024 * 1024),
      vd_StorageClass = Some storageClass, vd_SourceImage = source, vd_Phase = []\<rparr>"

definition CreateVMD :: "'w KitClient \<Rightarrow> string \<Rightarrow> string \<Rightarrow> string \<Rightarrow> int \<Rightarrow> ('w, go_error + VirtualDisk) io" where
  "CreateVMD cl namespaceName name storageClass sizeInGi =
     callIO (cl_create (kc_VDs cl) (newVMD namespaceName name storageClass sizeInGi None))"

definition CreateVMDFromCVMI :: "'w KitClient \<Rightarrow> string \<Rightarrow> string \<Rightarrow> string \<Rightarrow> int \<Rightarrow> ClusterVirtualImage \<Rightarrow>
    ('w, go_error + VirtualDisk) io"
where
  "CreateVMDFromCVMI cl namespaceName name storageClass sizeInGi vmCVMI =
     callIO (cl_create (kc_VDs cl) (newVMD namespaceName name storageClass sizeInGi (Some (obj_Name vmCVMI))))"

text \<open>
  The image is named after the file of its address, up to the first point. The image that is
  found is known by its name only.
\<close>

definition CVMIName :: "string \<Rightarrow> string" where
  "CVMIName url = hd (split_on CHR ''.'' (last (split_on CHR ''/'' url)))"

definition ensureCVMI :: "'w KitClient \<Rightarrow> string \<Rightarrow> ('w, go_error + ClusterVirtualImage) io" where
  "ensureCVMI cl url =
     bindIO (ListCVMI cl (CVMIName url)) (\<lambda>r. case r of
         Inl err \<Rightarrow> retIO (Inl err)
       | Inr [] \<Rightarrow> CreateCVMI cl (CVMIName url) url
       | Inr (c # _) \<Rightarrow> retIO (Inr \<lparr>metadata = newMeta (ci_Name c) [], cvi_Type = [], cvi_URL = []\<rparr>))"

definition ensureVMIPClaim :: "'w KitClient \<Rightarrow> string \<Rightarrow> string \<Rightarrow> string \<Rightarrow>
    ('w, go_error + VirtualMachineIPAddress) io"
where
  "ensureVMIPClaim cl namespaceName vmName ip =
     (let vmIPClaimName = vmName @ ''-ipaddress-0'' in
      bindIO (ListIPClaim_kit cl namespaceName vmIPClaimName) (\<lambda>r. case r of
          Inl err \<Rightarrow> retIO (Inl err)
        | Inr [] \<Rightarrow> CreateVMIPClaim cl namespaceName vmIPClaimName ip
        | Inr (claim # _) \<Rightarrow> retIO (Inr claim)))"

text \<open>The name of the system disk, which stays empty when the disk already exists.\<close>

definition ensureSystemVMD :: "'w KitClient \<Rightarrow> string \<Rightarrow> string \<Rightarrow> string \<Rightarrow> int \<Rightarrow> ClusterVirtualImage \<Rightarrow>
    ('w, go_error + string) io"
where
  "ensureSystemVMD cl namespaceName vmName storageClass systemDriveSize vmCVMI =
     (let vmdName = vmName @ ''-system'' in
      bindIO (ListVMD cl namespaceName vmdName) (\<lambda>r. case r of
          Inl err \<Rightarrow> retIO (Inl err)
        | Inr [] \<Rightarrow>
            bindIO (CreateVMDFromCVMI cl namespaceName vmdName storageClass systemDriveSize vmCVMI) (\<lambda>c.
              retIO (case c of Inl err \<Rightarrow> Inl err | Inr vmSystemDisk \<Rightarrow> Inr (obj_Name vmSystemDisk)))
        | Inr (_ # _) \<Rightarrow> retIO (Inr [])))"

definition ensureDataVMD :: "'w KitClient \<Rightarrow> string \<Rightarrow> string \<Rightarrow> string \<Rightarrow> int \<Rightarrow> ('w, go_error option) io" where
  "ensureDataVMD cl namespaceName vmName storageClass dataDriveSize =
     (let vmdName = vmName @ ''-data'' in
      bindIO (ListVMD cl namespaceName vmdName) (\<lambda>r. case r of
          Inl err \<Rightarrow> retIO (Some err)
        | Inr [] \<Rightarrow> onlyError (CreateVMD cl namespaceName vmdName storageClass dataDriveSize)
        | Inr (_ # _) \<Rightarrow> retIO None))"

definition dataAttachment :: "string \<Rightarrow> string \<Rightarrow> VMBlockDeviceAttachment" where
  "dataAttachment namespaceName vmName =
     \<lparr>metadata = newMeta (vmName @ ''-data'') namespaceName, vmbd_VirtualMachineName = vmName,
      vmbd_BlockDeviceKind = ''VirtualDisk'', vmbd_BlockDeviceName = vmName @ ''-data'', vmbd_Phase = []\<rparr>"

definition alreadyExists :: "go_error \<Rightarrow> bool" where
  "alreadyExists err \<longleftrightarrow> sublist ''already exists'' (err_text err)"

text \<open>The memory is parsed, the data disk attached, the machine created.\<close>

definition lastSteps :: "'w KitClient \<Rightarrow> string \<Rightarrow> string \<Rightarrow> int \<Rightarrow> string \<Rightarrow> string \<Rightarrow> string \<Rightarrow> string \<Rightarrow>
    ('w, go_error option) io"
where
  "lastSteps cl namespaceName vmName cpu memory sshPubKey claimName diskName =
     (case kc_parse_quantity cl memory of
         Inl err \<Rightarrow> retIO (Some err)
       | Inr currentMemory \<Rightarrow>
           bindIO (callIO (cl_create (kc_VMBDs cl) (dataAttachment namespaceName vmName))) (\<lambda>a.
             if (case a of Inl err \<Rightarrow> \<not> alreadyExists err | Inr _ \<Rightarrow> False)
             then retIO (case a of Inl err \<Rightarrow> Some err | Inr _ \<Rightarrow> None)
             else onlyError (callIO (cl_create (kc_VMs cl)
               (newVM namespaceName vmName claimName cpu currentMemory diskName sshPubKey)))))"

definition CreateVM_kit :: "'w KitClient \<Rightarrow> string \<Rightarrow> string \<Rightarrow> string \<Rightarrow> int \<Rightarrow> string \<Rightarrow> string \<Rightarrow>
    string \<Rightarrow> string \<Rightarrow> int \<Rightarrow> int \<Rightarrow> ('w, go_error option) io"
where
  "CreateVM_kit cl namespaceName vmName ip cpu memory storageClass url sshPubKey systemDriveSize dataDriveSize =
     bindIO (ensureCVMI cl url) (\<lambda>r. case r of
         Inl err \<Rightarrow> retIO (Some err)
       | Inr vmCVMI \<Rightarrow>
     bindIO (ensureVMIPClaim cl namespaceName vmName ip) (\<lambda>r. case r of
         Inl err \<Rightarrow> retIO (Some err)
       | Inr vmIPClaim \<Rightarrow>
     bindIO (ensureSystemVMD cl namespaceName vmName storageClass systemDriveSize vmCVMI) (\<lambda>r. case r of
         Inl err \<Rightarrow> retIO (Some err)
       | Inr diskName \<Rightarrow>
     bindIO (ensureDataVMD cl namespaceName vmName storageClass dataDriveSize) (\<lambda>r. case r of
         Some err \<Rightarrow> retIO (Some err)
       | None \<Rightarrow>
     lastSteps cl namespaceName vmName cpu memory sshPubKey (obj_Name vmIPClaim) diskName))))"


section \<open>Stateful sets\<close>

definition flogName :: "int \<Rightarrow> string" where
  "flogName count = ''flog-generator-'' @ fmt_d count"

definition flogContainers :: "Container list" where
  "flogContainers =
     [\<lparr>co_Name = ''flog-generator'', co_Image = ''ex42zav/flog:0.4.3'', co_Command = [''/bin/sh''],
       co_Args = [''-c'', ''/srv/flog/run.sh 2>&1 | tee -a /var/log/flog/fake.log''],
       co_Env = [\<lparr>ev_Name = ''FLOG_BATCH_SIZE'', ev_Value = ''1024000''\<rparr>,
         \<lparr>ev_Name = ''FLOG_TIME_INTERVAL'', ev_Value = ''1''\<rparr>],
       co_VolumeMounts = [\<lparr>vmt_Name = ''flog-pv'', vmt_MountPath = ''/var/log/flog''\<rparr>]\<rparr>,
      \<lparr>co_Name = ''logrotate'', co_Image = ''blacklabelops/logrotate'', co_Command = [], co_Args = [],
       co_Env = [\<lparr>ev_Name = ''LOGS_DIRECTORIES'', ev_Value = ''/var/log/flog''\<rparr>,
         \<lparr>ev_Name = ''LOGROTATE_INTERVAL'', ev_Value = ''hourly''\<rparr>,
         \<lparr>ev_Name = ''LOGROTATE_COPIES'', ev_Value = ''2''\<rparr>,
         \<lparr>ev_Name = ''LOGROTATE_SIZE'', ev_Value = ''500M''\<rparr>,
         \<lparr>ev_Name = ''LOGROTATE_CRONSCHEDULE'', ev_Value = ''0 2 * * * *''\<rparr>],
       co_VolumeMounts = [\<lparr>vmt_Name = ''flog-pv'', vmt_MountPath = ''/var/log/flog''\<rparr>]\<rparr>]"

definition flogClaim :: "int \<Rightarrow> string \<Rightarrow> PersistentVolumeClaim" where
  "flogClaim sz storageClassName =
     \<lparr>metadata = newMeta ''flog-pv'' [], pvc_StorageClassName = Some storageClassName,
      pvc_AccessModes = [''ReadWriteOnce''], pvc_Requests = [''storage'' \<mapsto> sz],
      pvc_VolumeMode = Some ''Filesystem'', pvc_Phase = []\<rparr>"

definition flogSts :: "string \<Rightarrow> int \<Rightarrow> int \<Rightarrow> string \<Rightarrow> StatefulSet" where
  "flogSts namespaceName count sz storageClassName =
     \<lparr>metadata = newMeta (flogName count) namespaceName, sts_Replicas = Some 3,
      sts_MatchLabels = [''app.kubernetes.io/name'' \<mapsto> flogName count],
      sts_TemplateLabels = [''app.kubernetes.io/name'' \<mapsto> flogName count],
      sts_Containers = flogContainers, sts_RestartPolicy = ''Always'', sts_DNSPolicy = ''ClusterFirst'',
      sts_ServiceAccountName = ''default'', sts_VolumeClaims = [flogClaim sz storageClassName]\<rparr>"

text \<open>\<^verbatim>\<open>resource.MustParse\<close> panics on a text that is not a quantity.\<close>

function CreateSts_loop :: "'w KitClient \<Rightarrow> string \<Rightarrow> string \<Rightarrow> int \<Rightarrow> string \<Rightarrow> int \<Rightarrow> ('w, go_error option) io" where
  "CreateSts_loop cl namespaceName pvSize stsCount storageClassName count =
     (if count \<le> stsCount
      then (case kc_parse_quantity cl pvSize of
          Inl err \<Rightarrow> panicIO ''cannot parse quantity''
        | Inr sz \<Rightarrow>
            bindIO (callIO (cl_create (kc_StatefulSets cl) (flogSts namespaceName count sz storageClassName))) (\<lambda>r.
              case r of
                Inl err \<Rightarrow>
                  if \<not> alreadyExists err then retIO (Some err)
                  else CreateSts_loop cl namespaceName pvSize stsCount storageClassName (count + 1)
              | Inr _ \<Rightarrow> CreateSts_loop cl namespaceName pvSize stsCount storageClassName (count + 1)))
      else retIO None)"
  by pat_completeness auto

termination
  by (relation "measure (\<lambda>(cl, ns, pvSize, stsCount, sc, count). nat (stsCount + 1 - count))") auto

declare CreateSts_loop.simps [simp del]

definition CreateSts :: "'w KitClient \<Rightarrow> string \<Rightarrow> string \<Rightarrow> int \<Rightarrow> string \<Rightarrow> ('w, go_error option) io" where
  "CreateSts cl namespaceName pvSize stsCount storageClassName =
     CreateSts_loop cl namespaceName pvSize stsCount storageClassName 0"

definition zeroSts :: "string \<Rightarrow> string \<Rightarrow> StatefulSet" where
  "zeroSts name namespaceName =
     \<lparr>metadata = newMeta name namespaceName, sts_Replicas = None, sts_MatchLabels = Map.empty,
      sts_TemplateLabels = Map.empty, sts_Containers = [], sts_RestartPolicy = [], sts_DNSPolicy = [],
      sts_ServiceAccountName = [], sts_VolumeClaims = []\<rparr>"

definition DeleteSts :: "'w KitClient \<Rightarrow> string \<Rightarrow> ('w, go_error option) io" where
  "DeleteSts cl namespaceName =
     bindIO (callIO (cl_list (kc_StatefulSets cl) namespaceName)) (\<lambda>r. case r of
         Inl err \<Rightarrow> retIO (Some err)
       | Inr items \<Rightarrow> forErr (\<lambda>item. callIO (cl_delete (kc_StatefulSets cl) (zeroSts (obj_Name item) namespaceName))) items)"


section \<open>Replicated storage\<close>

definition CreateDrbdStoragePool :: "'w KitClient \<Rightarrow> string \<Rightarrow> (string \<times> string) list \<Rightarrow> ('w, go_error option) io" where
  "CreateDrbdStoragePool cl drbdStoragePoolName lvmVolumeGroups =
     onlyError (callIO (cl_create (kc_StoragePools cl)
       \<lparr>metadata = newMeta drbdStoragePoolName [], rsp_LvmVolumeGroups = lvmVolumeGroups, rsp_Type = ''LVM'',
        rsp_Phase = ''Updating''\<rparr>))"

definition CreateReplicatedStorageClass :: "'w KitClient \<Rightarrow> string \<Rightarrow> string \<Rightarrow> bool \<Rightarrow> ('w, go_error option) io" where
  "CreateReplicatedStorageClass cl drbdStorageClassName replication isDefault =
     onlyError (callIO (cl_create (kc_StorageClasses cl)
       \<lparr>metadata = newMeta drbdStorageClassName [], rsc_IsDefault = isDefault, rsc_StoragePool = ''data'',
        rsc_ReclaimPolicy = ''Delete'', rsc_Replication = replication, rsc_VolumeAccess = ''PreferablyLocal'',
        rsc_Topology = ''Ignored'', rsc_Zones = []\<rparr>))"

definition dquoted :: "string \<Rightarrow> string" where
  "dquoted s = [char_of (34 :: nat)] @ s @ [char_of (34 :: nat)]"

text \<open>A creation that may also say, word for word, that the object already exists.\<close>

definition unlessExists :: "string \<Rightarrow> string \<Rightarrow> ('w, go_error option) io \<Rightarrow> ('w, go_error option) io \<Rightarrow>
    ('w, go_error option) io"
where
  "unlessExists kind name m k = bindIO m (\<lambda>r. case r of
       Some err \<Rightarrow> if err_text err \<noteq> kind @ '' '' @ dquoted name @ '' already exists'' then retIO (Some err) else k
     | None \<Rightarrow> k)"

definition CreateReplicatedStoragePool :: "'w KitClient \<Rightarrow> ('w, go_error option) io" where
  "CreateReplicatedStoragePool cl =
     bindIO (callIO (cl_list (kc_LVGs cl) [])) (\<lambda>r. case r of
         Inl err \<Rightarrow> retIO (Some err)
       | Inr listDevice \<Rightarrow>
           unlessExists ''replicatedstoragepools.storage.deckhouse.io'' ''data''
             (CreateDrbdStoragePool cl ''data'' (map (\<lambda>item. (obj_Name item, [])) listDevice))
           (unlessExists ''replicatedstorageclasses.storage.deckhouse.io'' ''linstor-r1''
             (CreateReplicatedStorageClass cl ''linstor-r1'' ''None'' False)
           (unlessExists ''replicatedstorageclasses.storage.deckhouse.io'' ''linstor-r2''
             (CreateReplicatedStorageClass cl ''linstor-r2'' ''Availability'' True)
           (retIO None))))"



section \<open>Properties\<close>

lemma searchLoop_eq: "searchLoop mk search items = map mk (filter (\<lambda>i. search = [] \<or> search = obj_Name i) items)"
  by (induction items) auto

lemma onlyError_None: "onlyError (callIO f) w = Some (Ret None, w') \<longleftrightarrow> (\<exists>x. f w = (Inr x, w'))"
  by (cases "f w") (auto simp: onlyError_def bindIO_call run_simps split: sum.splits)

lemma lastSteps_sound:
  assumes "lastSteps cl ns vm cpu memory key claim disk v = Some (Ret None, w')"
  shows "\<exists>a v1 mem m. kc_parse_quantity cl memory = Inr mem \<and>
    cl_create (kc_VMBDs cl) (dataAttachment ns vm) v = (a, v1) \<and>
    (case a of Inl err \<Rightarrow> sublist ''already exists'' (err_text err) | Inr _ \<Rightarrow> True) \<and>
    cl_create (kc_VMs cl) (newVM ns vm claim cpu mem disk key) v1 = (Inr m, w')"
proof -
  obtain mem where mem: "kc_parse_quantity cl memory = Inr mem"
    using assms by (cases "kc_parse_quantity cl memory") (auto simp: lastSteps_def run_simps)
  obtain a v1 where a: "cl_create (kc_VMBDs cl) (dataAttachment ns vm) v = (a, v1)"
    by (cases "cl_create (kc_VMBDs cl) (dataAttachment ns vm) v")
  have ok: "case a of Inl err \<Rightarrow> sublist ''already exists'' (err_text err) | Inr _ \<Rightarrow> True"
    using assms by (auto simp: lastSteps_def mem bindIO_call a run_simps alreadyExists_def split: sum.splits if_splits)
  then have "onlyError (callIO (cl_create (kc_VMs cl) (newVM ns vm claim cpu mem disk key))) v1 = Some (Ret None, w')"
    using assms by (auto simp: lastSteps_def mem bindIO_call a alreadyExists_def split: sum.split_asm)
  then obtain m where "cl_create (kc_VMs cl) (newVM ns vm claim cpu mem disk key) v1 = (Inr m, w')"
    unfolding onlyError_None by blast
  with mem a ok show ?thesis by blast
qed

lemma searchLoop_named: "search \<noteq> [] \<Longrightarrow> searchLoop mk search items = map mk (filter (\<lambda>i. obj_Name i = search) items)"
  unfolding searchLoop_eq by (simp add: eq_commute)

lemma bind_listSearch:
  "bindIO (listSearch lst mk search) k w = (case lst w of
     (Inl err, w1) \<Rightarrow> k (Inl err) w1 | (Inr items, w1) \<Rightarrow> k (Inr (searchLoop mk search items)) w1)"
  by (cases "lst w") (auto simp: listSearch_def bindIO_call bindIO_def run_simps split: sum.split)

lemma ensureVMIPClaim_sound:
  assumes "ensureVMIPClaim cl ns vm ip w = Some (Ret (Inr c), w')"
  shows "\<exists>claims w1. cl_list (kc_IPClaims cl) ns w = (Inr claims, w1) \<and>
    (case filter (\<lambda>x. obj_Name x = vm @ ''-ipaddress-0'') claims of
       x # _ \<Rightarrow> c = x \<and> w' = w1
     | [] \<Rightarrow> CreateVMIPClaim cl ns (vm @ ''-ipaddress-0'') ip w1 = Some (Ret (Inr c), w'))"
  using assms
  by (cases "cl_list (kc_IPClaims cl) ns w")
    (auto simp: ensureVMIPClaim_def ListIPClaim_kit_def bind_listSearch Let_def run_simps searchLoop_named
      split: sum.split_asm list.splits)

lemma ensureSystemVMD_sound:
  assumes "ensureSystemVMD cl ns vm sc sys img w = Some (Ret (Inr disk), w')"
  shows "\<exists>disks w1. cl_list (kc_VDs cl) ns w = (Inr disks, w1) \<and>
    (if vm @ ''-system'' \<in> set (map obj_Name disks) then disk = [] \<and> w' = w1
     else \<exists>d. cl_create (kc_VDs cl) (newVMD ns (vm @ ''-system'') sc sys (Some (obj_Name img))) w1 = (Inr d, w') \<and>
       disk = obj_Name d)"
proof (cases "cl_list (kc_VDs cl) ns w")
  case (Pair r w1)
  with assms obtain disks where disks: "r = Inr disks"
    by (cases r) (auto simp: ensureSystemVMD_def ListVMD_def bind_listSearch Let_def run_simps)
  show ?thesis
  proof (cases "filter (\<lambda>x. obj_Name x = vm @ ''-system'') disks")
    case Nil
    then have "vm @ ''-system'' \<notin> set (map obj_Name disks)" by (auto simp: filter_empty_conv)
    moreover from assms Pair disks Nil
    have "\<exists>d. cl_create (kc_VDs cl) (newVMD ns (vm @ ''-system'') sc sys (Some (obj_Name img))) w1 = (Inr d, w') \<and> disk = obj_Name d"
      by (cases "cl_create (kc_VDs cl) (newVMD ns (vm @ ''-system'') sc sys (Some (obj_Name img))) w1")
        (auto simp: ensureSystemVMD_def ListVMD_def bind_listSearch Let_def CreateVMDFromCVMI_def bindIO_call run_simps
          searchLoop_named split: sum.split_asm)
    ultimately show ?thesis using Pair disks by simp
  next
    case (Cons x xs)
    then have "x \<in> set disks" "obj_Name x = vm @ ''-system''" by (auto simp: filter_eq_Cons_iff)
    then have "vm @ ''-system'' \<in> set (map obj_Name disks)" by force
    moreover from assms Pair disks Cons have "disk = [] \<and> w' = w1"
      by (auto simp: ensureSystemVMD_def ListVMD_def bind_listSearch Let_def run_simps searchLoop_named)
    ultimately show ?thesis using Pair disks by simp
  qed
qed

text \<open>
  C31. The first kit's \<^verbatim>\<open>CreateVM\<close> succeeds only through all its steps, each in the world that the one before left: an
  image; a claim of an address, the first one listed under the name \<^verbatim>\<open><vm>-ipaddress-0\<close> or else the one created; the system
  disk, created from that image unless there is one of its name, and then the name of the disk is empty; the
  data disk; its attachment, which may exist already; and the machine, created with that claim, that name of a
  disk and the parsed amount of memory. That the machine already exists is an error here.
\<close>

theorem CreateVM_kit_sound:
  assumes "CreateVM_kit cl ns vm ip cpu memory sc url key sys data w = Some (Ret None, w')"
  shows "\<exists>img w1 claims w2 claim w3 disks w4 disk w5 w6 a w7 mem m.
    ensureCVMI cl url w = Some (Ret (Inr img), w1) \<and>
    cl_list (kc_IPClaims cl) ns w1 = (Inr claims, w2) \<and>
    (case filter (\<lambda>x. obj_Name x = vm @ ''-ipaddress-0'') claims of
       x # _ \<Rightarrow> claim = x \<and> w3 = w2
     | [] \<Rightarrow> CreateVMIPClaim cl ns (vm @ ''-ipaddress-0'') ip w2 = Some (Ret (Inr claim), w3)) \<and>
    cl_list (kc_VDs cl) ns w3 = (Inr disks, w4) \<and>
    (if vm @ ''-system'' \<in> set (map obj_Name disks) then disk = [] \<and> w5 = w4
     else \<exists>d. cl_create (kc_VDs cl) (newVMD ns (vm @ ''-system'') sc sys (Some (obj_Name img))) w4 = (Inr d, w5) \<and>
       disk = obj_Name d) \<and>
    ensureDataVMD cl ns vm sc data w5 = Some (Ret None, w6) \<and>
    kc_parse_quantity cl memory = Inr mem \<and>
    cl_create (kc_VMBDs cl) (dataAttachment ns vm) w6 = (a, w7) \<and>
    (case a of Inl err \<Rightarrow> sublist ''already exists'' (err_text err) | Inr _ \<Rightarrow> True) \<and>
    cl_create (kc_VMs cl) (newVM ns vm (obj_Name claim) cpu mem disk key) w7 = (Inr m, w')"
  using assms unfolding CreateVM_kit_def
  by (elim bind_sum_NoneE bind_option_NoneE)
    (drule ensureVMIPClaim_sound, drule ensureSystemVMD_sound, drule lastSteps_sound, blast)

text \<open>What one turn of the loop of \<^verbatim>\<open>CreateSts\<close> does.\<close>

definition createOne :: "'w KitClient \<Rightarrow> string \<Rightarrow> int \<Rightarrow> string \<Rightarrow> int \<Rightarrow> ('w, go_error option) io" where
  "createOne cl ns sz sc count =
     bindIO (callIO (cl_create (kc_StatefulSets cl) (flogSts ns count sz sc))) (\<lambda>r.
       retIO (case r of Inl err \<Rightarrow> if alreadyExists err then None else Some err | Inr _ \<Rightarrow> None))"

lemma createOne_then:
  "bindIO (callIO (cl_create (kc_StatefulSets cl) (flogSts ns count sz sc))) (\<lambda>r. case r of
      Inl err \<Rightarrow> if \<not> alreadyExists err then retIO (Some err) else k
    | Inr _ \<Rightarrow> k) =
   bindIO (createOne cl ns sz sc count) (\<lambda>r. case r of Some e \<Rightarrow> retIO (Some e) | None \<Rightarrow> k)"
  by (auto simp: createOne_def fun_eq_iff bindIO_def callIO_def retIO_def split: prod.splits sum.splits)

lemma CreateSts_loop_eq:
  assumes "kc_parse_quantity cl pvSize = Inr sz" and "stsCount + 1 - count = int n"
  shows "CreateSts_loop cl ns pvSize stsCount sc count =
    forErr (createOne cl ns sz sc) (map (\<lambda>i. count + int i) [0..<n])"
  using assms(2)
proof (induction n arbitrary: count)
  case 0
  then show ?case by (simp add: CreateSts_loop.simps)
next
  case (Suc n)
  then have next_turn: "CreateSts_loop cl ns pvSize stsCount sc (count + 1) =
      forErr (createOne cl ns sz sc) (map (\<lambda>i. count + 1 + int i) [0..<n])"
    by simp
  have shift: "map (\<lambda>i. count + int i) [0..<Suc n] = count # map (\<lambda>i. count + 1 + int i) [0..<n]"
    by (simp add: upt_conv_Cons map_Suc_upt [symmetric] comp_def algebra_simps del: upt_Suc)
  show ?case
    using Suc.prems unfolding shift
    by (subst CreateSts_loop.simps) (simp add: assms(1) next_turn createOne_then cong: if_cong)
qed

text \<open>
  \<^verbatim>\<open>CreateSts\<close> creates one stateful set more than it is asked for: with a size that is a quantity, it
  goes through \<open>flog-generator-0\<close> to \<open>flog-generator-n\<close>, \<open>n + 1\<close> of them, up to the first
  error that is not "already exists".
\<close>

theorem CreateSts_one_more:
  assumes "kc_parse_quantity cl pvSize = Inr sz"
  shows "CreateSts cl ns pvSize (int n) sc = forErr (createOne cl ns sz sc) (map int [0..<Suc n])"
  using CreateSts_loop_eq [OF assms, of "int n" 0 "Suc n"] by (simp add: CreateSts_def)

definition frozen_kit :: "'w KitClient" where
  "frozen_kit =
     \<lparr>kc_parse_quantity = (\<lambda>s. Inr (int (length s))), kc_VMs = frozen_client [], kc_VDs = frozen_client [],
      kc_CVIs = frozen_client [], kc_IPClaims = frozen_client [], kc_VMBDs = frozen_client [],
      kc_NSs = frozen_client [], kc_Services = frozen_client [], kc_StatefulSets = frozen_client [],
      kc_StoragePools = frozen_client [], kc_StorageClasses = frozen_client [], kc_LVGs = frozen_client []\<rparr>"

lemma CreateSts_one_more_witness:
  "CreateSts (frozen_kit :: world KitClient) ''test1'' ''1Gi'' (int 2) ''linstor-r1'' =
     forErr (createOne frozen_kit ''test1'' 3 ''linstor-r1'') (map int [0..<Suc 2])"
  by (rule CreateSts_one_more) (simp add: frozen_kit_def)

lemma CreateVM_kit_run:
  "CreateVM_kit (frozen_kit :: world KitClient) ''test1'' ''vm1'' ''10.10.10.180'' 4 ''8Gi'' ''linstor-r1''
     ''https://x/jammy.img'' ''ssh-rsa'' 20 20 clock0 = Some (Ret None, clock0)"
  by (simp add: CreateVM_kit_def ensureCVMI_def ensureVMIPClaim_def ensureSystemVMD_def ensureDataVMD_def
      lastSteps_def ListCVMI_def ListIPClaim_kit_def ListVMD_def listSearch_def CreateCVMI_def CreateVMIPClaim_def
      CreateVMDFromCVMI_def CreateVMD_def onlyError_def frozen_kit_def bindIO_def callIO_def retIO_def)

lemma CreateVM_kit_sound_witness:
  "\<exists>disk m. cl_create (kc_VMs (frozen_kit :: world KitClient)) (newVM ''test1'' ''vm1'' ''vm1-ipaddress-0'' 4 3 disk ''ssh-rsa'')
      clock0 = (Inr m, clock0)"
  using CreateVM_kit_sound [OF CreateVM_kit_run]
  by (auto simp: frozen_kit_def frozen_client_def)

end
