(* ===== verification/KitCluster.thy ===== *)
theory KitCluster
  imports Kit Ssh
begin

text \<open>
  \<^verbatim>\<open>testkit/funcs/ssh.go\<close> and \<^verbatim>\<open>testkit/clusterManagement/cluster.go\<close>: keys, ssh connections and the
  creation of the cluster of the first test kit. The library \<^verbatim>\<open>goph\<close> and the files are parameters; \<open>'c\<close>
  is a connected client, \<open>'a\<close> an authentication.
\<close>

section \<open>Libraries\<close>

record ('w, 'c, 'a) GophLib =
  gl_Getenv :: "string \<Rightarrow> string"
  gl_sprintf :: "string \<Rightarrow> string \<Rightarrow> string"
  gl_MatchString :: regexp
  gl_IsNotExist :: "go_error \<Rightarrow> bool"
  gl_Mkdir :: "string \<Rightarrow> nat \<Rightarrow> 'w \<Rightarrow> go_error option \<times> 'w"
  gl_Key :: "string \<Rightarrow> string \<Rightarrow> 'w \<Rightarrow> (go_error + 'a) \<times> 'w"
  gl_NewUnknown :: "string \<Rightarrow> string \<Rightarrow> 'a \<Rightarrow> 'w \<Rightarrow> (go_error + 'c) \<times> 'w"
  gl_Run :: "'c \<Rightarrow> string \<Rightarrow> 'w \<Rightarrow> (string \<times> go_error option) \<times> 'w"
  gl_Upload :: "'c \<Rightarrow> string \<Rightarrow> string \<Rightarrow> 'w \<Rightarrow> go_error option \<times> 'w"
  gl_Download :: "'c \<Rightarrow> string \<Rightarrow> string \<Rightarrow> 'w \<Rightarrow> go_error option \<times> 'w"
  gl_Close :: "'c \<Rightarrow> 'w \<Rightarrow> go_error option \<times> 'w"


section \<open>Constants of const.go\<close>

definition AppTmpPath :: string where "AppTmpPath = ''/app/tmp''"
definition KubeConfigName :: string where "KubeConfigName = ''kube.config''"
definition PrivKeyName_kit :: string where "PrivKeyName_kit = ''id_rsa_test''"
definition PubKeyName_kit :: string where "PubKeyName_kit = ''id_rsa_test.pub''"
definition NamespaceName :: string where "NamespaceName = ''test1''"
definition MasterNodeIP :: string where "MasterNodeIP = ''10.10.10.180''"
definition InstallWorkerNodeIp :: string where "InstallWorkerNodeIp = ''10.10.10.181''"
definition WorkerNode2 :: string where "WorkerNode2 = ''10.10.10.182''"
definition RemoteAppPath_kit :: string where "RemoteAppPath_kit = ''/home/user''"
definition ConfigTplName_kit :: string where "ConfigTplName_kit = ''config.yml.tpl''"
definition ConfigName_kit :: string where "ConfigName_kit = ''config.yml''"
definition ResourcesTplName_kit :: string where "ResourcesTplName_kit = ''resources.yml.tpl''"
definition ResourcesName_kit :: string where "ResourcesName_kit = ''resources.yml''"
definition UserCreateScriptName :: string where "UserCreateScriptName = ''createuser.sh''"

definition UbuntuCloudImage :: string where
  "UbuntuCloudImage = ''https://cloud-images.ubuntu.com/jammy/current/jammy-server-cloudimg-amd64.img''"

definition DeckhouseInstallCommand :: "string \<Rightarrow> string" where
  "DeckhouseInstallCommand host = ''sudo -i docker run --network=host -t -v '' @
     quoted ''/home/user/config.yml:/config.yml'' @ '' -v '' @ quoted ''/home/user/:/tmp/'' @
     '' dev-registry.deckhouse.io/sys/deckhouse-oss/install:main dhctl bootstrap --ssh-user=user --ssh-host='' @
     host @ '' --ssh-agent-private-keys=/tmp/id_rsa_test --config=/config.yml''"

definition DeckhouseResourcesInstallCommand :: "string \<Rightarrow> string" where
  "DeckhouseResourcesInstallCommand host = ''sudo -i docker run --network=host -t -v '' @
     quoted ''/home/user/resources.yml:/resources.yml'' @ '' -v '' @ quoted ''/home/user/:/tmp/'' @
     '' dev-registry.deckhouse.io/sys/deckhouse-oss/install:main dhctl bootstrap-phase create-resources'' @
     '' --ssh-user=user --ssh-host='' @ host @
     '' --ssh-agent-private-keys=/tmp/id_rsa_test --resources=/resources.yml''"

definition NodeInstallGenerationCommand :: string where
  "NodeInstallGenerationCommand =
     ''sudo -i kubectl -n d8-cloud-instance-manager get secret manual-bootstrap-for-worker -o json | /opt/deckhouse/bin/jq '' @
     quoted (''.data.'' @ dquoted ''bootstrap.sh'') @ '' -r''"

definition NodesListCommand :: string where
  "NodesListCommand = ''sudo -i kubectl get nodes -owide | grep -v NAME | awk '' @ quoted ''{ print $6 }''"


section \<open>Keys\<close>

definition generatePrivateKey_kit :: "('w, 'c2, 'n, 's, 'k) SshLib \<Rightarrow> int \<Rightarrow> ('w, go_error + 'k) io" where
  "generatePrivateKey_kit lib bitSize =
     bindIO (callIO (sl_GenerateKey lib bitSize)) (\<lambda>r. case r of
         Inl err \<Rightarrow> retIO (Inl err)
       | Inr k \<Rightarrow> (case sl_Validate lib k of
             Some err \<Rightarrow> retIO (Inl err)
           | None \<Rightarrow> retIO (Inr k)))"

definition encodePrivateKeyToPEM_kit :: "('w, 'c2, 'n, 's, 'k) SshLib \<Rightarrow> 'k \<Rightarrow> string" where
  "encodePrivateKeyToPEM_kit lib privateKey =
     sl_EncodePem lib ''RSA PRIVATE KEY'' (sl_MarshalPKCS1 lib privateKey)"

definition generatePublicKey_kit :: "('w, 'c2, 'n, 's, 'k) SshLib \<Rightarrow> 'k \<Rightarrow> go_error + string" where
  "generatePublicKey_kit lib privateKey =
     (case sl_NewPublicKey lib privateKey of
        Inl err \<Rightarrow> Inl err
      | Inr publicRsaKey \<Rightarrow> Inr (sl_MarshalAuthorizedKey lib publicRsaKey))"

definition writeKeyToFile_kit :: "('w, 'c2, 'n, 's, 'k) SshLib \<Rightarrow> string \<Rightarrow> string \<Rightarrow> ('w, go_error option) io" where
  "writeKeyToFile_kit lib keyBytes saveFileTo = callIO (sl_WriteFile lib saveFileTo keyBytes 384)"

text \<open>The keys are generated whether or not there are any; the caller looks first.\<close>

definition GenerateRSAKeys_kit :: "('w, 'c2, 'n, 's, 'k) SshLib \<Rightarrow> string \<Rightarrow> string \<Rightarrow> ('w, unit) io" where
  "GenerateRSAKeys_kit lib privateFilename publicFilename =
     bindIO (generatePrivateKey_kit lib 4096) (\<lambda>r. case r of
         Inl err \<Rightarrow> exitIO (err_text err)
       | Inr privateKey \<Rightarrow> (case generatePublicKey_kit lib privateKey of
             Inl err \<Rightarrow> exitIO (err_text err)
           | Inr publicKeyBytes \<Rightarrow>
               bindIO (orFatal (writeKeyToFile_kit lib (encodePrivateKeyToPEM_kit lib privateKey) privateFilename))
                 (\<lambda>_. orFatal (writeKeyToFile_kit lib publicKeyBytes publicFilename))))"

definition CheckAndGetSSHKeys_kit :: "('w, 'c, 'a) GophLib \<Rightarrow> ('w, 'c2, 'n, 's, 'k) SshLib \<Rightarrow> string \<Rightarrow> string \<Rightarrow>
    string \<Rightarrow> ('w, string) io"
where
  "CheckAndGetSSHKeys_kit gl lib appTmpPath privateKeyName pubKeyName =
     bindIO (callIO (sl_Stat lib (path_Join appTmpPath privateKeyName))) (\<lambda>st.
     bindIO (case st of
         None \<Rightarrow> retIO ()
       | Some err \<Rightarrow>
           if gl_IsNotExist gl err
           then GenerateRSAKeys_kit lib (path_Join appTmpPath privateKeyName) (path_Join appTmpPath pubKeyName)
           else retIO ()) (\<lambda>_.
     bindIO (callIO (sl_ReadFile lib (path_Join appTmpPath pubKeyName))) (\<lambda>r. case r of
         Inl err \<Rightarrow> exitIO (err_text err)
       | Inr sshPubKey \<Rightarrow> retIO sshPubKey)))"


section \<open>Connections\<close>

definition pause :: "('x world_scheme, unit) io" where
  "pause = callIO (\<lambda>w. ((), sleep (10 * second) w))"

text \<open>The dialling loop with \<open>n\<close> attempts left after this one (\<open>tries - 1 - count\<close> of the code).\<close>

fun clientLoop :: "('x world_scheme, 'c, 'a) GophLib \<Rightarrow> string \<Rightarrow> string \<Rightarrow> 'a \<Rightarrow> nat \<Rightarrow> ('x world_scheme, 'c) io" where
  "clientLoop gl ip username auth n =
     bindIO (callIO (gl_NewUnknown gl username ip auth)) (\<lambda>r. case r of
         Inr client \<Rightarrow> retIO client
       | Inl _ \<Rightarrow> bindIO pause (\<lambda>_. case n of
             0 \<Rightarrow> exitIO ''Timeout waiting for installer VM to be ready''
           | Suc k \<Rightarrow> clientLoop gl ip username auth k))"

declare clientLoop.simps [simp del]

definition GetSSHClient :: "('x world_scheme, 'c, 'a) GophLib \<Rightarrow> string \<Rightarrow> string \<Rightarrow> 'a \<Rightarrow> ('x world_scheme, 'c) io" where
  "GetSSHClient gl ip username auth = clientLoop gl ip username auth 599"

text \<open>
  Each missing text is handed to \<^verbatim>\<open>LogFatalIfError\<close> with the error of the command, which is nil when
  only the text is missing.
\<close>

fun checkStringsLoop :: "string \<Rightarrow> go_error option \<Rightarrow> string list \<Rightarrow> ('w, unit) io" where
  "checkStringsLoop out err [] = retIO ()"
| "checkStringsLoop out err (checkString # rest) =
     (if \<not> sublist checkString out \<or> err \<noteq> None
      then bindIO (LogFatalIfError err []) (\<lambda>_. checkStringsLoop out err rest)
      else checkStringsLoop out err rest)"

definition ExecuteSSHCommandWithCheck :: "('w, 'c, 'a) GophLib \<Rightarrow> 'c \<Rightarrow> string \<Rightarrow> string list \<Rightarrow> ('w, unit) io" where
  "ExecuteSSHCommandWithCheck gl client command checkStrings =
     bindIO (callIO (gl_Run gl client command)) (\<lambda>(out, err). checkStringsLoop out err checkStrings)"


section \<open>Concurrent installation of nodes\<close>

text \<open>
  A goroutine is at its end or has an effect to do, after which it goes on. The main goroutine starts
  one for each node and waits for all. A schedule names at each step which of the goroutines that
  are not at their end moves; a schedule that is used up with some of them under way has not come
  to the end of the wait.
\<close>

datatype 'w thread = Stop | Step "'w \<Rightarrow> ('w thread outcome \<times> 'w) option"

fun stopped :: "'w thread \<Rightarrow> bool" where
  "stopped Stop = True"
| "stopped (Step m) = False"

definition nodeInstallCommand :: "string \<Rightarrow> string" where
  "nodeInstallCommand installScript = ''base64 -d <<< '' @ installScript @ '' | sudo -i bash''"

definition nodeClose :: "('w, 'c, 'a) GophLib \<Rightarrow> 'c \<Rightarrow> 'w thread" where
  "nodeClose gl nodeClient = Step (bindIO (callIO (gl_Close gl nodeClient)) (\<lambda>_. retIO Stop))"

definition nodeRun :: "('w, 'c, 'a) GophLib \<Rightarrow> 'c \<Rightarrow> string \<Rightarrow> 'w thread" where
  "nodeRun gl nodeClient installScript =
     Step (bindIO (callIO (gl_Run gl nodeClient (nodeInstallCommand installScript)))
       (\<lambda>(out, err). bindIO (LogFatalIfError err []) (\<lambda>_. retIO (nodeClose gl nodeClient))))"

definition nodeInstall :: "('w, 'c, 'a) GophLib \<Rightarrow> string \<Rightarrow> string \<Rightarrow> string \<Rightarrow> 'a \<Rightarrow> 'w thread" where
  "nodeInstall gl nodeIP installScript username auth =
     Step (bindIO (callIO (gl_NewUnknown gl username nodeIP auth)) (\<lambda>r. case r of
         Inl err \<Rightarrow> exitIO (err_text err)
       | Inr nodeClient \<Rightarrow> retIO (nodeRun gl nodeClient installScript)))"

definition running :: "'w thread list \<Rightarrow> nat list" where
  "running ts = filter (\<lambda>i. \<not> stopped (ts ! i)) [0..<length ts]"

fun waitAll :: "nat list \<Rightarrow> 'w thread list \<Rightarrow> ('w, unit) io" where
  "waitAll [] ts = (if running ts = [] then retIO () else (\<lambda>w. None))"
| "waitAll (k # ks) ts =
     (if running ts = [] then retIO ()
      else (let i = running ts ! (k mod length (running ts)) in
        case ts ! i of
          Stop \<Rightarrow> waitAll ks ts
        | Step m \<Rightarrow> bindIO m (\<lambda>t. waitAll ks (ts[i := t]))))"


section \<open>The creation of the cluster\<close>

definition initVMs :: "(string \<times> string \<times> int \<times> string) list" where
  "initVMs = [(''vm1'', MasterNodeIP, 4, ''8Gi''), (''vm2'', InstallWorkerNodeIp, 2, ''4Gi''),
     (''vm3'', WorkerNode2, 2, ''4Gi'')]"

fun createVMs :: "'w KitClient \<Rightarrow> string \<Rightarrow> (string \<times> string \<times> int \<times> string) list \<Rightarrow> ('w, unit) io" where
  "createVMs cl sshPubKey [] = retIO ()"
| "createVMs cl sshPubKey ((name, ip, cpu, memory) # vms) =
     bindIO (CreateVM_kit cl NamespaceName name ip cpu memory ''linstor-r1'' UbuntuCloudImage sshPubKey 20 20)
       (\<lambda>err. bindIO (LogFatalIfError err
           [''virtualmachines.virtualization.deckhouse.io '' @ dquoted name @ '' already exists''])
         (\<lambda>_. createVMs cl sshPubKey vms))"

text \<open>The loop over \<^verbatim>\<open>tries\<close> with \<open>n\<close> attempts left after this one; the machines are listed twice.\<close>

fun waitVMs :: "'x world_scheme KitClient \<Rightarrow> nat \<Rightarrow> ('x world_scheme, unit) io" where
  "waitVMs cl n =
     bindIO (ListVM_kit cl NamespaceName) (\<lambda>r. case r of
         Inl err \<Rightarrow> exitIO (err_text err)
       | Inr _ \<Rightarrow> bindIO (ListVM_kit cl NamespaceName) (\<lambda>r. case r of
             Inl err \<Rightarrow> exitIO (err_text err)
           | Inr vmList \<Rightarrow>
               if list_all (\<lambda>item. vi_Status item = ''Running'') vmList then retIO ()
               else bindIO pause (\<lambda>_. case n of
                   0 \<Rightarrow> exitIO ''Timeout waiting for all VMs to be ready''
                 | Suc k \<Rightarrow> waitVMs cl k)))"

declare waitVMs.simps [simp del]

fun renderTemplates :: "('w, 'c, 'a) GophLib \<Rightarrow> ('w, 'c2, 'n, 's, 'k) SshLib \<Rightarrow> string \<Rightarrow> (string \<times> string) list \<Rightarrow>
    ('w, unit) io"
where
  "renderTemplates gl lib dockerCfg [] = retIO ()"
| "renderTemplates gl lib dockerCfg ((tpl, dst) # items) =
     bindIO (callIO (sl_ReadFile lib tpl)) (\<lambda>r. case r of
         Inl err \<Rightarrow> exitIO (err_text err)
       | Inr template \<Rightarrow>
           bindIO (callIO (sl_WriteFile lib dst (gl_sprintf gl template dockerCfg) 420)) (\<lambda>err.
           bindIO (LogFatalIfError err []) (\<lambda>_. renderTemplates gl lib dockerCfg items)))"

fun uploadAll :: "('w, 'c, 'a) GophLib \<Rightarrow> 'c \<Rightarrow> 'c \<Rightarrow> (string \<times> string \<times> string) list \<Rightarrow> ('w, unit) io" where
  "uploadAll gl client masterClient [] = retIO ()"
| "uploadAll gl client masterClient ((src, dst, node) # items) =
     bindIO (callIO (gl_Upload gl (if node = ''installWorker'' then client else masterClient) src dst)) (\<lambda>err.
     bindIO (LogFatalIfError err []) (\<lambda>_. uploadAll gl client masterClient items))"

text \<open>Docker is installed again for as long as the output speaks of a locked directory; errors are dropped.\<close>

partial_function (option) dockerLoop :: "('w, 'c, 'a) GophLib \<Rightarrow> 'c \<Rightarrow> string \<Rightarrow> 'w \<Rightarrow> (unit outcome \<times> 'w) option" where
  "dockerLoop gl client out w =
     (if sublist ''Unable to lock directory'' out
      then (case gl_Run gl client ''sudo apt update && sudo apt -y install docker.io'' w of
          ((out', err), w') \<Rightarrow> dockerLoop gl client out' w')
      else Some (Ret (), w))"

fun runCommands :: "('w, 'c, 'a) GophLib \<Rightarrow> 'c \<Rightarrow> string list \<Rightarrow> ('w, unit) io" where
  "runCommands gl client [] = retIO ()"
| "runCommands gl client (sshCommand # cmds) =
     bindIO (callIO (gl_Run gl client sshCommand)) (\<lambda>(out, err).
     bindIO (LogFatalIfError err []) (\<lambda>_. runCommands gl client cmds))"

partial_function (option) scriptLoop :: "('w, 'c, 'a) GophLib \<Rightarrow> 'c \<Rightarrow> string \<Rightarrow> 'w \<Rightarrow> (string outcome \<times> 'w) option" where
  "scriptLoop gl masterClient script w =
     (if sublist ''not found'' script
      then (case gl_Run gl masterClient NodeInstallGenerationCommand w of
          ((script', err), w') \<Rightarrow> (case err of
              Some e \<Rightarrow> Some (Exit (err_text e), w')
            | None \<Rightarrow> scriptLoop gl masterClient script' w'))
      else Some (Ret script, w))"

text \<open>The dash in the expression is not a hyphen but the three bytes of an en dash.\<close>

definition tokenPattern :: string where
  "tokenPattern = ''token: [A'' @ map char_of [226, 128, 147 :: nat] @ ''Za-z0-9'' @ [char_of (92 :: nat)] @
     ''+/=-_'' @ [char_of (92 :: nat)] @ ''.]{10,}''"

partial_function (option) tokenLoop :: "('x world_scheme, 'c, 'a) GophLib \<Rightarrow> 'c \<Rightarrow> 'x world_scheme \<Rightarrow>
    (unit outcome \<times> 'x world_scheme) option"
where
  "tokenLoop gl masterClient w =
     (case gl_Run gl masterClient (''sudo -i /bin/bash '' @ path_Join RemoteAppPath_kit UserCreateScriptName) w of
        ((out, Some e), w1) \<Rightarrow> Some (Exit (err_text e), w1)
      | ((out, None), w1) \<Rightarrow>
          (case gl_Run gl masterClient (''cat '' @ path_Join RemoteAppPath_kit KubeConfigName) w1 of
             ((out, Some e), w2) \<Rightarrow> Some (Exit (err_text e), w2)
           | ((out, None), w2) \<Rightarrow>
               if gl_MatchString gl tokenPattern out = Some True then Some (Ret (), sleep (10 * second) w2)
               else tokenLoop gl masterClient (sleep (10 * second) w2)))"

definition isInstalled :: "string list \<Rightarrow> string \<Rightarrow> bool" where
  "isInstalled nodeList newNodeIP \<longleftrightarrow> list_ex (\<lambda>nodeIP. nodeIP = newNodeIP) nodeList"

definition nodeLines :: "string \<Rightarrow> string list" where
  "nodeLines nodes = split_on (char_of (10 :: nat))
     (replace_all 0 [char_of (13 :: nat), char_of (10 :: nat)] nl nodes)"

definition sshCommandList :: "string \<Rightarrow> string \<Rightarrow> string list" where
  "sshCommandList licenseKey out =
     [''sudo docker login -u license-token -p '' @ licenseKey @ '' dev-registry.deckhouse.io''] @
     (if sublist (''cannot access '' @ quoted ''/opt/deckhouse'') out then [DeckhouseInstallCommand MasterNodeIP] else []) @
     [DeckhouseResourcesInstallCommand MasterNodeIP]"

text \<open>The part of \<^verbatim>\<open>InitClusterCreate\<close> that runs with the two clients, and whose end closes them.\<close>

definition setUpCluster :: "('x world_scheme, 'c, 'a) GophLib \<Rightarrow> nat list \<Rightarrow> 'a \<Rightarrow> 'c \<Rightarrow> 'c \<Rightarrow> ('x world_scheme, unit) io" where
  "setUpCluster gl sched auth client masterClient =
     bindIO (uploadAll gl client masterClient
       [(path_Join AppTmpPath ConfigName_kit, path_Join RemoteAppPath_kit ConfigName_kit, ''installWorker''),
        (path_Join AppTmpPath PrivKeyName_kit, path_Join RemoteAppPath_kit PrivKeyName_kit, ''installWorker''),
        (path_Join AppTmpPath ResourcesName_kit, path_Join RemoteAppPath_kit ResourcesName_kit, ''installWorker''),
        (UserCreateScriptName, path_Join RemoteAppPath_kit UserCreateScriptName, ''masterNode'')]) (\<lambda>_.
     bindIO (dockerLoop gl client ''Unable to lock directory'') (\<lambda>_.
     bindIO (callIO (gl_Run gl masterClient ''ls -1 /opt/deckhouse | wc -l'')) (\<lambda>(out, err).
     bindIO (LogFatalIfError err []) (\<lambda>_.
     bindIO (runCommands gl client (sshCommandList (gl_Getenv gl ''licensekey'') out)) (\<lambda>_.
     bindIO (callIO (gl_Run gl masterClient NodesListCommand)) (\<lambda>(nodes, err).
     bindIO (LogFatalIfError err []) (\<lambda>_.
     bindIO (scriptLoop gl masterClient ''not found'') (\<lambda>nodeInstallScript.
     (let nodeList = nodeLines nodes;
          newNodes = filter (\<lambda>ip. \<not> isInstalled nodeList ip) [InstallWorkerNodeIp, WorkerNode2]
      in bindIO (waitAll sched (map (\<lambda>ip. nodeInstall gl ip (replace_all 0 nl [] nodeInstallScript) ''user'' auth)
            newNodes)) (\<lambda>_.
         bindIO (tokenLoop gl masterClient) (\<lambda>_.
         bindIO (callIO (gl_Download gl masterClient (path_Join RemoteAppPath_kit KubeConfigName)
             (path_Join AppTmpPath KubeConfigName))) (\<lambda>err. LogFatalIfError err []))))))))))))"

definition InitClusterCreate :: "('x world_scheme, 'c, 'a) GophLib \<Rightarrow> ('x world_scheme, 'c2, 'n, 's, 'k) SshLib \<Rightarrow>
    ('x world_scheme, 'r) KitKubeLib \<Rightarrow> nat list \<Rightarrow> ('x world_scheme, unit) io"
where
  "InitClusterCreate gl lib kk sched =
     bindIO (callIO (sl_Stat lib AppTmpPath)) (\<lambda>st.
     bindIO (case st of
         None \<Rightarrow> retIO ()
       | Some err \<Rightarrow> if gl_IsNotExist gl err
           then bindIO (callIO (gl_Mkdir gl AppTmpPath 420)) (\<lambda>err. LogFatalIfError err []) else retIO ()) (\<lambda>_.
     bindIO (NewKubeClient kk []) (\<lambda>r. case r of
         Inl err \<Rightarrow> exitIO (err_text err)
       | Inr cl \<Rightarrow>
     bindIO (CreateNamespace cl NamespaceName) (\<lambda>err.
     bindIO (LogFatalIfError err [''namespaces '' @ dquoted NamespaceName @ '' already exists'']) (\<lambda>_.
     bindIO (CheckAndGetSSHKeys_kit gl lib AppTmpPath PrivKeyName_kit PubKeyName_kit) (\<lambda>sshPubKey.
     bindIO (createVMs cl sshPubKey initVMs) (\<lambda>_.
     bindIO (waitVMs cl 599) (\<lambda>_.
     bindIO (renderTemplates gl lib (gl_Getenv gl ''registryDockerCfg'')
         [(ConfigTplName_kit, path_Join AppTmpPath ConfigName_kit),
          (ResourcesTplName_kit, path_Join AppTmpPath ResourcesName_kit)]) (\<lambda>_.
     bindIO (callIO (gl_Key gl (path_Join AppTmpPath PrivKeyName_kit) [])) (\<lambda>a. case a of
         Inl err \<Rightarrow> exitIO (err_text err)
       | Inr auth \<Rightarrow>
     bindIO (GetSSHClient gl InstallWorkerNodeIp ''user'' auth) (\<lambda>client.
     deferIO (\<lambda>w. snd (gl_Close gl client w))
       (bindIO (GetSSHClient gl MasterNodeIP ''user'' auth) (\<lambda>masterClient.
          deferIO (\<lambda>w. snd (gl_Close gl masterClient w))
            (setUpCluster gl sched auth client masterClient))))))))))))))"


section \<open>Connections and commands\<close>

lemma clientLoop_ends:
  assumes "\<And>v r v'. gl_NewUnknown gl username ip auth v = (r, v') \<Longrightarrow> now v \<le> now v'"
  shows "\<exists>r w'. clientLoop gl ip username auth n w = Some (r, w') \<and>
    ((\<exists>client w0. r = Ret client \<and> gl_NewUnknown gl username ip auth w0 = (Inr client, w')) \<or>
     (r = Exit ''Timeout waiting for installer VM to be ready'' \<and>
        now w + (int n + 1) * (10 * second) \<le> now w'))"
proof (induction n arbitrary: w)
  case 0
  obtain x w1 where c: "gl_NewUnknown gl username ip auth w = (x, w1)" by fastforce
  with assms [OF c] show ?case
    by (cases x) (auto simp: clientLoop.simps [where n = 0] io_simps pause_def sleep_def second_def)
next
  case (Suc n)
  obtain x w1 where c: "gl_NewUnknown gl username ip auth w = (x, w1)" by fastforce
  define w2 where "w2 = sleep (10 * second) w1"
  have l: "now w + 10 * second \<le> now w2" using assms [OF c] by (simp add: w2_def sleep_def second_def)
  show ?case
  proof (cases x)
    case (Inl e)
    then have "clientLoop gl ip username auth (Suc n) w = clientLoop gl ip username auth n w2"
      using c by (simp add: clientLoop.simps [where n = "Suc n"] io_simps pause_def w2_def)
    moreover have "now w + (int (Suc n) + 1) * (10 * second) \<le> t" if "now w2 + (int n + 1) * (10 * second) \<le> t" for t
      using that l by (simp add: second_def)
    ultimately show ?thesis using Suc [of w2] by auto
  qed (use c in \<open>auto simp: clientLoop.simps [where n = "Suc n"] io_simps\<close>)
qed

text \<open>
  The dialling loop of the first test kit returns the client that its last attempt gave, or ends
  the process with the timeout message after at least the six hundred pauses of ten seconds; it
  never hands on a client that was not connected.
\<close>

theorem GetSSHClient_result:
  assumes "\<And>v r v'. gl_NewUnknown gl username ip auth v = (r, v') \<Longrightarrow> now v \<le> now v'"
  shows "\<exists>r w'. GetSSHClient gl ip username auth w = Some (r, w') \<and>
    ((\<exists>client w0. r = Ret client \<and> gl_NewUnknown gl username ip auth w0 = (Inr client, w')) \<or>
     (r = Exit ''Timeout waiting for installer VM to be ready'' \<and> now w + 6000 * second \<le> now w'))"
  using clientLoop_ends [OF assms, where n = 599 and w = w] by (simp add: GetSSHClient_def)

lemma checkStringsLoop_nil: "checkStringsLoop out None cs w = Some (Ret (), w)"
  by (induction cs) (simp_all add: LogFatalIfError_def io_simps)

lemma checkStringsLoop_err: "cs \<noteq> [] \<Longrightarrow> checkStringsLoop out (Some e) cs w = Some (Exit (err_text e), w)"
  by (cases cs) (simp_all add: LogFatalIfError_def io_simps)

lemma ExecuteSSHCommandWithCheck_branches:
  assumes "gl_Run gl client command w = ((out, err), w')"
  shows "ExecuteSSHCommandWithCheck gl client command cs w =
    (case err of Some e \<Rightarrow> if cs = [] then Some (Ret (), w') else Some (Exit (err_text e), w')
     | None \<Rightarrow> Some (Ret (), w'))"
  using assms
  by (cases err) (simp_all add: ExecuteSSHCommandWithCheck_def io_simps checkStringsLoop_nil checkStringsLoop_err)

lemma dockerLoop_drops_errors:
  assumes "gl_Run gl client ''sudo apt update && sudo apt -y install docker.io'' w = ((out, Some e), w')"
    and "\<not> sublist ''Unable to lock directory'' out"
  shows "dockerLoop gl client ''Unable to lock directory'' w = Some (Ret (), w')"
  using assms by (simp add: dockerLoop.simps [where out = "''Unable to lock directory''"] dockerLoop.simps [where out = out])


section \<open>The goroutines of the installation\<close>

text \<open>What is known of a goroutine for \<open>ip\<close> that has \<open>k\<close> steps to go.\<close>

inductive installs :: "('w, 'c, 'a) GophLib \<Rightarrow> string \<Rightarrow> string \<Rightarrow> 'a \<Rightarrow> string \<Rightarrow> nat \<Rightarrow> 'w thread \<Rightarrow> bool"
  for gl script username auth ip
where
  begins: "installs gl script username auth ip (Suc (Suc (Suc 0))) (nodeInstall gl ip script username auth)"
| dialled: "gl_NewUnknown gl username ip auth v = (Inr c, v') \<Longrightarrow>
    installs gl script username auth ip (Suc (Suc 0)) (nodeRun gl c script)"
| ran: "gl_NewUnknown gl username ip auth v = (Inr c, v') \<Longrightarrow>
    gl_Run gl c (nodeInstallCommand script) u = ((out, None), u') \<Longrightarrow>
    installs gl script username auth ip (Suc 0) (nodeClose gl c)"
| ended: "gl_NewUnknown gl username ip auth v = (Inr c, v') \<Longrightarrow>
    gl_Run gl c (nodeInstallCommand script) u = ((out, None), u') \<Longrightarrow>
    installs gl script username auth ip 0 Stop"

lemma installs_StopE:
  assumes "installs gl script username auth ip k Stop"
  obtains v c v' u out u' where "gl_NewUnknown gl username ip auth v = (Inr c, v')"
    and "gl_Run gl c (nodeInstallCommand script) u = ((out, None), u')"
  using assms by cases (auto simp: nodeInstall_def nodeRun_def nodeClose_def)

lemma installs_moves:
  assumes "installs gl script username auth ip k (Step m)"
  shows "\<exists>k' r w'. k = Suc k' \<and> m w = Some (r, w') \<and>
    (case r of Ret t \<Rightarrow> installs gl script username auth ip k' t | _ \<Rightarrow> True)"
  using assms
proof cases
  case begins
  obtain r w1 where c: "gl_NewUnknown gl username ip auth w = (r, w1)" by fastforce
  with begins show ?thesis
    by (cases r) (auto simp: nodeInstall_def io_simps dialled)
next
  case (dialled v c v')
  obtain out err w1 where r: "gl_Run gl c (nodeInstallCommand script) w = ((out, err), w1)" by (metis surj_pair)
  with dialled show ?thesis
    by (cases err) (auto simp: nodeRun_def io_simps LogFatalIfError_def intro: installs.ran)
next
  case (ran v c v' u out u')
  then show ?thesis
    by (cases "gl_Close gl c w") (auto simp: nodeClose_def io_simps intro: installs.ended)
qed

lemma running_set: "i \<in> set (running ts) \<longleftrightarrow> i < length ts \<and> \<not> stopped (ts ! i)"
  by (auto simp: running_def)

lemma running_none:
  assumes "length ts = length ips" and "running ts = []"
    and "\<And>i. i < length ips \<Longrightarrow> \<exists>k. installs gl script username auth (ips ! i) k (ts ! i)"
  shows "list_all (\<lambda>ip. installs gl script username auth ip 0 Stop) ips"
proof -
  have "installs gl script username auth (ips ! i) 0 Stop" if i: "i < length ips" for i
  proof -
    have "ts ! i = Stop" using assms(2) i assms(1) running_set [of i ts] by (cases "ts ! i") auto
    with assms(3) [OF i] show ?thesis by (auto elim!: installs_StopE intro: installs.ended)
  qed
  then show ?thesis by (simp add: list_all_length)
qed

lemma waitAll_safe:
  assumes "length ts = length ips"
    and "\<And>i. i < length ips \<Longrightarrow> \<exists>k. installs gl script username auth (ips ! i) k (ts ! i)"
    and "waitAll ks ts w = Some (Ret u, w')"
  shows "list_all (\<lambda>ip. installs gl script username auth ip 0 Stop) ips"
  using assms
proof (induction ks arbitrary: ts w)
  case Nil
  then have "running ts = []" by (simp split: if_splits)
  with Nil show ?case by (intro running_none)
next
  case (Cons k ks)
  show ?case
  proof (cases "running ts = []")
    case True
    with Cons.prems show ?thesis by (intro running_none)
  next
    case False
    define i where "i = running ts ! (k mod length (running ts))"
    have "i \<in> set (running ts)" unfolding i_def using False by (intro nth_mem) simp
    then have i: "i < length ips" "\<not> stopped (ts ! i)" using Cons.prems(1) by (auto simp: running_set)
    then obtain m where m: "ts ! i = Step m" by (cases "ts ! i") auto
    obtain n where n: "installs gl script username auth (ips ! i) n (Step m)" using Cons.prems(2) [OF i(1)] m by auto
    have "bindIO m (\<lambda>t. waitAll ks (ts[i := t])) w = Some (Ret u, w')"
      using Cons.prems(3) False m by (simp add: Let_def i_def [symmetric])
    then obtain t w1 where t: "m w = Some (Ret t, w1)" "waitAll ks (ts[i := t]) w1 = Some (Ret u, w')"
      by (rule bindIO_RetE)
    from installs_moves [OF n, of w] t(1) have "\<exists>k. installs gl script username auth (ips ! i) k t" by auto
    then have "\<exists>k. installs gl script username auth (ips ! j) k (ts[i := t] ! j)" if "j < length ips" for j
      using that Cons.prems(1,2) by (cases "j = i") auto
    with Cons.IH [OF _ _ t(2)] Cons.prems(1) show ?thesis by simp
  qed
qed

lemma waitAll_runs:
  assumes "length ns = length ips" and "length ts = length ips"
    and "\<And>i. i < length ips \<Longrightarrow> installs gl script username auth (ips ! i) (ns ! i) (ts ! i)"
    and "sum_list ns \<le> length ks"
  shows "\<exists>r w'. waitAll ks ts w = Some (r, w') \<and>
    (case r of Ret _ \<Rightarrow> list_all (\<lambda>ip. installs gl script username auth ip 0 Stop) ips | _ \<Rightarrow> True)"
  using assms
proof (induction ks arbitrary: ns ts w)
  case Nil
  have st: "ts ! i = Stop" if "i < length ips" for i
  proof -
    have "ns ! i \<in> set ns" using Nil(1) that by simp
    then have "ns ! i = 0" using Nil by auto
    with Nil(3) [OF that] show ?thesis by (cases rule: installs.cases) auto
  qed
  then have "running ts = []" using Nil by (auto simp: running_def filter_empty_conv)
  moreover have "list_all (\<lambda>ip. installs gl script username auth ip 0 Stop) ips"
    using Nil st by (auto simp: list_all_length) (metis in_set_conv_nth le_zero_eq sum_list_eq_0_iff)
  ultimately show ?case by (simp add: io_simps)
next
  case (Cons k ks)
  show ?case
  proof (cases "running ts = []")
    case True
    have "list_all (\<lambda>ip. installs gl script username auth ip 0 Stop) ips"
      by (rule running_none [OF Cons.prems(2) True]) (use Cons.prems(3) in blast)
    with True show ?thesis by (simp add: io_simps)
  next
    case False
    define i where "i = running ts ! (k mod length (running ts))"
    have "i \<in> set (running ts)" unfolding i_def using False by (intro nth_mem) simp
    then have i: "i < length ips" "\<not> stopped (ts ! i)" using Cons.prems(2) by (auto simp: running_set)
    then obtain m where m: "ts ! i = Step m" by (cases "ts ! i") auto
    obtain k' r w1 where s: "ns ! i = Suc k'" "m w = Some (r, w1)"
      "case r of Ret t \<Rightarrow> installs gl script username auth (ips ! i) k' t | _ \<Rightarrow> True"
      using installs_moves Cons.prems(3) [OF i(1)] m by metis
    show ?thesis
    proof (cases r)
      case (Ret t)
      have "sum_list (ns[i := k']) \<le> length ks"
        using Cons.prems(1,4) i(1) s(1) by (simp add: sum_list_update)
      moreover have "installs gl script username auth (ips ! j) (ns[i := k'] ! j) (ts[i := t] ! j)"
        if "j < length ips" for j
        using that Cons.prems(1-3) s Ret by (cases "j = i") auto
      ultimately show ?thesis
        using Cons.IH [of "ns[i := k']" "ts[i := t]" w1] Cons.prems(1,2) False m s(2) Ret
        by (simp add: Let_def i_def [symmetric] io_simps)
    qed (use False m s(2) in \<open>simp_all add: Let_def i_def [symmetric] io_simps\<close>)
  qed
qed

text \<open>
  C5. Whatever the order in which the goroutines of the node installation run, a schedule of three
  steps for each node brings the wait group to its end or the process to its exit; and when the
  wait is over, for every node a client was dialled to its address and has run the install script
  without an error.
\<close>

theorem nodes_installed:
  assumes "3 * length ips \<le> length sched"
  shows "\<exists>r w'. waitAll sched (map (\<lambda>ip. nodeInstall gl ip script username auth) ips) w = Some (r, w') \<and>
    (case r of
       Ret _ \<Rightarrow> list_all (\<lambda>ip. \<exists>v c v' u out u'. gl_NewUnknown gl username ip auth v = (Inr c, v') \<and>
         gl_Run gl c (nodeInstallCommand script) u = ((out, None), u')) ips
     | _ \<Rightarrow> True)"
proof -
  let ?ts = "map (\<lambda>ip. nodeInstall gl ip script username auth) ips"
  obtain r w' where "waitAll sched ?ts w = Some (r, w')"
    "case r of Ret _ \<Rightarrow> list_all (\<lambda>ip. installs gl script username auth ip 0 Stop) ips | _ \<Rightarrow> True"
    using waitAll_runs [of "replicate (length ips) (Suc (Suc (Suc 0)))" ips ?ts gl script username auth sched w] assms
    by (auto simp: installs.begins sum_list_replicate mult.commute)
  then show ?thesis
    by (cases r) (fastforce elim: installs_StopE list.pred_mono_strong)+
qed


section \<open>Waiting for the machines\<close>

text \<open>
  The wait for the machines always comes to an end within its attempts; it returns only after a
  list of the machines of the namespace with every one of them running, and otherwise the process ends.
\<close>

lemma waitVMs_ends:
  "\<exists>r w'. waitVMs cl n w = Some (r, w') \<and>
    (case r of
       Ret _ \<Rightarrow> \<exists>v items. cl_list (kc_VMs cl) NamespaceName v = (Inr items, w') \<and>
         list_all (\<lambda>vm. vm_Phase vm = ''Running'') items
     | Exit _ \<Rightarrow> True
     | Panic _ \<Rightarrow> False)"
proof (induction n arbitrary: w)
  case 0
  obtain x w1 where 1: "cl_list (kc_VMs cl) NamespaceName w = (x, w1)" by fastforce
  obtain y w2 where 2: "cl_list (kc_VMs cl) NamespaceName w1 = (y, w2)" by fastforce
  from 1 2 show ?case
    by (cases x; cases y) (auto simp: waitVMs.simps [where n = 0] ListVM_kit_def io_simps pause_def list_all_iff)
next
  case (Suc n)
  obtain x w1 where 1: "cl_list (kc_VMs cl) NamespaceName w = (x, w1)" by fastforce
  obtain y w2 where 2: "cl_list (kc_VMs cl) NamespaceName w1 = (y, w2)" by fastforce
  from 1 2 Suc [of "sleep (10 * second) w2"] show ?case
    by (cases x; cases y)
      (auto simp: waitVMs.simps [where n = "Suc n"] ListVM_kit_def io_simps pause_def list_all_iff)
qed


section \<open>What a run of InitClusterCreate has done\<close>

lemma LogFatalIfError_Ret: "LogFatalIfError err [] w = Some (Ret u, w') \<longleftrightarrow> err = None \<and> w' = w"
  by (cases err) (auto simp: LogFatalIfError_def io_simps)

lemma fatal_RetE:
  assumes "bindIO (LogFatalIfError err []) k w = Some (Ret y, w')"
  obtains "err = None" and "k () w = Some (Ret y, w')"
  using assms by (auto simp: bindIO_Ret_iff LogFatalIfError_Ret)

lemmas ret_elims = fatal_RetE call2_RetE call_sum_RetE call_RetE then_RetE defer_RetE bindIO_RetE

text \<open>A client was dialled to the node and has run the install script without an error.\<close>

definition installedOn :: "('w, 'c, 'a) GophLib \<Rightarrow> 'a \<Rightarrow> string \<Rightarrow> string \<Rightarrow> bool" where
  "installedOn gl auth script ip \<longleftrightarrow> (\<exists>v c v' u out u'. gl_NewUnknown gl ''user'' ip auth v = (Inr c, v') \<and>
     gl_Run gl c (nodeInstallCommand script) u = ((out, None), u'))"

lemma installs_installedOn: "installs gl script ''user'' auth ip 0 Stop \<Longrightarrow> installedOn gl auth script ip"
  unfolding installedOn_def by (erule installs_StopE) blast

lemma waitAll_installed:
  assumes "waitAll sched (map (\<lambda>ip. nodeInstall gl ip script ''user'' auth) ips) w = Some (Ret u, w')"
  shows "list_all (installedOn gl auth script) ips"
proof -
  have "list_all (\<lambda>ip. installs gl script ''user'' auth ip 0 Stop) ips"
    by (rule waitAll_safe [OF _ _ assms]) (auto intro: installs.begins)
  then show ?thesis by (rule list.pred_mono_strong) (rule installs_installedOn)
qed

lemma new_nodes_installed:
  assumes "waitAll sched (map (\<lambda>ip. nodeInstall gl ip script ''user'' auth) (filter (\<lambda>ip. \<not> P ip) ips)) w = Some (Ret u, w')"
  shows "list_all (\<lambda>ip. P ip \<or> installedOn gl auth script ip) ips"
  using waitAll_installed [OF assms] by (auto simp: list_all_iff)

lemma setUpCluster_done:
  assumes "setUpCluster gl sched auth client masterClient w = Some (Ret u, w')"
  shows "\<exists>nodes script v v'. gl_Run gl masterClient NodesListCommand v = ((nodes, None), v') \<and>
    list_all (\<lambda>ip. isInstalled (nodeLines nodes) ip \<or> installedOn gl auth script ip) [InstallWorkerNodeIp, WorkerNode2] \<and>
    (\<exists>v. gl_Download gl masterClient (path_Join RemoteAppPath_kit KubeConfigName) (path_Join AppTmpPath KubeConfigName) v =
      (None, w'))"
  by (insert assms, unfold setUpCluster_def Let_def, elim ret_elims, drule new_nodes_installed)
    (simp only: LogFatalIfError_Ret, blast)

lemma waitVMs_running:
  assumes "waitVMs cl n w = Some (Ret u, w')"
  shows "\<exists>v items. cl_list (kc_VMs cl) NamespaceName v = (Inr items, w') \<and> list_all (\<lambda>vm. vm_Phase vm = ''Running'') items"
  using waitVMs_ends [of cl n w] assms by auto

text \<open>
  C3. A run of \<^verbatim>\<open>InitClusterCreate\<close> that comes to its end has done its work, over all of its parts: the
  machines were created with the public key; the listing that ended the wait showed every machine of the
  namespace running; then clients were dialled to the worker and to the master, whose list
  of nodes had each worker on it or the worker was dialled and ran the install script without an error,
  whatever the order of the goroutines; and the configuration was downloaded from the master last, before
  the two clients were closed.
\<close>

theorem InitClusterCreate_result:
  assumes "InitClusterCreate gl lib kk sched w = Some (Ret u, w')"
  shows "\<exists>cl sshPubKey auth client masterClient w1 w2 w3 w4 w5 w6 w7 w8 w9 w10 v items nodes script n n' d' d.
    NewKubeClient kk [] w1 = Some (Ret (Inr cl), w2) \<and>
    CheckAndGetSSHKeys_kit gl lib AppTmpPath PrivKeyName_kit PubKeyName_kit w3 = Some (Ret sshPubKey, w4) \<and>
    createVMs cl sshPubKey initVMs w4 = Some (Ret (), w5) \<and>
    cl_list (kc_VMs cl) NamespaceName v = (Inr items, w6) \<and> list_all (\<lambda>vm. vm_Phase vm = ''Running'') items \<and>
    gl_Key gl (path_Join AppTmpPath PrivKeyName_kit) [] w7 = (Inr auth, w8) \<and>
    GetSSHClient gl InstallWorkerNodeIp ''user'' auth w8 = Some (Ret client, w9) \<and>
    GetSSHClient gl MasterNodeIP ''user'' auth w9 = Some (Ret masterClient, w10) \<and>
    gl_Run gl masterClient NodesListCommand n = ((nodes, None), n') \<and>
    list_all (\<lambda>ip. isInstalled (nodeLines nodes) ip \<or> installedOn gl auth script ip) [InstallWorkerNodeIp, WorkerNode2] \<and>
    gl_Download gl masterClient (path_Join RemoteAppPath_kit KubeConfigName) (path_Join AppTmpPath KubeConfigName) d' =
      (None, d) \<and> w' = snd (gl_Close gl client (snd (gl_Close gl masterClient d)))"
  apply (insert assms, unfold InitClusterCreate_def)
  apply (elim ret_elims)
  apply (drule setUpCluster_done, drule waitVMs_running)
  apply (elim exE conjE)
  apply (intro exI conjI)
  apply (assumption | simp)+
  done


section \<open>A library that answers at once\<close>

definition local_goph :: "(world, string, unit) GophLib" where
  "local_goph =
     \<lparr>gl_Getenv = (\<lambda>s. []), gl_sprintf = (\<lambda>t s. t @ s), gl_MatchString = (\<lambda>p s. Some True),
      gl_IsNotExist = (\<lambda>e. False), gl_Mkdir = (\<lambda>p m w. (None, w)), gl_Key = (\<lambda>f p w. (Inr (), w)),
      gl_NewUnknown = (\<lambda>u ip a w. (Inr ip, w)), gl_Run = (\<lambda>c s w. (([], None), w)),
      gl_Upload = (\<lambda>c a b w. (None, w)), gl_Download = (\<lambda>c a b w. (None, w)), gl_Close = (\<lambda>c w. (None, w))\<rparr>"

definition running_kit :: "world KitClient" where
  "running_kit = frozen_kit
     \<lparr>kc_VMs := (frozen_client [])\<lparr>cl_list := \<lambda>ns w. (Inr (map (\<lambda>(name, ip, cpu, memory).
         (newVM ns name (name @ ''-ipaddress-0'') cpu 1 (name @ ''-system'') [])\<lparr>vm_Phase := ''Running''\<rparr>) initVMs), w)\<rparr>\<rparr>"

definition local_kube :: "(world, unit) KitKubeLib" where
  "local_kube = \<lparr>kk_kubeconfigEnv = ''kube.config'', kk_BuildConfig = (\<lambda>p w. (Inr (), w)), kk_schemes = [None],
     kk_New = (\<lambda>c w. (Inr running_kit, w))\<rparr>"

definition local_files :: "(world, unit, unit, unit, unit) SshLib" where
  "local_files = dead_lib
     \<lparr>sl_Stat := (\<lambda>f w. (None, w)), sl_ReadFile := (\<lambda>f w. (Inr [], w)), sl_WriteFile := (\<lambda>f s m w. (None, w))\<rparr>"

lemma running_kit_creates:
  "CreateVM_kit running_kit ns vm ip cpu memory sc url [] 20 20 clock0 = Some (Ret None, clock0)"
  by (simp add: CreateVM_kit_def ensureCVMI_def ensureVMIPClaim_def ensureSystemVMD_def ensureDataVMD_def
      lastSteps_def ListCVMI_def ListIPClaim_kit_def ListVMD_def listSearch_def CreateCVMI_def CreateVMIPClaim_def
      CreateVMDFromCVMI_def CreateVMD_def onlyError_def frozen_kit_def running_kit_def bindIO_def callIO_def retIO_def)

lemma running_kit_machines: "createVMs running_kit [] vms clock0 = Some (Ret (), clock0)"
  by (induction vms) (auto simp: running_kit_creates bindIO_run LogFatalIfError_def run_simps)

lemma running_kit_waits: "waitVMs running_kit n clock0 = Some (Ret (), clock0)"
  by (simp add: waitVMs.simps [where n = n] ListVM_kit_def bindIO_call bindIO_run run_simps running_kit_def initVMs_def)

lemma local_calls:
  "gl_Run local_goph c s w = (([], None), w)" "gl_Upload local_goph c a b w = (None, w)"
  "gl_Download local_goph c a b w = (None, w)" "gl_Close local_goph c w = (None, w)"
  "gl_NewUnknown local_goph un ip au w = (Inr ip, w)" "gl_Key local_goph f p w = (Inr (), w)"
  "gl_MatchString local_goph p s = Some True"
  by (simp_all add: local_goph_def)

lemma local_loops:
  "runCommands local_goph c cmds w = Some (Ret (), w)"
  "uploadAll local_goph c d items w = Some (Ret (), w)"
  "dockerLoop local_goph c ''Unable to lock directory'' w = Some (Ret (), w)"
  "scriptLoop local_goph c ''not found'' w = Some (Ret [], w)"
  "tokenLoop local_goph c w = Some (Ret (), sleep (10 * second) w)"
proof -
  show "runCommands local_goph c cmds w = Some (Ret (), w)"
    by (induction cmds) (simp_all add: bindIO_call run_simps local_calls LogFatalIfError_def)
  show "uploadAll local_goph c d items w = Some (Ret (), w)"
    by (induction items) (auto simp: bindIO_call run_simps local_calls LogFatalIfError_def)
  show "dockerLoop local_goph c ''Unable to lock directory'' w = Some (Ret (), w)"
    by (simp add: dockerLoop.simps [where out = "''Unable to lock directory''"] dockerLoop.simps [where out = "[]"] local_calls)
  show "scriptLoop local_goph c ''not found'' w = Some (Ret [], w)"
    by (simp add: scriptLoop.simps [where script = "''not found''"] scriptLoop.simps [where script = "[]"] local_calls)
  show "tokenLoop local_goph c w = Some (Ret (), sleep (10 * second) w)"
    by (subst tokenLoop.simps) (simp add: local_calls)
qed

lemma local_nodes:
  "waitAll [1, 0, 1, 0, 1, 0] (map (\<lambda>ip. nodeInstall local_goph ip s ''user'' ()) [InstallWorkerNodeIp, WorkerNode2]) w =
     Some (Ret (), w)"
  by (simp add: running_def upt_rec nodeInstall_def nodeRun_def nodeClose_def bindIO_call bindIO_run run_simps local_calls
      LogFatalIfError_def Let_def)

lemma local_nodeList: "isInstalled (nodeLines []) InstallWorkerNodeIp = False" "isInstalled (nodeLines []) WorkerNode2 = False"
  by (simp_all add: isInstalled_def nodeLines_def InstallWorkerNodeIp_def WorkerNode2_def)

lemma local_setUp:
  "setUpCluster local_goph [1, 0, 1, 0, 1, 0] () c d w = Some (Ret (), sleep (10 * second) w)"
  using local_nodes [of "[]" w]
  by (simp add: setUpCluster_def Let_def bindIO_call bindIO_run run_simps LogFatalIfError_def local_calls local_loops local_nodeList
      del: waitAll.simps uploadAll.simps runCommands.simps)

lemma local_run:
  "InitClusterCreate local_goph local_files local_kube [1, 0, 1, 0, 1, 0] clock0 = Some (Ret (), sleep (10 * second) clock0)"
proof -
  have f: "sl_Stat local_files f w = (None, w)" "sl_ReadFile local_files f w = (Inr [], w)"
    "sl_WriteFile local_files f s m w = (None, w)" for f s m w
    by (simp_all add: local_files_def)
  have k: "NewKubeClient local_kube [] w = Some (Ret (Inr running_kit), w)" for w
    by (simp add: NewKubeClient_def local_kube_def Let_def bindIO_call run_simps)
  have n: "CreateNamespace running_kit NamespaceName w = Some (Ret None, w)" for w
    by (simp add: CreateNamespace_def onlyError_def bindIO_call run_simps running_kit_def frozen_kit_def frozen_client_def)
  have s: "CheckAndGetSSHKeys_kit local_goph local_files a b c w = Some (Ret [], w)" for a b c w
    by (simp add: CheckAndGetSSHKeys_kit_def bindIO_call bindIO_run run_simps f)
  have c: "GetSSHClient local_goph ip u () w = Some (Ret ip, w)" for ip u w
    by (simp add: GetSSHClient_def clientLoop.simps [where n = 599] bindIO_call run_simps local_calls)
  have r: "renderTemplates local_goph local_files d items w = Some (Ret (), w)" for d items w
    by (induction items) (auto simp: bindIO_call bindIO_run run_simps f LogFatalIfError_def)
  show ?thesis
    by (simp add: InitClusterCreate_def bindIO_call bindIO_run run_simps deferIO_run f k n s c r LogFatalIfError_def
        running_kit_machines running_kit_waits local_calls local_setUp [unfolded One_nat_def]
        del: createVMs.simps waitVMs.simps renderTemplates.simps)
qed

lemma InitClusterCreate_result_witness:
  "\<exists>cl sshPubKey auth client masterClient w1 w2 w3 w4 w5 w6 w7 w8 w9 w10 v items nodes script n n' d' d.
    NewKubeClient local_kube [] w1 = Some (Ret (Inr cl), w2) \<and>
    CheckAndGetSSHKeys_kit local_goph local_files AppTmpPath PrivKeyName_kit PubKeyName_kit w3 = Some (Ret sshPubKey, w4) \<and>
    createVMs cl sshPubKey initVMs w4 = Some (Ret (), w5) \<and>
    cl_list (kc_VMs cl) NamespaceName v = (Inr items, w6) \<and> list_all (\<lambda>vm. vm_Phase vm = ''Running'') items \<and>
    gl_Key local_goph (path_Join AppTmpPath PrivKeyName_kit) [] w7 = (Inr auth, w8) \<and>
    GetSSHClient local_goph InstallWorkerNodeIp ''user'' auth w8 = Some (Ret client, w9) \<and>
    GetSSHClient local_goph MasterNodeIP ''user'' auth w9 = Some (Ret masterClient, w10) \<and>
    gl_Run local_goph masterClient NodesListCommand n = ((nodes, None), n') \<and>
    list_all (\<lambda>ip. isInstalled (nodeLines nodes) ip \<or> installedOn local_goph auth script ip) [InstallWorkerNodeIp, WorkerNode2] \<and>
    gl_Download local_goph masterClient (path_Join RemoteAppPath_kit KubeConfigName) (path_Join AppTmpPath KubeConfigName) d' =
      (None, d) \<and> sleep (10 * second) clock0 = snd (gl_Close local_goph client (snd (gl_Close local_goph masterClient d)))"
  by (rule InitClusterCreate_result [OF local_run])

lemma GetSSHClient_result_witness:
  "\<exists>r w'. GetSSHClient local_goph MasterNodeIP ''user'' () clock0 = Some (r, w') \<and>
    ((\<exists>client w0. r = Ret client \<and> gl_NewUnknown local_goph ''user'' MasterNodeIP () w0 = (Inr client, w')) \<or>
     (r = Exit ''Timeout waiting for installer VM to be ready'' \<and> now clock0 + 6000 * second \<le> now w'))"
  by (rule GetSSHClient_result) (auto simp: local_goph_def)

lemma nodes_installed_witness:
  "\<exists>r w'. waitAll [1, 0, 1, 0, 1, 0] (map (\<lambda>ip. nodeInstall local_goph ip ''ZWNobw=='' ''user'' ())
       [InstallWorkerNodeIp, WorkerNode2]) clock0 = Some (r, w') \<and>
    (case r of
       Ret _ \<Rightarrow> list_all (\<lambda>ip. \<exists>v c v' u out u'. gl_NewUnknown local_goph ''user'' ip () v = (Inr c, v') \<and>
         gl_Run local_goph c (nodeInstallCommand ''ZWNobw=='') u = ((out, None), u')) [InstallWorkerNodeIp, WorkerNode2]
     | _ \<Rightarrow> True)"
  by (rule nodes_installed) simp

end
