(* ===== verification/Lvm.thy ===== *)
theory Lvm
  imports Objects Retry
begin

text \<open>
  \<^verbatim>\<open>images/sds-lvm-e2e/src/funcs\<close>: the helpers of the tests of local volumes, that is, the commands of
  the logical volume manager, pods, claims and storage classes with their polls. Running a
  command and the operations of the API client are parameters. A \<^verbatim>\<open>Get\<close> fills in the object it is
  given, so it takes that object and gives it back with its error; what an error leaves in the
  object is the client's affair.
\<close>

section \<open>Constants and objects\<close>

definition NameSpace :: string where "NameSpace = ''sds-local-volume''"
definition NamePrefixBlock :: string where "NamePrefixBlock = ''-block''"
definition WaitIntervalPOD :: int where "WaitIntervalPOD = 3"
definition WaitIterationCountPOD :: nat where "WaitIterationCountPOD = 20"
definition WaitIntervalPVC :: int where "WaitIntervalPVC = 1"
definition WaitIterationCountPVC :: nat where "WaitIterationCountPVC = 10"
definition DeletedStatusPVC :: string where "DeletedStatusPVC = ''Deleted''"

text \<open>
  A container state has at most one of the three pointers set; of the terminated one the reason
  is read.
\<close>

record ContainerState =
  cst_Waiting :: bool
  cst_Running :: bool
  cst_Terminated :: "string option"

record LvmContainer =
  lct_Name :: string
  lct_Image :: string
  lct_VolumeDevices :: "(string \<times> string) list"
  lct_VolumeMounts :: "(string \<times> string) list"
  lct_Command :: "string list"
  lct_Args :: "string list"
  lct_ImagePullPolicy :: string

record LvmPod = KObject +
  lp_Containers :: "LvmContainer list"
  lp_Volumes :: "(string \<times> string) list"
  lp_RestartPolicy :: string
  lp_Phase :: string
  lp_ContainerStatuses :: "ContainerState list"

definition zeroPod :: LvmPod where
  "zeroPod = \<lparr>metadata = newMeta [] [], lp_Containers = [], lp_Volumes = [], lp_RestartPolicy = [],
     lp_Phase = [], lp_ContainerStatuses = []\<rparr>"

definition zeroClaim :: PersistentVolumeClaim where
  "zeroClaim = \<lparr>metadata = newMeta [] [], pvc_StorageClassName = None, pvc_AccessModes = [],
     pvc_Requests = Map.empty, pvc_VolumeMode = None, pvc_Phase = []\<rparr>"

type_synonym ('w, 'o) getter = "string \<Rightarrow> string \<Rightarrow> 'o \<Rightarrow> 'w \<Rightarrow> (go_error option \<times> 'o) \<times> 'w"

record 'w LvmClient =
  lc_parse_quantity :: "string \<Rightarrow> go_error + int"
  lc_Pods :: "('w, LvmPod) client"
  lc_GetPod :: "('w, LvmPod) getter"
  lc_PVCs :: "('w, PersistentVolumeClaim) client"
  lc_GetPVC :: "('w, PersistentVolumeClaim) getter"
  lc_SCs :: "('w, StorageClass) client"

text \<open>Running a program gives what it writes to its error output and an error; \<open>lx_String\<close> is \<^verbatim>\<open>cmd.String\<close>.\<close>

record 'w LvmExec =
  lx_Run :: "string \<Rightarrow> string list \<Rightarrow> 'w \<Rightarrow> (string \<times> go_error option) \<times> 'w"
  lx_String :: "string \<Rightarrow> string list \<Rightarrow> string"


section \<open>Commands of the volume manager\<close>

text \<open>The body that the nine functions share; \<open>sep\<close> is what the message puts before the error output.\<close>

definition runCommand :: "'w LvmExec \<Rightarrow> string \<Rightarrow> string \<Rightarrow> string list \<Rightarrow> ('w, string \<times> go_error option) io" where
  "runCommand lx sep name args =
     bindIO (callIO (lx_Run lx name args)) (\<lambda>(stderr, err). case err of
         Some e \<Rightarrow> retIO (lx_String lx name args,
           Some (WrapError (''unable to run cmd: '' @ lx_String lx name args @ '', err: '') e (sep @ stderr)))
       | None \<Rightarrow> retIO (lx_String lx name args, None))"

definition CreatePV :: "'w LvmExec \<Rightarrow> string \<Rightarrow> ('w, string \<times> go_error option) io" where
  "CreatePV lx path = runCommand lx '', stderror = '' ''pvcreate'' [path]"

definition RemovePV :: "'w LvmExec \<Rightarrow> string list \<Rightarrow> ('w, string \<times> go_error option) io" where
  "RemovePV lx pvNames = runCommand lx '', stderr, '' ''pvremove'' [''pvremove'', join_with '' '' pvNames]"

definition CreateVGLocal :: "'w LvmExec \<Rightarrow> string \<Rightarrow> string list \<Rightarrow> ('w, string \<times> go_error option) io" where
  "CreateVGLocal lx vgName pvNames =
     runCommand lx '', stderror: '' ''vgcreate'' [vgName, join_with '' '' pvNames]"

definition RemoveVG :: "'w LvmExec \<Rightarrow> string \<Rightarrow> ('w, string \<times> go_error option) io" where
  "RemoveVG lx vgName = runCommand lx '', stderr: '' ''vgremove'' [vgName]"

definition CreateThinPool :: "'w LvmExec \<Rightarrow> string \<Rightarrow> string \<Rightarrow> string \<Rightarrow> ('w, string \<times> go_error option) io" where
  "CreateThinPool lx thinPool sz VGName =
     runCommand lx '', stderr: '' ''lvcreate'' [''-L'', sz, ''-T'', VGName @ ''/'' @ thinPool]"

definition CreateThinLogicalVolume :: "'w LvmExec \<Rightarrow> string \<Rightarrow> string \<Rightarrow> string \<Rightarrow> string \<Rightarrow>
    ('w, string \<times> go_error option) io"
where
  "CreateThinLogicalVolume lx vgName tpName lvName sz =
     runCommand lx '', stderr: '' ''lvcreate''
       [''-T'', vgName @ ''/'' @ tpName, ''-n'', lvName, ''-V'', sz, ''-W'', ''y'', ''-y'']"

definition CreateThickLogicalVolume :: "'w LvmExec \<Rightarrow> string \<Rightarrow> string \<Rightarrow> string \<Rightarrow>
    ('w, string \<times> go_error option) io"
where
  "CreateThickLogicalVolume lx vgName lvName sz =
     runCommand lx '', stderr: '' ''lvcreate''
       [''-n'', vgName @ ''/'' @ lvName, ''-L'', sz, ''-W'', ''y'', ''-y'']"

definition ExtendLV :: "'w LvmExec \<Rightarrow> string \<Rightarrow> string \<Rightarrow> string \<Rightarrow> ('w, string \<times> go_error option) io" where
  "ExtendLV lx sz vgName lvName =
     runCommand lx '', stderr: '' ''lvextend'' [''-L'', sz, ''/dev/'' @ vgName @ ''/'' @ lvName]"

definition RemoveLV :: "'w LvmExec \<Rightarrow> string \<Rightarrow> string \<Rightarrow> ('w, string \<times> go_error option) io" where
  "RemoveLV lx vgName lvName =
     runCommand lx '', stderr: '' ''lvremove'' [''/dev/'' @ vgName @ ''/'' @ lvName, ''-y'']"


section \<open>Pods\<close>

definition newPod_lvm :: "string \<Rightarrow> string \<Rightarrow> bool \<Rightarrow> string list \<Rightarrow> string list \<Rightarrow> LvmPod" where
  "newPod_lvm name pvcName blockMode command args = zeroPod
     \<lparr>metadata := newMeta (if blockMode then name @ NamePrefixBlock else name) NameSpace,
      lp_Containers :=
        [\<lparr>lct_Name = ''nginx-container'', lct_Image = ''nginx'',
          lct_VolumeDevices = (if blockMode then [(''nginx-persistent-storage'', ''/dev/sdx'')] else []),
          lct_VolumeMounts = (if blockMode then [] else [(''nginx-persistent-storage'', ''/usr/share/test-data'')]),
          lct_Command = command, lct_Args = args, lct_ImagePullPolicy = ''IfNotPresent''\<rparr>],
      lp_Volumes := [(''nginx-persistent-storage'', pvcName)],
      lp_RestartPolicy := ''Never''\<rparr>"

definition CreatePod_lvm :: "'w LvmClient \<Rightarrow> string \<Rightarrow> string \<Rightarrow> bool \<Rightarrow> string list \<Rightarrow> string list \<Rightarrow>
    ('w, string \<times> go_error option) io"
where
  "CreatePod_lvm cl name pvcName blockMode command args =
     bindIO (callIO (cl_create (lc_Pods cl) (newPod_lvm name pvcName blockMode command args))) (\<lambda>r. case r of
         Inl err \<Rightarrow> retIO ([], Some err)
       | Inr _ \<Rightarrow> retIO (if blockMode then name @ NamePrefixBlock else name, None))"

definition DeletePod_lvm :: "'w LvmClient \<Rightarrow> string \<Rightarrow> ('w, go_error option) io" where
  "DeletePod_lvm cl name = callIO (cl_delete (lc_Pods cl) (zeroPod\<lparr>metadata := newMeta name NameSpace\<rparr>))"

definition GetPodStatusPhase :: "'w LvmClient \<Rightarrow> string \<Rightarrow> ('w, string \<times> go_error option) io" where
  "GetPodStatusPhase cl name =
     bindIO (callIO (lc_GetPod cl NameSpace name zeroPod)) (\<lambda>(err, pod). case err of
         Some e \<Rightarrow> retIO ([], Some e)
       | None \<Rightarrow> retIO (lp_Phase pod, None))"

text \<open>The maps by name over the lists of all namespaces.\<close>

fun byName :: "'a KObject_scheme list \<Rightarrow> (string \<rightharpoonup> 'a KObject_scheme) \<Rightarrow> (string \<rightharpoonup> 'a KObject_scheme)" where
  "byName [] res = res"
| "byName (item # items) res = byName items (res(obj_Name item \<mapsto> item))"

definition GetPVCs :: "'w LvmClient \<Rightarrow> ('w, go_error + (string \<rightharpoonup> PersistentVolumeClaim)) io" where
  "GetPVCs cl =
     bindIO (callIO (cl_list (lc_PVCs cl) [])) (\<lambda>r. case r of
         Inl err \<Rightarrow> retIO (Inl err)
       | Inr items \<Rightarrow> retIO (Inr (byName items Map.empty)))"

definition GetPods :: "'w LvmClient \<Rightarrow> ('w, go_error + (string \<rightharpoonup> LvmPod)) io" where
  "GetPods cl =
     bindIO (callIO (cl_list (lc_Pods cl) [])) (\<lambda>r. case r of
         Inl err \<Rightarrow> retIO (Inl err)
       | Inr items \<Rightarrow> retIO (Inr (byName items Map.empty)))"

definition GetPVCStatusPhase :: "'w LvmClient \<Rightarrow> string \<Rightarrow> ('w, string \<times> go_error option) io" where
  "GetPVCStatusPhase cl name =
     bindIO (callIO (lc_GetPVC cl NameSpace name zeroClaim)) (\<lambda>(err, pvc). case err of
         Some e \<Rightarrow> retIO ([], Some e)
       | None \<Rightarrow> retIO (pvc_Phase pvc, None))"

definition IsPVCDeleted :: "'w LvmClient \<Rightarrow> string \<Rightarrow> ('w, bool \<times> go_error option) io" where
  "IsPVCDeleted cl name =
     bindIO (callIO (lc_GetPVC cl NameSpace name zeroClaim)) (\<lambda>(err, pvc). case err of
         Some e \<Rightarrow> if IsNotFound e then retIO (True, err) else retIO (False, err)
       | None \<Rightarrow> retIO (False, err))"

definition IsPodDeleted :: "'w LvmClient \<Rightarrow> string \<Rightarrow> ('w, bool \<times> go_error option) io" where
  "IsPodDeleted cl name =
     bindIO (callIO (lc_GetPod cl NameSpace name zeroPod)) (\<lambda>(err, pod). case err of
         Some e \<Rightarrow> if IsNotFound e then retIO (True, err) else retIO (False, err)
       | None \<Rightarrow> retIO (False, err))"

text \<open>
  The polls of \<^verbatim>\<open>WaitPodStatus\<close>, \<open>n\<close> of them left, over the pod as the gets so far have left it. Waiting
  and running containers are only printed.
\<close>

fun podPolls :: "'x world_scheme LvmClient \<Rightarrow> string \<Rightarrow> nat \<Rightarrow> LvmPod \<Rightarrow>
    ('x world_scheme, string \<times> go_error option) io"
where
  "podPolls cl name 0 pod =
     retIO ([], Some (PlainError ''the waiting time for the pod to be ready has expired''))"
| "podPolls cl name (Suc n) pod =
     bindIO (callIO (\<lambda>w. ((), sleep (WaitIntervalPOD * second) w))) (\<lambda>_.
     bindIO (callIO (lc_GetPod cl NameSpace name pod)) (\<lambda>(err, pod').
       case lp_ContainerStatuses pod' of
         [] \<Rightarrow> podPolls cl name n pod'
       | st # _ \<Rightarrow> (case cst_Terminated st of
             Some reason \<Rightarrow> retIO (reason, None)
           | None \<Rightarrow> podPolls cl name n pod')))"

definition WaitPodStatus :: "'x world_scheme LvmClient \<Rightarrow> string \<Rightarrow> ('x world_scheme, string \<times> go_error option) io" where
  "WaitPodStatus cl name = podPolls cl name WaitIterationCountPOD zeroPod"

text \<open>The loop of \<^verbatim>\<open>WaitDeletePod\<close> and of \<^verbatim>\<open>WaitDeletePVC\<close>: whether a get said not found.\<close>

fun gonePolls :: "('x world_scheme, 'o) getter \<Rightarrow> string \<Rightarrow> int \<Rightarrow> nat \<Rightarrow> 'o \<Rightarrow> ('x world_scheme, bool) io" where
  "gonePolls getObj name interval 0 ob = retIO False"
| "gonePolls getObj name interval (Suc n) ob =
     bindIO (callIO (\<lambda>w. ((), sleep (interval * second) w))) (\<lambda>_.
     bindIO (callIO (getObj NameSpace name ob)) (\<lambda>(err, ob'). case err of
         Some e \<Rightarrow> if IsNotFound e then retIO True else gonePolls getObj name interval n ob'
       | None \<Rightarrow> gonePolls getObj name interval n ob'))"

definition goneExpired :: "int \<Rightarrow> nat \<Rightarrow> go_error" where
  "goneExpired interval n = PlainError (''the waiting time '' @ fmt_d (int n * interval) @
     '' for the pod to be ready has expired'')"

definition WaitDeletePod :: "'x world_scheme LvmClient \<Rightarrow> string \<Rightarrow> ('x world_scheme, string \<times> go_error option) io" where
  "WaitDeletePod cl name =
     bindIO (gonePolls (lc_GetPod cl) name WaitIntervalPOD WaitIterationCountPOD zeroPod) (\<lambda>gone.
       if gone then retIO (''Deleted'', None)
       else retIO ([], Some (goneExpired WaitIntervalPOD WaitIterationCountPOD)))"


section \<open>Claims\<close>

text \<open>\<^verbatim>\<open>CreatePVC\<close> returns the claim as the creation has filled it in, and a zero claim with an error.\<close>

definition CreatePVC_lvm :: "'w LvmClient \<Rightarrow> string \<Rightarrow> string \<Rightarrow> string \<Rightarrow> bool \<Rightarrow>
    ('w, PersistentVolumeClaim \<times> go_error option) io"
where
  "CreatePVC_lvm cl name storageClassName sz blockMode =
     (case lc_parse_quantity cl sz of
        Inl err \<Rightarrow> retIO (zeroClaim, Some err)
      | Inr sizeStorage \<Rightarrow>
          (let pvc = zeroClaim
             \<lparr>metadata := newMeta (if blockMode then name @ NamePrefixBlock else name) NameSpace,
              pvc_StorageClassName := Some storageClassName, pvc_AccessModes := [''ReadWriteOnce''],
              pvc_Requests := [''storage'' \<mapsto> sizeStorage],
              pvc_VolumeMode := Some (if blockMode then ''Block'' else ''Filesystem'')\<rparr>
           in bindIO (callIO (cl_create (lc_PVCs cl) pvc)) (\<lambda>r. case r of
               Inl err \<Rightarrow> retIO (zeroClaim, Some err)
             | Inr pvc' \<Rightarrow> retIO (pvc', None))))"

definition DeletePVC_lvm :: "'w LvmClient \<Rightarrow> string \<Rightarrow> ('w, go_error option) io" where
  "DeletePVC_lvm cl name = callIO (cl_delete (lc_PVCs cl) (zeroClaim\<lparr>metadata := newMeta name NameSpace\<rparr>))"

fun claimPolls :: "'x world_scheme LvmClient \<Rightarrow> string \<Rightarrow> nat \<Rightarrow> PersistentVolumeClaim \<Rightarrow>
    ('x world_scheme, string \<times> go_error option) io"
where
  "claimPolls cl name 0 pvc =
     retIO ([], Some (PlainError (''the waiting time '' @ fmt_d (WaitIntervalPVC * int WaitIterationCountPVC) @
       '' or the pvc to be ready has expired'')))"
| "claimPolls cl name (Suc n) pvc =
     bindIO (callIO (lc_GetPVC cl NameSpace name pvc)) (\<lambda>(err, pvc').
       if pvc_Phase pvc' = ''Bound'' then retIO (pvc_Phase pvc', None)
       else if length (pvc_Phase pvc') = 0 then retIO (DeletedStatusPVC, None)
       else bindIO (callIO (\<lambda>w. ((), sleep (WaitIntervalPVC * second) w))) (\<lambda>_. claimPolls cl name n pvc'))"

definition WaitPVCStatus_lvm :: "'x world_scheme LvmClient \<Rightarrow> string \<Rightarrow> ('x world_scheme, string \<times> go_error option) io" where
  "WaitPVCStatus_lvm cl name = claimPolls cl name WaitIterationCountPVC zeroClaim"

text \<open>The object that \<^verbatim>\<open>WaitDeletePVC\<close> gets is a pod.\<close>

definition WaitDeletePVC :: "'x world_scheme LvmClient \<Rightarrow> string \<Rightarrow> ('x world_scheme, string \<times> go_error option) io" where
  "WaitDeletePVC cl name =
     bindIO (gonePolls (lc_GetPod cl) name WaitIntervalPVC WaitIterationCountPVC zeroPod) (\<lambda>gone.
       if gone then retIO (DeletedStatusPVC, None)
       else retIO ([], Some (goneExpired WaitIntervalPVC WaitIterationCountPVC)))"

definition EditSizePVC :: "'w LvmClient \<Rightarrow> string \<Rightarrow> string \<Rightarrow> ('w, go_error option) io" where
  "EditSizePVC cl name newSize =
     bindIO (callIO (lc_GetPVC cl NameSpace name zeroClaim)) (\<lambda>(err, pvc). case err of
         Some e \<Rightarrow> retIO (Some e)
       | None \<Rightarrow> (case lc_parse_quantity cl newSize of
             Inl err \<Rightarrow> retIO (Some err)
           | Inr newPVCSize \<Rightarrow>
               bindIO (callIO (cl_update (lc_PVCs cl) (pvc\<lparr>pvc_Requests := [''storage'' \<mapsto> newPVCSize]\<rparr>)))
                 (\<lambda>r. case r of Inl err \<Rightarrow> retIO (Some err) | Inr _ \<Rightarrow> retIO None)))"


section \<open>Storage classes\<close>

definition lvmBindingMode :: "string \<Rightarrow> string" where
  "lvmBindingMode volumeBindingMode =
     (if volumeBindingMode = ''Immediate'' then ''Immediate''
      else if volumeBindingMode = ''WaitForFirstConsumer'' then ''WaitForFirstConsumer''
      else ''Immediate'')"

definition lvmReclaimPolicy :: "string \<Rightarrow> string" where
  "lvmReclaimPolicy reclaimPolicy =
     (if reclaimPolicy = ''Delete'' then ''Delete''
      else if reclaimPolicy = ''Retain'' then ''Retain''
      else ''Delete'')"

definition CreateStorageClass_lvm :: "'w LvmClient \<Rightarrow> string \<Rightarrow> string \<Rightarrow> string \<Rightarrow> string \<Rightarrow> string \<Rightarrow>
    ('w, go_error option) io"
where
  "CreateStorageClass_lvm cl name lvmType lvmVolumeGroups volumeBindingMode reclaimPolicy =
     bindIO (callIO (cl_create (lc_SCs cl)
       \<lparr>metadata = newMeta name ''default'', sc_Provisioner = ''lvm.csi.storage.deckhouse.io'',
        sc_Parameters =
          [''lvm.csi.storage.deckhouse.io/lvm-type'' \<mapsto> lvmType,
           ''lvm.csi.storage.deckhouse.io/volume-binding-mode'' \<mapsto> volumeBindingMode,
           ''lvm.csi.storage.deckhouse.io/lvm-volume-groups'' \<mapsto> lvmVolumeGroups],
        sc_ReclaimPolicy = Some (lvmReclaimPolicy reclaimPolicy), sc_AllowVolumeExpansion = Some True,
        sc_VolumeBindingMode = Some (lvmBindingMode volumeBindingMode)\<rparr>))
       (\<lambda>r. case r of Inl err \<Rightarrow> retIO (Some err) | Inr _ \<Rightarrow> retIO None)"

definition DeleteStorageClass_lvm :: "'w LvmClient \<Rightarrow> string \<Rightarrow> ('w, go_error option) io" where
  "DeleteStorageClass_lvm cl name =
     callIO (cl_delete (lc_SCs cl)
       \<lparr>metadata = newMeta name ''default'', sc_Provisioner = [], sc_Parameters = Map.empty,
        sc_ReclaimPolicy = None, sc_AllowVolumeExpansion = None, sc_VolumeBindingMode = None\<rparr>)"


section \<open>Commands\<close>

lemma runCommand_ends:
  assumes "lx_Run lx name args w = ((stderr, err), w')"
  shows "\<exists>e. runCommand lx sep name args w = Some (Ret (lx_String lx name args, e), w') \<and> (e = None \<longleftrightarrow> err = None)"
  using assms by (cases err) (simp_all add: runCommand_def io_simps)

text \<open>
  \<^verbatim>\<open>RemovePV\<close> gives the program its own name as a volume to remove, so it fails wherever a name that is no
  volume makes the program fail.
\<close>

lemma RemovePV_fails:
  assumes "\<And>args v. ''pvremove'' \<in> set args \<Longrightarrow> snd (fst (lx_Run lx ''pvremove'' args v)) \<noteq> None"
  shows "\<exists>s e w'. RemovePV lx pvNames w = Some (Ret (s, Some e), w')"
proof -
  obtain st err w' where r: "lx_Run lx ''pvremove'' [''pvremove'', join_with '' '' pvNames] w = ((st, err), w')"
    by (metis surj_pair)
  with assms [of "[''pvremove'', join_with '' '' pvNames]" w] obtain x where "err = Some x" by auto
  with runCommand_ends [OF r, where sep = "'', stderr, ''"] show ?thesis by (auto simp: RemovePV_def)
qed


section \<open>Maps by name\<close>

lemma byName_map: "byName items res = res ++ map_of (rev (map (\<lambda>i. (obj_Name i, i)) items))"
  by (induction items arbitrary: res) (simp_all add: map_add_def fun_eq_iff split: option.splits)

lemma byName_dom: "dom (byName items Map.empty) = obj_Name ` set items"
  by (simp add: byName_map dom_map_of_conv_image_fst image_image)

lemma byName_last:
  assumes "list_all (\<lambda>i. obj_Name i \<noteq> obj_Name x) later"
  shows "byName (earlier @ x # later) Map.empty (obj_Name x) = Some x"
proof -
  have "map_of (rev (map (\<lambda>i. (obj_Name i, i)) later)) (obj_Name x) = None"
    using assms by (auto simp: map_of_eq_None_iff list_all_iff)
  then show ?thesis by (simp add: byName_map map_add_def)
qed


section \<open>Polls\<close>

text \<open>Gets of objects called \<open>name\<close> take at most \<open>d\<close>.\<close>

definition timed_get :: "('x world_scheme, 'o) getter \<Rightarrow> string \<Rightarrow> int \<Rightarrow> bool" where
  "timed_get getObj name d \<longleftrightarrow>
     (\<forall>p v. now v \<le> now (snd (getObj NameSpace name p v)) \<and> now (snd (getObj NameSpace name p v)) \<le> now v + d)"

lemma timed_getD:
  assumes "timed_get getObj name d" and "getObj NameSpace name p v = (r, v')"
  shows "now v \<le> now v'" and "now v' \<le> now v + d"
  using assms unfolding timed_get_def by (metis snd_conv)+

lemma podPolls_ends:
  assumes get: "timed_get (lc_GetPod cl) name d"
  shows "\<exists>s e w'. podPolls cl name n pod w = Some (Ret (s, e), w') \<and>
    now w' \<le> now w + int n * (3 * second + d) \<and>
    (case e of
       None \<Rightarrow> \<exists>p err p' v st sts. lc_GetPod cl NameSpace name p v = ((err, p'), w') \<and>
         lp_ContainerStatuses p' = st # sts \<and> cst_Terminated st = Some s
     | Some _ \<Rightarrow> s = [] \<and> now w + int n * (3 * second) \<le> now w')"
proof (induction n arbitrary: pod w)
  case 0
  show ?case by (simp add: io_simps)
next
  case (Suc n)
  define w1 where "w1 = sleep (WaitIntervalPOD * second) w"
  obtain err p' w2 where g: "lc_GetPod cl NameSpace name pod w1 = ((err, p'), w2)" by (metis surj_pair)
  have t: "now w + 3 * second \<le> now w2" "now w2 \<le> now w + (3 * second + d)"
    using timed_getD [OF get g] by (auto simp: w1_def sleep_def WaitIntervalPOD_def second_def)
  show ?case
  proof (cases "\<exists>st sts r. lp_ContainerStatuses p' = st # sts \<and> cst_Terminated st = Some r")
    case True
    then obtain st sts r where "lp_ContainerStatuses p' = st # sts" "cst_Terminated st = Some r" by blast
    moreover have "0 \<le> int n * (3 * second + d)" using t by (simp add: second_def)
    ultimately show ?thesis using g t by (force simp: bindIO_call io_simps w1_def [symmetric] algebra_simps)
  next
    case False
    then have "podPolls cl name (Suc n) pod w = podPolls cl name n p' w2"
      using g by (auto simp: bindIO_call io_simps w1_def [symmetric] split: list.splits option.splits)
    with Suc [of p' w2] t show ?thesis
      by (fastforce simp: algebra_simps split: option.splits)
  qed
qed

text \<open>
  \<^verbatim>\<open>WaitPodStatus\<close> always returns, within twenty polls: the reason with which the first container
  terminated, as the last get left it in the pod, or after the whole minute the error. With gets of
  at most \<open>d\<close> it takes at most twenty times \<open>d\<close> and three seconds.
\<close>

theorem WaitPodStatus_result:
  assumes "timed_get (lc_GetPod cl) name d"
  shows "\<exists>s e w'. WaitPodStatus cl name w = Some (Ret (s, e), w') \<and>
    now w' \<le> now w + 20 * (3 * second + d) \<and>
    (case e of
       None \<Rightarrow> \<exists>p err p' v st sts. lc_GetPod cl NameSpace name p v = ((err, p'), w') \<and>
         lp_ContainerStatuses p' = st # sts \<and> cst_Terminated st = Some s
     | Some _ \<Rightarrow> s = [] \<and> now w + 60 * second \<le> now w')"
proof -
  have "int WaitIterationCountPOD * (3 * second) = 60 * second"
    "int WaitIterationCountPOD * (3 * second + d) = 20 * (3 * second + d)"
    by (simp_all add: WaitIterationCountPOD_def)
  note count = this
  show ?thesis
    using podPolls_ends [OF assms, of WaitIterationCountPOD zeroPod w] unfolding WaitPodStatus_def count .
qed

lemma gonePolls_ends:
  assumes get: "timed_get getObj name d"
    and i: "0 < interval"
  shows "\<exists>g w'. gonePolls getObj name interval n ob w = Some (Ret g, w') \<and>
    now w' \<le> now w + int n * (interval * second + d) \<and>
    (if g then \<exists>p p' v e. getObj NameSpace name p v = ((Some e, p'), w') \<and> IsNotFound e
     else now w + int n * (interval * second) \<le> now w')"
proof (induction n arbitrary: ob w)
  case 0
  show ?case by (auto simp: io_simps)
next
  case (Suc n)
  define w1 where "w1 = sleep (interval * second) w"
  obtain err p' w2 where g: "getObj NameSpace name ob w1 = ((err, p'), w2)" by (metis surj_pair)
  have x: "0 < interval * second" using i by (simp add: second_def)
  then have t: "now w + interval * second \<le> now w2" "now w2 \<le> now w + (interval * second + d)"
    using timed_getD [OF get g] by (auto simp: w1_def sleep_def)
  with x have p: "0 \<le> int n * (interval * second + d)" by (intro mult_nonneg_nonneg) auto
  show ?case
  proof (cases "\<exists>e. err = Some e \<and> IsNotFound e")
    case True
    then have "gonePolls getObj name interval (Suc n) ob w = Some (Ret True, w2)"
      using g by (auto simp: bindIO_call io_simps w1_def [symmetric])
    moreover have "now w2 \<le> now w + int (Suc n) * (interval * second + d)" using t p by (simp add: algebra_simps)
    ultimately show ?thesis using g True by (intro exI [of _ True] exI [of _ w2]) auto
  next
    case False
    then have "gonePolls getObj name interval (Suc n) ob w = gonePolls getObj name interval n p' w2"
      using g by (auto simp: bindIO_call io_simps w1_def [symmetric] split: option.splits)
    with Suc [of p' w2] t show ?thesis by (force simp: algebra_simps split: if_splits)
  qed
qed

text \<open>
  The gets of a wait that goes on: the error of the \<open>k\<close>-th one, with the object and the world it leaves. The first of them
  comes after a pause.
\<close>

fun polled :: "('x world_scheme, 'o) getter \<Rightarrow> string \<Rightarrow> int \<Rightarrow> nat \<Rightarrow> 'o \<Rightarrow> 'x world_scheme \<Rightarrow> go_error option \<times> 'o \<times> 'x world_scheme" where
  "polled getObj name interval 0 ob w = (case getObj NameSpace name ob (sleep (interval * second) w) of ((err, ob'), w') \<Rightarrow> (err, ob', w'))"
| "polled getObj name interval (Suc k) ob w =
     (case getObj NameSpace name ob (sleep (interval * second) w) of ((err, ob'), w') \<Rightarrow> polled getObj name interval k ob' w')"

definition saysGone :: "go_error option \<Rightarrow> bool" where
  "saysGone err \<longleftrightarrow> (case err of None \<Rightarrow> False | Some e \<Rightarrow> IsNotFound e)"

lemma gonePolls_first:
  "gonePolls getObj name interval n ob w =
    (case find (\<lambda>k. saysGone (fst (polled getObj name interval k ob w))) [0..<n] of
       Some k \<Rightarrow> Some (Ret True, snd (snd (polled getObj name interval k ob w)))
     | None \<Rightarrow> Some (Ret False, if n = 0 then w else snd (snd (polled getObj name interval (n - 1) ob w))))"
proof (induction n arbitrary: ob w)
  case 0
  show ?case by (simp add: run_simps)
next
  case (Suc n)
  obtain err ob' w' where g: "getObj NameSpace name ob (sleep (interval * second) w) = ((err, ob'), w')"
    by (metis surj_pair)
  have step: "gonePolls getObj name interval (Suc n) ob w =
      (if saysGone err then Some (Ret True, w') else gonePolls getObj name interval n ob' w')"
    using g by (auto simp: bindIO_call run_simps saysGone_def split: option.split)
  have polls: "[0..<Suc n] = 0 # map Suc [0..<n]" by (simp add: upt_conv_Cons map_Suc_upt del: upt_Suc)
  have later: "find (\<lambda>k. saysGone (fst (polled getObj name interval k ob w))) (map Suc ks) =
      map_option Suc (find (\<lambda>k. saysGone (fst (polled getObj name interval k ob' w'))) ks)" for ks
    by (induction ks) (simp_all add: g)
  show ?case
    unfolding step polls
    using Suc.IH [of ob' w'] by (cases n) (auto simp: g later simp del: gonePolls.simps upt_Suc split: option.split)
qed

text \<open>
  C32. \<^verbatim>\<open>WaitDeletePod\<close> looks up to twenty times, each time after a pause of three seconds. It always returns, within the
  time of twenty polls: \<^verbatim>\<open>Deleted\<close>, exactly if one of the twenty gets says that the pod is not found, and then with the
  first one that does; else the error, after the twentieth get and at least a whole minute.
\<close>

theorem WaitDeletePod_result:
  assumes "timed_get (lc_GetPod cl) name d"
  shows "\<exists>s e w'. WaitDeletePod cl name w = Some (Ret (s, e), w') \<and>
    now w' \<le> now w + 20 * (3 * second + d) \<and>
    (case find (\<lambda>k. saysGone (fst (polled (lc_GetPod cl) name 3 k zeroPod w))) [0..<20] of
       Some k \<Rightarrow> s = ''Deleted'' \<and> e = None \<and> w' = snd (snd (polled (lc_GetPod cl) name 3 k zeroPod w))
     | None \<Rightarrow> s = [] \<and> e \<noteq> None \<and> w' = snd (snd (polled (lc_GetPod cl) name 3 19 zeroPod w)) \<and>
         now w + 60 * second \<le> now w')"
proof -
  obtain g w' where run: "gonePolls (lc_GetPod cl) name 3 20 zeroPod w = Some (Ret g, w')"
    and time: "now w' \<le> now w + 20 * (3 * second + d)" "\<not> g \<longrightarrow> now w + 60 * second \<le> now w'"
    using gonePolls_ends [OF assms, of 3 20 zeroPod w] by (auto split: if_split_asm)
  have result: "WaitDeletePod cl name w = Some (Ret (if g then (''Deleted'', None) else ([], Some (goneExpired 3 20))), w')"
    using run by (auto simp: WaitDeletePod_def WaitIntervalPOD_def WaitIterationCountPOD_def bindIO_run run_simps)
  show ?thesis
    using run [unfolded gonePolls_first] time unfolding result
    by (auto split: option.split_asm)
qed

text \<open>
  \<^verbatim>\<open>WaitDeletePVC\<close> does not look at claims: whatever the server says of the claim, the answer is the
  same, and it is the deletion as soon as there is no pod of the claim's name.
\<close>

theorem WaitDeletePVC_reads_pods:
  assumes "lc_GetPod cl NameSpace name zeroPod (sleep second w) = ((Some err, pod), w')" and "IsNotFound err"
  shows "WaitDeletePVC (cl\<lparr>lc_GetPVC := anyClaim\<rparr>) name w = Some (Ret (''Deleted'', None), w')"
  using assms
  by (simp add: WaitDeletePVC_def WaitIterationCountPVC_def WaitIntervalPVC_def DeletedStatusPVC_def eval_nat_numeral
      bindIO_call io_simps)

lemma IsPVCDeleted_true_with_error:
  assumes "IsPVCDeleted cl name w = Some (Ret (True, err), w')"
  shows "err \<noteq> None"
  using assms by (cases "lc_GetPVC cl NameSpace name zeroClaim w")
    (auto simp: IsPVCDeleted_def io_simps split: option.splits if_splits)

text \<open>
  Polling a claim: an answer within ten polls that is \<^verbatim>\<open>Bound\<close> or \<^verbatim>\<open>Deleted\<close> without an error, or
  empty with one. What reads as deleted is a claim without a phase, so that a first get that
  leaves the zero claim as it was reads as deleted whatever its error is.
\<close>

lemma claimPolls_ends:
  shows "\<exists>s e w'. claimPolls cl name n pvc w = Some (Ret (s, e), w') \<and>
    (case e of
       None \<Rightarrow> (s = ''Bound'' \<or> s = ''Deleted'') \<and> (\<exists>p err p' v. lc_GetPVC cl NameSpace name p v = ((err, p'), w') \<and>
         pvc_Phase p' = (if s = ''Bound'' then s else []))
     | Some _ \<Rightarrow> s = [])"
proof (induction n arbitrary: pvc w)
  case (Suc n)
  obtain err p' w1 where g: "lc_GetPVC cl NameSpace name pvc w = ((err, p'), w1)" by (metis surj_pair)
  then show ?case
    using Suc [of p' "sleep (WaitIntervalPVC * second) w1"]
    by (cases "pvc_Phase p' = ''Bound''"; cases "pvc_Phase p' = []")
      (auto simp: bindIO_call io_simps DeletedStatusPVC_def)
qed (simp add: io_simps)

lemma WaitPVCStatus_lvm_first_error:
  assumes "lc_GetPVC cl NameSpace name zeroClaim w = ((Some err, zeroClaim), w')"
  shows "WaitPVCStatus_lvm cl name w = Some (Ret (''Deleted'', None), w')"
  using assms
  by (simp add: WaitPVCStatus_lvm_def WaitIterationCountPVC_def eval_nat_numeral bindIO_call io_simps
      zeroClaim_def DeletedStatusPVC_def)


section \<open>A client for the witnesses\<close>

definition podless :: "world LvmClient" where
  "podless =
     \<lparr>lc_parse_quantity = (\<lambda>s. Inr 1), lc_Pods = frozen_client [],
      lc_GetPod = (\<lambda>ns nm p w. ((Some (ApiError ReasonNotFound ''pods not found''), p), w)),
      lc_PVCs = frozen_client [], lc_GetPVC = (\<lambda>ns nm p w. ((None, p\<lparr>pvc_Phase := ''Bound''\<rparr>), w)),
      lc_SCs = frozen_client []\<rparr>"

lemma WaitDeletePVC_reads_pods_witness:
  "WaitDeletePVC (podless\<lparr>lc_GetPVC := \<lambda>ns nm p w. ((None, p\<lparr>pvc_Phase := ''Bound''\<rparr>), w)\<rparr>) ''test-pvc'' clock0 =
     Some (Ret (''Deleted'', None), sleep second clock0)"
  by (rule WaitDeletePVC_reads_pods [where err = "ApiError ReasonNotFound ''pods not found''" and pod = zeroPod])
    (simp_all add: podless_def)

lemma WaitDeletePod_result_witness:
  "\<exists>w'. WaitDeletePod podless ''test-pod'' clock0 = Some (Ret (''Deleted'', None), w') \<and> now w' \<le> now clock0 + 60 * second"
proof -
  have "find (\<lambda>k. saysGone (fst (polled (lc_GetPod podless) ''test-pod'' 3 k zeroPod clock0))) [0..<20] = Some 0"
    by (simp add: upt_conv_Cons podless_def saysGone_def)
  with WaitDeletePod_result [of podless "''test-pod''" 0 clock0] show ?thesis
    by (auto simp: podless_def timed_get_def)
qed

end
