(* ===== verification/Schemes.thy ===== *)
theory Schemes
  imports KitCluster DeepCopies
begin

text \<open>
  What the packages do before a client is made: the registration of the repository's own kinds with the scheme of
  the client library (\<^verbatim>\<open>init\<close> of \<^verbatim>\<open>testkit_v2/util/kube_modules.go\<close>, \<^verbatim>\<open>v1alpha1/register.go\<close> of the local
  volume tests), and the \<^verbatim>\<open>main\<close> of the first kit. The scheme and its builder are the library's: their operations
  are a parameter, and a type is known to them by the name of its Go type.
\<close>

type_synonym GroupVersion = "string \<times> string"

record ('s, 'b) SchemeLib =
  sch_AddKnownTypes :: "GroupVersion \<Rightarrow> string list \<Rightarrow> ('s, unit) io"
  sch_AddToGroupVersion :: "GroupVersion \<Rightarrow> ('s, unit) io"
  sb_New :: "GroupVersion \<Rightarrow> 'b"
  sb_Register :: "string list \<Rightarrow> 'b \<Rightarrow> 'b"
  sb_AddToScheme :: "'b \<Rightarrow> ('s, go_error option) io"


section \<open>The kinds of the local volume tests\<close>

definition LVMVolumeGroupKind :: string where
  "LVMVolumeGroupKind = ''LvmVolumeGroup''"

definition LVMLogicalVolumeKind :: string where
  "LVMLogicalVolumeKind = ''LvmLogicalVolume''"

definition APIGroup :: string where
  "APIGroup = ''storage.deckhouse.io''"

definition APIVersion :: string where
  "APIVersion = ''v1alpha1''"

definition TypeMediaAPIVersion :: string where
  "TypeMediaAPIVersion = APIGroup @ ''/'' @ APIVersion"

definition SchemeGroupVersion :: GroupVersion where
  "SchemeGroupVersion = (APIGroup, APIVersion)"

definition addKnownTypes :: "('s, 'b) SchemeLib \<Rightarrow> ('s, go_error option) io" where
  "addKnownTypes lib =
     bindIO (sch_AddKnownTypes lib SchemeGroupVersion
         [''LvmVolumeGroup'', ''LvmVolumeGroupList'', ''LvmLogicalVolume'', ''LvmLogicalVolumeList'']) (\<lambda>_.
     bindIO (sch_AddToGroupVersion lib SchemeGroupVersion) (\<lambda>_. retIO None))"


section \<open>The kinds of kube_modules.go\<close>

definition D8GroupVersion :: GroupVersion where
  "D8GroupVersion = (''deckhouse.io'', ''v1alpha1'')"

definition D8SchemeBuilder :: "('s, 'b) SchemeLib \<Rightarrow> 'b" where
  "D8SchemeBuilder lib = sb_New lib D8GroupVersion"

definition modules_init :: "('s, 'b) SchemeLib \<Rightarrow> 'b \<Rightarrow> 'b" where
  "modules_init lib b =
     sb_Register lib [''StaticInstance'', ''StaticInstanceList'']
       (sb_Register lib [''SSHCredentials'', ''SSHCredentialsList''] b)"

text \<open>The phases a static instance can report.\<close>

definition StaticInstancePhases :: "string list" where
  "StaticInstancePhases = [''Error'', ''Pending'', ''Bootstrapping'', ''Running'', ''Cleaning'']"


section \<open>The first kit\<close>

definition kit_main :: "('x world_scheme, 'c, 'a) GophLib \<Rightarrow> ('x world_scheme, 'c2, 'n, 's, 'k) SshLib \<Rightarrow>
    ('x world_scheme, 'r) KitKubeLib \<Rightarrow> nat list \<Rightarrow> ('x world_scheme, unit) io"
where
  "kit_main gl lib kk sched = InitClusterCreate gl lib kk sched"


section \<open>The kinds that are known\<close>

text \<open>
  On a scheme that keeps the set of pairs of a group version and a kind, the registration has no error and makes
  known the two kinds whose names are constants of the package, and their lists, next to what was known before.
\<close>

lemma addKnownTypes_known:
  assumes "\<And>gv ks s. sch_AddKnownTypes lib gv ks s = Some (Ret (), s \<union> Pair gv ` set ks)"
    and "\<And>gv s. sch_AddToGroupVersion lib gv s = Some (Ret (), s)"
  shows "addKnownTypes lib s = Some (Ret None, s \<union> Pair (APIGroup, APIVersion) `
    {LVMVolumeGroupKind, LVMVolumeGroupKind @ ''List'', LVMLogicalVolumeKind, LVMLogicalVolumeKind @ ''List''})"
  by (simp add: addKnownTypes_def bindIO_run(1) assms run_simps SchemeGroupVersion_def LVMVolumeGroupKind_def
      LVMLogicalVolumeKind_def)

text \<open>The references to SSH credentials that are written into static instances name a registered kind.\<close>

lemma credentials_kind_registered:
  assumes "\<And>ks b. kinds (sb_Register lib ks b) = kinds b \<union> set ks"
  shows "ref_Kind (GetSSHCredentialsRef name) \<in> kinds (modules_init lib b) \<and>
    ref_APIVersion (GetSSHCredentialsRef name) = fst D8GroupVersion @ ''/'' @ snd D8GroupVersion"
  by (simp add: modules_init_def assms GetSSHCredentialsRef_def D8GroupVersion_def)

end
