(* ===== verification/Keeps.thy ===== *)
theory Keeps
  imports Filters Retry
begin

text \<open>
  A small calculus for what a run leaves alone: \<open>keeps P m\<close> says that the property \<open>P\<close> of the world survives \<open>m\<close>,
  however it ends. The rules follow the way the code is put together, so that a proof over a composed operation
  comes down to its calls of the API.
\<close>

named_theorems keeps_intros \<open>rules for what a run leaves alone\<close>

definition keeps :: "('w \<Rightarrow> bool) \<Rightarrow> ('w, 'a) io \<Rightarrow> bool" where
  "keeps P m \<longleftrightarrow> (\<forall>w r w'. P w \<longrightarrow> m w = Some (r, w') \<longrightarrow> P w')"

lemma keepsD: "keeps P m \<Longrightarrow> m w = Some (r, w') \<Longrightarrow> P w \<Longrightarrow> P w'"
  by (auto simp: keeps_def)

lemma keeps_done [keeps_intros]: "keeps P (retIO x)" "keeps P (panicIO s)" "keeps P (exitIO s)"
  by (auto simp: keeps_def run_simps)

lemma keeps_call [keeps_intros]: "(\<And>w. P w \<Longrightarrow> P (snd (f w))) \<Longrightarrow> keeps P (callIO f)"
  by (auto simp: keeps_def run_simps)

lemma bindIO_SomeE:
  assumes "bindIO m k w = Some (r, w')"
  obtains x w1 where "m w = Some (Ret x, w1)" and "k x w1 = Some (r, w')"
  | s where "m w = Some (s, w')"
  using assms by (auto simp: bindIO_def split: option.split_asm outcome.split_asm)

text \<open>The rest of a run may use what is known of the result before it.\<close>

lemma keeps_bind_result:
  assumes "keeps P m" and "\<And>x w w'. m w = Some (Ret x, w') \<Longrightarrow> keeps P (k x)"
  shows "keeps P (bindIO m k)"
  unfolding keeps_def
proof (intro allI impI)
  fix w r w'
  assume "P w" and "bindIO m k w = Some (r, w')"
  from this(2) show "P w'"
  proof (rule bindIO_SomeE)
    fix x w1
    assume m: "m w = Some (Ret x, w1)" and "k x w1 = Some (r, w')"
    then show "P w'" using keepsD [OF assms(1) m \<open>P w\<close>] keepsD [OF assms(2) [OF m]] by blast
  qed (use keepsD [OF assms(1)] \<open>P w\<close> in blast)
qed

lemma keeps_bind [keeps_intros]: "keeps P m \<Longrightarrow> (\<And>x. keeps P (k x)) \<Longrightarrow> keeps P (bindIO m k)"
  by (rule keeps_bind_result)

lemma keeps_forErr [keeps_intros]: "(\<And>x. x \<in> set xs \<Longrightarrow> keeps P (f x)) \<Longrightarrow> keeps P (forErr f xs)"
  by (induction xs) (auto intro!: keeps_intros split: option.splits)

lemma keeps_listFiltered [keeps_intros]:
  "(\<And>w. P w \<Longrightarrow> P (snd (list w))) \<Longrightarrow> keeps P (listFiltered list app filters)"
  unfolding keeps_def listFiltered_run by auto

lemma keeps_none_left [keeps_intros]: "keeps P list \<Longrightarrow> keeps P (none_left list complain)"
  unfolding none_left_def by (intro keeps_intros) (auto intro: keeps_intros split: sum.split)

definition clock_free :: "('x world_scheme \<Rightarrow> bool) \<Rightarrow> bool" where
  "clock_free P \<longleftrightarrow> (\<forall>w n l. P w \<longrightarrow> P (w\<lparr>now := n, lastLog := l\<rparr>))"

lemma clock_freeD:
  assumes "clock_free P" and "P w"
  shows "P (sleep d w)" and "P (w\<lparr>lastLog := l\<rparr>)"
proof -
  have "P (w\<lparr>now := n, lastLog := lastLog w\<rparr>)" "P (w\<lparr>now := now w, lastLog := l\<rparr>)" for n
    using assms unfolding clock_free_def by blast+
  then show "P (sleep d w)" "P (w\<lparr>lastLog := l\<rparr>)" using assms(2) by (simp_all add: sleep_def)
qed

lemma keeps_RetrySec [keeps_intros]:
  assumes "clock_free P" and "keeps P f"
  shows "keeps P (RetrySec sec f)"
proof -
  have "retry_n n sec f start m w = Some (r, w') \<Longrightarrow> P w \<Longrightarrow> P w'" for n start m w r w'
  proof (induction n arbitrary: m w)
    case (Suc n)
    then obtain x w1 where f: "f w = Some (x, w1)" by (auto split: option.splits)
    with assms(2) Suc.prems(2) have P: "P w1" by (auto dest: keepsD)
    show ?case
      using Suc.prems(1) f P
      by (auto split: outcome.splits option.splits if_splits
          intro: Suc.IH clock_freeD [OF assms(1)])
  qed simp
  then show ?thesis unfolding keeps_def RetrySec_def by (blast dest: retry_loop_n)
qed

section \<open>Filtered listings\<close>

text \<open>Deleting what a filtered listing gives: only what passes the filters is deleted.\<close>

context list_filter
begin

lemma keeps_filtered:
  assumes "\<And>v. P v \<Longrightarrow> P (snd (list v))"
    and "\<And>xs. (\<And>x. x \<in> set xs \<Longrightarrow> list_all (\<lambda>f. keep f x) fs) \<Longrightarrow> keeps P (k (Inr xs))"
    and "\<And>e. keeps P (k (Inl e))"
  shows "keeps P (bindIO (listFiltered list app fs) k)"
proof (rule keeps_bind_result)
  show "keeps P (listFiltered list app fs)" by (intro keeps_intros assms(1))
next
  fix r w w'
  assume "listFiltered list app fs w = Some (Ret r, w')"
  then have "r = (case fst (list w) of Inl e \<Rightarrow> Inl e | Inr xs \<Rightarrow> Inr (applyAll app fs xs))"
    by (simp add: listFiltered_run)
  then show "keeps P (k r)"
    using assms(3) by (auto split: sum.split intro!: assms(2) simp: applyAll_iff list_all_iff)
qed

end

lemma keeps_delete:
  assumes "\<And>v x. P v \<Longrightarrow> x \<in> set xs \<Longrightarrow> P (snd (del x v))"
  shows "keeps P (forErr (\<lambda>x. callIO (del x)) xs)"
  using assms by (intro keeps_intros)

end
