(* ===== verification/TestTools.thy ===== *)
theory TestTools
  imports Storage VM Env Tester Tools Units Keeps
begin

text \<open>
  \<^verbatim>\<open>testkit_v2/tests/tools.go\<close>, the operations the test cases share, and the statements a test function is
  made of. A test case asks \<^verbatim>\<open>EnsureCluster\<close> for its clusters on every use; after the first use that is a look
  into the cache (\<^verbatim>\<open>EnsureCluster_caches\<close>), so the two clusters are part of the bench the tests run on, with the
  package variables, the executor of \<^verbatim>\<open>ExecNode\<close> and \<^verbatim>\<open>rand.Intn\<close>.
\<close>

record 'w Bench =
  tb_cluster :: "'w KCluster"
  tb_hv :: "'w KCluster"
  tb_exec :: "'w pod_exec"
  tb_rand :: "nat \<Rightarrow> 'w \<Rightarrow> int \<times> 'w"
  tb_env :: Env
  tb_order :: "string list"

text \<open>\<^verbatim>\<open>xs, _ := list()\<close>: a failed listing is the nil slice.\<close>

definition orEmpty :: "go_error + 'a list \<Rightarrow> 'a list" where
  "orEmpty r = (case r of Inl _ \<Rightarrow> [] | Inr xs \<Rightarrow> xs)"

lemma orEmpty_run [simp]: "orEmpty (Inl e) = []" "orEmpty (Inr xs) = xs"
  by (simp_all add: orEmpty_def)

text \<open>\<^verbatim>\<open>_ = f()\<close>\<close>

definition ignoreIO :: "('w, 'a) io \<Rightarrow> ('w, unit) io" where
  "ignoreIO m = bindIO m (\<lambda>_. retIO ())"

text \<open>\<^verbatim>\<open>s[len(s)-n:]\<close> panics when the string is shorter than \<open>n\<close>.\<close>

definition lastBytes :: "nat \<Rightarrow> string \<Rightarrow> ('w, string) io" where
  "lastBytes n s = (if length s < n then panicIO ''slice bounds out of range'' else retIO (drop (length s - n) s))"

text \<open>The conversion of an integer to \<^verbatim>\<open>float32\<close>, and the rounding of its operations.\<close>

definition round32 :: "rat \<Rightarrow> rat" where
  "round32 x =
     (if x = 0 then 0
      else (let e = max (ilog2 \<bar>x\<bar> - 23) (- 149)
            in sgn x * scale2 e (of_int (round_half_even (scale2 (- e) \<bar>x\<bar>)))))"


section \<open>Statements of a test function\<close>

definition t_ok :: "'w test" where
  "t_ok t = retIO (Finished, t)"

definition t_Error :: "'w test" where
  "t_Error t = retIO (Finished, t_Errorf t)"

text \<open>The next statement is not reached after \<^verbatim>\<open>Fatal\<close> or \<^verbatim>\<open>Skip\<close>.\<close>

definition andThen :: "'w test \<Rightarrow> 'w test \<Rightarrow> 'w test" where
  "andThen m k t = bindIO (m t) (\<lambda>(e, t'). case e of Goexit \<Rightarrow> retIO (Goexit, t') | Finished \<Rightarrow> k t')"

definition t_do :: "('w, 'a) io \<Rightarrow> ('a \<Rightarrow> 'w test) \<Rightarrow> 'w test" where
  "t_do m k t = bindIO m (\<lambda>x. k x t)"

text \<open>\<^verbatim>\<open>if err := f(); err != nil { t.Fatal(err) }\<close>, and the same with \<^verbatim>\<open>t.Error\<close>.\<close>

definition fatalOn :: "('w, go_error option) io \<Rightarrow> 'w test" where
  "fatalOn m = t_do m (\<lambda>r. case r of Some _ \<Rightarrow> t_Fatal | None \<Rightarrow> t_ok)"

definition errorOn :: "('w, go_error option) io \<Rightarrow> 'w test" where
  "errorOn m = t_do m (\<lambda>r. case r of Some _ \<Rightarrow> t_Error | None \<Rightarrow> t_ok)"

text \<open>\<^verbatim>\<open>x, err := f(); if err != nil { t.Fatal(err) }\<close>\<close>

definition getOrFatal :: "('w, go_error + 'a) io \<Rightarrow> ('a \<Rightarrow> 'w test) \<Rightarrow> 'w test" where
  "getOrFatal m k = t_do m (\<lambda>r. case r of Inl _ \<Rightarrow> t_Fatal | Inr x \<Rightarrow> k x)"

lemmas test_defs = t_ok_def t_Error_def andThen_def t_do_def fatalOn_def errorOn_def getOrFatal_def t_Fatal_def
  t_SkipNow_def t_Errorf_def

lemma fatalOn_Finished:
  "fatalOn m t w = Some (Ret (Finished, t'), w') \<longleftrightarrow> m w = Some (Ret None, w') \<and> t' = t"
  by (auto simp: test_defs bindIO_Ret_iff run_simps split: option.split_asm)

lemma andThen_FinishedE:
  assumes "andThen m k t w = Some (Ret (Finished, t'), w')"
  obtains t1 w1 where "m t w = Some (Ret (Finished, t1), w1)" and "k t1 w1 = Some (Ret (Finished, t'), w')"
proof -
  from assms obtain e t1 w1 where m: "m t w = Some (Ret (e, t1), w1)"
    and k: "(case e of Goexit \<Rightarrow> retIO (Goexit, t1) | Finished \<Rightarrow> k t1) w1 = Some (Ret (Finished, t'), w')"
    by (auto simp: andThen_def bindIO_Ret_iff)
  from m k show ?thesis by (cases e) (auto simp: run_simps intro: that)
qed

lemma t_do_FinishedE:
  assumes "t_do m k t w = Some (Ret (Finished, t'), w')"
  obtains x w1 where "m w = Some (Ret x, w1)" and "k x t w1 = Some (Ret (Finished, t'), w')"
  using assms by (auto simp: t_do_def bindIO_Ret_iff)

lemma getOrFatal_FinishedE:
  assumes "getOrFatal m k t w = Some (Ret (Finished, t'), w')"
  obtains x w1 where "m w = Some (Ret (Inr x), w1)" and "k x t w1 = Some (Ret (Finished, t'), w')"
  using assms by (auto simp: test_defs bindIO_Ret_iff run_simps split: sum.split_asm)

lemmas FinishedE = andThen_FinishedE t_do_FinishedE getOrFatal_FinishedE


section \<open>tools.go\<close>

definition lvmD8 :: string where "lvmD8 = ''/opt/deckhouse/sds/bin/lvm.static''"
definition lsblkCmd :: string where "lsblkCmd = ''sudo /opt/deckhouse/bin/lsblk''"
definition vgsCmd :: string where "vgsCmd = ''sudo '' @ lvmD8 @ '' vgs''"
definition pvsCmd :: string where "pvsCmd = ''sudo '' @ lvmD8 @ '' pvs''"
definition vgdisplayCmd :: string where "vgdisplayCmd = ''sudo '' @ lvmD8 @ '' vgdisplay''"
definition pvdisplayCmd :: string where "pvdisplayCmd = ''sudo '' @ lvmD8 @ '' pvdisplay''"
definition lvdisplayCmd :: string where "lvdisplayCmd = ''sudo '' @ lvmD8 @ '' lvdisplay''"

fun removeLvs :: "'w Bench \<Rightarrow> LVMVolumeGroup list \<Rightarrow> ('w, unit) io" where
  "removeLvs b [] = retIO ()"
| "removeLvs b (lvg # lvgs) =
     bindIO (ExecNode (tb_cluster b) (tb_exec b) (lvg_LocalNodeName lvg)
       [''sudo'', lvmD8, ''lvremove'', ''-y'', obj_Name lvg]) (\<lambda>_. removeLvs b lvgs)"

definition e2eLvgs :: LvgFilter where
  "e2eLvgs = noLvgFilter\<lparr>lvgf_Name := Str ''%e2e-lvg-%''\<rparr>"

definition removeHvDisks :: "'x world_scheme Bench \<Rightarrow> ('x world_scheme, unit) io" where
  "removeHvDisks b =
     (let ns = TestNS (tb_env b) in
      bindIO (ignoreIO (DeleteVmbdAndWait (tb_hv b) [noVmBdFilter\<lparr>vmbdf_NameSpace := Str ns\<rparr>])) (\<lambda>_.
        ignoreIO (DeleteVdAndWait (tb_hv b) [noVdFilter\<lparr>vdf_NameSpace := Str ns, vdf_Name := Str ''!%-system%''\<rparr>])))"

definition removeTestDisks :: "'x world_scheme Bench \<Rightarrow> ('x world_scheme, unit) io" where
  "removeTestDisks b =
     bindIO (ListLVG (tb_cluster b) [e2eLvgs]) (\<lambda>r.
     bindIO (removeLvs b (orEmpty r)) (\<lambda>_.
     bindIO (ignoreIO (DeleteLvgAndWait (tb_cluster b) [e2eLvgs])) (\<lambda>_.
     bindIO (if HypervisorKubeConfig (tb_env b) \<noteq> [] then removeHvDisks b else retIO ()) (\<lambda>_.
       ignoreIO (DeleteBdAndWait (tb_cluster b) [])))))"

definition prepareClr :: "'x world_scheme Bench \<Rightarrow> ('x world_scheme, unit) io" where
  "prepareClr b = removeTestDisks b"

definition consumable :: "string \<Rightarrow> int \<Rightarrow> BdFilter" where
  "consumable nName sz = noBdFilter\<lparr>bdf_Node := Str nName, bdf_Consumable := Bool True, bdf_Size := round32 (of_int sz)\<rparr>"

text \<open>The loop with \<open>n\<close> disks still to create.\<close>

fun createDisks :: "'w Bench \<Rightarrow> string \<Rightarrow> int \<Rightarrow> nat \<Rightarrow> ('w, go_error option) io" where
  "createDisks b nName sz 0 = retIO None"
| "createDisks b nName sz (Suc n) =
     bindIO (RandString (tb_rand b) 4) (\<lambda>s.
     bindIO (CreateVMBD (tb_hv b) (TestNS (tb_env b)) nName (nName @ ''-data-'' @ s) (HvStorageClass (tb_env b)) sz) (\<lambda>r.
       case r of Some err \<Rightarrow> retIO (Some err) | None \<Rightarrow> createDisks b nName sz n))"

definition notEnough :: "string \<Rightarrow> nat \<Rightarrow> int \<Rightarrow> go_error" where
  "notEnough nName have cnt = PlainError (''Not enough bds on '' @ nName @ '': '' @ fmt_d (int have) @ '' of '' @ fmt_d cnt)"

definition enoughBds :: "'w Bench \<Rightarrow> string \<Rightarrow> int \<Rightarrow> int \<Rightarrow> ('w, go_error option) io" where
  "enoughBds b nName sz cnt =
     bindIO (ListBD (tb_cluster b) [consumable nName sz]) (\<lambda>r.
       if int (length (orEmpty r)) < cnt then retIO (Some (notEnough nName (length (orEmpty r)) cnt)) else retIO None)"

definition getOrCreateConsumableBlockDevices :: "'x world_scheme Bench \<Rightarrow> string \<Rightarrow> int \<Rightarrow> int \<Rightarrow>
    ('x world_scheme, go_error + BlockDevice list) io"
where
  "getOrCreateConsumableBlockDevices b nName sz cnt =
     bindIO (ListBD (tb_cluster b) [consumable nName sz]) (\<lambda>r.
     (let bds = orEmpty r in
      if int (length bds) \<ge> cnt then retIO (Inr bds)
      else if HypervisorKubeConfig (tb_env b) = [] then retIO (Inl (notEnough nName (length bds) cnt))
      else bindIO (createDisks b nName sz (nat (cnt - int (length bds)))) (\<lambda>e. case e of
          Some err \<Rightarrow> retIO (Inl err)
        | None \<Rightarrow> bindIO (RetrySec 30 (enoughBds b nName sz cnt)) (\<lambda>e. case e of
              Some err \<Rightarrow> retIO (Inl err)
            | None \<Rightarrow> ListBD (tb_cluster b) [consumable nName sz]))))"


section \<open>What the clean-up leaves alone\<close>

lemma keeps_ignoreIO [keeps_intros]: "keeps P m \<Longrightarrow> keeps P (ignoreIO m)"
  unfolding ignoreIO_def by (intro keeps_intros)

lemma keeps_ExecNode:
  assumes "\<And>v. P v \<Longrightarrow> P (snd (cl_list (Pods cluster) ''d8-sds-node-configurator'' v))"
    and "\<And>pod c v. P v \<Longrightarrow> P (snd (exec ''d8-sds-node-configurator'' pod c (nsenter_args @ cmd) v))"
  shows "keeps P (ExecNode cluster exec name cmd)"
  unfolding ExecNode_def Let_def ListPod_def
  by (intro keeps_intros assms(1))
    (auto split: sum.split list.split option.split intro!: keeps_intros assms(2))

lemma keeps_removeLvs:
  assumes "\<And>v. P v \<Longrightarrow> P (snd (cl_list (Pods (tb_cluster b)) ''d8-sds-node-configurator'' v))"
    and "\<And>lvg pod c v. P v \<Longrightarrow> lvg \<in> set lvgs \<Longrightarrow> P (snd (tb_exec b ''d8-sds-node-configurator'' pod c
      (nsenter_args @ [''sudo'', lvmD8, ''lvremove'', ''-y'', obj_Name lvg]) v))"
  shows "keeps P (removeLvs b lvgs)"
  using assms(2)
proof (induction lvgs)
  case (Cons lvg lvgs)
  then show ?case by (auto intro!: keeps_intros keeps_ExecNode assms(1))
qed (simp add: keeps_intros)


lemma keeps_deleteVmbds:
  assumes "clock_free P" and "\<And>v. P v \<Longrightarrow> P (snd (cl_list (VMBDs hv) [] v))"
    and "\<And>a v. P v \<Longrightarrow> P (snd (cl_delete (VMBDs hv) a v))"
  shows "keeps P (DeleteVmbdAndWait hv fs)"
proof -
  have "keeps P (DeleteVMBD hv fs)"
    unfolding DeleteVMBD_def ListVMBD_def
    by (rule vmbd_filter.keeps_filtered) (auto simp: assms(2) intro!: keeps_intros assms(3))
  then show ?thesis
    unfolding DeleteVmbdAndWait_def ListVMBD_def
    by (intro keeps_intros) (auto split: option.split intro!: keeps_intros assms(1) simp: assms(2))
qed

lemma keeps_deleteVds:
  assumes "clock_free P" and "\<And>v. P v \<Longrightarrow> P (snd (cl_list (VDs hv) [] v))"
    and "\<And>d v. P v \<Longrightarrow> cond_holds (parse_cond ns) (obj_Namespace d) \<Longrightarrow> \<not> sublist ''-system'' (obj_Name d) \<Longrightarrow>
      P (snd (cl_delete (VDs hv) d v))"
  shows "keeps P (DeleteVdAndWait hv [noVdFilter\<lparr>vdf_NameSpace := Str ns, vdf_Name := Str ''!%-system%''\<rparr>])"
proof -
  have vd: "VdFilter_keep rx (noVdFilter\<lparr>vdf_NameSpace := Str ns, vdf_Name := Str ''!%-system%''\<rparr>) d \<longleftrightarrow>
      cond_holds (parse_cond ns) (obj_Namespace d) \<and> \<not> sublist ''-system'' (obj_Name d)" for rx ns d
    by (auto simp: VdFilter_keep_def noVdFilter_def CheckStr_parse parse_cond.simps)
  have "keeps P (DeleteVD hv [noVdFilter\<lparr>vdf_NameSpace := Str ns, vdf_Name := Str ''!%-system%''\<rparr>])"
    unfolding DeleteVD_def ListVD_def
    by (rule vd_filter.keeps_filtered) (auto simp: assms(2) vd intro!: keeps_intros assms(3))
  then show ?thesis
    unfolding DeleteVdAndWait_def ListVD_def
    by (intro keeps_intros) (auto split: option.split intro!: keeps_intros assms(1) simp: assms(2))
qed

lemma keeps_removeTestDisks:
  assumes "\<And>v n l. P v \<Longrightarrow> P (v\<lparr>now := n, lastLog := l\<rparr>)"
    and "\<And>v. P v \<Longrightarrow> P (snd (cl_list (LVGs (tb_cluster b)) [] v)) \<and> P (snd (cl_list (BDs (tb_cluster b)) [] v)) \<and>
      P (snd (cl_list (Pods (tb_cluster b)) ''d8-sds-node-configurator'' v)) \<and>
      P (snd (cl_list (VMBDs (tb_hv b)) [] v)) \<and> P (snd (cl_list (VDs (tb_hv b)) [] v))"
    and "\<And>name pod c v. P v \<Longrightarrow> sublist ''e2e-lvg-'' name \<Longrightarrow> P (snd (tb_exec b ''d8-sds-node-configurator'' pod c
      (nsenter_args @ [''sudo'', lvmD8, ''lvremove'', ''-y'', name]) v))"
    and "\<And>g v. P v \<Longrightarrow> sublist ''e2e-lvg-'' (obj_Name g) \<Longrightarrow> P (snd (cl_delete (LVGs (tb_cluster b)) g v))"
    and "\<And>d v. P v \<Longrightarrow> P (snd (cl_delete (BDs (tb_cluster b)) d v))"
    and "\<And>d v. HypervisorKubeConfig (tb_env b) \<noteq> [] \<Longrightarrow> P v \<Longrightarrow>
      cond_holds (parse_cond (TestNS (tb_env b))) (obj_Namespace d) \<Longrightarrow> \<not> sublist ''-system'' (obj_Name d) \<Longrightarrow>
      P (snd (cl_delete (VDs (tb_hv b)) d v))"
    and "\<And>a v. HypervisorKubeConfig (tb_env b) \<noteq> [] \<Longrightarrow> P v \<Longrightarrow> P (snd (cl_delete (VMBDs (tb_hv b)) a v))"
  shows "keeps P (removeTestDisks b)"
proof -
  have clock: "clock_free P" using assms(1) by (simp add: clock_free_def)
  have lvg: "LvgFilter_keep rx e2eLvgs g \<longleftrightarrow> sublist ''e2e-lvg-'' (obj_Name g)" for rx g
    by (simp add: LvgFilter_keep_def e2eLvgs_def noLvgFilter_def CheckStr_parse parse_cond.simps)
  have lvgs: "keeps P (DeleteLvgAndWait (tb_cluster b) [e2eLvgs])"
    unfolding DeleteLvgAndWait_def DeleteLVG_def ListLVG_def
    by (intro keeps_intros lvg_filter.keeps_filtered clock)
      (auto split: option.split intro!: keeps_intros clock simp: assms(2) lvg intro: assms(4))
  have bds: "keeps P (DeleteBdAndWait (tb_cluster b) [])"
    unfolding DeleteBdAndWait_def DeleteBd_def ListBD_def
    by (intro keeps_intros bd_filter.keeps_filtered clock)
      (auto split: option.split sum.split intro!: keeps_intros clock simp: assms(2) intro: assms(5))
  have hv: "keeps P (removeHvDisks b)" if hk: "HypervisorKubeConfig (tb_env b) \<noteq> []"
    unfolding removeHvDisks_def Let_def
    by (intro keeps_intros keeps_deleteVmbds keeps_deleteVds clock) (simp_all add: assms(2,6,7) hk)
  show ?thesis
    unfolding removeTestDisks_def ListLVG_def
    by (intro keeps_intros lvg_filter.keeps_filtered)
      (auto simp: assms(2) lvg orEmpty_def intro!: keeps_intros keeps_removeLvs lvgs bds hv intro: assms(3))
qed


text \<open>
  The clean-up between the tests spares everything else: a property of the world that survives listings, the
  passing of time, the removal of logical volumes and volume groups whose group has \<^verbatim>\<open>e2e-lvg-\<close> in its name,
  the deletion of block devices and, when there is a hypervisor, of disks in the test namespace that are not
  system disks, survives \<^verbatim>\<open>removeTestDisks\<close>, however it ends; so no other volume group and no system disk is
  deleted. Of the attachments, however, those of every namespace have to be given up: the code asks for
  those of the test namespace, but the filter does not look at it.
\<close>

theorem removeTestDisks_spares:
  assumes "removeTestDisks b w = Some (r, w')" and "P w"
    and "\<And>v n l. P v \<Longrightarrow> P (v\<lparr>now := n, lastLog := l\<rparr>)"
    and "\<And>v. P v \<Longrightarrow> P (snd (cl_list (LVGs (tb_cluster b)) [] v)) \<and> P (snd (cl_list (BDs (tb_cluster b)) [] v)) \<and>
      P (snd (cl_list (Pods (tb_cluster b)) ''d8-sds-node-configurator'' v)) \<and>
      P (snd (cl_list (VMBDs (tb_hv b)) [] v)) \<and> P (snd (cl_list (VDs (tb_hv b)) [] v))"
    and "\<And>name pod c v. P v \<Longrightarrow> sublist ''e2e-lvg-'' name \<Longrightarrow> P (snd (tb_exec b ''d8-sds-node-configurator'' pod c
      (nsenter_args @ [''sudo'', lvmD8, ''lvremove'', ''-y'', name]) v))"
    and "\<And>g v. P v \<Longrightarrow> sublist ''e2e-lvg-'' (obj_Name g) \<Longrightarrow> P (snd (cl_delete (LVGs (tb_cluster b)) g v))"
    and "\<And>d v. P v \<Longrightarrow> P (snd (cl_delete (BDs (tb_cluster b)) d v))"
    and "\<And>d v. HypervisorKubeConfig (tb_env b) \<noteq> [] \<Longrightarrow> P v \<Longrightarrow>
      cond_holds (parse_cond (TestNS (tb_env b))) (obj_Namespace d) \<Longrightarrow> \<not> sublist ''-system'' (obj_Name d) \<Longrightarrow>
      P (snd (cl_delete (VDs (tb_hv b)) d v))"
    and "\<And>a v. HypervisorKubeConfig (tb_env b) \<noteq> [] \<Longrightarrow> P v \<Longrightarrow> P (snd (cl_delete (VMBDs (tb_hv b)) a v))"
  shows "P w'"
proof -
  have "keeps P (removeTestDisks b)" by (rule keeps_removeTestDisks) (rule assms(3-); assumption)+
  from keepsD [OF this assms(1,2)] show ?thesis .
qed

text \<open>A hypervisor that keeps its disks in the world.\<close>

record disk_world = world +
  dw_disks :: "VirtualDisk list"

definition disks0 :: "string list \<Rightarrow> disk_world" where
  "disks0 names = \<lparr>now = 0, lastLog = 0, dw_disks = map (\<lambda>n. newVD ''e2e'' n [] 1 None) names\<rparr>"

definition disk_bench :: "disk_world Bench" where
  "disk_bench = \<lparr>tb_cluster = frozen_cluster, tb_hv = frozen_cluster\<lparr>VDs := store_client dw_disks dw_disks_update\<rparr>,
     tb_exec = (\<lambda>ns pod c cmd w. (Inr ([], [], None), w)), tb_rand = (\<lambda>n w. (0, w)),
     tb_env = (initialEnv 12 34)\<lparr>TestNS := ''e2e'', HypervisorKubeConfig := ''hv.config''\<rparr>, tb_order = []\<rparr>"

lemma listed_none_now:
  assumes "list w = (Inr xs, w)" and "applyAll app fs xs = []"
  shows "RetrySec sec (none_left (listFiltered list app fs) c) w = Some (Ret None, w)"
  by (rule RetrySec_now) (simp add: none_left_None listFiltered_run assms)

lemma disk_keep:
  "VdFilter_keep rx (noVdFilter\<lparr>vdf_NameSpace := Str ''e2e'', vdf_Name := Str ''!%-system%''\<rparr>)
     (newVD ''e2e'' n [] 1 None) \<longleftrightarrow> \<not> sublist ''-system'' n"
  by (simp add: VdFilter_keep_def noVdFilter_def CheckStr_parse parse_cond.simps newVD_def)

lemma newVD_name: "obj_Name (newVD ns n sc sz img) = n"
  by (simp add: newVD_def)

lemma disk_bench_env:
  "TestNS (tb_env disk_bench) = ''e2e''" "HypervisorKubeConfig (tb_env disk_bench) \<noteq> []" "\<not> KeepState (tb_env disk_bench)"
  by (simp_all add: disk_bench_def initialEnv_def)

lemma disk_bench_hv:
  "DeleteVmbdAndWait (tb_hv disk_bench) fs w = Some (Ret None, w)"
  "DeleteVdAndWait (tb_hv disk_bench) [noVdFilter\<lparr>vdf_NameSpace := Str ''e2e'', vdf_Name := Str ''!%-system%''\<rparr>]
     (disks0 [''vm1-system'', ''vm1-data-1'']) = Some (Ret None, disks0 [''vm1-system''])"
  "DeleteVdAndWait (tb_hv disk_bench) [noVdFilter\<lparr>vdf_NameSpace := Str ''e2e'', vdf_Name := Str ''!%-system%''\<rparr>]
     (disks0 [''vm1-system'']) = Some (Ret None, disks0 [''vm1-system''])"
  by (simp_all add: DeleteVmbdAndWait_def DeleteVMBD_def ListVMBD_def DeleteVdAndWait_def DeleteVD_def ListVD_def
      disk_bench_def store_client_def disks0_def bindIO_run listFiltered_run run_simps vd_filter.applyAll_eq
      vmbd_filter.applyAll_eq disk_keep sublist_code listed_none_now newVD_name del: applyAll.simps)

lemma disk_bench_run:
  "removeTestDisks disk_bench (disks0 [''vm1-system'', ''vm1-data-1'']) = Some (Ret (), disks0 [''vm1-system''])"
  "removeTestDisks disk_bench (disks0 [''vm1-system'']) = Some (Ret (), disks0 [''vm1-system''])"
proof -
  have none: "ListLVG (tb_cluster disk_bench) fs w = Some (Ret (Inr []), w)"
    "DeleteLvgAndWait (tb_cluster disk_bench) fs w = Some (Ret None, w)"
    "DeleteBdAndWait (tb_cluster disk_bench) gs w = Some (Ret None, w)" for fs gs w
    by (simp_all add: ListLVG_def DeleteLvgAndWait_def DeleteLVG_def DeleteBdAndWait_def DeleteBd_def ListBD_def
        disk_bench_def bindIO_run listFiltered_run run_simps lvg_filter.applyAll_eq bd_filter.applyAll_eq
        listed_none_now del: applyAll.simps)
  show "removeTestDisks disk_bench (disks0 [''vm1-system'', ''vm1-data-1'']) = Some (Ret (), disks0 [''vm1-system''])"
    "removeTestDisks disk_bench (disks0 [''vm1-system'']) = Some (Ret (), disks0 [''vm1-system''])"
    by (simp_all add: removeTestDisks_def removeHvDisks_def ignoreIO_def disk_bench_env none disk_bench_hv Let_def bindIO_run
        run_simps)
qed

lemma removeTestDisks_spares_witness:
  "newVD ''e2e'' ''vm1-system'' [] 1 None \<in> set (dw_disks (disks0 [''vm1-system'']))"
  by (rule removeTestDisks_spares [OF disk_bench_run(1), where P = "\<lambda>w. newVD ''e2e'' ''vm1-system'' [] 1 None \<in> set (dw_disks w)"])
    (auto simp: disk_bench_def disks0_def store_client_def newVD_def sublist_code dest!: sym [of "''vm1-system''"])

text \<open>
  What \<^verbatim>\<open>getOrCreateConsumableBlockDevices\<close> gives without an error: either its first listing has enough
  consumable devices of the node and of the size, and they are the result; or there is a hypervisor, the missing
  disks were created and attached without an error, a later listing had enough of them, and the result is
  what one more listing gave. That last listing is not looked at: it may hold fewer.
\<close>

theorem getOrCreate_enough:
  assumes "getOrCreateConsumableBlockDevices b nName sz cnt w = Some (Ret (Inr bds), w')" and "0 < cnt"
  defines "fitting \<equiv> filter (BdFilter_keep (regexp_match (tb_cluster b)) (consumable nName sz))"
  shows "(\<exists>xs. cl_list (BDs (tb_cluster b)) [] w = (Inr xs, w') \<and> bds = fitting xs \<and> cnt \<le> int (length bds)) \<or>
    (HypervisorKubeConfig (tb_env b) \<noteq> [] \<and>
     (\<exists>r w1 w2 v xs w3 ys. cl_list (BDs (tb_cluster b)) [] w = (r, w1) \<and> int (length (fitting (orEmpty r))) < cnt \<and>
       createDisks b nName sz (nat (cnt - int (length (fitting (orEmpty r))))) w1 = Some (Ret None, w2) \<and>
       cl_list (BDs (tb_cluster b)) [] v = (Inr xs, w3) \<and> cnt \<le> int (length (fitting xs)) \<and>
       cl_list (BDs (tb_cluster b)) [] w3 = (Inr ys, w') \<and> bds = fitting ys))"
proof -
  let ?list = "cl_list (BDs (tb_cluster b)) []"
  have list: "ListBD (tb_cluster b) [consumable nName sz] v =
      Some (Ret (map_sum id fitting (fst (?list v))), snd (?list v))" for v
    by (auto simp: ListBD_def listFiltered_run fitting_def bd_filter.app_eq split: sum.split)
  have orEmpty: "orEmpty (map_sum id fitting r) = fitting (orEmpty r)" for r
    by (cases r) (simp_all add: orEmpty_def fitting_def)
  obtain r w1 where r: "?list w = (r, w1)" by fastforce
  have eq: "getOrCreateConsumableBlockDevices b nName sz cnt w =
      (if cnt \<le> int (length (fitting (orEmpty r))) then Some (Ret (Inr (fitting (orEmpty r))), w1)
       else if HypervisorKubeConfig (tb_env b) = [] then Some (Ret (Inl (notEnough nName (length (fitting (orEmpty r))) cnt)), w1)
       else bindIO (createDisks b nName sz (nat (cnt - int (length (fitting (orEmpty r)))))) (\<lambda>e. case e of
          Some err \<Rightarrow> retIO (Inl err)
        | None \<Rightarrow> bindIO (RetrySec 30 (enoughBds b nName sz cnt)) (\<lambda>e. case e of
              Some err \<Rightarrow> retIO (Inl err)
            | None \<Rightarrow> ListBD (tb_cluster b) [consumable nName sz])) w1)"
    unfolding getOrCreateConsumableBlockDevices_def bindIO_run(1) [OF list] by (simp add: r orEmpty Let_def run_simps)
  show ?thesis
  proof (cases "cnt \<le> int (length (fitting (orEmpty r)))")
    case True
    with assms(2) obtain xs where "r = Inr xs" by (cases r) (auto simp: orEmpty_def fitting_def)
    with True show ?thesis using assms(1) r by (simp add: eq orEmpty_def)
  next
    case False
    with assms(1) have hv: "HypervisorKubeConfig (tb_env b) \<noteq> []" by (auto simp: eq split: if_split_asm)
    from assms(1) False hv obtain w2 w3
      where disks: "createDisks b nName sz (nat (cnt - int (length (fitting (orEmpty r))))) w1 = Some (Ret None, w2)"
      and wait: "RetrySec 30 (enoughBds b nName sz cnt) w2 = Some (Ret None, w3)"
      and last: "ListBD (tb_cluster b) [consumable nName sz] w3 = Some (Ret (Inr bds), w')"
      by (auto simp: eq bindIO_Ret_iff run_simps split: option.split_asm)
    obtain v where "enoughBds b nName sz cnt v = Some (Ret None, w3)"
      using retry.last_attempt [OF wait] by blast
    then have v: "cnt \<le> int (length (fitting (orEmpty (fst (?list v)))))" "snd (?list v) = w3"
      by (auto simp: enoughBds_def bindIO_run(1) [OF list] orEmpty run_simps split: if_split_asm)
    with assms(2) obtain xs where "?list v = (Inr xs, w3)" "cnt \<le> int (length (fitting xs))"
      by (cases "?list v"; cases "fst (?list v)") (auto simp: orEmpty_def fitting_def)
    moreover obtain ys where "?list w3 = (Inr ys, w')" "bds = fitting ys"
      using last by (cases "?list w3"; cases "fst (?list w3)") (auto simp: list)
    ultimately show ?thesis using hv r False disks unfolding not_le by blast
  qed
qed

definition bd_w1 :: BlockDevice where
  "bd_w1 = \<lparr>metadata = newMeta ''dev-a1b'' [], bd_NodeName = ''w1'', bd_Consumable = True, bd_Size = 8 * 2 ^ 30,
     bd_Path = ''/dev/sdb''\<rparr>"

definition bd_bench :: "disk_world Bench" where
  "bd_bench = disk_bench\<lparr>tb_cluster := frozen_cluster\<lparr>BDs := frozen_client [bd_w1]\<rparr>\<rparr>"

lemma bd_w1_fits: "BdFilter_keep rx (consumable ''w1'' 8) bd_w1"
proof -
  have "round32 (of_int 8) = 8" by code_simp
  then show ?thesis
    by (simp add: BdFilter_keep_def consumable_def noBdFilter_def bd_w1_def CheckStr_parse parse_cond.simps
        window_iff [of 8, simplified])
qed

lemma getOrCreate_enough_witness:
  "getOrCreateConsumableBlockDevices bd_bench ''w1'' 8 1 (disks0 []) = Some (Ret (Inr [bd_w1]), disks0 []) \<and>
   (\<exists>xs. cl_list (BDs (tb_cluster bd_bench)) [] (disks0 []) = (Inr xs, disks0 []) \<and> [bd_w1] = filter
      (BdFilter_keep (regexp_match (tb_cluster bd_bench)) (consumable ''w1'' 8)) xs \<and> (1::int) \<le> int (length [bd_w1]))"
proof -
  have list: "cl_list (BDs (tb_cluster bd_bench)) [] w = (Inr [bd_w1], w)" for w
    by (simp add: bd_bench_def frozen_client_def)
  have run: "getOrCreateConsumableBlockDevices bd_bench ''w1'' 8 1 (disks0 []) = Some (Ret (Inr [bd_w1]), disks0 [])"
    by (simp add: getOrCreateConsumableBlockDevices_def ListBD_def list bindIO_run listFiltered_run bd_filter.app_eq bd_w1_fits orEmpty_def run_simps)
  from getOrCreate_enough [OF run] show ?thesis
    by (auto simp: run list bd_w1_fits orEmpty_def)
qed

end
