(* ===== verification/TestCases.thy ===== *)
theory TestCases
  imports TestTools
begin

text \<open>
  The test cases of \<^verbatim>\<open>testkit_v2/tests\<close> 00, 01, 03 and 99: the health check of the nodes, the volume groups made
  from block devices, the claim of a local volume and the removal of the test namespace. The formatting of the
  messages of a failed test is left out.
\<close>

section \<open>Captured variables, clean-ups and groups of subtests\<close>

text \<open>
  A closure that \<^verbatim>\<open>RetrySec\<close> calls may assign a variable of the function around it. While such a loop runs the
  variable is part of the world.
\<close>

definition with_var :: "'c \<Rightarrow> 'x world_scheme \<Rightarrow> ('c \<times> 'x) world_scheme" where
  "with_var c w = \<lparr>now = now w, lastLog = lastLog w, \<dots> = (c, world.more w)\<rparr>"

definition drop_var :: "('c \<times> 'x) world_scheme \<Rightarrow> 'x world_scheme" where
  "drop_var v = \<lparr>now = now v, lastLog = lastLog v, \<dots> = snd (world.more v)\<rparr>"

definition var :: "('c \<times> 'x) world_scheme \<Rightarrow> 'c" where
  "var v = fst (world.more v)"

lemma var_simps [simp]: "drop_var (with_var c w) = w" "var (with_var c w) = c" "with_var (var v) (drop_var v) = v"
  by (simp_all add: with_var_def drop_var_def var_def)

definition inner :: "('x world_scheme, 'a) io \<Rightarrow> (('c \<times> 'x) world_scheme, 'a) io" where
  "inner m = (\<lambda>v. map_option (map_prod id (with_var (var v))) (m (drop_var v)))"

definition assign :: "'c \<Rightarrow> (('c \<times> 'x) world_scheme, unit) io" where
  "assign c = (\<lambda>v. Some (Ret (), with_var c (drop_var v)))"

definition local_var :: "'c \<Rightarrow> (('c \<times> 'x) world_scheme, 'a) io \<Rightarrow> ('x world_scheme, 'a \<times> 'c) io" where
  "local_var c m = (\<lambda>w. case m (with_var c w) of
       None \<Rightarrow> None
     | Some (Ret x, v) \<Rightarrow> Some (Ret (x, var v), drop_var v)
     | Some (Panic s, v) \<Rightarrow> Some (Panic s, drop_var v)
     | Some (Exit s, v) \<Rightarrow> Some (Exit s, drop_var v))"

lemma local_var_Ret_iff:
  "local_var c m w = Some (Ret (x, d), w') \<longleftrightarrow> m (with_var c w) = Some (Ret x, with_var d w')"
  by (auto simp: local_var_def split: option.split outcome.split)

lemma inner_Ret_iff: "inner m v = Some (Ret x, v') \<longleftrightarrow> (\<exists>w. m (drop_var v) = Some (Ret x, w) \<and> v' = with_var (var v) w)"
  by (auto simp: inner_def)

text \<open>\<^verbatim>\<open>t.Cleanup\<close>: the function runs when the test has ended, also when it panicked.\<close>

definition withCleanup :: "('w, unit) io \<Rightarrow> ('w, 'a) io \<Rightarrow> ('w, 'a) io" where
  "withCleanup c m = (\<lambda>w. case m w of
       Some (Ret x, w') \<Rightarrow> bindIO c (\<lambda>_. retIO x) w'
     | Some (Panic s, w') \<Rightarrow> bindIO c (\<lambda>_. panicIO s) w'
     | r \<Rightarrow> r)"

definition thenGroup :: "'w group \<Rightarrow> 'w group \<Rightarrow> 'w group" where
  "thenGroup m k t = bindIO (m t) (\<lambda>(e, t', ps). case e of
       Goexit \<Rightarrow> retIO (Goexit, t', ps)
     | Finished \<Rightarrow> bindIO (k t') (\<lambda>(e', t'', qs). retIO (e', t'', ps @ qs)))"

definition onNodes :: "'w Bench \<Rightarrow> any \<Rightarrow> (TestNode \<Rightarrow> 'w test) \<Rightarrow> 'w group" where
  "onNodes b label f = RunTestGroupNodes (tb_cluster b) (map_of (NodeRequired (tb_env b))) (tb_order b)
     (TreeMode (tb_env b)) (Parallel (tb_env b)) (SkipOptional (tb_env b)) label f []"


section \<open>00: the nodes\<close>

fun healthLoop :: "(string \<times> Node list) list \<Rightarrow> testT \<Rightarrow> testT" where
  "healthLoop [] t = t"
| "healthLoop ((label, nodes) # groups) t = healthLoop groups (if length nodes = 0 then t_Errorf t else t)"

definition TestNodeHealthCheck :: "'w Bench \<Rightarrow> 'w test" where
  "TestNodeHealthCheck b t =
     bindIO (MapLabelNodes (tb_cluster b) (map_of (NodeRequired (tb_env b))) Nil []) (\<lambda>m.
       retIO (Finished, healthLoop (entries (tb_order b) m) t))"


section \<open>01: volume groups\<close>

definition testPrefix :: string where "testPrefix = ''e2e-01-''"

definition prefixed :: LvgFilter where
  "prefixed = noLvgFilter\<lparr>lvgf_Name := AWhere (WhereLike [testPrefix])\<rparr>"

definition nodeLvgs :: "TestNode \<Rightarrow> LvgFilter" where
  "nodeLvgs node = prefixed\<lparr>lvgf_Node := AWhere (WhereIn [tn_Name node])\<rparr>"

definition nodeBds :: "TestNode \<Rightarrow> BdFilter" where
  "nodeBds node = noBdFilter\<lparr>bdf_Node := Str (tn_Name node), bdf_Consumable := Bool True\<rparr>"

definition cleanup01 :: "'x world_scheme Bench \<Rightarrow> ('x world_scheme, unit) io" where
  "cleanup01 b = (if \<not> KeepState (tb_env b) then removeTestDisks b else retIO ())"

definition waitAttached :: "'x world_scheme Bench \<Rightarrow> TestNode \<Rightarrow> ('x world_scheme, unit) io" where
  "waitAttached b node = ignoreIO (WaitVmbdAttached (tb_hv b)
     [noVmBdFilter\<lparr>vmbdf_NameSpace := Str (TestNS (tb_env b)), vmbdf_VmName := Str (tn_Name node)\<rparr>])"

text \<open>The disks from number \<open>i\<close> on, \<open>n\<close> of them.\<close>

fun attachDisks :: "'w Bench \<Rightarrow> TestNode \<Rightarrow> nat \<Rightarrow> nat \<Rightarrow> ('w, go_error option) io" where
  "attachDisks b node i 0 = retIO None"
| "attachDisks b node i (Suc n) =
     bindIO (CreateVMBD (tb_hv b) (TestNS (tb_env b)) (tn_Name node) (tn_Name node @ ''-data-'' @ fmt_d (int i))
       (HvStorageClass (tb_env b)) 6) (\<lambda>r. case r of
         Some err \<Rightarrow> retIO (Some err)
       | None \<Rightarrow> attachDisks b node (Suc i) n)"

definition collectBds :: "'x world_scheme Bench \<Rightarrow> TestNode \<Rightarrow> nat \<Rightarrow>
    ((BlockDevice list \<times> 'x) world_scheme, go_error option) io"
where
  "collectBds b node bdCount =
     bindIO (inner (ListBD (tb_cluster b) [nodeBds node])) (\<lambda>r.
     bindIO (assign (orEmpty r)) (\<lambda>_.
       if length (orEmpty r) < bdCount
       then retIO (Some (PlainError (tn_Name node @ '': not enough Device to create LVG ('' @
         fmt_d (int (length (orEmpty r))) @ '' < '' @ fmt_d (int bdCount) @ '')'')))
       else retIO None))"

definition groupName :: "TestNode \<Rightarrow> BlockDevice \<Rightarrow> ('w, string) io" where
  "groupName node bd =
     bindIO (lastBytes 1 (tn_Name node)) (\<lambda>x. bindIO (lastBytes 3 (obj_Name bd)) (\<lambda>y.
       retIO (testPrefix @ x @ ''-'' @ y)))"

fun createGroups :: "'w Bench \<Rightarrow> TestNode \<Rightarrow> BlockDevice list \<Rightarrow> 'w test" where
  "createGroups b node [] = t_ok"
| "createGroups b node (bd # bds) = t_do (groupName node bd) (\<lambda>name.
     andThen (fatalOn (CreateLVG (tb_cluster b) name (tn_Name node) [obj_Name bd])) (createGroups b node bds))"

definition directLVGCreate :: "'x world_scheme Bench \<Rightarrow> TestNode \<Rightarrow> 'x world_scheme test" where
  "directLVGCreate b node =
     (let bdCount = tn_Id node mod 3 + 1 in
      t_do (ListLVG (tb_cluster b) [nodeLvgs node]) (\<lambda>lvgs.
      if length (orEmpty lvgs) > 0 then T_Skipf (SkipOptional (tb_env b))
      else andThen
        (if HypervisorKubeConfig (tb_env b) \<noteq> []
         then andThen (fatalOn (attachDisks b node 1 bdCount)) (t_do (waitAttached b node) (\<lambda>_. t_ok))
         else t_ok)
        (t_do (local_var [] (RetrySec 5 (collectBds b node bdCount))) (\<lambda>(r, bds). case r of
            Some err \<Rightarrow> t_Fatal
          | None \<Rightarrow> createGroups b node (take bdCount bds)))))"

fun findExtra :: "LVMVolumeGroup \<Rightarrow> BlockDevice list \<Rightarrow> ('w, BlockDevice option) io" where
  "findExtra lvg [] = retIO None"
| "findExtra lvg (bd # bds) = (case lvg_Nodes lvg of
       [] \<Rightarrow> panicIO ''index out of range''
     | n # _ \<Rightarrow> if lvgn_Name n = bd_NodeName bd then retIO (Some bd) else findExtra lvg bds)"

text \<open>\<^verbatim>\<open>MatchExpressions[0]\<close> with one more value.\<close>

definition withDevice :: "LVMVolumeGroup \<Rightarrow> string \<Rightarrow> ('w, LVMVolumeGroup) io" where
  "withDevice lvg name = (case lvg_Selector lvg of
       None \<Rightarrow> panicIO ''nil pointer dereference''
     | Some [] \<Rightarrow> panicIO ''index out of range''
     | Some (e # es) \<Rightarrow> retIO (lvg\<lparr>lvg_Selector := Some (e\<lparr>lsr_Values := lsr_Values e @ [name]\<rparr> # es)\<rparr>))"

definition grown :: "'w Bench \<Rightarrow> string \<Rightarrow> int \<Rightarrow> ('w, go_error option) io" where
  "grown b name origSize = bindIO (GetLvg (tb_cluster b) name) (\<lambda>r. case r of
       Inl _ \<Rightarrow> panicIO ''nil pointer dereference''
     | Inr lvg \<Rightarrow> if lvg_VGSize lvg > origSize then retIO None
         else retIO (Some (PlainError (''LVG '' @ obj_Name lvg @ '' no resize''))))"

definition directLVGResize :: "'x world_scheme Bench \<Rightarrow> TestNode \<Rightarrow> 'x world_scheme test" where
  "directLVGResize b node =
     andThen
       (if HypervisorKubeConfig (tb_env b) \<noteq> []
        then t_do (ignoreIO (CreateVMBD (tb_hv b) (TestNS (tb_env b)) (tn_Name node)
            (tn_Name node @ ''-data-'' @ fmt_d 21) (HvStorageClass (tb_env b)) 8)) (\<lambda>_.
          t_do (waitAttached b node) (\<lambda>_. t_ok))
        else t_ok)
       (t_do (ListLVG (tb_cluster b) [nodeLvgs node]) (\<lambda>r.
        let lvgs = orEmpty r in
        if length lvgs = 0 \<or> length (lvg_Nodes (hd lvgs)) = 0 then t_Fatal
        else t_do (ListBD (tb_cluster b) [nodeBds node]) (\<lambda>bds.
          t_do (findExtra (last lvgs) (orEmpty bds)) (\<lambda>bdExtra. case bdExtra of
            None \<Rightarrow> T_Skipf (SkipOptional (tb_env b))
          | Some bd \<Rightarrow> t_do (withDevice (last lvgs) (obj_Name bd)) (\<lambda>lvg.
              andThen (fatalOn (UpdateLVG (tb_cluster b) lvg))
                (fatalOn (RetrySec 30 (grown b (obj_Name lvg) (lvg_VGSize (last lvgs))))))))))"

definition lvgsGone :: "'w Bench \<Rightarrow> ('w, go_error option) io" where
  "lvgsGone b = none_left (ListLVG (tb_cluster b) [prefixed]) (\<lambda>lvgs.
     PlainError (''LVGs not deleted: '' @ fmt_d (int (length lvgs))))"

definition directLVGDelete :: "'x world_scheme Bench \<Rightarrow> 'x world_scheme test" where
  "directLVGDelete b =
     andThen (fatalOn (DeleteLVG (tb_cluster b) [prefixed]))
     (andThen (fatalOn (RetrySec 10 (lvgsGone b)))
       (if HypervisorKubeConfig (tb_env b) \<noteq> []
        then andThen
          (errorOn (DeleteVmbdAndWait (tb_hv b) [noVmBdFilter\<lparr>vmbdf_NameSpace := Str (TestNS (tb_env b))\<rparr>]))
          (errorOn (DeleteVdAndWait (tb_hv b)
            [noVdFilter\<lparr>vdf_NameSpace := Str (TestNS (tb_env b)), vdf_Name := Str ''!%-system%''\<rparr>]))
        else t_ok))"

definition createTest :: "'x world_scheme Bench \<Rightarrow> 'x world_scheme group" where
  "createTest b = thenGroup (onNodes b Nil (directLVGCreate b))
     (plain (fatalOn (WaitLVGsReady (tb_cluster b) [prefixed])))"

definition resizeTest :: "'x world_scheme Bench \<Rightarrow> 'x world_scheme group" where
  "resizeTest b = onNodes b (AWhere (WhereNotLike [''Deb''])) (directLVGResize b)"

text \<open>The two schedules are those of the parallel subtests of the first two runs.\<close>

definition TestLvg :: "'x world_scheme Bench \<Rightarrow> nat list \<Rightarrow> nat list \<Rightarrow> 'x world_scheme group" where
  "TestLvg b sched1 sched2 t =
     bindIO (prepareClr b) (\<lambda>_. withCleanup (cleanup01 b)
       (thenGroup (t_Run sched1 False (createTest b))
       (thenGroup (t_Run sched2 False (resizeTest b))
         (t_Run [] False (plain (directLVGDelete b)))) t))"


section \<open>03: a claim\<close>

definition scName :: string where "scName = ''test-lvm-thick-immediate-retain''"

text \<open>The error of the wait is only logged.\<close>

definition testPVCCreate :: "'x world_scheme Bench \<Rightarrow> 'x world_scheme test" where
  "testPVCCreate b =
     t_do (ignoreIO (CreateLocalThickStorageClass (tb_cluster b) scName)) (\<lambda>_.
     getOrFatal (CreatePVCInTestNS (tb_cluster b) (TestNS (tb_env b)) ''test-pvc'' scName ''1Gi'') (\<lambda>pvc.
     t_do (WaitPVCStatus (tb_cluster b) (TestNS (tb_env b)) (obj_Name pvc)) (\<lambda>(status, err). t_ok)))"

text \<open>
  \<^verbatim>\<open>resource.MustParse\<close> panics for a text that is no quantity. The API server admits no claim without a request,
  so the map of the requests that is written to is not nil.
\<close>

fun resizeClaims :: "'w Bench \<Rightarrow> PersistentVolumeClaim list \<Rightarrow> 'w test" where
  "resizeClaims b [] = t_ok"
| "resizeClaims b (pvc # pvcs) = (case parse_quantity (tb_cluster b) ''2Gi'' of
       Inl _ \<Rightarrow> t_do (panicIO ''cannot parse'') (\<lambda>_ :: unit. t_ok)
     | Inr newSize \<Rightarrow> andThen
         (errorOn (UpdatePVC (tb_cluster b) (pvc\<lparr>pvc_Requests := (pvc_Requests pvc)(''storage'' \<mapsto> newSize)\<rparr>)))
         (resizeClaims b pvcs))"

definition testPVCResize :: "'w Bench \<Rightarrow> 'w test" where
  "testPVCResize b = t_do (ListPVC (tb_cluster b) (TestNS (tb_env b))) (\<lambda>r.
     andThen (case r of Inl _ \<Rightarrow> t_Error | Inr _ \<Rightarrow> t_ok) (resizeClaims b (orEmpty r)))"

definition testPVCDelete :: "'w Bench \<Rightarrow> 'w test" where
  "testPVCDelete b = errorOn (DeletePVC (tb_cluster b) (TestNS (tb_env b)) ''test-pvc'')"

definition TestPVC :: "'x world_scheme Bench \<Rightarrow> 'x world_scheme group" where
  "TestPVC b = thenGroup (t_Run [] False (plain (testPVCCreate b)))
     (thenGroup (t_Run [] False (plain (testPVCResize b))) (t_Run [] False (plain (testPVCDelete b))))"


section \<open>99: the namespace\<close>

definition TestFinalizer :: "'w Bench \<Rightarrow> 'w test" where
  "TestFinalizer b t = withCleanup
     (if TestNSCleanUp (tb_env b) = ''delete''
      then ignoreIO (DeleteNs (tb_cluster b) [noNsFilter\<lparr>nsf_Name := Str (TestNS (tb_env b))\<rparr>])
      else retIO ())
     (t_ok t)"


section \<open>The health check\<close>

lemma healthLoop_eq: "healthLoop groups t = t\<lparr>tFailed := tFailed t \<or> list_ex (\<lambda>(l, ns). ns = []) groups\<rparr>"
  by (induction groups arbitrary: t) (auto simp: t_Errorf_def)

lemma set_entries: "set (entries order m) = {(l, ns). l \<in> set order \<and> m l = Some ns}"
  by (induction order) (auto simp: entries_def List.map_filter_def)

text \<open>
  C35. The health check fails if and only if the nodes could be listed and some required label has no node among
  them (whatever the order in which the labels are visited). When the listing of the nodes fails, the test passes: \<^verbatim>\<open>MapLabelNodes\<close>
  answers with the empty map then, and the loop has nothing to complain of.
\<close>

theorem health_check_result:
  assumes "set (tb_order b) = fst ` set (NodeRequired (tb_env b))"
    and "cl_list (Nodes (tb_cluster b)) [] w = (r, w')"
  shows "TestNodeHealthCheck b t w = Some (Ret (Finished, t\<lparr>tFailed := tFailed t \<or>
    (\<exists>nodes label f. r = Inr nodes \<and> map_of (NodeRequired (tb_env b)) label = Some f \<and>
      NodeFilter_Apply (regexp_match (tb_cluster b)) f nodes = [])\<rparr>), w')"
proof -
  have order: "l \<in> set (tb_order b)" if "map_of (NodeRequired (tb_env b)) l = Some f" for l f
    using map_of_SomeD [OF that] by (force simp: assms(1))
  show ?thesis
  proof (cases r)
    case (Inl e)
    then show ?thesis
      using assms(2)
      by (simp add: TestNodeHealthCheck_def MapLabelNodes_def ListNode_def bindIO_run(1) [OF listFiltered_run] run_simps
          bindIO_def listFiltered_run healthLoop_eq entries_def List.map_filter_def)
  next
    case (Inr nodes)
    have ex: "(\<exists>a. (\<exists>y. m a = Some y) \<and> (\<forall>x. m a = Some x \<longrightarrow> Q x)) \<longleftrightarrow> (\<exists>l f. m l = Some f \<and> Q f)"
      for m :: "string \<rightharpoonup> NodeFilter" and Q by fastforce
    from Inr show ?thesis
      using assms(2)
      by (auto simp: TestNodeHealthCheck_def MapLabelNodes_def ListNode_def bindIO_def listFiltered_run run_simps
          healthLoop_eq list_ex_iff set_entries order ex split: option.splits)
  qed
qed

definition node_bench :: "disk_world Bench" where
  "node_bench = disk_bench\<lparr>tb_cluster := frozen_cluster\<lparr>Nodes := frozen_client [node_named ''w1'' []]\<rparr>,
     tb_env := (initialEnv 12 34)\<lparr>NodeRequired := [(''Any'', noNodeFilter), (''Astra'', noNodeFilter\<lparr>nf_Name := Str ''astra''\<rparr>)]\<rparr>,
     tb_order := [''Astra'', ''Any'']\<rparr>"

lemma health_check_result_witness:
  "TestNodeHealthCheck node_bench freshT (disks0 []) = Some (Ret (Finished, freshT\<lparr>tFailed := True\<rparr>), disks0 [])"
proof -
  have list: "cl_list (Nodes (tb_cluster node_bench)) [] w = (Inr [node_named ''w1'' []], w)" for w
    by (simp add: node_bench_def frozen_client_def)
  have none: "NodeFilter_Apply rx (noNodeFilter\<lparr>nf_Name := Str ''astra''\<rparr>) [node_named ''w1'' []] = []" for rx
    by (simp add: noNodeFilter_def node_named_def CheckStr_parse parse_cond.simps)
  have order: "set (tb_order node_bench) = fst ` set (NodeRequired (tb_env node_bench))"
    by (auto simp: node_bench_def)
  have "map_of (NodeRequired (tb_env node_bench)) ''Astra'' = Some (noNodeFilter\<lparr>nf_Name := Str ''astra''\<rparr>)"
    by (simp add: node_bench_def)
  with none have bad: "\<exists>nodes label f. (Inr [node_named ''w1'' []] :: go_error + Node list) = Inr nodes \<and>
      map_of (NodeRequired (tb_env node_bench)) label = Some f \<and>
      NodeFilter_Apply (regexp_match (tb_cluster node_bench)) f nodes = []"
    by blast
  show ?thesis
    by (subst health_check_result [OF order list]) (simp only: bad simp_thms)
qed


section \<open>Creating the groups of a node\<close>

definition nameFor :: "TestNode \<Rightarrow> BlockDevice \<Rightarrow> string" where
  "nameFor node bd = testPrefix @ [last (tn_Name node)] @ ''-'' @ drop (length (obj_Name bd) - 3) (obj_Name bd)"

lemma groupName_Ret:
  "groupName node bd w = Some (Ret name, w') \<longleftrightarrow>
     tn_Name node \<noteq> [] \<and> 3 \<le> length (obj_Name bd) \<and> name = nameFor node bd \<and> w' = w"
proof (cases "tn_Name node" rule: rev_cases)
  case (snoc xs x)
  then show ?thesis by (auto simp: groupName_def lastBytes_def nameFor_def run_simps not_less)
qed (simp add: groupName_def lastBytes_def run_simps)

lemma createGroups_Finished:
  assumes "createGroups b node bds t w = Some (Ret (Finished, t'), w')"
  shows "t' = t \<and> list_all (\<lambda>bd. 3 \<le> length (obj_Name bd)) bds \<and>
    forErr (\<lambda>bd. CreateLVG (tb_cluster b) (nameFor node bd) (tn_Name node) [obj_Name bd]) bds w = Some (Ret None, w')"
  using assms
proof (induction bds arbitrary: w)
  case (Cons bd bds)
  from Cons.prems obtain w1 where name: "3 \<le> length (obj_Name bd)"
    and lvg: "CreateLVG (tb_cluster b) (nameFor node bd) (tn_Name node) [obj_Name bd] w = Some (Ret None, w1)"
    and rest: "createGroups b node bds t w1 = Some (Ret (Finished, t'), w')"
    by (auto elim!: FinishedE simp: groupName_Ret fatalOn_Finished)
  from Cons.IH [OF rest] name show ?case by (simp add: bindIO_run lvg)
qed (simp add: t_ok_def run_simps)

text \<open>
  C33. What the creation test of a node does when it ends without a failure: there was no group of the test on
  the node, the node's consumable devices were listed until there were at least as many as wanted (one to three, by the
  number of the node), and exactly the first of them, in the order of that last listing, were made a
  group each, named after the last letter of the node and the last three of the device, without an
  error.
\<close>

theorem directLVGCreate_result:
  assumes "directLVGCreate b node t w = Some (Ret (Finished, t'), w')"
  defines "bdCount \<equiv> tn_Id node mod 3 + 1"
    and "fitting \<equiv> filter (BdFilter_keep (regexp_match (tb_cluster b)) (nodeBds node))"
  shows "t' = t \<and>
    (\<exists>lvgs w1. ListLVG (tb_cluster b) [nodeLvgs node] w = Some (Ret lvgs, w1) \<and> orEmpty lvgs = []) \<and>
    (\<exists>v xs w2. cl_list (BDs (tb_cluster b)) [] v = (Inr xs, w2) \<and> bdCount \<le> length (fitting xs) \<and>
      list_all (\<lambda>bd. 3 \<le> length (obj_Name bd)) (take bdCount (fitting xs)) \<and>
      forErr (\<lambda>bd. CreateLVG (tb_cluster b) (nameFor node bd) (tn_Name node) [obj_Name bd]) (take bdCount (fitting xs)) w2 =
        Some (Ret None, w'))"
proof -
  let ?list = "cl_list (BDs (tb_cluster b)) []"
  have list: "ListBD (tb_cluster b) [nodeBds node] v =
      Some (Ret (map_sum id fitting (fst (?list v))), snd (?list v))" for v
    by (auto simp: ListBD_def listFiltered_run fitting_def bd_filter.app_eq split: sum.split)
  let ?disks = "if HypervisorKubeConfig (tb_env b) \<noteq> []
    then andThen (fatalOn (attachDisks b node 1 bdCount)) (t_do (waitAttached b node) (\<lambda>_. t_ok)) else t_ok"
  let ?create = "t_do (local_var [] (RetrySec 5 (collectBds b node bdCount))) (\<lambda>(r, bds). case r of
    Some err \<Rightarrow> t_Fatal | None \<Rightarrow> createGroups b node (take bdCount bds))"
  from assms(1) have "t_do (ListLVG (tb_cluster b) [nodeLvgs node]) (\<lambda>lvgs.
      if length (orEmpty lvgs) > 0 then T_Skipf (SkipOptional (tb_env b)) else andThen ?disks ?create) t w =
    Some (Ret (Finished, t'), w')"
    by (simp only: directLVGCreate_def Let_def bdCount_def)
  then obtain lvgs w1 where l: "ListLVG (tb_cluster b) [nodeLvgs node] w = Some (Ret lvgs, w1)"
    and rest: "(if length (orEmpty lvgs) > 0 then T_Skipf (SkipOptional (tb_env b)) else andThen ?disks ?create) t w1 =
      Some (Ret (Finished, t'), w')"
    by (rule t_do_FinishedE)
  have lvgs: "orEmpty lvgs = []"
    using rest by (auto simp: T_Skipf_def test_defs run_simps split: if_split_asm)
  with rest have "andThen ?disks ?create t w1 = Some (Ret (Finished, t'), w')" by simp
  then obtain t1 w2 where disks: "?disks t w1 = Some (Ret (Finished, t1), w2)"
    and create: "?create t1 w2 = Some (Ret (Finished, t'), w')"
    by (rule andThen_FinishedE)
  have t1: "t1 = t"
    using disks by (auto elim!: FinishedE simp: fatalOn_Finished t_ok_def run_simps split: if_split_asm)
  from create obtain r w3 where wait: "local_var [] (RetrySec 5 (collectBds b node bdCount)) w2 = Some (Ret r, w3)"
    and "(case r of (r, bds) \<Rightarrow> case r of Some err \<Rightarrow> t_Fatal
      | None \<Rightarrow> createGroups b node (take bdCount bds)) t1 w3 = Some (Ret (Finished, t'), w')"
    by (rule t_do_FinishedE)
  then obtain bds where r: "r = (None, bds)"
    and create: "createGroups b node (take bdCount bds) t w3 = Some (Ret (Finished, t'), w')"
    by (auto simp: t1 t_Fatal_def run_simps split: prod.split_asm option.split_asm)
  from wait have "RetrySec 5 (collectBds b node bdCount) (with_var [] w2) = Some (Ret None, with_var bds w3)"
    by (simp add: local_var_Ret_iff r)
  then obtain v where "collectBds b node bdCount v = Some (Ret None, with_var bds w3)"
    using retry.last_attempt by blast
  then obtain v1 where "with_var (orEmpty (map_sum id fitting (fst (?list v1)))) (snd (?list v1)) = with_var bds w3"
    "bdCount \<le> length (orEmpty (map_sum id fitting (fst (?list v1))))"
    by (auto simp: collectBds_def bindIO_Ret_iff inner_Ret_iff list assign_def run_simps split: if_split_asm)
  then have v1: "orEmpty (map_sum id fitting (fst (?list v1))) = bds" "snd (?list v1) = w3" "bdCount \<le> length bds"
    by (metis var_simps(1,2))+
  then obtain xs where xs: "?list v1 = (Inr xs, w3)" "bds = fitting xs"
    by (cases "?list v1"; cases "fst (?list v1)") (auto simp: orEmpty_def bdCount_def)
  with createGroups_Finished [OF create] l lvgs v1(3) show ?thesis by blast
qed

definition lvg_bench :: "disk_world Bench" where
  "lvg_bench = bd_bench\<lparr>tb_env := initialEnv 12 34\<rparr>"

lemma directLVGCreate_run:
  "directLVGCreate lvg_bench (node_test 0 ''w1'') freshT (disks0 []) = Some (Ret (Finished, freshT), disks0 [])"
proof -
  note bench = lvg_bench_def bd_bench_def disk_bench_def frozen_cluster_def frozen_client_def initialEnv_def
  have bds: "cl_list (BDs (tb_cluster lvg_bench)) [] w = (Inr [bd_w1], w)" for w by (simp add: bench)
  have lvgs: "cl_list (LVGs (tb_cluster lvg_bench)) [] w = (Inr [], w)" for w by (simp add: bench)
  have create: "cl_create (LVGs (tb_cluster lvg_bench)) g w = (Inr g, w)" for g w by (simp add: bench)
  have hv: "HypervisorKubeConfig (tb_env lvg_bench) = []" by (simp add: bench)
  have fits: "BdFilter_keep rx (nodeBds (node_test 0 ''w1'')) bd_w1" for rx
    by (simp add: BdFilter_keep_def BdFilter_size_ok_def nodeBds_def noBdFilter_def bd_w1_def node_test_def CheckStr_parse
        parse_cond.simps)
  have "collectBds lvg_bench (node_test 0 ''w1'') 1 v = Some (Ret None, with_var [bd_w1] (drop_var v))" for v
    by (simp add: collectBds_def inner_def ListBD_def bds listFiltered_run bd_filter.app_eq fits orEmpty_def assign_def
        bindIO_def run_simps)
  then have "RetrySec 5 (collectBds lvg_bench (node_test 0 ''w1'') 1) (with_var [] (disks0 [])) =
      Some (Ret None, with_var [bd_w1] (disks0 []))"
    by (intro RetrySec_now) simp
  then have wait: "local_var [] (RetrySec 5 (collectBds lvg_bench (node_test 0 ''w1'') 1)) (disks0 []) =
      Some (Ret (None, [bd_w1]), disks0 [])"
    by (simp add: local_var_Ret_iff)
  have name: "groupName (node_test 0 ''w1'') bd_w1 w = Some (Ret ''e2e-01-1-a1b'', w)" for w :: disk_world
    by (simp add: groupName_def lastBytes_def node_test_def bd_w1_def testPrefix_def newMeta_def run_simps)
  have "CreateLVG (tb_cluster lvg_bench) n nd ds w = Some (Ret None, w)" for n nd ds w
    by (simp add: CreateLVG_def bindIO_call create run_simps)
  then have "createGroups lvg_bench (node_test 0 ''w1'') [bd_w1] freshT (disks0 []) = Some (Ret (Finished, freshT), disks0 [])"
    by (simp add: test_defs bindIO_run name run_simps)
  moreover have "tn_Id (node_test 0 ''w1'') mod 3 + 1 = 1" by (simp add: node_test_def)
  ultimately show ?thesis
    by (simp add: directLVGCreate_def Let_def hv test_defs ListLVG_def bindIO_run listFiltered_run lvgs orEmpty_def
        wait [unfolded One_nat_def] lvg_filter.applyAll_eq run_simps del: createGroups.simps)
qed

lemma directLVGCreate_result_witness:
  "\<exists>v xs w2. cl_list (BDs (tb_cluster lvg_bench)) [] v = (Inr xs, w2) \<and>
    1 \<le> length (filter (BdFilter_keep (regexp_match (tb_cluster lvg_bench)) (nodeBds (node_test 0 ''w1''))) xs)"
proof -
  have id: "tn_Id (node_test 0 ''w1'') mod 3 + 1 = 1" by (simp add: node_test_def)
  show ?thesis using directLVGCreate_result [OF directLVGCreate_run] unfolding id by blast
qed


section \<open>Creating the groups of all nodes\<close>

definition labelTest :: "bool \<Rightarrow> (TestNode \<Rightarrow> 'w test) \<Rightarrow> string \<times> Node list \<Rightarrow> 'w subtest" where
  "labelTest so f = (\<lambda>(l, ns). Subtest (bindIO (treeLabel so True f l ns freshT) (\<lambda>(_, c, ps). retIO (c, ps))))"

lemma treeLabels_parallel:
  "treeLabels so True f groups t w = Some (Ret (Finished, t, map (labelTest so f) groups), w)"
  by (induction groups arbitrary: t) (auto simp: t_Run_def labelTest_def bindIO_run run_simps)

text \<open>
  C34. In the default mode the creation test of the volume groups waits for its groups before it has made any: the tests
  of the nodes are paused until its function has ended, so \<^verbatim>\<open>WaitLVGsReady\<close> sees the groups as they were after
  the listing of the nodes. When none of them is of this test, as after the clean-up, the wait succeeds at
  once, having looked at nothing; only then are the groups made, and nobody waits for them.
\<close>

theorem create_waits_first:
  assumes "TreeMode (tb_env b)" and "Parallel (tb_env b)"
    and "MapLabelNodes (tb_cluster b) (map_of (NodeRequired (tb_env b))) Nil [] w = Some (Ret m, w')"
    and "cl_list (LVGs (tb_cluster b)) [] w' = (Inr xs, w')" and "\<forall>g \<in> set xs. \<not> sublist testPrefix (obj_Name g)"
  shows "createTest b t w =
    Some (Ret (Finished, t, map (labelTest (SkipOptional (tb_env b)) (directLVGCreate b)) (entries (tb_order b) m)), w')"
proof -
  have none: "applyAll (LvgFilter_Apply (regexp_match (tb_cluster b))) fs xs = []" if "prefixed \<in> set fs" for fs
  proof -
    have "\<not> LvgFilter_keep rx prefixed g" if "g \<in> set xs" for g rx
      using assms(5) that by (auto simp: LvgFilter_keep_def prefixed_def noLvgFilter_def)
    with that show ?thesis by (auto simp: lvg_filter.applyAll_eq list_all_iff filter_empty_conv)
  qed
  have list: "ListLVG (tb_cluster b) fs w' = Some (Ret (Inr []), w')" if "prefixed \<in> set fs" for fs
    by (simp add: ListLVG_def listFiltered_run assms(4) none [OF that])
  have wait: "WaitLVGsReady (tb_cluster b) [prefixed] w' = Some (Ret None, w')"
  proof -
    have "RetrySec sec (none_left (ListLVG (tb_cluster b) ([prefixed] @ fs)) c) w' = Some (Ret None, w')" for sec fs c
      by (rule RetrySec_now) (simp add: none_left_None list)
    then show ?thesis
      unfolding WaitLVGsReady_def Let_def by (simp add: bindIO_run list run_simps)
  qed
  have nodes: "onNodes b Nil (directLVGCreate b) t w =
      Some (Ret (Finished, t, map (labelTest (SkipOptional (tb_env b)) (directLVGCreate b)) (entries (tb_order b) m)), w')"
    by (simp add: onNodes_def RunTestGroupNodes_def RunTestTreeGroupNodes_def assms(1-3) bindIO_run treeLabels_parallel)
  show ?thesis
    by (simp add: createTest_def thenGroup_def nodes plain_def test_defs bindIO_run wait run_simps)
qed

definition wait_bench :: "disk_world Bench" where
  "wait_bench = node_bench\<lparr>tb_env := (initialEnv 12 34)\<lparr>NodeRequired := [(''Any'', noNodeFilter)], TreeMode := True,
     Parallel := True\<rparr>, tb_order := [''Any'']\<rparr>"

lemma wait_bench_map:
  "MapLabelNodes (tb_cluster wait_bench) (map_of (NodeRequired (tb_env wait_bench))) Nil [] w =
     Some (Ret [''Any'' \<mapsto> [node_named ''w1'' []]], w)"
proof -
  have "cl_list (Nodes (tb_cluster wait_bench)) [] w = (Inr [node_named ''w1'' []], w)"
    by (simp add: wait_bench_def node_bench_def frozen_client_def)
  then have "ListNode (tb_cluster wait_bench) [] w = Some (Ret (Inr [node_named ''w1'' []]), w)"
    by (simp add: ListNode_def listFiltered_run)
  moreover have "NodeRequired (tb_env wait_bench) = [(''Any'', noNodeFilter)]" by (simp add: wait_bench_def)
  ultimately show ?thesis
    by (auto simp: MapLabelNodes_def bindIO_run run_simps noNodeFilter_def)
qed

lemma create_waits_first_witness:
  "createTest wait_bench freshT (disks0 []) =
     Some (Ret (Finished, freshT, [labelTest False (directLVGCreate wait_bench) (''Any'', [node_named ''w1'' []])]), disks0 [])"
proof -
  have mode: "TreeMode (tb_env wait_bench)" "Parallel (tb_env wait_bench)" "SkipOptional (tb_env wait_bench) = False"
    "tb_order wait_bench = [''Any'']"
    by (simp_all add: wait_bench_def initialEnv_def)
  have lvgs: "cl_list (LVGs (tb_cluster wait_bench)) [] w = (Inr [], w)" for w
    by (simp add: wait_bench_def node_bench_def frozen_cluster_def frozen_client_def)
  show ?thesis
    by (subst create_waits_first [OF mode(1,2) wait_bench_map lvgs])
      (simp_all add: mode(3,4) entries_def List.map_filter_def)
qed

end
