(* ===== verification/Spares.thy ===== *)
theory Spares
  imports TestCases
begin

text \<open>
  What a whole test leaves alone: the rules of \<open>keeps\<close> for tests, for groups of subtests and for captured variables,
  and their use on \<^verbatim>\<open>TestLvg\<close>, from the clean-up before it to the one after it.
\<close>

section \<open>Tests and groups of subtests\<close>

text \<open>\<open>yields P Q m\<close>: the property \<open>P\<close> of the world survives \<open>m\<close>, and what it returns has the property \<open>Q\<close>.\<close>

definition yields :: "('w \<Rightarrow> bool) \<Rightarrow> ('a \<Rightarrow> bool) \<Rightarrow> ('w, 'a) io \<Rightarrow> bool" where
  "yields P Q m \<longleftrightarrow> (\<forall>w r w'. P w \<longrightarrow> m w = Some (r, w') \<longrightarrow> P w' \<and> (\<forall>x. r = Ret x \<longrightarrow> Q x))"

named_theorems yields_intros \<open>rules for what a run leaves alone and returns\<close>

lemma yields_keeps: "keeps P m \<longleftrightarrow> yields P (\<lambda>_. True) m"
  by (simp add: keeps_def yields_def)

lemma yields_ret [yields_intros]: "Q x \<Longrightarrow> yields P Q (retIO x)"
  by (simp add: yields_def run_simps)

lemma yields_bind:
  assumes "yields P R m" and "\<And>x. R x \<Longrightarrow> yields P Q (k x)"
  shows "yields P Q (bindIO m k)"
  unfolding yields_def
proof (intro allI impI)
  fix w r w'
  assume "P w" and "bindIO m k w = Some (r, w')"
  from this(2) show "P w' \<and> (\<forall>x. r = Ret x \<longrightarrow> Q x)"
  proof (cases "m w")
    case (Some a)
    obtain o1 w1 where a: "a = (o1, w1)" by (cases a)
    have "P w1" and R: "\<And>x. o1 = Ret x \<Longrightarrow> R x"
      using assms(1) \<open>P w\<close> Some by (auto simp: yields_def a)
    with \<open>bindIO m k w = Some (r, w')\<close> show ?thesis
    proof (cases o1)
      case (Ret x)
      with \<open>bindIO m k w = Some (r, w')\<close> Some a have "k x w1 = Some (r, w')" by (simp add: bindIO_run)
      with assms(2) [OF R [OF Ret]] \<open>P w1\<close> show ?thesis by (auto simp: yields_def)
    qed (use Some a in \<open>auto simp: bindIO_run\<close>)
  qed (simp add: bindIO_run)
qed

lemma yields_keep_bind [yields_intros]: "keeps P m \<Longrightarrow> (\<And>x. yields P Q (k x)) \<Longrightarrow> yields P Q (bindIO m k)"
  by (rule yields_bind [where R = "\<lambda>_. True"]) (simp_all add: yields_keeps)

text \<open>A paused subtest that leaves \<open>P\<close> alone, and so do those that it leaves paused.\<close>

inductive keepsSub :: "('w \<Rightarrow> bool) \<Rightarrow> 'w subtest \<Rightarrow> bool" for P where
  "(\<And>w r w'. P w \<Longrightarrow> m w = Some (r, w') \<Longrightarrow> P w') \<Longrightarrow>
   (\<And>w c ps w' s. P w \<Longrightarrow> m w = Some (Ret (c, ps), w') \<Longrightarrow> s \<in> set ps \<Longrightarrow> keepsSub P s) \<Longrightarrow>
   keepsSub P (Subtest m)"

definition keepsSubs :: "('w \<Rightarrow> bool) \<Rightarrow> 'w subtest list \<Rightarrow> bool" where
  "keepsSubs P ps \<longleftrightarrow> (\<forall>s \<in> set ps. keepsSub P s)"

lemma keepsSubs_simps [simp]:
  "keepsSubs P []" "keepsSubs P (s # ps) \<longleftrightarrow> keepsSub P s \<and> keepsSubs P ps"
  "keepsSubs P (ps @ qs) \<longleftrightarrow> keepsSubs P ps \<and> keepsSubs P qs"
  by (auto simp: keepsSubs_def)

lemma keepsSub_iff: "keepsSub P s \<longleftrightarrow> yields P (\<lambda>(c, ps). keepsSubs P ps) (resume s)"
proof (cases s)
  case (Subtest m)
  show ?thesis
    unfolding Subtest keepsSub.simps [of P "Subtest m"] subtest.sel subtest.inject yields_def keepsSubs_def by auto
qed

definition keepsGroup :: "('w \<Rightarrow> bool) \<Rightarrow> 'w group \<Rightarrow> bool" where
  "keepsGroup P g \<longleftrightarrow> (\<forall>t. yields P (\<lambda>(e, t', ps). keepsSubs P ps) (g t))"

lemma keepsGroup_intro: "(\<And>t. yields P (\<lambda>(e, t', ps). keepsSubs P ps) (g t)) \<Longrightarrow> keepsGroup P g"
  by (simp add: keepsGroup_def)

lemma keepsGroupD: "keepsGroup P g \<Longrightarrow> yields P (\<lambda>(e, t', ps). keepsSubs P ps) (g t)"
  by (simp add: keepsGroup_def)

lemma keepsGroup_keeps: "keepsGroup P g \<Longrightarrow> keeps P (g t)"
  by (auto simp: keepsGroup_def yields_def keeps_def)

lemma keeps_drain [keeps_intros]: "keepsSubs P pool \<Longrightarrow> keeps P (drain ks pool failed)"
proof (induction ks arbitrary: pool failed)
  case Nil
  then show ?case by (auto simp: keeps_def run_simps)
next
  case (Cons k ks)
  let ?i = "k mod length pool"
  show ?case
  proof (cases "pool = []")
    case False
    then have i: "?i < length pool" by simp
    with Cons.prems have s: "keepsSub P (pool ! ?i)" by (simp add: keepsSubs_def)
    have rest: "keepsSubs P (take ?i pool @ drop (Suc ?i) pool)"
      using Cons.prems by (auto simp: keepsSubs_def dest: in_set_takeD in_set_dropD)
    have "yields P (\<lambda>_. True) (bindIO (resume (pool ! ?i)) (\<lambda>(c, ps).
        drain ks (take ?i pool @ drop (Suc ?i) pool @ ps) (failed \<or> tFailed c)))"
      by (rule yields_bind [OF s [unfolded keepsSub_iff]])
        (use rest in \<open>auto simp: yields_keeps [symmetric] intro!: Cons.IH\<close>)
    with False show ?thesis by (simp add: yields_keeps Let_def)
  qed (simp add: keeps_intros)
qed

lemma keepsGroup_plain [yields_intros]: "(\<And>t. keeps P (f t)) \<Longrightarrow> keepsGroup P (plain f)"
  unfolding plain_def by (intro keepsGroup_intro yields_keep_bind) (auto intro: yields_ret)

lemma keepsGroup_t_Run [yields_intros]:
  assumes "keepsGroup P f"
  shows "keepsGroup P (t_Run sched par f)"
proof (rule keepsGroup_intro)
  fix t :: testT
  have sub: "keepsSub P (Subtest (bindIO (f freshT) (\<lambda>(_, c, ps). retIO (c, ps))))"
    unfolding keepsSub_iff subtest.sel
    by (rule yields_bind [OF keepsGroupD [OF assms]]) (auto intro: yields_ret)
  have "yields P (\<lambda>(e, t', ps). keepsSubs P ps) (bindIO (f freshT) (\<lambda>(_, c, ps).
      bindIO (drain sched ps (tFailed c)) (\<lambda>failed. retIO (Finished, t\<lparr>tFailed := tFailed t \<or> failed\<rparr>, []))))"
    by (rule yields_bind [OF keepsGroupD [OF assms]]) (auto intro!: yields_intros keeps_intros)
  with sub show "yields P (\<lambda>(e, t', ps). keepsSubs P ps) (t_Run sched par f t)"
    by (simp add: t_Run_def yields_ret)
qed

lemma keepsGroup_then [yields_intros]:
  assumes "keepsGroup P m" and "keepsGroup P k"
  shows "keepsGroup P (thenGroup m k)"
  unfolding thenGroup_def
proof (intro keepsGroup_intro yields_bind [OF keepsGroupD [OF assms(1)]])
  fix x :: "ending \<times> testT \<times> 'a subtest list"
  assume "case x of (e, t', ps) \<Rightarrow> keepsSubs P ps"
  then show "yields P (\<lambda>(e, t', ps). keepsSubs P ps) (case x of (e, t', ps) \<Rightarrow> case e of
      Goexit \<Rightarrow> retIO (Goexit, t', ps)
    | Finished \<Rightarrow> bindIO (k t') (\<lambda>(e', t'', qs). retIO (e', t'', ps @ qs)))"
    by (auto split: ending.split intro!: yields_intros yields_bind [OF keepsGroupD [OF assms(2)]])
qed

lemma keeps_flatNodes: "(\<And>n t. keeps P (f n t)) \<Longrightarrow> keeps P (flatNodes f label i nodes t)"
  by (induction nodes arbitrary: i t) (auto intro!: keeps_intros split: ending.split)

lemma keeps_flatLabels: "(\<And>n t. keeps P (f n t)) \<Longrightarrow> keeps P (flatLabels so f groups t)"
  by (induction groups arbitrary: t) (auto intro!: keeps_intros keeps_flatNodes split: ending.split)

lemma keepsGroup_treeNodes: "(\<And>n t. keeps P (f n t)) \<Longrightarrow> keepsGroup P (treeNodes par f label i nodes)"
proof (induction nodes arbitrary: i)
  case (Cons node nodes)
  show ?case
    by (rule keepsGroup_intro, unfold treeNodes.simps)
      (auto intro!: yields_ret
        yields_bind [OF keepsGroupD [OF keepsGroup_t_Run [OF keepsGroup_plain]]] Cons.prems
        yields_bind [OF keepsGroupD [OF Cons.IH [OF Cons.prems]]])
qed (rule keepsGroup_intro, simp add: yields_ret)

lemma keepsGroup_treeLabels: "(\<And>n t. keeps P (f n t)) \<Longrightarrow> keepsGroup P (treeLabels so par f groups)"
proof (induction groups)
  case (Cons g groups)
  have label: "keepsGroup P (treeLabel so par f label nodes)" for label nodes
    using keepsGroup_treeNodes [where par = par and label = label and i = 0 and nodes = nodes, OF Cons.prems]
      keepsGroup_plain [of P "if so then t_SkipNow else t_Fatal"]
    by (auto simp: keepsGroup_def treeLabel_def t_SkipNow_def t_Fatal_def keeps_intros)
  obtain l ns where "g = (l, ns)" by (cases g)
  then show ?case
    by (auto intro!: keepsGroup_intro yields_ret yields_bind [OF keepsGroupD [OF keepsGroup_t_Run [OF label]]]
        yields_bind [OF keepsGroupD [OF Cons.IH [OF Cons.prems]]])
qed (rule keepsGroup_intro, simp add: yields_ret)

lemma keepsGroup_onNodes:
  assumes "\<And>v. P v \<Longrightarrow> P (snd (cl_list (Nodes (tb_cluster b)) [] v))" and "\<And>n t. keeps P (f n t)"
  shows "keepsGroup P (onNodes b label f)"
proof -
  have labels: "keeps P (MapLabelNodes (tb_cluster b) req lb fs)" for req lb fs
    unfolding MapLabelNodes_def ListNode_def by (intro keeps_intros assms(1)) (auto split: sum.split intro!: keeps_intros)
  show ?thesis
    unfolding onNodes_def
    by (intro keepsGroup_intro)
      (auto simp: RunTestGroupNodes_def RunTestTreeGroupNodes_def
        intro!: yields_keep_bind labels keepsGroupD [OF keepsGroup_treeLabels] keepsGroupD [OF keepsGroup_plain]
          keeps_flatLabels assms(2))
qed


section \<open>Statements and captured variables\<close>

lemma keeps_t_do [keeps_intros]: "keeps P m \<Longrightarrow> (\<And>x. keeps P (k x t)) \<Longrightarrow> keeps P (t_do m k t)"
  unfolding t_do_def by (intro keeps_intros)

lemma keeps_andThen [keeps_intros]: "keeps P (m t) \<Longrightarrow> (\<And>t'. keeps P (k t')) \<Longrightarrow> keeps P (andThen m k t)"
  unfolding andThen_def by (intro keeps_intros) (auto split: ending.split intro: keeps_intros)

lemma keeps_ends [keeps_intros]: "keeps P (t_ok t)" "keeps P (t_Fatal t)" "keeps P (t_Error t)" "keeps P (T_Skipf so t)"
  by (simp_all add: t_ok_def t_Fatal_def t_Error_def T_Skipf_def t_SkipNow_def keeps_intros)

lemma keeps_onErr [keeps_intros]: "keeps P m \<Longrightarrow> keeps P (fatalOn m t)" "keeps P m \<Longrightarrow> keeps P (errorOn m t)"
  unfolding fatalOn_def errorOn_def by (auto intro!: keeps_intros split: option.split)

lemma keeps_withCleanup [keeps_intros]:
  assumes "keeps P c" and "keeps P m"
  shows "keeps P (withCleanup c m)"
  unfolding keeps_def
proof (intro allI impI)
  fix w r w'
  assume "P w" and run: "withCleanup c m w = Some (r, w')"
  then obtain o1 w1 where m: "m w = Some (o1, w1)" by (auto simp: withCleanup_def split: option.split_asm)
  from keepsD [OF assms(2) m \<open>P w\<close>] have "P w1" .
  have cleaned: "P w'" if "bindIO c k w1 = Some (r, w')" and "\<And>y. keeps P (k y)" for k
    using keeps_bind [OF assms(1) that(2)] that(1) \<open>P w1\<close> by (auto simp: keeps_def)
  show "P w'"
  proof (cases o1)
    case (Ret x)
    with run m show ?thesis by (intro cleaned [of "\<lambda>_. retIO x"]) (simp_all add: withCleanup_def keeps_intros)
  next
    case (Panic s)
    with run m show ?thesis by (intro cleaned [of "\<lambda>_. panicIO s"]) (simp_all add: withCleanup_def keeps_intros)
  next
    case (Exit s)
    with run m \<open>P w1\<close> show ?thesis by (simp add: withCleanup_def)
  qed
qed

text \<open>A property of the world inside the scope of a captured variable.\<close>

lemma keeps_local_var [keeps_intros]: "keeps (\<lambda>v. P (drop_var v)) m \<Longrightarrow> keeps P (local_var c m)"
  unfolding keeps_def local_var_def by (auto split: option.split_asm outcome.split_asm) (metis var_simps(1))+

lemma keeps_inner [keeps_intros]: "keeps P m \<Longrightarrow> keeps (\<lambda>v. P (drop_var v)) (inner m)"
  unfolding keeps_def inner_def by auto

lemma keeps_assign [keeps_intros]: "keeps (\<lambda>v. P (drop_var v)) (assign c)"
  by (simp add: keeps_def assign_def)

lemma drop_var_clock: "drop_var (v\<lparr>now := n, lastLog := l\<rparr>) = (drop_var v)\<lparr>now := n, lastLog := l\<rparr>"
  by (simp add: drop_var_def)

lemma clock_free_var: "clock_free P \<Longrightarrow> clock_free (\<lambda>v. P (drop_var v))"
  by (simp add: clock_free_def drop_var_clock)

section \<open>What TestLvg leaves alone\<close>

text \<open>
  The calls of the API that \<^verbatim>\<open>TestLvg\<close> makes leave \<open>P\<close> alone: reading, removing the logical volumes of a group, creating,
  changing and deleting a volume group whose name contains \<^verbatim>\<open>e2e-lvg-\<close> or \<^verbatim>\<open>e2e-01-\<close>, deleting block devices, and, with a
  hypervisor, creating disks of the test namespace that are no system disks, deleting them, and handling attachments.
\<close>

definition e2eName :: "string \<Rightarrow> bool" where
  "e2eName name \<longleftrightarrow> sublist ''e2e-lvg-'' name \<or> sublist testPrefix name"

definition reads_spare :: "('x world_scheme \<Rightarrow> bool) \<Rightarrow> 'x world_scheme Bench \<Rightarrow> bool" where
  "reads_spare P b \<longleftrightarrow> (\<forall>v. P v \<longrightarrow>
     P (snd (cl_list (Nodes (tb_cluster b)) [] v)) \<and> P (snd (cl_list (LVGs (tb_cluster b)) [] v)) \<and>
     P (snd (cl_list (BDs (tb_cluster b)) [] v)) \<and> P (snd (cl_list (Pods (tb_cluster b)) ''d8-sds-node-configurator'' v)) \<and>
     P (snd (cl_list (VMBDs (tb_hv b)) [] v)) \<and> P (snd (cl_list (VDs (tb_hv b)) [] v)) \<and>
     (\<forall>name. P (snd (cl_get (LVGs (tb_cluster b)) [] name v))))"

definition writes_spare :: "('x world_scheme \<Rightarrow> bool) \<Rightarrow> 'x world_scheme Bench \<Rightarrow> bool" where
  "writes_spare P b \<longleftrightarrow> (\<forall>v. P v \<longrightarrow>
     (\<forall>name pod c. e2eName name \<longrightarrow> P (snd (tb_exec b ''d8-sds-node-configurator'' pod c
        (nsenter_args @ [''sudo'', lvmD8, ''lvremove'', ''-y'', name]) v))) \<and>
     (\<forall>g. e2eName (obj_Name g) \<longrightarrow> P (snd (cl_create (LVGs (tb_cluster b)) g v)) \<and>
        P (snd (cl_update (LVGs (tb_cluster b)) g v)) \<and> P (snd (cl_delete (LVGs (tb_cluster b)) g v))) \<and>
     (\<forall>d. P (snd (cl_delete (BDs (tb_cluster b)) d v))) \<and>
     (HypervisorKubeConfig (tb_env b) \<noteq> [] \<longrightarrow>
        (\<forall>name. sublist ''-data-'' name \<longrightarrow>
           P (snd (cl_create (VDs (tb_hv b)) (newVD (TestNS (tb_env b)) name (HvStorageClass (tb_env b)) 6 None) v)) \<and>
           P (snd (cl_create (VDs (tb_hv b)) (newVD (TestNS (tb_env b)) name (HvStorageClass (tb_env b)) 8 None) v))) \<and>
        (\<forall>d. cond_holds (parse_cond (TestNS (tb_env b))) (obj_Namespace d) \<and> \<not> sublist ''-system'' (obj_Name d) \<longrightarrow>
           P (snd (cl_delete (VDs (tb_hv b)) d v))) \<and>
        (\<forall>a. P (snd (cl_create (VMBDs (tb_hv b)) a v)) \<and> P (snd (cl_delete (VMBDs (tb_hv b)) a v)))))"

lemma keeps_LVG_reads:
  assumes "clock_free P" and "reads_spare P b"
  shows "keeps P (ListLVG (tb_cluster b) fs)" and "keeps P (ListBD (tb_cluster b) gs)"
    and "keeps P (WaitLVGsReady (tb_cluster b) fs)" and "keeps P (ListVMBD (tb_hv b) as)" and "keeps P (waitAttached b node)"
proof -
  have lvg: "keeps P (ListLVG (tb_cluster b) fs)" for fs
    using assms(2) unfolding ListLVG_def reads_spare_def by (intro keeps_intros) blast
  show "keeps P (ListLVG (tb_cluster b) fs)" by (rule lvg)
  show "keeps P (ListBD (tb_cluster b) gs)"
    using assms(2) unfolding ListBD_def reads_spare_def by (intro keeps_intros) blast
  show "keeps P (WaitLVGsReady (tb_cluster b) fs)"
    unfolding WaitLVGsReady_def Let_def
    by (intro keeps_intros lvg assms(1)) (auto split: option.split sum.split intro!: keeps_intros lvg)
  have vmbd: "keeps P (ListVMBD (tb_hv b) as)" for as
    using assms(2) unfolding ListVMBD_def reads_spare_def by (intro keeps_intros) blast
  show "keeps P (ListVMBD (tb_hv b) as)" by (rule vmbd)
  show "keeps P (waitAttached b node)"
    unfolding waitAttached_def WaitVmbdAttached_eq attachedCheck_def by (intro keeps_intros vmbd assms(1))
qed

lemma keeps_CreateVMBD:
  assumes "writes_spare P b" and "HypervisorKubeConfig (tb_env b) \<noteq> []" and "sublist ''-data-'' name" and "sz = 6 \<or> sz = 8"
  shows "keeps P (CreateVMBD (tb_hv b) (TestNS (tb_env b)) vm name (HvStorageClass (tb_env b)) sz)"
proof -
  have "P v \<Longrightarrow> P (snd (cl_create (VDs (tb_hv b)) (newVD (TestNS (tb_env b)) name (HvStorageClass (tb_env b)) sz None) v))"
    and "P v \<Longrightarrow> P (snd (cl_create (VMBDs (tb_hv b)) a v))" for v a
    using assms unfolding writes_spare_def by blast+
  then show ?thesis
    unfolding CreateVMBD_def CreateVD_def AttachVmbd_def
    by (intro keeps_intros) (auto split: option.split sum.split intro!: keeps_intros)
qed

lemma data_name: "sublist ''-data-'' (xs @ ''-data-'' @ ys)"
  by (rule sublist_appendI)

lemma keeps_attachDisks:
  assumes "writes_spare P b" and "HypervisorKubeConfig (tb_env b) \<noteq> []"
  shows "keeps P (attachDisks b node i n)"
  by (induction n arbitrary: i)
    (auto split: option.split intro!: keeps_intros keeps_CreateVMBD assms data_name [simplified])

lemma keeps_createGroups:
  assumes "writes_spare P b"
  shows "keeps P (createGroups b node bds t)"
proof (induction bds arbitrary: t)
  case (Cons bd bds)
  have "e2eName name" if "groupName node bd w = Some (Ret name, w')" for name and w w' :: "'a world_scheme"
    using that by (auto simp: groupName_Ret nameFor_def e2eName_def intro: sublist_appendI [of _ "[]", simplified])
  moreover have "keeps P (CreateLVG (tb_cluster b) name nd ds)" if "e2eName name" for name nd ds
  proof -
    have "P v \<Longrightarrow> P (snd (cl_create (LVGs (tb_cluster b)) (newLvg name nd [bdRequirement ds] []) v))" for v
      using assms that unfolding writes_spare_def by (simp add: newLvg_def newMeta_def)
    then show ?thesis unfolding CreateLVG_def by (intro keeps_intros) (auto split: sum.split intro!: keeps_intros)
  qed
  moreover have "keeps P (groupName node bd)"
    unfolding groupName_def lastBytes_def by (auto intro!: keeps_intros)
  ultimately show ?case
    unfolding createGroups.simps t_do_def [where m = "groupName node bd"]
    by (intro keeps_bind_result) (auto intro!: keeps_intros Cons.IH)
qed (simp add: keeps_intros)

lemma keeps_directLVGCreate:
  assumes "clock_free P" and "reads_spare P b" and "writes_spare P b"
  shows "keeps P (directLVGCreate b node t)"
proof -
  note reads = keeps_LVG_reads [OF assms(1,2)]
  have collect: "keeps (\<lambda>v. P (drop_var v)) (collectBds b node n)" for n
    unfolding collectBds_def by (intro keeps_intros reads) (auto intro!: keeps_intros)
  show ?thesis
    unfolding directLVGCreate_def Let_def
    by (auto intro!: keeps_intros reads collect clock_free_var assms keeps_attachDisks keeps_createGroups split: option.split
        simp del: attachDisks.simps)
qed

lemma keeps_directLVGResize:
  assumes "clock_free P" and "reads_spare P b" and "writes_spare P b"
  shows "keeps P (directLVGResize b node t)"
proof -
  note reads = keeps_LVG_reads [OF assms(1,2)]
  have extra: "keeps P (findExtra lvg bds)" for lvg bds
    by (induction bds) (auto split: list.split intro!: keeps_intros)
  have device: "keeps P (withDevice lvg name)" for lvg name
    unfolding withDevice_def by (auto split: option.split list.split intro!: keeps_intros)
  have update: "keeps P (UpdateLVG (tb_cluster b) lvg)" if "e2eName (obj_Name lvg)" for lvg
    using assms(3) that unfolding UpdateLVG_def writes_spare_def
    by (intro keeps_intros) (auto split: sum.split intro!: keeps_intros)
  have same: "obj_Name lvg' = obj_Name lvg" if "withDevice lvg name w = Some (Ret lvg', w')"
    for lvg lvg' name and w w' :: "'a world_scheme"
    using that by (auto simp: withDevice_def run_simps split: option.split_asm list.split_asm)
  have grown: "keeps P (grown b name n)" for name n
    using assms(2) unfolding grown_def GetLvg_def reads_spare_def
    by (intro keeps_intros) (auto split: sum.split intro!: keeps_intros)
  have listed: "e2eName (obj_Name g)" if "LvgFilter_keep rx (nodeLvgs node) g" for g rx
    using that by (auto simp: LvgFilter_keep_def nodeLvgs_def prefixed_def noLvgFilter_def e2eName_def)
  have rest: "keeps P (t_do (ListBD (tb_cluster b) [nodeBds node]) (\<lambda>bds.
          t_do (findExtra lvg (orEmpty bds)) (\<lambda>bdExtra. case bdExtra of
            None \<Rightarrow> T_Skipf so
          | Some bd \<Rightarrow> t_do (withDevice lvg (obj_Name bd)) (\<lambda>lvg'.
              andThen (fatalOn (UpdateLVG (tb_cluster b) lvg'))
                (fatalOn (RetrySec 30 (grown b (obj_Name lvg') (lvg_VGSize lvg))))))) t')"
    if "e2eName (obj_Name lvg)" for lvg so t'
  proof -
    have "keeps P (t_do (withDevice lvg name) (\<lambda>lvg'. andThen (fatalOn (UpdateLVG (tb_cluster b) lvg'))
        (fatalOn (RetrySec 30 (grown b (obj_Name lvg') (lvg_VGSize lvg))))) t'')" for name t''
      unfolding t_do_def [where m = "withDevice lvg name"]
      by (rule keeps_bind_result [OF device]) (auto simp: same that intro!: keeps_intros update grown assms(1))
    then show ?thesis by (auto intro!: keeps_intros reads extra split: option.split)
  qed
  have disks: "keeps P (CreateVMBD (tb_hv b) (TestNS (tb_env b)) (tn_Name node) (tn_Name node @ ''-data-'' @ fmt_d 21)
      (HvStorageClass (tb_env b)) 8)" if "HypervisorKubeConfig (tb_env b) \<noteq> []"
    by (intro keeps_CreateVMBD assms that data_name) simp
  show ?thesis
    unfolding directLVGResize_def
  proof (rule keeps_andThen)
    show "keeps P ((if HypervisorKubeConfig (tb_env b) \<noteq> []
        then t_do (ignoreIO (CreateVMBD (tb_hv b) (TestNS (tb_env b)) (tn_Name node)
            (tn_Name node @ ''-data-'' @ fmt_d 21) (HvStorageClass (tb_env b)) 8)) (\<lambda>_.
          t_do (waitAttached b node) (\<lambda>_. t_ok))
        else t_ok) t)"
      by (auto intro!: keeps_intros disks [simplified] reads)
  qed (unfold t_do_def [where m = "ListLVG (tb_cluster b) [nodeLvgs node]"], unfold ListLVG_def,
      rule lvg_filter.keeps_filtered, use assms(2) in \<open>auto simp: reads_spare_def Let_def
        intro!: keeps_ends rest listed [where rx = "regexp_match (tb_cluster b)"]\<close>)
qed

lemma keeps_deleteLvgs:
  assumes "clock_free P" and "reads_spare P b" and "writes_spare P b"
  shows "keeps P (DeleteLVG (tb_cluster b) [prefixed])" and "keeps P (RetrySec n (lvgsGone b))"
proof -
  have listed: "e2eName (obj_Name g)" if "LvgFilter_keep rx prefixed g" for g rx
    using that by (auto simp: LvgFilter_keep_def prefixed_def noLvgFilter_def e2eName_def)
  have delete: "P v \<Longrightarrow> e2eName (obj_Name g) \<Longrightarrow> P (snd (cl_delete (LVGs (tb_cluster b)) g v))" for v g
    using assms(3) by (simp add: writes_spare_def)
  have list: "P v \<Longrightarrow> P (snd (cl_list (LVGs (tb_cluster b)) [] v))" for v
    using assms(2) by (simp add: reads_spare_def)
  show "keeps P (DeleteLVG (tb_cluster b) [prefixed])"
    unfolding DeleteLVG_def ListLVG_def
    by (rule lvg_filter.keeps_filtered)
      (auto simp: list intro!: keeps_delete keeps_intros delete listed [where rx = "regexp_match (tb_cluster b)"])
  show "keeps P (RetrySec n (lvgsGone b))"
    unfolding lvgsGone_def by (intro keeps_intros assms(1) keeps_LVG_reads [OF assms(1,2)])
qed

lemma keeps_removeDisks:
  assumes "clock_free P" and "reads_spare P b" and "writes_spare P b"
  shows "keeps P (removeTestDisks b)"
proof -
  note defs = assms [unfolded clock_free_def reads_spare_def writes_spare_def e2eName_def]
  show ?thesis by (rule keeps_removeTestDisks) (use defs in \<open>simp_all\<close>)
qed

lemma keeps_directLVGDelete:
  assumes "clock_free P" and "reads_spare P b" and "writes_spare P b"
  shows "keeps P (directLVGDelete b t)"
proof -
  have hv: "keeps P (DeleteVmbdAndWait (tb_hv b) fs)"
    "keeps P (DeleteVdAndWait (tb_hv b) [noVdFilter\<lparr>vdf_NameSpace := Str (TestNS (tb_env b)), vdf_Name := Str ''!%-system%''\<rparr>])"
    if "HypervisorKubeConfig (tb_env b) \<noteq> []" for fs
    by ((rule keeps_deleteVmbds keeps_deleteVds; use assms that in \<open>simp add: reads_spare_def writes_spare_def\<close>)+)
  show ?thesis
    unfolding directLVGDelete_def by (auto intro!: keeps_intros keeps_deleteLvgs [OF assms] hv)
qed

text \<open>
  C12. \<^verbatim>\<open>TestLvg\<close>, from the clean-up before it to the one after it and with its subtests in any order, spares what is not its
  own: a property of the world that survives reading, and writing to volume groups whose names contain \<^verbatim>\<open>e2e-lvg-\<close> or
  \<^verbatim>\<open>e2e-01-\<close>, survives the test, whether it ends, panics or exits. So no volume group without one of these texts in
  its name is created, changed or deleted, and no system disk is deleted. The texts may stand anywhere in the
  name: a group named \<^verbatim>\<open>prod-e2e-lvg-1\<close> is not spared.
\<close>

theorem TestLvg_spares:
  assumes "TestLvg b sched1 sched2 t w = Some (r, w')" and "P w"
    and "\<And>v n l. P v \<Longrightarrow> P (v\<lparr>now := n, lastLog := l\<rparr>)" and "reads_spare P b" and "writes_spare P b"
  shows "P w'"
proof -
  have clock: "clock_free P" using assms(3) by (simp add: clock_free_def)
  note all = clock assms(4,5)
  have nodes: "P v \<Longrightarrow> P (snd (cl_list (Nodes (tb_cluster b)) [] v))" for v
    using assms(4) by (simp add: reads_spare_def)
  have create: "keepsGroup P (createTest b)"
    unfolding createTest_def
    by (intro yields_intros keepsGroup_onNodes nodes keeps_directLVGCreate all keeps_onErr keeps_LVG_reads)
  have resize: "keepsGroup P (resizeTest b)"
    unfolding resizeTest_def by (intro keepsGroup_onNodes nodes keeps_directLVGResize all)
  have body: "keepsGroup P (thenGroup (t_Run sched1 False (createTest b))
      (thenGroup (t_Run sched2 False (resizeTest b)) (t_Run [] False (plain (directLVGDelete b)))))"
    by (intro yields_intros create resize keeps_directLVGDelete all)
  have "keeps P (TestLvg b sched1 sched2 t)"
    unfolding TestLvg_def prepareClr_def cleanup01_def
    by (auto intro!: keeps_intros keepsGroup_keeps [OF body] keeps_removeDisks all)
  from keepsD [OF this assms(1,2)] show ?thesis .
qed

lemma TestLvg_run:
  "TestLvg disk_bench [] [] freshT (disks0 [''vm1-system'', ''vm1-data-1'']) =
     Some (Ret (Finished, freshT, []), disks0 [''vm1-system''])"
proof -
  let ?w = "disks0 [''vm1-system'']"
  note bench = disk_bench_def frozen_cluster_def frozen_client_def initialEnv_def
  have lvgs: "ListLVG (tb_cluster disk_bench) [prefixed] v = Some (Ret (Inr []), v)"
    "ListLVG (tb_cluster disk_bench) [prefixed, f] v = Some (Ret (Inr []), v)" for v f
    by (simp_all add: ListLVG_def listFiltered_run bench lvg_filter.applyAll_eq)
  have wait: "RetrySec sec (none_left (ListLVG (tb_cluster disk_bench) fs) c) ?w = Some (Ret None, ?w)"
    if "ListLVG (tb_cluster disk_bench) fs ?w = Some (Ret (Inr []), ?w)" for sec c fs
    by (rule RetrySec_now) (simp add: none_left_None that)
  have nodes: "onNodes disk_bench lb f t v = Some (Ret (Finished, t, []), v)" for lb f t v
    by (simp add: onNodes_def RunTestGroupNodes_def MapLabelNodes_def ListNode_def bindIO_run listFiltered_run
        plain_def entries_def List.map_filter_def run_simps bench)
  have "WaitLVGsReady (tb_cluster disk_bench) [prefixed] ?w = Some (Ret None, ?w)"
    unfolding WaitLVGsReady_def by (simp add: wait lvgs bindIO_run run_simps)
  then have create: "createTest disk_bench freshT ?w = Some (Ret (Finished, freshT, []), ?w)"
    by (simp add: createTest_def thenGroup_def nodes plain_def test_defs bindIO_run run_simps)
  have "directLVGDelete disk_bench freshT ?w = Some (Ret (Finished, freshT), ?w)"
    by (simp add: directLVGDelete_def DeleteLVG_def lvgs wait lvgsGone_def disk_bench_hv test_defs bindIO_run run_simps
        disk_bench_env)
  then show ?thesis
    by (simp add: TestLvg_def prepareClr_def cleanup01_def disk_bench_run thenGroup_def t_Run_def plain_def create
        resizeTest_def nodes withCleanup_def bindIO_run run_simps disk_bench_env)
qed

lemma TestLvg_spares_witness:
  "newVD ''e2e'' ''vm1-system'' [] 1 None \<in> set (dw_disks (disks0 [''vm1-system'']))"
proof (rule TestLvg_spares [OF TestLvg_run, where P = "\<lambda>w. newVD ''e2e'' ''vm1-system'' [] 1 None \<in> set (dw_disks w)"])
  let ?P = "\<lambda>w. newVD ''e2e'' ''vm1-system'' [] 1 None \<in> set (dw_disks w)"
  show "reads_spare ?P disk_bench"
    by (simp add: reads_spare_def disk_bench_def frozen_cluster_def frozen_client_def store_client_def)
  show "writes_spare ?P disk_bench"
    by (auto simp: writes_spare_def disk_bench_def frozen_cluster_def frozen_client_def store_client_def newVD_name
        sublist_code dest!: sym [of "''vm1-system''"])
qed (simp_all add: disks0_def)

end
