(* ===== verification/NcCases.thy ===== *)
theory NcCases
  imports TestCases
begin

text \<open>
  \<^verbatim>\<open>testkit_v2/tests/05_sds_node_configurator_test.go\<close>: the helpers that make a volume group and check what a node and
  the API say of it, and the fourteen test cases made of them. The values of the type \<^verbatim>\<open>float32\<close> are exact rationals,
  rounded by \<open>round32\<close>; their products with powers of two are exact. In the regular expressions a backtick stands for a
  backslash. The map of the commands to check is visited in the order that the bench gives.
\<close>

section \<open>Texts and numbers\<close>

definition rx_text :: "string \<Rightarrow> string" where
  "rx_text = map (\<lambda>c. if c = CHR ''`'' then CHR 0x5C else c)"

definition bytesOfGiB :: "rat \<Rightarrow> int" where
  "bytesOfGiB g = int_of_float (g * 1024 * 1024 * 1024)"

text \<open>\<^verbatim>\<open>%.0f\<close> and \<^verbatim>\<open>%.1f\<close> of a number that is not negative.\<close>

definition fmt_0f :: "rat \<Rightarrow> string" where
  "fmt_0f x = nat_digits (nat (round_half_even x))"

definition fmt_1f :: "rat \<Rightarrow> string" where
  "fmt_1f x = (let n = nat (round_half_even (x * 10)) in nat_digits (n div 10) @ ''.'' @ nat_digits (n mod 10))"

definition gib2 :: "rat \<Rightarrow> string" where
  "gib2 x = fmt_2f (Fin x)"

definition sleepSec :: "int \<Rightarrow> ('x world_scheme, unit) io" where
  "sleepSec n = callIO (\<lambda>w. ((), sleep (n * second) w))"


section \<open>Helpers\<close>

definition cleanup05 :: "'x world_scheme Bench \<Rightarrow> ('x world_scheme, unit) io" where
  "cleanup05 b = (if \<not> KeepState (tb_env b) then removeTestDisks b else retIO ())"

text \<open>The loop over the wanted sizes: the sum of the sizes and the lines to look for, or the first deviation.\<close>

fun deviceChecks :: "string \<Rightarrow> string \<Rightarrow> LvgDevice list \<Rightarrow> rat list \<Rightarrow> string list \<Rightarrow> rat \<Rightarrow> string list \<Rightarrow> string list \<Rightarrow>
    ('w, go_error + (rat \<times> string list \<times> string list)) io"
where
  "deviceChecks nName lvgName (d # devs) (sizeG # sizes) vFree vgSize lsblk pvs =
     (let validDiff = 5 * 1024 * 1024; dSize = dev_DevSize d; pSize = dev_PVSize d; sizeB = bytesOfGiB sizeG in
      if dSize < sizeB - validDiff \<or> dSize > sizeB + validDiff \<or> pSize \<noteq> sizeB
      then retIO (Inl (PlainError (nName @ '' LVG size != '' @ gib2 sizeG @ ''G: dev '' @ fmt_d dSize @ '' pv '' @ fmt_d pSize)))
      else bindIO (lastBytes 3 (dev_Path d)) (\<lambda>disk. case vFree of
          [] \<Rightarrow> panicIO ''index out of range''
        | free # frees \<Rightarrow> deviceChecks nName lvgName devs sizes frees (round32 (vgSize + sizeG))
            (lsblk @ [disk @ rx_text '' [`d`s:]* '' @ fmt_0f sizeG @ rx_text ''G`s+0`s+disk`s*`n''])
            (pvs @ [dev_Path d @ rx_text ''`s+'' @ lvgName @ rx_text '' [a-z`d`s-]+ '' @ gib2 sizeG @ rx_text ''g`s+'' @ free])))"
| "deviceChecks nName lvgName devs sizes vFree vgSize lsblk pvs = retIO (Inr (vgSize, lsblk, pvs))"

fun runChecks :: "'w Bench \<Rightarrow> string \<Rightarrow> (string \<times> string list) list \<Rightarrow> ('w, go_error option) io" where
  "runChecks b nName [] = retIO None"
| "runChecks b nName ((cmd, resp) # checks) =
     bindIO (ExecNodeRespContains (tb_cluster b) (tb_exec b) nName cmd resp) (\<lambda>r. case r of
         Some err \<Rightarrow> retIO (Some err)
       | None \<Rightarrow> runChecks b nName checks)"

definition visited :: "string list \<Rightarrow> (string \<rightharpoonup> string list) \<Rightarrow> (string \<times> string list) list" where
  "visited order m = List.map_filter (\<lambda>k. map_option (Pair k) (m k)) order"

definition checkNodeLvgSize :: "'w Bench \<Rightarrow> string \<Rightarrow> rat list \<Rightarrow> string list \<Rightarrow> string \<Rightarrow> ('w, go_error option) io" where
  "checkNodeLvgSize b lvgName vSize vFree vgFree =
     bindIO (GetLvg (tb_cluster b) lvgName) (\<lambda>r. case r of
       Inl _ \<Rightarrow> panicIO ''nil pointer dereference''
     | Inr lvg \<Rightarrow> (case lvg_Nodes lvg of
         [] \<Rightarrow> panicIO ''index out of range''
       | node # _ \<Rightarrow>
          if length (lvgn_Devices node) \<noteq> length vSize
          then retIO (Some (PlainError (''LVG '' @ lvgName @ '' devices: '' @ fmt_d (int (length (lvgn_Devices node))) @
            '' != '' @ fmt_d (int (length vSize)))))
          else (let nName = lvg_LocalNodeName lvg; vgName = lvg_ActualVGNameOnTheNode lvg; validDiff = 5 * 1024 * 1024 in
            bindIO (deviceChecks nName (obj_Name lvg) (lvgn_Devices node) vSize vFree 0 [] []) (\<lambda>c. case c of
              Inl err \<Rightarrow> retIO (Some err)
            | Inr (vgSize, lsblk, pvs) \<Rightarrow>
               (let nChecks = [lsblkCmd \<mapsto> lsblk, pvsCmd \<mapsto> pvs,
                      vgsCmd \<mapsto> [vgName @ rx_text '' [a-z`d`s-]* '' @ gib2 vgSize @ rx_text ''g`s+'' @ vgFree],
                      vgdisplayCmd @ '' '' @ vgName \<mapsto> [rx_text ''VG Size`s+'' @ gib2 vgSize @ rx_text '' GiB`n'']];
                    vgSizeB = int_of_float vgSize * 1024 * 1024 * 1024 in
                if lvg_VGSize lvg < vgSizeB - validDiff \<or> lvg_VGSize lvg > vgSizeB + validDiff
                then retIO (Some (PlainError (nName @ '' VG size: '' @ fmt_d (lvg_VGSize lvg) @ '' != '' @ gib2 vgSize @ ''G'')))
                else runChecks b nName (visited (tb_order b) nChecks))))))"

fun poolOk :: "LvgThinPoolStatus \<Rightarrow> rat list \<Rightarrow> bool" where
  "poolOk tp [] = False"
| "poolOk tp (s # sizes) =
     (let s64 = bytesOfGiB s; validDiff = 10 * 1024 * 1024 in
      if tp_ActualSize tp > s64 - validDiff \<and> tp_ActualSize tp < s64 + validDiff then True else poolOk tp sizes)"

fun poolsLoop :: "rat list \<Rightarrow> LvgThinPoolStatus list \<Rightarrow> go_error option" where
  "poolsLoop sizes [] = None"
| "poolsLoop sizes (tp # tps) =
     (let tpOk = poolOk tp sizes in
      if tp_AllocatedSize tp \<noteq> 0 then Some (PlainError (''ThinPool '' @ tp_Name tp @ '' AllocatedSize != 0''))
      else if \<not> tpOk then Some (PlainError (''ThinPool '' @ tp_Name tp @ '' invalid ActualSize: '' @ fmt_d (tp_ActualSize tp)))
      else poolsLoop sizes tps)"

definition thinPoolsCheck :: "'w Bench \<Rightarrow> string \<Rightarrow> rat list \<Rightarrow> ('w, go_error option) io" where
  "thinPoolsCheck b lvgName sizes =
     bindIO (GetLvg (tb_cluster b) lvgName) (\<lambda>r. case r of
       Inl _ \<Rightarrow> panicIO ''nil pointer dereference''
     | Inr lvg \<Rightarrow> (let tps = lvg_ThinPools lvg in
         if length tps \<noteq> length sizes
         then retIO (Some (PlainError (''ThinPools size: '' @ fmt_d (int (length tps)) @ '' != '' @ fmt_d (int (length sizes)))))
         else retIO (poolsLoop sizes tps)))"

text \<open>The first of the devices, and the name of the group on it.\<close>

definition firstBd :: "BlockDevice list \<Rightarrow> ('w, BlockDevice) io" where
  "firstBd bds = (case bds of [] \<Rightarrow> panicIO ''index out of range'' | bd # _ \<Rightarrow> retIO bd)"

definition e2eLvgName :: "BlockDevice \<Rightarrow> ('w, string) io" where
  "e2eLvgName bd = bindIO (lastBytes 4 (obj_Name bd)) (\<lambda>s. retIO (''e2e-lvg-'' @ s))"

definition directLvgCreate :: "'x world_scheme Bench \<Rightarrow> string \<Rightarrow> int \<Rightarrow> ('x world_scheme, go_error + LVMVolumeGroup) io" where
  "directLvgCreate b nName sz =
     bindIO (getOrCreateConsumableBlockDevices b nName sz 1) (\<lambda>r. case r of
       Inl err \<Rightarrow> retIO (Inl err)
     | Inr bds \<Rightarrow> bindIO (firstBd bds) (\<lambda>bd. bindIO (e2eLvgName bd) (\<lambda>lvgName.
         bindIO (CreateLvgWithCheck (tb_cluster b) lvgName nName [obj_Name bd]) (\<lambda>e. case e of
           Some err \<Rightarrow> retIO (Inl err)
         | None \<Rightarrow> GetLvg (tb_cluster b) lvgName))))"

definition thinPools :: "rat \<Rightarrow> LvgThinPoolSpec list" where
  "thinPools sz =
     (if sz \<ge> 2
      then [\<lparr>tps_Name = ''thin-e2e-01'', tps_Size = ''1.0Gi'', tps_AllocationLimit = ''130%''\<rparr>,
            \<lparr>tps_Name = ''thin-e2e-02'', tps_Size = gib2 (round32 (sz - 1)) @ ''Gi'', tps_AllocationLimit = ''150%''\<rparr>]
      else [\<lparr>tps_Name = ''thin-e2e-01'', tps_Size = fmt_1f sz @ ''Gi'', tps_AllocationLimit = ''125%''\<rparr>])"

definition directLvgTpCreate :: "'x world_scheme Bench \<Rightarrow> string \<Rightarrow> rat \<Rightarrow> ('x world_scheme, go_error + LVMVolumeGroup) io" where
  "directLvgTpCreate b nName sz =
     bindIO (getOrCreateConsumableBlockDevices b nName (int_of_float (round32 (sz + round32 (9999 / 10000)))) 1) (\<lambda>r. case r of
       Inl err \<Rightarrow> retIO (Inl err)
     | Inr bds \<Rightarrow> bindIO (firstBd bds) (\<lambda>bd. bindIO (e2eLvgName bd) (\<lambda>lvgName.
         bindIO (CreateLvgExt (tb_cluster b) lvgName nName
             [''bds'' \<mapsto> ExtStrings [obj_Name bd], ''thinpools'' \<mapsto> ExtThinPools (thinPools sz)]) (\<lambda>e. case e of
           Some err \<Rightarrow> retIO (Inl err)
         | None \<Rightarrow> bindIO (WaitLVGsReady (tb_cluster b) [noLvgFilter\<lparr>lvgf_Name := Str lvgName\<rparr>]) (\<lambda>e. case e of
             Some err \<Rightarrow> retIO (Inl err)
           | None \<Rightarrow> GetLvg (tb_cluster b) lvgName)))))"


section \<open>What the cases share\<close>

text \<open>
  A test function of the package: when it has ended, the paused subtests run in the order of the schedule, then
  the clean-up.
\<close>

definition topTest :: "nat list \<Rightarrow> ('w, unit) io \<Rightarrow> 'w group \<Rightarrow> 'w test" where
  "topTest sched c g t = withCleanup c (bindIO (g t) (\<lambda>(e, t', ps).
     bindIO (drain sched ps False) (\<lambda>failed. retIO (e, t'\<lparr>tFailed := tFailed t' \<or> failed\<rparr>))))"

definition ncTest :: "'x world_scheme Bench \<Rightarrow> nat list \<Rightarrow> (TestNode \<Rightarrow> 'x world_scheme test) \<Rightarrow> 'x world_scheme test" where
  "ncTest b sched f t = bindIO (prepareClr b) (\<lambda>_. topTest sched (cleanup05 b) (onNodes b Nil f) t)"

text \<open>The cases that change disks need a hypervisor.\<close>

definition hvTest :: "'x world_scheme Bench \<Rightarrow> nat list \<Rightarrow> (TestNode \<Rightarrow> 'x world_scheme test) \<Rightarrow> 'x world_scheme test" where
  "hvTest b sched f = (if HypervisorKubeConfig (tb_env b) = [] then t_Fatal else ncTest b sched f)"

fun steps :: "'w test list \<Rightarrow> 'w test" where
  "steps [] = t_ok"
| "steps (m # ms) = andThen m (steps ms)"

definition ignoring :: "('w, 'a) io \<Rightarrow> 'w test" where
  "ignoring m = t_do m (\<lambda>_. t_ok)"

definition onNode :: "'w Bench \<Rightarrow> string \<Rightarrow> string \<Rightarrow> string list \<Rightarrow> 'w test" where
  "onNode b nName cmd resp = errorOn (ExecNodeRespContains (tb_cluster b) (tb_exec b) nName cmd resp)"

definition notOnNode :: "'w Bench \<Rightarrow> string \<Rightarrow> string \<Rightarrow> string list \<Rightarrow> 'w test" where
  "notOnNode b nName cmd resp = errorOn (ExecNodeRespNotContains (tb_cluster b) (tb_exec b) nName cmd resp)"

definition execOrFatal :: "'w Bench \<Rightarrow> string \<Rightarrow> string list \<Rightarrow> 'w test" where
  "execOrFatal b nName cmd = fatalOn (bindIO (ExecNode (tb_cluster b) (tb_exec b) nName cmd) (\<lambda>(_, _, err). retIO err))"

definition sizes :: "'w Bench \<Rightarrow> LVMVolumeGroup \<Rightarrow> rat list \<Rightarrow> string list \<Rightarrow> string \<Rightarrow> 'w test" where
  "sizes b lvg vSize vFree vgFree = errorOn (checkNodeLvgSize b (obj_Name lvg) vSize vFree vgFree)"

definition sizesSoon :: "'x world_scheme Bench \<Rightarrow> LVMVolumeGroup \<Rightarrow> rat list \<Rightarrow> string list \<Rightarrow> string \<Rightarrow> 'x world_scheme test" where
  "sizesSoon b lvg vSize vFree vgFree = errorOn (RetrySec 10 (checkNodeLvgSize b (obj_Name lvg) vSize vFree vgFree))"

definition pools :: "'w Bench \<Rightarrow> LVMVolumeGroup \<Rightarrow> rat list \<Rightarrow> 'w test" where
  "pools b lvg szs = errorOn (thinPoolsCheck b (obj_Name lvg) szs)"

definition withGroup :: "'x world_scheme Bench \<Rightarrow> TestNode \<Rightarrow> int \<Rightarrow> (LVMVolumeGroup \<Rightarrow> 'x world_scheme test) \<Rightarrow> 'x world_scheme test" where
  "withGroup b node sz = getOrFatal (directLvgCreate b (tn_Name node) sz)"

definition withTpGroup :: "'x world_scheme Bench \<Rightarrow> TestNode \<Rightarrow> rat \<Rightarrow> (LVMVolumeGroup \<Rightarrow> 'x world_scheme test) \<Rightarrow> 'x world_scheme test" where
  "withTpGroup b node sz = getOrFatal (directLvgTpCreate b (tn_Name node) (round32 sz))"

definition deleteGroup :: "'x world_scheme Bench \<Rightarrow> LVMVolumeGroup \<Rightarrow> 'x world_scheme test" where
  "deleteGroup b lvg = ignoring (DeleteLvgAndWait (tb_cluster b) [noLvgFilter\<lparr>lvgf_Name := Str (obj_Name lvg)\<rparr>])"

text \<open>Every data disk of the node in the test namespace is made \<open>gib\<close> GiB large.\<close>

fun resizeDisks :: "'w Bench \<Rightarrow> int \<Rightarrow> VirtualDisk list \<Rightarrow> 'w test" where
  "resizeDisks b gib [] = t_ok"
| "resizeDisks b gib (vd # vds) =
     andThen (fatalOn (UpdateVd (tb_hv b) (vd\<lparr>vd_Size := gib * 1024 * 1024 * 1024\<rparr>))) (resizeDisks b gib vds)"

definition growDisks :: "'w Bench \<Rightarrow> TestNode \<Rightarrow> int \<Rightarrow> 'w test" where
  "growDisks b node gib =
     t_do (ListVD (tb_hv b) [noVdFilter\<lparr>vdf_NameSpace := Str (TestNS (tb_env b)),
         vdf_Name := Str (''%'' @ tn_Name node @ ''-data-%'')\<rparr>]) (\<lambda>r.
       if length (orEmpty r) = 0 then t_Fatal else resizeDisks b gib (orEmpty r))"

text \<open>One more device of \<open>sz\<close> GiB for the group. The update leaves the server's answer in the group.\<close>

definition addDevice :: "'x world_scheme Bench \<Rightarrow> TestNode \<Rightarrow> LVMVolumeGroup \<Rightarrow> int \<Rightarrow> 'x world_scheme test" where
  "addDevice b node lvg sz =
     getOrFatal (getOrCreateConsumableBlockDevices b (tn_Name node) sz 1) (\<lambda>bds.
     t_do (firstBd bds) (\<lambda>bd. t_do (withDevice lvg (obj_Name bd)) (\<lambda>lvg'. fatalOn (UpdateLVG (tb_cluster b) lvg'))))"

definition wrongVgSize :: "LVMVolumeGroup \<Rightarrow> go_error option" where
  "wrongVgSize lvg =
     (if lvg_VGSize lvg \<noteq> 3 * 1024 * 1024 * 1024
      then Some (PlainError (''VG '' @ obj_Name lvg @ '' size: '' @ fmt_d (lvg_VGSize lvg) @ '' != 3Gi'')) else None)"

definition deref :: "go_error + 'a \<Rightarrow> ('w, 'a) io" where
  "deref r = (case r of Inl _ \<Rightarrow> panicIO ''nil pointer dereference'' | Inr x \<Rightarrow> retIO x)"

text \<open>The path of the first device of the first node.\<close>

definition firstPath :: "LVMVolumeGroup \<Rightarrow> ('w, string) io" where
  "firstPath lvg = (case lvg_Nodes lvg of
       [] \<Rightarrow> panicIO ''index out of range''
     | node # _ \<Rightarrow> (case lvgn_Devices node of [] \<Rightarrow> panicIO ''index out of range'' | d # _ \<Rightarrow> retIO (dev_Path d)))"

definition firstSelected :: "LVMVolumeGroup \<Rightarrow> ('w, string) io" where
  "firstSelected lvg = (case lvg_Selector lvg of
       None \<Rightarrow> panicIO ''nil pointer dereference''
     | Some [] \<Rightarrow> panicIO ''index out of range''
     | Some (e # _) \<Rightarrow> (case lsr_Values e of [] \<Rightarrow> panicIO ''index out of range'' | v # _ \<Rightarrow> retIO v))"

fun attachAll :: "'w Bench \<Rightarrow> string \<Rightarrow> VMBlockDeviceAttachment list \<Rightarrow> ('w, unit) io" where
  "attachAll b nName [] = retIO ()"
| "attachAll b nName (vmbd # vmbds) =
     bindIO (AttachVmbd (tb_hv b) (TestNS (tb_env b)) nName (obj_Name vmbd)) (\<lambda>_. attachAll b nName vmbds)"

definition dataDisks :: "TestNode \<Rightarrow> VmBdFilter" where
  "dataDisks node = noVmBdFilter\<lparr>vmbdf_VmName := Str (tn_Name node), vmbdf_Name := Str ''%-data-%''\<rparr>"

text \<open>The data disks of the node are detached, its device is deleted and another one asked for, and the disks are attached again.\<close>

definition reconnect :: "'x world_scheme Bench \<Rightarrow> TestNode \<Rightarrow> LVMVolumeGroup \<Rightarrow> (string \<Rightarrow> 'x world_scheme test) \<Rightarrow> 'x world_scheme test" where
  "reconnect b node lvg k =
     t_do (ListVMBD (tb_hv b) [dataDisks node]) (\<lambda>vmbds.
     t_do (firstPath lvg) (\<lambda>oldBdPath.
     andThen (fatalOn (DetachVmbd (tb_hv b) [dataDisks node]))
     (t_do (firstSelected lvg) (\<lambda>bdName.
      andThen (steps
        [ignoring (DeleteBd (tb_cluster b) [noBdFilter\<lparr>bdf_Name := Str bdName\<rparr>]),
         ignoring (getOrCreateConsumableBlockDevices b (tn_Name node) 2 1),
         ignoring (attachAll b (tn_Name node) (orEmpty vmbds)),
         ignoring (WaitVmbdAttached (tb_hv b) [noVmBdFilter\<lparr>vmbdf_VmName := Str (tn_Name node)\<rparr>])])
       (k oldBdPath)))))"

text \<open>The group has the new path and is ready.\<close>

definition reconnected :: "'w Bench \<Rightarrow> LVMVolumeGroup \<Rightarrow> string \<Rightarrow> 'w test" where
  "reconnected b lvg oldBdPath =
     t_do (firstPath lvg) (\<lambda>newBdPath.
       if newBdPath = oldBdPath then t_Fatal else if lvg_Phase lvg \<noteq> ''Ready'' then t_Fatal else t_ok)"

text \<open>The first thin pool gets another size.\<close>

definition setPoolSize :: "'w Bench \<Rightarrow> LVMVolumeGroup \<Rightarrow> string \<Rightarrow> 'w test" where
  "setPoolSize b lvg sz = (case lvg_SpecThinPools lvg of
       [] \<Rightarrow> t_do (panicIO ''index out of range'') (\<lambda>_ :: unit. t_ok)
     | p # ps \<Rightarrow> if tps_Size p \<noteq> ''1.0Gi'' then t_Fatal
         else fatalOn (UpdateLVG (tb_cluster b) (lvg\<lparr>lvg_SpecThinPools := p\<lparr>tps_Size := sz\<rparr> # ps\<rparr>)))"

text \<open>Nodes with an odd number use their own \<^verbatim>\<open>lvm\<close>, which is installed first on Debian.\<close>

definition lvmPrefix :: "TestNode \<Rightarrow> string" where
  "lvmPrefix node = (if tn_Id node mod 2 = 1 then ''sudo lvm '' else ''sudo '' @ lvmD8 @ '' '')"

definition installLvm :: "'w Bench \<Rightarrow> TestNode \<Rightarrow> 'w test" where
  "installLvm b node =
     (if tn_Id node mod 2 = 1 \<and> sublist ''Debian'' (node_OSImage (tn_Raw node))
      then ignoring (ExecNode (tb_cluster b) (tb_exec b) (tn_Name node) [''sudo'', ''apt'', ''-y'', ''install'', ''lvm2''])
      else t_ok)"


section \<open>Thick groups\<close>

definition TestLvgThickCreateCascade :: "'x world_scheme Bench \<Rightarrow> nat list \<Rightarrow> 'x world_scheme test" where
  "TestLvgThickCreateCascade b sched = ncTest b sched (\<lambda>node.
     andThen (installLvm b node) (withGroup b node 2 (\<lambda>lvg. steps
       [onNode b (tn_Name node) (lvmPrefix node @ ''vgdisplay --units B'')
          [rx_text ''VG Name`s+'' @ obj_Name lvg, rx_text ''VG Size`s+21[45]`d{7} B'', rx_text ''Alloc PE / Size[`s`d]+ 0 / 0 B''],
        onNode b (tn_Name node) (lvmPrefix node @ ''pvdisplay --units B'')
          [rx_text ''VG Name`s+'' @ obj_Name lvg, rx_text ''PV Size`s+21[45]`d{7} B  /'']])))"

definition TestLvgThickDeleteCascadeManually :: "'x world_scheme Bench \<Rightarrow> nat list \<Rightarrow> 'x world_scheme test" where
  "TestLvgThickDeleteCascadeManually b sched = ncTest b sched (\<lambda>node. withGroup b node 3 (\<lambda>lvg. steps
     [deleteGroup b lvg,
      notOnNode b (tn_Name node) vgdisplayCmd [''VG Name ''],
      notOnNode b (tn_Name node) pvdisplayCmd [''VG Name '']]))"

definition TestLvgThickDiskResize :: "'x world_scheme Bench \<Rightarrow> nat list \<Rightarrow> 'x world_scheme test" where
  "TestLvgThickDiskResize b sched = hvTest b sched (\<lambda>node. withGroup b node 1 (\<lambda>lvg. steps
     [sizes b lvg [1] [''1.00g''] ''1.00g'', growDisks b node 2, sizesSoon b lvg [2] [''2.00g''] ''2.00g'']))"

definition TestLvgThickAddBd :: "'x world_scheme Bench \<Rightarrow> nat list \<Rightarrow> 'x world_scheme test" where
  "TestLvgThickAddBd b sched = hvTest b sched (\<lambda>node. withGroup b node 1 (\<lambda>lvg. steps
     [sizes b lvg [1] [''1.00g''] ''1.00g'',
      addDevice b node lvg 2,
      fatalOn (RetrySec 20 (bindIO (GetLvg (tb_cluster b) (obj_Name lvg)) (\<lambda>r. case r of
          Inl err \<Rightarrow> retIO (Some err)
        | Inr lvg' \<Rightarrow> retIO (wrongVgSize lvg')))),
      sizes b lvg [1, 2] [''1.00g'', ''2.00g''] ''3.00g'']))"

definition TestLvgThickReconnectBd :: "'x world_scheme Bench \<Rightarrow> nat list \<Rightarrow> 'x world_scheme test" where
  "TestLvgThickReconnectBd b sched = hvTest b sched (\<lambda>node. withGroup b node 1 (\<lambda>lvg.
     andThen (sizes b lvg [1] [''1.00g''] ''1.00g'') (reconnect b node lvg (\<lambda>oldBdPath.
       getOrFatal (GetLvg (tb_cluster b) (obj_Name lvg)) (\<lambda>lvg'.
         if length (lvg_Nodes lvg') = 0 then t_Fatal
         else steps [reconnected b lvg' oldBdPath, sizes b lvg' [1] [''1.00g''] ''1.00g''])))))"

definition TestVgThickAddLv :: "'x world_scheme Bench \<Rightarrow> nat list \<Rightarrow> 'x world_scheme test" where
  "TestVgThickAddLv b sched = ncTest b sched (\<lambda>node.
     t_do (bindIO (RandString (tb_rand b) 4) (\<lambda>s. retIO (''e2e-vg-'' @ s))) (\<lambda>vgName.
     getOrFatal (getOrCreateConsumableBlockDevices b (tn_Name node) 1 1) (\<lambda>bds.
     t_do (firstBd bds) (\<lambda>bd. steps
       [execOrFatal b (tn_Name node) [''sudo'', lvmD8, ''vgcreate'', vgName, bd_Path bd],
        onNode b (tn_Name node) vgdisplayCmd [rx_text ''VG Name`s+'' @ vgName, rx_text ''Alloc PE / Size[`s`d]+ 0 / 0''],
        execOrFatal b (tn_Name node) [''sudo'', lvmD8, ''lvcreate'', ''-L'', ''500m'', vgName],
        onNode b (tn_Name node) vgdisplayCmd
          [rx_text ''VG Name`s+'' @ vgName, rx_text ''Alloc PE / Size[`s`d]+ / 500.00 MiB'']]))))"


section \<open>Thin groups\<close>

definition TestLvgThinCreateCascade :: "'x world_scheme Bench \<Rightarrow> nat list \<Rightarrow> 'x world_scheme test" where
  "TestLvgThinCreateCascade b sched = ncTest b sched (\<lambda>node.
     andThen (installLvm b node) (withTpGroup b node (333 / 100) (\<lambda>lvg. steps
       [onNode b (tn_Name node) (lvmPrefix node @ ''vgdisplay --units B'')
          [rx_text ''VG Name`s+'' @ obj_Name lvg, rx_text ''VG Size`s+4(27|28|29|30|31)`d{7} B'',
           rx_text ''Alloc PE / Size`s+`d+ / 3(49|5`d)`d{7} B''],
        onNode b (tn_Name node) (lvmPrefix node @ ''pvdisplay --units B'')
          [rx_text ''VG Name`s+'' @ obj_Name lvg, rx_text ''PV Size`s+4(27|28|29|30|31)`d{7} B  /''],
        onNode b (tn_Name node) (lvmPrefix node @ ''lvdisplay'')
          [rx_text ''LV Name`s+thin-e2e-01'', rx_text ''LV Name`s+thin-e2e-02'', rx_text ''LV Size`s+1.00 GiB'',
           rx_text ''LV Size`s+2.33 GiB'']])))"

definition removeThinPool :: "'w Bench \<Rightarrow> TestNode \<Rightarrow> LVMVolumeGroup \<Rightarrow> 'w test" where
  "removeThinPool b node lvg = execOrFatal b (tn_Name node)
     [''sudo'', lvmD8, ''lvremove'', ''-y'', ''/dev/'' @ lvg_ActualVGNameOnTheNode lvg @ ''/thin-e2e-01'']"

definition TestLvgThinDeleteCascadeManually :: "'x world_scheme Bench \<Rightarrow> nat list \<Rightarrow> 'x world_scheme test" where
  "TestLvgThinDeleteCascadeManually b sched = ncTest b sched (\<lambda>node. withTpGroup b node (18 / 10) (\<lambda>lvg. steps
     [removeThinPool b node lvg,
      deleteGroup b lvg,
      notOnNode b (tn_Name node) vgdisplayCmd [''VG Name ''],
      notOnNode b (tn_Name node) pvdisplayCmd [''VG Name ''],
      notOnNode b (tn_Name node) lvdisplayCmd [''LV Name '']]))"

definition TestLvgThinDeleteCascadeK8s :: "'x world_scheme Bench \<Rightarrow> nat list \<Rightarrow> 'x world_scheme test" where
  "TestLvgThinDeleteCascadeK8s b sched = ncTest b sched (\<lambda>node. withTpGroup b node (16 / 10) (\<lambda>lvg. steps
     [ignoring (DeleteLVG (tb_cluster b) [noLvgFilter\<lparr>lvgf_Name := Str (obj_Name lvg)\<rparr>]),
      ignoring (sleepSec 4),
      onNode b (tn_Name node) vgdisplayCmd [rx_text ''VG Name`s+'' @ obj_Name lvg],
      onNode b (tn_Name node) pvdisplayCmd [rx_text ''VG Name`s+'' @ obj_Name lvg],
      onNode b (tn_Name node) lvdisplayCmd [rx_text ''LV Name`s+thin-e2e-01''],
      removeThinPool b node lvg,
      ignoring (sleepSec 3),
      notOnNode b (tn_Name node) vgdisplayCmd [rx_text ''VG Name`s+''],
      notOnNode b (tn_Name node) pvdisplayCmd [rx_text ''VG Name`s+''],
      notOnNode b (tn_Name node) lvdisplayCmd [rx_text ''LV Name`s+'']]))"

definition twoPools :: "rat list" where
  "twoPools = [1, round32 (134 / 100)]"

definition TestLvgThinDiskResize :: "'x world_scheme Bench \<Rightarrow> nat list \<Rightarrow> 'x world_scheme test" where
  "TestLvgThinDiskResize b sched = hvTest b sched (\<lambda>node. withTpGroup b node (234 / 100) (\<lambda>lvg. steps
     [sizes b lvg [3] [''660.00m''] ''660.00m'', pools b lvg twoPools,
      growDisks b node 4,
      sizesSoon b lvg [4] [''1.64g''] ''1.64g'', pools b lvg twoPools]))"

definition TestLvgThinPoolResize :: "'x world_scheme Bench \<Rightarrow> nat list \<Rightarrow> 'x world_scheme test" where
  "TestLvgThinPoolResize b sched = ncTest b sched (\<lambda>node. withTpGroup b node (234 / 100) (\<lambda>lvg. steps
     [sizes b lvg [3] [''660.00m''] ''660.00m'', pools b lvg twoPools,
      setPoolSize b lvg ''1.21Gi'',
      sizes b lvg [3] [''444.00m''] ''444.00m'', pools b lvg [round32 (121 / 100), round32 (134 / 100)]]))"

definition errorIf :: "bool \<Rightarrow> 'w test" where
  "errorIf p = (if p then t_Error else t_ok)"

definition notResized :: "LVMVolumeGroup \<Rightarrow> 'w test" where
  "notResized lvg = (case lvg_SpecThinPools lvg of
       [] \<Rightarrow> t_do (panicIO ''index out of range'') (\<lambda>_ :: unit. t_ok)
     | p # _ \<Rightarrow> andThen (errorIf (tps_Size p \<noteq> ''1.8Gi'')) (errorIf (lvg_ConfigurationApplied lvg \<noteq> ''False'')))"

definition TestLvgThinPoolOversize :: "'x world_scheme Bench \<Rightarrow> nat list \<Rightarrow> 'x world_scheme test" where
  "TestLvgThinPoolOversize b sched = ncTest b sched (\<lambda>node. withTpGroup b node (234 / 100) (\<lambda>lvg. steps
     [sizes b lvg [3] [''660.00m''] ''660.00m'', pools b lvg twoPools,
      setPoolSize b lvg ''1.8Gi'',
      ignoring (sleepSec 3),
      t_do (bindIO (GetLvg (tb_cluster b) (obj_Name lvg)) deref) (\<lambda>lvg'. steps
        [notResized lvg', sizes b lvg' [3] [''660.00m''] ''660.00m'', pools b lvg' twoPools])]))"

text \<open>The closure assigns the variable that holds the group, so an error of the get leaves it nil.\<close>

definition getVar :: "(('c \<times> 'x) world_scheme, 'c) io" where
  "getVar = (\<lambda>v. Some (Ret (var v), v))"

definition refetch :: "'x world_scheme Bench \<Rightarrow> ((LVMVolumeGroup \<times> 'x) world_scheme, go_error option) io" where
  "refetch b = bindIO getVar (\<lambda>lvg. bindIO (inner (bindIO (GetLvg (tb_cluster b) (obj_Name lvg)) deref)) (\<lambda>lvg'.
     bindIO (assign lvg') (\<lambda>_. retIO (wrongVgSize lvg'))))"

definition TestLvgThinAddBd :: "'x world_scheme Bench \<Rightarrow> nat list \<Rightarrow> 'x world_scheme test" where
  "TestLvgThinAddBd b sched = hvTest b sched (\<lambda>node. withTpGroup b node (17 / 10) (\<lambda>lvg. steps
     [sizes b lvg [2] [''296.00m''] ''296.00m'', pools b lvg [round32 (17 / 10)],
      addDevice b node lvg 1,
      t_do (local_var lvg (RetrySec 20 (refetch b))) (\<lambda>(r, lvg'). case r of
          Some err \<Rightarrow> t_Fatal
        | None \<Rightarrow> steps [sizes b lvg' [2, 1] [''296.00m'', ''1.00g''] ''<1.29g'', pools b lvg' [round32 (17 / 10)]])]))"

definition TestLvgThinReconnectBd :: "'x world_scheme Bench \<Rightarrow> nat list \<Rightarrow> 'x world_scheme test" where
  "TestLvgThinReconnectBd b sched = hvTest b sched (\<lambda>node. withTpGroup b node (11 / 10) (\<lambda>lvg.
     andThen (sizes b lvg [2] [''912.00m''] ''912.00m'') (reconnect b node lvg (\<lambda>oldBdPath.
       andThen (ignoring (sleepSec 1))
       (getOrFatal (GetLvg (tb_cluster b) (obj_Name lvg)) (\<lambda>lvg'. steps
         [reconnected b lvg' oldBdPath, sizes b lvg' [2] [''912.00m''] ''912.00m'']))))))"


section \<open>What the checks check\<close>

lemma poolOk_iff: "poolOk tp szs \<longleftrightarrow> (\<exists>s \<in> set szs. \<bar>tp_ActualSize tp - bytesOfGiB s\<bar> < 10 * 1024 * 1024)"
  by (induction szs) (auto simp: Let_def abs_less_iff)

lemma poolsLoop_None:
  "poolsLoop szs tps = None \<longleftrightarrow> (\<forall>tp \<in> set tps. tp_AllocatedSize tp = 0 \<and> poolOk tp szs)"
  by (induction tps) (auto simp: Let_def)

text \<open>
  When the volume group can be read, the check of its thin pools finds nothing to complain of if and only if there are
  as many pools as sizes, nothing is allocated in any of them, and each pool is within 10 MiB of some of the
  sizes. The sizes are not used up: two pools may meet the same one while another size has no pool.
\<close>

theorem thinPoolsCheck_result:
  assumes "cl_get (LVGs (tb_cluster b)) [] lvgName w = (Inr lvg, w')"
  shows "\<exists>e. thinPoolsCheck b lvgName szs w = Some (Ret e, w') \<and>
    (e = None \<longleftrightarrow> length (lvg_ThinPools lvg) = length szs \<and> (\<forall>tp \<in> set (lvg_ThinPools lvg).
      tp_AllocatedSize tp = 0 \<and> (\<exists>s \<in> set szs. \<bar>tp_ActualSize tp - bytesOfGiB s\<bar> < 10 * 1024 * 1024)))"
  using assms by (auto simp: thinPoolsCheck_def GetLvg_def bindIO_call Let_def run_simps poolsLoop_None poolOk_iff)

definition pool_of :: "string \<Rightarrow> int \<Rightarrow> LvgThinPoolStatus" where
  "pool_of name sz = \<lparr>tp_Name = name, tp_ActualSize = sz, tp_AllocatedSize = 0\<rparr>"

definition pools_bench :: "disk_world Bench" where
  "pools_bench = disk_bench\<lparr>tb_cluster := frozen_cluster\<lparr>LVGs := frozen_client
     [ready_lvg\<lparr>lvg_ThinPools := [pool_of ''a'' (2 ^ 30), pool_of ''b'' (2 ^ 30)]\<rparr>]\<rparr>\<rparr>"

lemma thinPoolsCheck_result_witness:
  "thinPoolsCheck pools_bench ''e2e-lvg-1'' [1, 2] (disks0 []) = Some (Ret None, disks0 [])"
proof -
  let ?lvg = "ready_lvg\<lparr>lvg_ThinPools := [pool_of ''a'' (2 ^ 30), pool_of ''b'' (2 ^ 30)]\<rparr>"
  have get: "cl_get (LVGs (tb_cluster pools_bench)) [] ''e2e-lvg-1'' (disks0 []) = (Inr ?lvg, disks0 [])"
    by (simp add: pools_bench_def frozen_client_def ready_lvg_def newLvg_def newMeta_def)
  have "bytesOfGiB 1 = 2 ^ 30" by (simp add: bytesOfGiB_def int_of_float_def)
  then have "length (lvg_ThinPools ?lvg) = length [1 :: rat, 2] \<and> (\<forall>tp \<in> set (lvg_ThinPools ?lvg). tp_AllocatedSize tp = 0 \<and>
      (\<exists>s \<in> set [1, 2]. \<bar>tp_ActualSize tp - bytesOfGiB s\<bar> < 10 * 1024 * 1024))"
    by (simp add: pool_of_def)
  with thinPoolsCheck_result [OF get, of "[1, 2]"] show ?thesis by blast
qed

lemma deviceChecks_Inr:
  assumes "deviceChecks nName lvgName devs szs vFree vg lsblk pvs w = Some (Ret (Inr (vgSize, ls, ps)), w')"
    and "length devs = length szs"
  shows "w' = w \<and> vgSize = foldl (\<lambda>a s. round32 (a + s)) vg szs \<and> list_all2 (\<lambda>d s.
    \<bar>dev_DevSize d - bytesOfGiB s\<bar> \<le> 5 * 1024 * 1024 \<and> dev_PVSize d = bytesOfGiB s) devs szs"
  using assms
proof (induction szs arbitrary: devs vFree vg lsblk pvs)
  case (Cons s szs)
  then obtain d devs' where d: "devs = d # devs'" by (cases devs) auto
  with Cons.prems have size: "\<bar>dev_DevSize d - bytesOfGiB s\<bar> \<le> 5 * 1024 * 1024 \<and> dev_PVSize d = bytesOfGiB s"
    by (auto simp: Let_def run_simps split: if_split_asm)
  with d Cons.prems obtain frees lsblk' pvs' where
    "deviceChecks nName lvgName devs' szs frees (round32 (vg + s)) lsblk' pvs' w = Some (Ret (Inr (vgSize, ls, ps)), w')"
    by (auto simp: Let_def run_simps bindIO_Ret_iff lastBytes_def split: if_split_asm list.split_asm)
  with Cons.IH [OF this] Cons.prems(2) d size show ?case by simp
qed (simp add: run_simps)

lemma runChecks_None:
  assumes "runChecks b nName checks w = Some (Ret None, w')" and "(cmd, resp) \<in> set checks"
  shows "\<exists>v v'. ExecNodeRespContains (tb_cluster b) (tb_exec b) nName cmd resp v = Some (Ret None, v')"
  using assms
  by (induction checks arbitrary: w) (auto simp: bindIO_Ret_iff run_simps split: option.split_asm, blast)

text \<open>
  C36. What a check of the sizes of a volume group without an error has seen: the group has a node with as many devices as
  sizes were given, each device is within 5 MiB of its size and its physical volume has it exactly, the group
  is within 5 MiB of the sum of the sizes cut down to whole GiB, and the commands that the bench names gave
  what was looked for on the node of the group, among them \<^verbatim>\<open>vgs\<close> with the free space. The bytes of a size are
  unbounded integers here: the \<^verbatim>\<open>int64\<close> of the code holds them for sizes below \<open>2 ^ 33\<close> GiB.
\<close>

theorem checkNodeLvgSize_sound:
  assumes "checkNodeLvgSize b lvgName vSize vFree vgFree w = Some (Ret None, w')" and "vgsCmd \<in> set (tb_order b)"
  defines "vgSize \<equiv> foldl (\<lambda>a s. round32 (a + s)) 0 vSize"
  shows "\<exists>lvg w1 node nodes v v'. cl_get (LVGs (tb_cluster b)) [] lvgName w = (Inr lvg, w1) \<and> lvg_Nodes lvg = node # nodes \<and>
    list_all2 (\<lambda>d s. \<bar>dev_DevSize d - bytesOfGiB s\<bar> \<le> 5 * 1024 * 1024 \<and> dev_PVSize d = bytesOfGiB s)
      (lvgn_Devices node) vSize \<and>
    \<bar>lvg_VGSize lvg - int_of_float vgSize * 1024 * 1024 * 1024\<bar> \<le> 5 * 1024 * 1024 \<and>
    ExecNodeRespContains (tb_cluster b) (tb_exec b) (lvg_LocalNodeName lvg) vgsCmd
      [lvg_ActualVGNameOnTheNode lvg @ rx_text '' [a-z`d`s-]* '' @ gib2 vgSize @ rx_text ''g`s+'' @ vgFree] v = Some (Ret None, v')"
proof -
  obtain r w1 where get: "cl_get (LVGs (tb_cluster b)) [] lvgName w = (r, w1)" by fastforce
  with assms(1) obtain lvg where r: "r = Inr lvg"
    by (cases r) (auto simp: checkNodeLvgSize_def GetLvg_def bindIO_call run_simps)
  with assms(1) get obtain node nodes where node: "lvg_Nodes lvg = node # nodes"
    by (cases "lvg_Nodes lvg") (auto simp: checkNodeLvgSize_def GetLvg_def bindIO_call run_simps)
  with assms(1) get r have len: "length (lvgn_Devices node) = length vSize"
    by (auto simp: checkNodeLvgSize_def GetLvg_def bindIO_call run_simps split: if_split_asm)
  let ?devs = "deviceChecks (lvg_LocalNodeName lvg) (obj_Name lvg) (lvgn_Devices node) vSize vFree 0 [] []"
  from assms(1) get r node len obtain c w2 where c: "?devs w1 = Some (Ret c, w2)"
    by (auto simp: checkNodeLvgSize_def GetLvg_def bindIO_call bindIO_Ret_iff Let_def)
  from assms(1) get r node len c obtain sz ls ps where c': "c = Inr (sz, ls, ps)"
    by (cases c) (auto simp: checkNodeLvgSize_def GetLvg_def bindIO_call bindIO_run Let_def run_simps)
  from deviceChecks_Inr [OF c [unfolded c'] len] have dev: "w2 = w1" "sz = vgSize"
    and sizes: "list_all2 (\<lambda>d s. \<bar>dev_DevSize d - bytesOfGiB s\<bar> \<le> 5 * 1024 * 1024 \<and> dev_PVSize d = bytesOfGiB s)
      (lvgn_Devices node) vSize"
    by (simp_all add: vgSize_def)
  let ?vgs = "[lvg_ActualVGNameOnTheNode lvg @ rx_text '' [a-z`d`s-]* '' @ gib2 vgSize @ rx_text ''g`s+'' @ vgFree]"
  let ?checks = "[lsblkCmd \<mapsto> ls, pvsCmd \<mapsto> ps, vgsCmd \<mapsto> ?vgs, vgdisplayCmd @ '' '' @ lvg_ActualVGNameOnTheNode lvg \<mapsto>
    [rx_text ''VG Size`s+'' @ gib2 vgSize @ rx_text '' GiB`n'']]"
  from assms(1) get r node len c c' dev
  have vg: "\<bar>lvg_VGSize lvg - int_of_float vgSize * 1024 * 1024 * 1024\<bar> \<le> 5 * 1024 * 1024"
    and run: "runChecks b (lvg_LocalNodeName lvg) (visited (tb_order b) ?checks) w1 = Some (Ret None, w')"
    by (auto simp: checkNodeLvgSize_def GetLvg_def bindIO_call bindIO_run Let_def run_simps split: if_split_asm)
  have "vgsCmd \<noteq> vgdisplayCmd @ '' '' @ lvg_ActualVGNameOnTheNode lvg"
    by (simp add: vgsCmd_def vgdisplayCmd_def)
  then have "(vgsCmd, ?vgs) \<in> set (visited (tb_order b) ?checks)"
    using assms(2) by (auto simp: visited_def List.map_filter_def)
  from runChecks_None [OF run this] get r node sizes vg show ?thesis by blast
qed

definition sized_lvg :: LVMVolumeGroup where
  "sized_lvg = ready_lvg\<lparr>lvg_Nodes := [\<lparr>lvgn_Name = ''w1'', lvgn_Devices =
     [\<lparr>dev_DevSize = 2 ^ 30, dev_PVSize = 2 ^ 30, dev_Path = ''/dev/sdb''\<rparr>]\<rparr>], lvg_VGSize := 2 ^ 30\<rparr>"

definition sized_bench :: "disk_world Bench" where
  "sized_bench = disk_bench\<lparr>tb_cluster := frozen_cluster\<lparr>LVGs := frozen_client [sized_lvg], Pods := frozen_client [snc_pod],
     regexp_match := \<lambda>p s. Some True\<rparr>, tb_order := [vgsCmd]\<rparr>"

lemma sized_run:
  "checkNodeLvgSize sized_bench ''e2e-lvg-1'' [1] [''1.00g''] ''1.00g'' (disks0 []) = Some (Ret None, disks0 [])"
proof -
  have get: "cl_get (LVGs (tb_cluster sized_bench)) [] ''e2e-lvg-1'' w = (Inr sized_lvg, w)" for w
    by (simp add: sized_bench_def frozen_client_def sized_lvg_def ready_lvg_def newLvg_def newMeta_def)
  have one: "round32 1 = 1" by code_simp
  have "ExecNode (tb_cluster sized_bench) (tb_exec sized_bench) ''w1'' cmd w = Some (Ret ([], [], None), w)" for cmd w
    by (simp add: ExecNode_def Let_def ListPod_def bindIO_run(1) [OF listFiltered_run] io_simps snc_pod_def zeroPod_def
        noPodFilter_def CheckStr_def sublist_code sized_bench_def disk_bench_def frozen_client_def)
  moreover have "regexp_match (tb_cluster sized_bench) = (\<lambda>p s. Some True)" by (simp add: sized_bench_def)
  ultimately have exec: "ExecNodeRespContains (tb_cluster sized_bench) (tb_exec sized_bench) ''w1'' cmd resp w = Some (Ret None, w)"
    for cmd resp w
    by (simp add: ExecNodeRespContains_def bindIO_run run_simps checkAll_None re_match_def)
  have "runChecks sized_bench ''w1'' checks w = Some (Ret None, w)" for checks w
    by (induction checks) (auto simp: bindIO_run(1) [OF exec] run_simps)
  then show ?thesis
    by (simp add: checkNodeLvgSize_def GetLvg_def bindIO_call get sized_lvg_def ready_lvg_def newLvg_def newMeta_def
        bytesOfGiB_def int_of_float_def lastBytes_def one Let_def run_simps bindIO_run)
qed

lemma checkNodeLvgSize_sound_witness:
  "\<exists>lvg w1 node nodes. cl_get (LVGs (tb_cluster sized_bench)) [] ''e2e-lvg-1'' (disks0 []) = (Inr lvg, w1) \<and>
    lvg_Nodes lvg = node # nodes \<and> list_all2 (\<lambda>d s. \<bar>dev_DevSize d - bytesOfGiB s\<bar> \<le> 5 * 1024 * 1024 \<and>
      dev_PVSize d = bytesOfGiB s) (lvgn_Devices node) [1]"
proof -
  have order: "vgsCmd \<in> set (tb_order sized_bench)" by (simp add: sized_bench_def)
  show ?thesis using checkNodeLvgSize_sound [OF sized_run order] by blast
qed


section \<open>Clean-up and reconnection\<close>

text \<open>Unless the state is to be kept, the last thing a case does is to remove the test disks.\<close>

lemma nc_cleans_last:
  assumes "ncTest b sched f t w = Some (Ret r, w')" and "\<not> KeepState (tb_env b)"
  shows "\<exists>v. removeTestDisks b v = Some (Ret (), w')"
proof -
  from assms(1) obtain w1 where "topTest sched (cleanup05 b) (onNodes b Nil f) t w1 = Some (Ret r, w')"
    by (auto simp: ncTest_def bindIO_Ret_iff)
  then show ?thesis
    using assms(2)
    by (auto simp: topTest_def withCleanup_def cleanup05_def bindIO_Ret_iff run_simps split: option.split_asm outcome.split_asm)
qed

text \<open>
  The filter of the reconnection has no namespace: it takes the data disks of the machines of that name in
  every namespace, those of other runs included.
\<close>

lemma dataDisks_any_namespace:
  "VmBdFilter_keep rx (dataDisks node) (a\<lparr>metadata := (metadata a)\<lparr>om_Namespace := ns\<rparr>\<rparr>) =
     VmBdFilter_keep rx (dataDisks node) a"
  by (simp add: VmBdFilter_keep_def dataDisks_def noVmBdFilter_def)

end
