(* ===== verification/LvmCases.thy ===== *)
theory LvmCases
  imports Lvm Tester
begin

text \<open>
  The test cases of the local volumes, \<^verbatim>\<open>images/sds-lvm-e2e/src/tests\<close>: storage classes, a claim with a pod on it (23 to 28),
  the cycle of 600 claims and pods, and the commands of the volume manager, one after the other and from several
  goroutines. They run on the helpers of \<^verbatim>\<open>Lvm\<close>; the messages of the log are left out.
\<close>

section \<open>Statements\<close>

text \<open>\<^verbatim>\<open>x, err := f(); if err != nil { t.Error(err) }\<close>: the test goes on with what it got.\<close>

definition orError :: "('w, 'a \<times> go_error option) io \<Rightarrow> ('a \<Rightarrow> 'w test) \<Rightarrow> 'w test" where
  "orError m k t = bindIO m (\<lambda>(x, err). k x (if err = None then t else t_Errorf t))"

definition onlyErr :: "('w, go_error option) io \<Rightarrow> 'w test \<Rightarrow> 'w test" where
  "onlyErr m k t = bindIO m (\<lambda>err. k (if err = None then t else t_Errorf t))"

definition finished :: "'w test" where
  "finished t = retIO (Finished, t)"

definition andAlso :: "'w test \<Rightarrow> 'w test \<Rightarrow> 'w test" where
  "andAlso m k t = bindIO (m t) (\<lambda>(e, t'). case e of Goexit \<Rightarrow> retIO (Goexit, t') | Finished \<Rightarrow> k t')"


section \<open>The client of the tests (init.go)\<close>

text \<open>The configuration, the functions that fill the scheme, and \<^verbatim>\<open>client.New\<close>, which gives no client with an error.\<close>

record ('w, 'r) TestKubeLib =
  tk_ClientConfig :: "'w \<Rightarrow> (go_error + 'r) \<times> 'w"
  tk_schemes :: "go_error option list"
  tk_New :: "'r \<Rightarrow> 'w \<Rightarrow> (go_error + 'w LvmClient) \<times> 'w"

fun firstErr :: "go_error option list \<Rightarrow> go_error option" where
  "firstErr [] = None"
| "firstErr (None # es) = firstErr es"
| "firstErr (Some e # es) = Some e"

text \<open>The error of \<^verbatim>\<open>client.New\<close> is dropped.\<close>

definition NewKubeClient_lvm :: "('w, 'r) TestKubeLib \<Rightarrow> ('w, 'w LvmClient option \<times> go_error option) io" where
  "NewKubeClient_lvm lib =
     bindIO (callIO (tk_ClientConfig lib)) (\<lambda>r. case r of
       Inl err \<Rightarrow> retIO (None, Some err)
     | Inr config \<Rightarrow> (case firstErr (tk_schemes lib) of
         Some err \<Rightarrow> retIO (None, Some err)
       | None \<Rightarrow> bindIO (callIO (tk_New lib config)) (\<lambda>r. case r of
           Inl err \<Rightarrow> retIO (None, None)
         | Inr cl \<Rightarrow> retIO (Some cl, None))))"

text \<open>Every case goes on without a client; its first use of it panics.\<close>

definition withClient :: "('w, 'r) TestKubeLib \<Rightarrow> ('w LvmClient \<Rightarrow> 'w test) \<Rightarrow> 'w test" where
  "withClient lib k = orError (NewKubeClient_lvm lib) (\<lambda>cl t. case cl of
       None \<Rightarrow> panicIO ''nil pointer dereference''
     | Some c \<Rightarrow> k c t)"


section \<open>Storage classes\<close>

definition vgList :: string where
  "vgList = ''- name: vg-w1'' @ [CHR 0x0A] @ ''- name: vg-w2''"

definition classTest :: "('w, 'r) TestKubeLib \<Rightarrow> string \<Rightarrow> string \<Rightarrow> string \<Rightarrow> 'w test" where
  "classTest lib name mode policy = withClient lib (\<lambda>cl.
     onlyErr (CreateStorageClass_lvm cl name ''Thick'' vgList mode policy) finished)"

definition TestCreateStorageClass_17 :: "('w, 'r) TestKubeLib \<Rightarrow> 'w test" where
  "TestCreateStorageClass_17 lib = classTest lib ''test-lvm-thick-immediate-delete'' ''Immediate'' ''Delete''"

definition TestCreateStorageClass_18 :: "('w, 'r) TestKubeLib \<Rightarrow> 'w test" where
  "TestCreateStorageClass_18 lib = classTest lib ''test-lvm-thick-immediate-retain'' ''Immediate'' ''Retain''"

definition TestCreateStorageClass_19 :: "('w, 'r) TestKubeLib \<Rightarrow> 'w test" where
  "TestCreateStorageClass_19 lib =
     classTest lib ''test-lvm-thick-wait-for-first-consumer-delete'' ''WaitForFirstConsumer'' ''Delete''"

definition TestCreateStorageClass_20 :: "('w, 'r) TestKubeLib \<Rightarrow> 'w test" where
  "TestCreateStorageClass_20 lib =
     classTest lib ''test-lvm-thick-wait-for-first-consumer-retain'' ''WaitForFirstConsumer'' ''Retain''"

definition TestDeleteStorageClass :: "('w, 'r) TestKubeLib \<Rightarrow> 'w test" where
  "TestDeleteStorageClass lib = withClient lib (\<lambda>cl.
     onlyErr (DeleteStorageClass_lvm cl ''test-lvm-thick-immediate-delete'') finished)"


section \<open>A claim and its pod\<close>

definition retainClass :: string where "retainClass = ''test-lvm-thick-immediate-retain''"

definition claimMade :: "'x world_scheme LvmClient \<Rightarrow> (string \<Rightarrow> 'x world_scheme test) \<Rightarrow> 'x world_scheme test" where
  "claimMade cl k =
     orError (CreatePVC_lvm cl ''test-pvc'' retainClass ''1Gi'' False) (\<lambda>pvc.
     orError (WaitPVCStatus_lvm cl (obj_Name pvc)) (\<lambda>pvcStatus. k (obj_Name pvc)))"

definition claimGone :: "'x world_scheme LvmClient \<Rightarrow> string \<Rightarrow> 'x world_scheme test" where
  "claimGone cl name =
     onlyErr (DeletePVC_lvm cl name) (orError (WaitPVCStatus_lvm cl name) (\<lambda>pvcStatus. finished))"

text \<open>A pod is made, waited for, looked at by \<open>look\<close>, deleted and waited for again.\<close>

definition podCycle :: "'x world_scheme LvmClient \<Rightarrow> string \<Rightarrow> string \<Rightarrow> (string \<Rightarrow> 'x world_scheme test) \<Rightarrow> 'x world_scheme test" where
  "podCycle cl claim script look =
     orError (CreatePod_lvm cl ''test-pod'' claim False [''/bin/bash''] [''-c'', script]) (\<lambda>podName.
     orError (WaitPodStatus cl podName) (\<lambda>status.
     andAlso (look status)
     (onlyErr (DeletePod_lvm cl podName) (orError (WaitDeletePod cl podName) (\<lambda>status. finished)))))"

definition dfScript :: string where
  "dfScript = (let q = [CHR 0x27] in
     ''df -T | grep '' @ q @ ''/usr/share/test-data'' @ q @ '' | grep '' @ q @ ''ext4'' @ q)"

definition notLooked :: "string \<Rightarrow> 'w test" where
  "notLooked status = finished"

definition Test_23_24 :: "('x world_scheme, 'r) TestKubeLib \<Rightarrow> 'x world_scheme test" where
  "Test_23_24 lib = withClient lib (\<lambda>cl. claimMade cl (\<lambda>pvc.
     andAlso (podCycle cl pvc dfScript (\<lambda>status t. finished (if status = ''Error'' then t_Errorf t else t)))
       (claimGone cl pvc)))"

definition touchScript :: string where "touchScript = ''touch /usr/share/test-data/test.txt''"

definition Test_26 :: "('x world_scheme, 'r) TestKubeLib \<Rightarrow> 'x world_scheme test" where
  "Test_26 lib = withClient lib (\<lambda>cl. claimMade cl (\<lambda>pvc.
     andAlso (podCycle cl pvc touchScript notLooked) (claimGone cl pvc)))"

definition Test_27 :: "('x world_scheme, 'r) TestKubeLib \<Rightarrow> 'x world_scheme test" where
  "Test_27 lib = withClient lib (\<lambda>cl. claimMade cl (\<lambda>pvc.
     andAlso (podCycle cl pvc touchScript notLooked)
     (andAlso (podCycle cl pvc ''cat /usr/share/test-data/test.txt'' notLooked) (claimGone cl pvc))))"

definition Test_28 :: "('x world_scheme, 'r) TestKubeLib \<Rightarrow> 'x world_scheme test" where
  "Test_28 lib = withClient lib (\<lambda>cl. claimMade cl (\<lambda>pvc.
     onlyErr (EditSizePVC cl pvc ''2Gi'') (orError (WaitPVCStatus_lvm cl pvc) (\<lambda>pvcStatus. finished))))"


section \<open>Six hundred claims and pods\<close>

definition immediateStorageClassName :: string where "immediateStorageClassName = ''ssd-immediate-thick-perf-test''"
definition waitForFirstConsumerStorageClassName :: string where
  "waitForFirstConsumerStorageClassName = ''ssd-wffc-thick-perf-test''"
definition bench_count :: nat where "bench_count = 600"
definition volumeSize :: string where "volumeSize = ''1Gi''"

text \<open>
  The maps of names to flags are lists of pairs. Go visits them in no fixed order; the order shows in the order of
  the pods only, so \<open>order\<close> arranges the names for it.
\<close>

fun createClaims :: "'w LvmClient \<Rightarrow> string \<Rightarrow> nat \<Rightarrow> nat \<Rightarrow> string list \<Rightarrow> (string list \<Rightarrow> 'w test) \<Rightarrow> 'w test" where
  "createClaims cl sc i 0 names k = k names"
| "createClaims cl sc i (Suc n) names k = (\<lambda>t.
     let pvcName = ''test-pvc-'' @ fmt_d (int i) in
     bindIO (CreatePVC_lvm cl pvcName sc volumeSize False) (\<lambda>(_, err). case err of
         Some e \<Rightarrow> createClaims cl sc (Suc i) n names k (t_Errorf t)
       | None \<Rightarrow> createClaims cl sc (Suc i) n (names @ [pvcName]) k t))"

fun createPods :: "'w LvmClient \<Rightarrow> string list \<Rightarrow> string list \<Rightarrow> (string list \<Rightarrow> 'w test) \<Rightarrow> 'w test" where
  "createPods cl [] names k = k names"
| "createPods cl (pvcName # pvcs) names k = (\<lambda>t.
     let podName = ''test-pvc-'' @ pvcName @ ''-pod'' in
     bindIO (CreatePod_lvm cl podName pvcName False [''/bin/bash''] [''-c'', dfScript]) (\<lambda>(_, err). case err of
         Some e \<Rightarrow> createPods cl pvcs names k (t_Errorf t)
       | None \<Rightarrow> createPods cl pvcs (names @ [podName]) k t))"

text \<open>One visit of the names: the flags, and how many were set.\<close>

fun markReady :: "('o \<Rightarrow> bool) \<Rightarrow> (string \<rightharpoonup> 'o) \<Rightarrow> (string \<times> bool) list \<Rightarrow> (string \<times> bool) list \<times> nat" where
  "markReady ready m [] = ([], 0)"
| "markReady ready m ((name, done_before) # names) =
     (let (names', n) = markReady ready m names in
      case m name of
        None \<Rightarrow> ((name, done_before) # names', n)
      | Some ob \<Rightarrow> if ready ob \<and> \<not> done_before then ((name, True) # names', Suc n) else ((name, done_before) # names', n))"

text \<open>The loop has no pause and no bound.\<close>

partial_function (option) watchLoop ::
  "('w, go_error + (string \<rightharpoonup> 'o)) io \<Rightarrow> ('o \<Rightarrow> bool) \<Rightarrow> (string \<times> bool) list \<Rightarrow> nat \<Rightarrow> testT \<Rightarrow> ('w, testT) io"
where
  "watchLoop list ready names cnt t w =
     (if cnt < length names
      then (case list w of
          None \<Rightarrow> None
        | Some (Panic s, w1) \<Rightarrow> Some (Panic s, w1)
        | Some (Exit s, w1) \<Rightarrow> Some (Exit s, w1)
        | Some (Ret (Inl err), w1) \<Rightarrow> watchLoop list ready names cnt (t_Errorf t) w1
        | Some (Ret (Inr m), w1) \<Rightarrow>
            watchLoop list ready (fst (markReady ready m names)) (cnt + snd (markReady ready m names)) t w1)
      else Some (Ret t, w))"

definition watchClaims :: "'w LvmClient \<Rightarrow> string list \<Rightarrow> 'w test \<Rightarrow> 'w test" where
  "watchClaims cl names k t =
     bindIO (watchLoop (GetPVCs cl) (\<lambda>pvc. pvc_Phase pvc = ''Bound'') (map (\<lambda>n. (n, False)) names) 0 t) k"

definition watchPods :: "'w LvmClient \<Rightarrow> string list \<Rightarrow> 'w test" where
  "watchPods cl names t =
     bindIO (watchLoop (GetPods cl) (\<lambda>pod. lp_Phase pod = ''Succeeded'') (map (\<lambda>n. (n, False)) names) 0 t) finished"

definition BenchmarkRunFullCycleImmediateStorageClassSingleThread ::
  "('w, 'r) TestKubeLib \<Rightarrow> (string list \<Rightarrow> string list) \<Rightarrow> 'w test"
where
  "BenchmarkRunFullCycleImmediateStorageClassSingleThread lib order = withClient lib (\<lambda>cl.
     createClaims cl immediateStorageClassName 0 bench_count [] (\<lambda>pvcs.
     watchClaims cl pvcs (createPods cl (order pvcs) [] (\<lambda>pods. watchPods cl pods))))"

definition BenchmarkRunFullCycleWFFCStorageClassSingleThread ::
  "('w, 'r) TestKubeLib \<Rightarrow> (string list \<Rightarrow> string list) \<Rightarrow> 'w test"
where
  "BenchmarkRunFullCycleWFFCStorageClassSingleThread lib order = withClient lib (\<lambda>cl.
     createClaims cl waitForFirstConsumerStorageClassName 0 bench_count [] (\<lambda>pvcs.
     createPods cl (order pvcs) [] (\<lambda>pods. watchClaims cl pvcs (watchPods cl pods))))"


section \<open>Commands (lvm_func_test.go)\<close>

definition cmdTest :: "('w, string \<times> go_error option) io \<Rightarrow> 'w test" where
  "cmdTest m = orError m (\<lambda>command. finished)"

definition TestCreatePV :: "'w LvmExec \<Rightarrow> 'w test" where
  "TestCreatePV lx = cmdTest (CreatePV lx ''/dev/vdd'')"

definition TestCreateVGLocal :: "'w LvmExec \<Rightarrow> 'w test" where
  "TestCreateVGLocal lx = cmdTest (CreateVGLocal lx ''new'' [''/dev/vdd''])"

definition TestCreateThinPool :: "'w LvmExec \<Rightarrow> 'w test" where
  "TestCreateThinPool lx = cmdTest (CreateThinPool lx ''newpool'' ''35G'' ''new'')"

definition TestRemoveVGLocal :: "'w LvmExec \<Rightarrow> 'w test" where
  "TestRemoveVGLocal lx = cmdTest (RemoveVG lx ''new'')"

definition TestRemovePV :: "'w LvmExec \<Rightarrow> 'w test" where
  "TestRemovePV lx = cmdTest (RemovePV lx [''/dev/vdd''])"

text \<open>The body of a benchmark for the numbers from \<open>i\<close> on, \<open>n\<close> of them.\<close>

fun numberLoop :: "(string \<Rightarrow> 'w test) \<Rightarrow> nat \<Rightarrow> nat \<Rightarrow> 'w test" where
  "numberLoop f i 0 = finished"
| "numberLoop f i (Suc n) = andAlso (f (fmt_d (int i))) (numberLoop f (Suc i) n)"

definition BenchmarkCreateThinLVSerial :: "'w LvmExec \<Rightarrow> 'w test" where
  "BenchmarkCreateThinLVSerial lx =
     numberLoop (\<lambda>name. cmdTest (CreateThinLogicalVolume lx ''new'' ''newpool'' name ''1Gi'')) 0 100"

definition BenchmarkDeleteThinLVSerial :: "'w LvmExec \<Rightarrow> 'w test" where
  "BenchmarkDeleteThinLVSerial lx = numberLoop (\<lambda>name. cmdTest (RemoveLV lx ''new'' name)) 0 20"

definition BenchmarkCreateThickLVSerial :: "'w LvmExec \<Rightarrow> 'w test" where
  "BenchmarkCreateThickLVSerial lx =
     numberLoop (\<lambda>name. cmdTest (CreateThickLogicalVolume lx ''new'' name ''1G'')) 1 20"

definition BenchmarkDeleteThickLVSerial :: "'w LvmExec \<Rightarrow> 'w test" where
  "BenchmarkDeleteThickLVSerial lx = numberLoop (\<lambda>name. cmdTest (RemoveLV lx ''new'' name)) 1 20"

definition BenchmarkCreateAndExtendLVSerial :: "'w LvmExec \<Rightarrow> 'w test" where
  "BenchmarkCreateAndExtendLVSerial lx = numberLoop (\<lambda>name. andAlso
     (cmdTest (CreateThickLogicalVolume lx ''new'' name ''1G'')) (cmdTest (ExtendLV lx ''1.8G'' ''new'' name))) 1 20"


text \<open>The commands of this benchmark come from several goroutines; they are all the same, so that their order does not show.\<close>

definition BenchmarkCreatePV :: "'w LvmExec \<Rightarrow> 'w test" where
  "BenchmarkCreatePV lx = numberLoop (\<lambda>name. cmdTest (CreatePV lx ''/dev/sdx'')) 0 600"


section \<open>Commands from several goroutines\<close>

text \<open>
  \<^verbatim>\<open>b.RunParallel\<close> runs its body in goroutines that share the variable \<^verbatim>\<open>i\<close>; \<^verbatim>\<open>pb.Next\<close> hands out the \<^verbatim>\<open>b.N\<close> iterations.
  The statement \<^verbatim>\<open>i++\<close> is a load and a store, and the command reads \<^verbatim>\<open>i\<close> once more for the name of its volume. Nothing
  orders these accesses. The state keeps the numbers of the commands in the order they are run.
\<close>

datatype place = AtNext | BeforeLoad | Loaded nat | BeforeUse | Ended

record shared =
  sh_i :: nat
  sh_left :: nat
  sh_places :: "place list"
  sh_used :: "nat list"

definition goroutines :: "nat \<Rightarrow> nat \<Rightarrow> shared" where
  "goroutines p n = \<lparr>sh_i = 0, sh_left = n, sh_places = replicate p AtNext, sh_used = []\<rparr>"

inductive parallel_step :: "shared \<Rightarrow> shared \<Rightarrow> bool" where
  iterate: "k < length (sh_places s) \<Longrightarrow> sh_places s ! k = AtNext \<Longrightarrow> 0 < sh_left s \<Longrightarrow>
    parallel_step s (s\<lparr>sh_left := sh_left s - 1, sh_places := (sh_places s)[k := BeforeLoad]\<rparr>)"
| no_more: "k < length (sh_places s) \<Longrightarrow> sh_places s ! k = AtNext \<Longrightarrow> sh_left s = 0 \<Longrightarrow>
    parallel_step s (s\<lparr>sh_places := (sh_places s)[k := Ended]\<rparr>)"
| load: "k < length (sh_places s) \<Longrightarrow> sh_places s ! k = BeforeLoad \<Longrightarrow>
    parallel_step s (s\<lparr>sh_places := (sh_places s)[k := Loaded (sh_i s)]\<rparr>)"
| store: "k < length (sh_places s) \<Longrightarrow> sh_places s ! k = Loaded v \<Longrightarrow>
    parallel_step s (s\<lparr>sh_i := v + 1, sh_places := (sh_places s)[k := BeforeUse]\<rparr>)"
| use_it: "k < length (sh_places s) \<Longrightarrow> sh_places s ! k = BeforeUse \<Longrightarrow>
    parallel_step s (s\<lparr>sh_used := sh_used s @ [sh_i s], sh_places := (sh_places s)[k := AtNext]\<rparr>)"

text \<open>The parallel benchmarks with a number: the command that one of them runs for each number used, and \<^verbatim>\<open>b.N\<close>.\<close>

definition parallelBenchmarks :: "'w LvmExec \<Rightarrow> (string \<times> nat \<times> (nat \<Rightarrow> 'w test)) list" where
  "parallelBenchmarks lx =
     [(''BenchmarkDeleteThinLVParallel'', 20, \<lambda>i. cmdTest (RemoveLV lx ''new'' (fmt_d (int i)))),
      (''BenchmarkCreateThinLVParallel'', 20, \<lambda>i. cmdTest (CreateThinLogicalVolume lx ''new'' ''newpool'' (fmt_d (int i)) ''1G'')),
      (''BenchmarkCreateThickLVParallel'', 20, \<lambda>i. cmdTest (CreateThickLogicalVolume lx ''new'' (fmt_d (int i)) ''1G'')),
      (''BenchmarkDeleteThickLVParallel'', 20, \<lambda>i. cmdTest (RemoveLV lx ''new'' (fmt_d (int i)))),
      (''BenchmarkExtendThickLVParallel'', 20, \<lambda>i. cmdTest (ExtendLV lx ''2G'' ''new'' (fmt_d (int i))))]"

fun flight :: "place \<Rightarrow> nat" where
  "flight BeforeLoad = 1"
| "flight (Loaded v) = 1"
| "flight p = 0"

definition in_flight :: "place list \<Rightarrow> nat" where
  "in_flight ps = sum_list (map flight ps)"

text \<open>How many iterations have been handed out bounds every number in sight.\<close>

definition bounded :: "nat \<Rightarrow> shared \<Rightarrow> bool" where
  "bounded n s \<longleftrightarrow> sh_left s \<le> n \<and> sh_i s + in_flight (sh_places s) \<le> n - sh_left s \<and>
     (\<forall>v. Loaded v \<in> set (sh_places s) \<longrightarrow> v + in_flight (sh_places s) \<le> n - sh_left s) \<and>
     (BeforeUse \<in> set (sh_places s) \<longrightarrow> 1 \<le> sh_i s) \<and> (\<forall>i \<in> set (sh_used s). 1 \<le> i \<and> i \<le> n)"

lemma in_flight_update:
  "k < length ps \<Longrightarrow> in_flight (ps[k := p]) + flight (ps ! k) = in_flight ps + flight p"
  using elem_le_sum_list [of k "map flight ps"] by (simp add: in_flight_def map_update sum_list_update)

lemma bounded_step:
  assumes "parallel_step s s'" and "bounded n s"
  shows "bounded n s'"
  using assms
proof (induction rule: parallel_step.induct)
  case (iterate k s)
  then show ?case
    using in_flight_update [of k "sh_places s" BeforeLoad] by (auto simp: bounded_def dest!: set_update_subset_insert [THEN subsetD])
next
  case (no_more k s)
  then show ?case
    using in_flight_update [of k "sh_places s" Ended] by (auto simp: bounded_def dest!: set_update_subset_insert [THEN subsetD])
next
  case (load k s)
  then show ?case
    using in_flight_update [of k "sh_places s" "Loaded (sh_i s)"]
    by (auto simp: bounded_def dest!: set_update_subset_insert [THEN subsetD])
next
  case (store k s v)
  then have "Loaded v \<in> set (sh_places s)" using nth_mem [of k "sh_places s"] by simp
  with store show ?case
    using in_flight_update [of k "sh_places s" BeforeUse]
    by (fastforce simp: bounded_def dest!: set_update_subset_insert [THEN subsetD])
next
  case (use_it k s)
  then have "BeforeUse \<in> set (sh_places s)" using nth_mem [of k "sh_places s"] by simp
  with use_it show ?case
    using in_flight_update [of k "sh_places s" AtNext]
    by (fastforce simp: bounded_def dest!: set_update_subset_insert [THEN subsetD])
qed

lemma bounded_reachable: "parallel_step\<^sup>*\<^sup>* (goroutines p n) s \<Longrightarrow> bounded n s"
proof (induction rule: rtranclp_induct)
  case base
  show ?case by (simp add: bounded_def goroutines_def in_flight_def sum_list_replicate)
qed (rule bounded_step)

text \<open>Two goroutines load the same value.\<close>

lemma same_number_twice:
  assumes "2 \<le> p" and "2 \<le> n"
  shows "\<exists>s. parallel_step\<^sup>*\<^sup>* (goroutines p n) s \<and> sh_used s = [1, 1]"
proof -
  define q where "q = p - 2"
  with assms(1) have p: "p = Suc (Suc q)" by simp
  let ?st = "\<lambda>i l a b u. \<lparr>sh_i = i, sh_left = l, sh_places = a # b # replicate q AtNext, sh_used = u\<rparr>"
  have s1: "parallel_step (?st 0 n AtNext AtNext []) (?st 0 (n - 1) BeforeLoad AtNext [])"
    using parallel_step.iterate [of 0 "?st 0 n AtNext AtNext []"] assms(2) by simp
  have s2: "parallel_step (?st 0 (n - 1) BeforeLoad AtNext []) (?st 0 (n - 2) BeforeLoad BeforeLoad [])"
    using parallel_step.iterate [of 1 "?st 0 (n - 1) BeforeLoad AtNext []"] assms(2) by (simp add: numeral_2_eq_2)
  have s3: "parallel_step (?st 0 (n - 2) BeforeLoad BeforeLoad []) (?st 0 (n - 2) (Loaded 0) BeforeLoad [])"
    using parallel_step.load [of 0 "?st 0 (n - 2) BeforeLoad BeforeLoad []"] by simp
  have s4: "parallel_step (?st 0 (n - 2) (Loaded 0) BeforeLoad []) (?st 0 (n - 2) (Loaded 0) (Loaded 0) [])"
    using parallel_step.load [of 1 "?st 0 (n - 2) (Loaded 0) BeforeLoad []"] by simp
  have s5: "parallel_step (?st 0 (n - 2) (Loaded 0) (Loaded 0) []) (?st 1 (n - 2) BeforeUse (Loaded 0) [])"
    using parallel_step.store [of 0 "?st 0 (n - 2) (Loaded 0) (Loaded 0) []" 0] by simp
  have s6: "parallel_step (?st 1 (n - 2) BeforeUse (Loaded 0) []) (?st 1 (n - 2) BeforeUse BeforeUse [])"
    using parallel_step.store [of 1 "?st 1 (n - 2) BeforeUse (Loaded 0) []" 0] by simp
  have s7: "parallel_step (?st 1 (n - 2) BeforeUse BeforeUse []) (?st 1 (n - 2) AtNext BeforeUse [1])"
    using parallel_step.use_it [of 0 "?st 1 (n - 2) BeforeUse BeforeUse []"] by simp
  have s8: "parallel_step (?st 1 (n - 2) AtNext BeforeUse [1]) (?st 1 (n - 2) AtNext AtNext [1, 1])"
    using parallel_step.use_it [of 1 "?st 1 (n - 2) AtNext BeforeUse [1]"] by simp
  have "parallel_step\<^sup>*\<^sup>* (?st 0 n AtNext AtNext []) (?st 1 (n - 2) AtNext AtNext [1, 1])"
    by (rule converse_rtranclp_into_rtranclp, rule s1 s2 s3 s4 s5 s6 s7 s8)+ (rule rtranclp.rtrancl_refl)
  then have "parallel_step\<^sup>*\<^sup>* (goroutines p n) (?st 1 (n - 2) AtNext AtNext [1, 1])"
    by (simp add: goroutines_def p)
  then show ?thesis by (intro exI [of _ "?st 1 (n - 2) AtNext AtNext [1, 1]"]) simp
qed

text \<open>
  C37. The numbers of the parallel benchmarks: under every interleaving each number used for the name of a volume is one
  of \<open>1\<close> to \<^verbatim>\<open>b.N\<close>. As soon as there are two goroutines, however, some interleaving runs the command twice for
  the same volume: \<^verbatim>\<open>i++\<close> is no atomic step, and an update is lost.
\<close>

theorem parallel_numbers:
  assumes "2 \<le> p" and "2 \<le> n"
  shows "(\<forall>s. parallel_step\<^sup>*\<^sup>* (goroutines p n) s \<longrightarrow> set (sh_used s) \<subseteq> {1..n}) \<and>
    (\<exists>s. parallel_step\<^sup>*\<^sup>* (goroutines p n) s \<and> \<not> distinct (sh_used s))"
proof (intro conjI allI impI)
  fix s
  assume "parallel_step\<^sup>*\<^sup>* (goroutines p n) s"
  from bounded_reachable [OF this] show "set (sh_used s) \<subseteq> {1..n}" by (auto simp: bounded_def)
next
  from same_number_twice [OF assms] show "\<exists>s. parallel_step\<^sup>*\<^sup>* (goroutines p n) s \<and> \<not> distinct (sh_used s)"
    by (metis distinct.simps(2) list.set_intros(1))
qed

lemma parallel_numbers_witness:
  "\<exists>s. parallel_step\<^sup>*\<^sup>* (goroutines 8 20) s \<and> \<not> distinct (sh_used s)"
  using parallel_numbers [of 8 20] by simp


section \<open>Waiting for six hundred\<close>

definition flagged :: "(string \<times> bool) list \<Rightarrow> nat" where
  "flagged names = length (filter snd names)"

lemma markReady_flagged: "flagged (fst (markReady ready m names)) = flagged names + snd (markReady ready m names)"
  by (induction names) (auto simp: flagged_def split: prod.splits option.splits)

lemma markReady_names: "map fst (fst (markReady ready m names)) = map fst names"
  by (induction names) (auto split: prod.splits option.splits)

lemma markReady_keeps:
  assumes "(n, False) \<in> set names" and "\<And>ob. m n = Some ob \<Longrightarrow> \<not> ready ob"
  shows "(n, False) \<in> set (fst (markReady ready m names))"
  using assms(1) by (induction names) (auto split: prod.splits option.splits dest: assms(2))

lemma unflagged_less: "(n, False) \<in> set names \<Longrightarrow> flagged names < length names"
  unfolding flagged_def by (rule length_filter_less [where x = "(n, False)"]) auto

lemma watchLoop_hangs:
  assumes "watchLoop list ready names cnt t w = Some r"
    and "cnt = flagged names" and "(n, False) \<in> set names"
    and "\<And>v. \<exists>l v'. list v = Some (Ret l, v')"
    and "\<And>v m v' ob. list v = Some (Ret (Inr m), v') \<Longrightarrow> m n = Some ob \<Longrightarrow> \<not> ready ob"
  shows False
proof -
  have "list' = list \<longrightarrow> ready' = ready \<longrightarrow> cnt = flagged names \<longrightarrow> (n, False) \<in> set names \<longrightarrow> False"
    if "watchLoop list' ready' names cnt t w = Some r" for list' ready' names cnt t w r
    using that
  proof (rule watchLoop.raw_induct [where P = "\<lambda>list' ready' names cnt t w r.
      list' = list \<longrightarrow> ready' = ready \<longrightarrow> cnt = flagged names \<longrightarrow> (n, False) \<in> set names \<longrightarrow> False", rotated])
    fix loop :: "('a, go_error + (string \<rightharpoonup> 'b)) io \<Rightarrow> ('b \<Rightarrow> bool) \<Rightarrow> (string \<times> bool) list \<Rightarrow> nat \<Rightarrow> testT \<Rightarrow> ('a, testT) io"
    fix list' ready' names cnt t w r
    assume IH: "\<And>list' ready' names cnt t w r. loop list' ready' names cnt t w = Some r \<Longrightarrow>
        list' = list \<longrightarrow> ready' = ready \<longrightarrow> cnt = flagged names \<longrightarrow> (n, False) \<in> set names \<longrightarrow> False"
      and step: "(if cnt < length names
        then (case list' w of
            None \<Rightarrow> None
          | Some (Panic s, w1) \<Rightarrow> Some (Panic s, w1)
          | Some (Exit s, w1) \<Rightarrow> Some (Exit s, w1)
          | Some (Ret (Inl err), w1) \<Rightarrow> loop list' ready' names cnt (t_Errorf t) w1
          | Some (Ret (Inr m), w1) \<Rightarrow>
              loop list' ready' (fst (markReady ready' m names)) (cnt + snd (markReady ready' m names)) t w1)
        else Some (Ret t, w)) = Some r"
    show "list' = list \<longrightarrow> ready' = ready \<longrightarrow> cnt = flagged names \<longrightarrow> (n, False) \<in> set names \<longrightarrow> False"
    proof (intro impI)
      assume eq: "list' = list" "ready' = ready" and cnt: "cnt = flagged names" and n: "(n, False) \<in> set names"
      obtain l w1 where l: "list w = Some (Ret l, w1)" using assms(4) by blast
      show False
      proof (cases l)
        case (Inl e)
        with step l eq cnt unflagged_less [OF n] have "loop list ready names cnt (t_Errorf t) w1 = Some r" by simp
        from IH [OF this] cnt n show False by simp
      next
        case (Inr m)
        with step l eq cnt unflagged_less [OF n]
        have "loop list ready (fst (markReady ready m names)) (cnt + snd (markReady ready m names)) t w1 = Some r" by simp
        moreover have "(n, False) \<in> set (fst (markReady ready m names))"
          using n by (rule markReady_keeps) (rule assms(5) [OF l [unfolded Inr]])
        ultimately show False using IH cnt markReady_flagged [of ready m names] by fastforce
      qed
    qed
  qed
  from this [OF assms(1)] assms(2,3) show False by blast
qed

text \<open>
  C38. The wait for the claims of the cycle has no bound: if one of the claims that were created is never listed as bound,
  as with an error of every listing, the benchmark never returns, neither with a failure nor without; it asks
  the server again without a pause.
\<close>

theorem watchClaims_hangs:
  assumes "n \<in> set names"
    and "\<And>v pvcs v'. cl_list (lc_PVCs cl) [] v = (Inr pvcs, v') \<Longrightarrow>
      \<not> list_ex (\<lambda>pvc. obj_Name pvc = n \<and> pvc_Phase pvc = ''Bound'') pvcs"
  shows "watchClaims cl names k t w = None"
proof -
  have byName: "byName pvcs res n = Some ob \<Longrightarrow> res n = Some ob \<or> (ob \<in> set pvcs \<and> obj_Name ob = n)"
    for pvcs res and ob :: PersistentVolumeClaim
    by (induction pvcs arbitrary: res) (fastforce split: if_split_asm)+
  have "watchLoop (GetPVCs cl) (\<lambda>pvc. pvc_Phase pvc = ''Bound'') (map (\<lambda>n. (n, False)) names) 0 t w = None"
  proof (rule ccontr)
    assume "\<not> ?thesis"
    then obtain r where "watchLoop (GetPVCs cl) (\<lambda>pvc. pvc_Phase pvc = ''Bound'') (map (\<lambda>n. (n, False)) names) 0 t w = Some r"
      by auto
    then show False
    proof (rule watchLoop_hangs)
      show "0 = flagged (map (\<lambda>n. (n, False)) names)" by (induction names) (auto simp: flagged_def)
      show "(n, False) \<in> set (map (\<lambda>n. (n, False)) names)" using assms(1) by auto
      show "\<exists>l v'. GetPVCs cl v = Some (Ret l, v')" for v
        by (cases "fst (cl_list (lc_PVCs cl) [] v)") (auto simp: GetPVCs_def bindIO_call run_simps)
      show "\<not> pvc_Phase ob = ''Bound''" if "GetPVCs cl v = Some (Ret (Inr m), v')" and "m n = Some ob" for v m v' ob
      proof -
        from that obtain pvcs where pvcs: "cl_list (lc_PVCs cl) [] v = (Inr pvcs, v')" and m: "m = byName pvcs Map.empty"
          by (cases "cl_list (lc_PVCs cl) [] v") (auto simp: GetPVCs_def bindIO_call run_simps split: sum.split_asm)
        with that(2) byName [of pvcs Map.empty ob] assms(2) [OF pvcs] show ?thesis by (auto simp: list_ex_iff)
      qed
    qed
  qed
  then show ?thesis by (simp add: watchClaims_def bindIO_run)
qed

lemma watchClaims_hangs_witness:
  "watchClaims (podless\<lparr>lc_PVCs := frozen_client []\<rparr>) [''test-pvc-0''] finished freshT clock0 = None"
  using watchClaims_hangs [of "''test-pvc-0''" "[''test-pvc-0'']" "podless\<lparr>lc_PVCs := frozen_client []\<rparr>" finished freshT clock0]
  by (simp add: frozen_client_def)

end
