(* ===== verification/KitCases.thy ===== *)
theory KitCases
  imports KitCluster LvmCases
begin

text \<open>
  The test cases of the first kit, \<^verbatim>\<open>testkit/tests\<close>: the stress test with its flags (\<^verbatim>\<open>stress\<close>), and the volume groups
  (\<^verbatim>\<open>sds-node-configurator\<close>). They run on the operations of \<^verbatim>\<open>Kit\<close> and the connections of \<^verbatim>\<open>KitCluster\<close>; the statements
  that a test is made of are those of \<^verbatim>\<open>LvmCases\<close>.
\<close>

section \<open>Clients and libraries\<close>

text \<open>
  The tests use the generic client for kinds of objects that \<^verbatim>\<open>KitClient\<close> does not have. A quantity of Kubernetes is an
  element of \<open>'q\<close>. The volume group is the one of the older interface of sds-node-configurator; a device of its status
  has the sizes of the physical volume and of the device.
\<close>

record 'q KitLvg = KObject +
  kl_ActualVGNameOnTheNode :: string
  kl_BlockDeviceNames :: "string list"
  kl_Type :: string
  kl_Nodes :: "(string \<times> ('q \<times> 'q) list) list"

text \<open>The map of the requests may be nil.\<close>

record 'q StressPvc = KObject +
  sp_Requests :: "(string \<rightharpoonup> 'q) option"
  sp_Capacity :: "string \<rightharpoonup> 'q"

record ('w, 'q) MoreKinds =
  mk_LVGs :: "('w, 'q KitLvg) client"
  mk_BDs :: "('w, BlockDevice) client"
  mk_Pods :: "('w, Pod) client"
  mk_PVCs :: "('w, 'q StressPvc) client"

record ('w, 'r, 'c, 'a, 'q) KitTestLib =
  kt_kube :: "('w, 'r) KitKubeLib"
  kt_more :: "'w KitClient \<Rightarrow> ('w, 'q) MoreKinds"
  kt_goph :: "('w, 'c, 'a) GophLib"
  kt_noAuth :: 'a
  kt_Parse :: "string \<Rightarrow> go_error + 'q"
  kt_Size :: "'q \<Rightarrow> int"
  kt_String :: "'q \<Rightarrow> string"
  kt_zero :: 'q

text \<open>Without a client the test goes on to its first use, which panics.\<close>

definition withKit :: "('w, 'r, 'c, 'a, 'q) KitTestLib \<Rightarrow> string \<Rightarrow> ('w KitClient \<Rightarrow> 'w test) \<Rightarrow> 'w test" where
  "withKit kt path k t =
     bindIO (NewKubeClient (kt_kube kt) path) (\<lambda>r. case r of
         Inl err \<Rightarrow> panicIO ''nil pointer dereference''
       | Inr cl \<Rightarrow> k cl t)"

text \<open>A listing with an error fails the test, which goes on with an empty list.\<close>

definition orEmpty_kit :: "('w, go_error + 'a list) io \<Rightarrow> ('a list \<Rightarrow> 'w test) \<Rightarrow> 'w test" where
  "orEmpty_kit m k t = bindIO m (\<lambda>r. case r of Inl err \<Rightarrow> k [] (t_Errorf t) | Inr items \<Rightarrow> k items t)"

fun eachOf :: "('a \<Rightarrow> 'w test) \<Rightarrow> 'a list \<Rightarrow> 'w test" where
  "eachOf f [] = finished"
| "eachOf f (x # xs) = andAlso (f x) (eachOf f xs)"

definition nap :: "int \<Rightarrow> ('x world_scheme, unit) io" where
  "nap sec = callIO (\<lambda>w. ((), sleep (sec * second) w))"

definition napping :: "'x world_scheme test" where
  "napping t = bindIO (nap 10) (\<lambda>_. finished t)"


section \<open>Flags (stress/init.go)\<close>

text \<open>
  The package \<^verbatim>\<open>flag\<close> keeps a cell for each flag. \<^verbatim>\<open>flag.String\<close> and its like register the flag, put the default into its
  cell and give a pointer to the cell; the variables of the package are read through it there and then. The arguments are
  parsed when \<^verbatim>\<open>go test\<close> starts the tests, after the packages are initialised, and go to the cells.
\<close>

datatype flagValue = FString string | FInt int | FBool bool

type_synonym flagSet = "string \<rightharpoonup> flagValue"

definition flagVar :: "string \<Rightarrow> flagValue \<Rightarrow> flagSet \<Rightarrow> flagValue \<times> flagSet" where
  "flagVar name default_value fs = (let fs' = fs(name \<mapsto> default_value) in (the (fs' name), fs'))"

fun asString :: "flagValue \<Rightarrow> string" where
  "asString (FString s) = s"
| "asString v = []"

fun asInt :: "flagValue \<Rightarrow> int" where
  "asInt (FInt i) = i"
| "asInt v = 0"

fun asBool :: "flagValue \<Rightarrow> bool" where
  "asBool (FBool b) = b"
| "asBool v = False"

record stressVars =
  sv_testNamespace :: string
  sv_stsCount :: int
  sv_pvSize :: string
  sv_pvResizedSize :: string
  sv_storageClassName :: string
  sv_createRSP :: bool
  sv_createVM :: bool

definition stressInit :: "flagSet \<Rightarrow> stressVars \<times> flagSet" where
  "stressInit fs0 =
     (let (testNamespace, fs1) = flagVar ''namespace'' (FString ''sds-replicated-volume-e2e-test'') fs0;
          (stsCount, fs2) = flagVar ''stsCount'' (FInt 50) fs1;
          (pvSize, fs3) = flagVar ''pvSize'' (FString ''5Gi'') fs2;
          (pvResizedSize, fs4) = flagVar ''pvResizedSize'' (FString ''5.1Gi'') fs3;
          (storageClassName, fs5) = flagVar ''storageClassName'' (FString ''linstor-r2'') fs4;
          (createRSP, fs6) = flagVar ''createRSP'' (FBool True) fs5;
          (createVM, fs7) = flagVar ''createVM'' (FBool True) fs6
      in (\<lparr>sv_testNamespace = asString testNamespace, sv_stsCount = asInt stsCount, sv_pvSize = asString pvSize,
           sv_pvResizedSize = asString pvResizedSize, sv_storageClassName = asString storageClassName,
           sv_createRSP = asBool createRSP, sv_createVM = asBool createVM\<rparr>, fs7))"

definition flagParse :: "(string \<times> flagValue) list \<Rightarrow> flagSet \<Rightarrow> flagSet" where
  "flagParse args fs = fold (\<lambda>(name, v) fs. fs(name \<mapsto> v)) args fs"

text \<open>The variables and the cells when the first test starts.\<close>

definition stressMain :: "(string \<times> flagValue) list \<Rightarrow> flagSet \<Rightarrow> stressVars \<times> flagSet" where
  "stressMain args fs = (let (vars, fs') = stressInit fs in (vars, flagParse args fs'))"


section \<open>Trying six hundred times\<close>

text \<open>
  The loop of the tests, with \<open>n\<close> tries left after this one: a try says whether the loop is left, and may fail the test.
  After the pause of the last one the test has failed.
\<close>

fun tryLoop :: "int \<Rightarrow> (testT \<Rightarrow> ('x world_scheme, bool \<times> testT) io) \<Rightarrow> nat \<Rightarrow> testT \<Rightarrow> ('x world_scheme, testT) io" where
  "tryLoop sec m n t =
     bindIO (m t) (\<lambda>(ok, t').
       if ok then retIO t'
       else bindIO (nap sec) (\<lambda>_. case n of
           0 \<Rightarrow> retIO (t_Errorf t')
         | Suc k \<Rightarrow> tryLoop sec m k t'))"

declare tryLoop.simps [simp del]


section \<open>The stress test\<close>

text \<open>A listing with an error is an empty list as well.\<close>

definition namespaceTry :: "'w KitClient \<Rightarrow> string \<Rightarrow> testT \<Rightarrow> ('w, bool \<times> testT) io" where
  "namespaceTry cl ns t =
     bindIO (ListNamespace cl ns) (\<lambda>r. case r of
         Inl err \<Rightarrow> retIO (True, t_Errorf t)
       | Inr namespaceList \<Rightarrow> retIO (namespaceList = [], t))"

definition TestDeleteNamespace ::
  "('x world_scheme, 'r, 'c, 'a, 'q) KitTestLib \<Rightarrow> stressVars \<Rightarrow> 'x world_scheme test"
where
  "TestDeleteNamespace kt v = withKit kt [] (\<lambda>cl.
     onlyErr (DeleteNamespace cl (sv_testNamespace v)) (\<lambda>t.
       bindIO (tryLoop 10 (namespaceTry cl (sv_testNamespace v)) 599 t) finished))"

text \<open>The two files hold the same code.\<close>

definition TestInitialDeleteNamespace ::
  "('x world_scheme, 'r, 'c, 'a, 'q) KitTestLib \<Rightarrow> stressVars \<Rightarrow> 'x world_scheme test"
where
  "TestInitialDeleteNamespace kt v = TestDeleteNamespace kt v"

definition TestCreatePool ::
  "('x world_scheme, 'r, 'c, 'a, 'q) KitTestLib \<Rightarrow> stressVars \<Rightarrow> 'x world_scheme test"
where
  "TestCreatePool kt v =
     (if sv_createRSP v then withKit kt [] (\<lambda>cl. onlyErr (CreateReplicatedStoragePool cl) napping) else finished)"

definition TestCreateNamespace ::
  "('x world_scheme, 'r, 'c, 'a, 'q) KitTestLib \<Rightarrow> stressVars \<Rightarrow> 'x world_scheme test"
where
  "TestCreateNamespace kt v = withKit kt [] (\<lambda>cl. onlyErr (CreateNamespace cl (sv_testNamespace v)) napping)"

definition TestCreateStsLogs ::
  "('x world_scheme, 'r, 'c, 'a, 'q) KitTestLib \<Rightarrow> stressVars \<Rightarrow> 'x world_scheme test"
where
  "TestCreateStsLogs kt v = withKit kt [] (\<lambda>cl.
     onlyErr (CreateSts cl (sv_testNamespace v) (sv_pvSize v) (sv_stsCount v) (sv_storageClassName v)) napping)"

definition podsTry :: "('w, 'q) MoreKinds \<Rightarrow> string \<Rightarrow> testT \<Rightarrow> ('w, bool \<times> testT) io" where
  "podsTry mk ns t =
     bindIO (callIO (cl_list (mk_Pods mk) ns)) (\<lambda>r. case r of
         Inl err \<Rightarrow> retIO (True, t_Errorf t)
       | Inr pods \<Rightarrow> retIO (list_all (\<lambda>item. pod_Phase item = ''Running'') pods, t))"

definition TestWaitStsPods ::
  "('x world_scheme, 'r, 'c, 'a, 'q) KitTestLib \<Rightarrow> stressVars \<Rightarrow> 'x world_scheme test"
where
  "TestWaitStsPods kt v = withKit kt [] (\<lambda>cl t.
     bindIO (tryLoop 10 (podsTry (kt_more kt cl) (sv_testNamespace v)) 599 t) napping)"

text \<open>
  \<^verbatim>\<open>resource.MustParse\<close> panics on a text that is no quantity, and so does the assignment to a nil map. \<^verbatim>\<open>Size\<close> is the length
  of the encoding of a quantity.
\<close>

definition resizeOne :: "('w, 'r, 'c, 'a, 'q) KitTestLib \<Rightarrow> ('w, 'q) MoreKinds \<Rightarrow> string \<Rightarrow> 'q StressPvc \<Rightarrow> 'w test" where
  "resizeOne kt mk sz pvc =
     (case kt_Parse kt sz of
        Inl err \<Rightarrow> (\<lambda>t. panicIO ''cannot parse quantity'')
      | Inr q \<Rightarrow> (case sp_Requests pvc of
          None \<Rightarrow> (\<lambda>t. panicIO ''assignment to entry in nil map'')
        | Some requests \<Rightarrow>
            onlyErr (onlyError (callIO (cl_update (mk_PVCs mk) (pvc\<lparr>sp_Requests := Some (requests(''storage'' \<mapsto> q))\<rparr>)))) finished))"

definition storageOf :: "('w, 'r, 'c, 'a, 'q) KitTestLib \<Rightarrow> 'q StressPvc \<Rightarrow> 'q" where
  "storageOf kt pvc = (case sp_Capacity pvc ''storage'' of None \<Rightarrow> kt_zero kt | Some q \<Rightarrow> q)"

fun allResized :: "('w, 'r, 'c, 'a, 'q) KitTestLib \<Rightarrow> string \<Rightarrow> 'q StressPvc list \<Rightarrow> ('w, bool) io" where
  "allResized kt sz [] = retIO True"
| "allResized kt sz (pvc # pvcs) =
     (case kt_Parse kt sz of
        Inl err \<Rightarrow> panicIO ''cannot parse quantity''
      | Inr q \<Rightarrow> bindIO (allResized kt sz pvcs) (\<lambda>rest. retIO (kt_Size kt q = kt_Size kt (storageOf kt pvc) \<and> rest)))"

definition resizedTry ::
  "('w, 'r, 'c, 'a, 'q) KitTestLib \<Rightarrow> ('w, 'q) MoreKinds \<Rightarrow> stressVars \<Rightarrow> testT \<Rightarrow> ('w, bool \<times> testT) io"
where
  "resizedTry kt mk v t =
     bindIO (callIO (cl_list (mk_PVCs mk) (sv_testNamespace v))) (\<lambda>r. case r of
         Inl err \<Rightarrow> retIO (True, t_Errorf t)
       | Inr pvcs \<Rightarrow> bindIO (allResized kt (sv_pvResizedSize v) pvcs) (\<lambda>ok. retIO (ok, t)))"

definition TestChangeStsPvcSize ::
  "('x world_scheme, 'r, 'c, 'a, 'q) KitTestLib \<Rightarrow> stressVars \<Rightarrow> 'x world_scheme test"
where
  "TestChangeStsPvcSize kt v = withKit kt [] (\<lambda>cl.
     orEmpty_kit (callIO (cl_list (mk_PVCs (kt_more kt cl)) (sv_testNamespace v))) (\<lambda>pvcs.
     andAlso (eachOf (resizeOne kt (kt_more kt cl) (sv_pvResizedSize v)) pvcs) (\<lambda>t.
       bindIO (tryLoop 5 (resizedTry kt (kt_more kt cl) v) 599 t) napping)))"

definition TestDeleteStsPods ::
  "('x world_scheme, 'r, 'c, 'a, 'q) KitTestLib \<Rightarrow> stressVars \<Rightarrow> 'x world_scheme test"
where
  "TestDeleteStsPods kt v = withKit kt [] (\<lambda>cl. onlyErr (DeleteSts cl (sv_testNamespace v)) napping)"

definition stressVM :: "'w KitClient \<Rightarrow> stressVars \<Rightarrow> nat \<Rightarrow> 'w test" where
  "stressVM cl v i =
     onlyErr (CreateVM_kit cl (sv_testNamespace v) (''test-'' @ fmt_d (int i)) (''10.10.10.'' @ fmt_d (int (i + 2)))
       1 ''1Gi'' (sv_storageClassName v) UbuntuCloudImage [] 6 1) finished"

definition vmTry :: "'w KitClient \<Rightarrow> string \<Rightarrow> testT \<Rightarrow> ('w, bool \<times> testT) io" where
  "vmTry cl ns t =
     bindIO (ListVM_kit cl ns) (\<lambda>r. case r of
         Inl err \<Rightarrow> exitIO (err_text err)
       | Inr _ \<Rightarrow> bindIO (ListVM_kit cl ns) (\<lambda>r. case r of
             Inl err \<Rightarrow> exitIO (err_text err)
           | Inr vmList \<Rightarrow> retIO (list_all (\<lambda>item. vi_Status item = ''Running'') vmList, t)))"

definition TestCreateVm ::
  "('x world_scheme, 'r, 'c, 'a, 'q) KitTestLib \<Rightarrow> stressVars \<Rightarrow> 'x world_scheme test"
where
  "TestCreateVm kt v =
     (if sv_createVM v
      then withKit kt [] (\<lambda>cl. andAlso (eachOf (stressVM cl v) [0..<21]) (\<lambda>t.
        bindIO (tryLoop 10 (vmTry cl (sv_testNamespace v)) 599 t) finished))
      else finished)"


section \<open>Volume groups (sds-node-configurator)\<close>

definition newKitLvg :: "BlockDevice \<Rightarrow> 'q KitLvg" where
  "newKitLvg device =
     \<lparr>metadata = newMeta (bd_NodeName device @ ''-lvg'') [], kl_ActualVGNameOnTheNode = ''data'',
      kl_BlockDeviceNames = [obj_Name device], kl_Type = ''Local'', kl_Nodes = []\<rparr>"

text \<open>
  A connection to each node in turn, closed when the test function ends, the last one first. A key that cannot be
  read fails the test, and the connection is tried without it.
\<close>

fun onHosts :: "('x world_scheme, 'r, 'c, 'a, 'q) KitTestLib \<Rightarrow> ('c \<Rightarrow> 'x world_scheme test) \<Rightarrow> string list \<Rightarrow>
    'x world_scheme test"
where
  "onHosts kt f [] = finished"
| "onHosts kt f (ip # ips) = (\<lambda>t.
     bindIO (callIO (gl_Key (kt_goph kt) (path_Join AppTmpPath PrivKeyName_kit) [])) (\<lambda>a.
     bindIO (GetSSHClient (kt_goph kt) ip ''user'' (case a of Inl err \<Rightarrow> kt_noAuth kt | Inr auth \<Rightarrow> auth)) (\<lambda>client.
     deferIO (\<lambda>w. snd (gl_Close (kt_goph kt) client w))
       (andAlso (f client) (onHosts kt f ips) (case a of Inl err \<Rightarrow> t_Errorf t | Inr _ \<Rightarrow> t)))))"

definition kitHosts :: "string list" where
  "kitHosts = [MasterNodeIP, InstallWorkerNodeIp, WorkerNode2]"

definition vgdisplayCheck :: "('w, 'r, 'c, 'a, 'q) KitTestLib \<Rightarrow> 'c \<Rightarrow> 'w test" where
  "vgdisplayCheck kt client t =
     bindIO (callIO (gl_Run (kt_goph kt) client ''sudo vgdisplay -C'')) (\<lambda>(out, err).
       finished (if \<not> sublist ''data'' out \<or> \<not> sublist ''20.00g'' out \<or> err \<noteq> None then t_Errorf t else t))"

definition TestCreateLVG :: "('x world_scheme, 'r, 'c, 'a, 'q) KitTestLib \<Rightarrow> 'x world_scheme test" where
  "TestCreateLVG kt t =
     bindIO (NewKubeClient (kt_kube kt) (path_Join AppTmpPath KubeConfigName)) (\<lambda>r. case r of
         Inl err \<Rightarrow> exitIO (err_text err)
       | Inr cl \<Rightarrow>
           orEmpty_kit (callIO (cl_list (mk_BDs (kt_more kt cl)) [])) (\<lambda>devices.
             andAlso (eachOf (\<lambda>device. onlyErr (onlyError (callIO (cl_create (mk_LVGs (kt_more kt cl)) (newKitLvg device)))) finished) devices)
               (onHosts kt (vgdisplayCheck kt) kitHosts)) t)"

text \<open>The first device of the first node; a node without devices is an index out of range.\<close>

definition sizeCheck :: "('w, 'r, 'c, 'a, 'q) KitTestLib \<Rightarrow> 'q KitLvg \<Rightarrow> 'w test" where
  "sizeCheck kt g t =
     (case kl_Nodes g of
        [] \<Rightarrow> finished (t_Errorf t)
      | (name, []) # _ \<Rightarrow> panicIO ''index out of range''
      | (name, (pvSize, devSize) # _) # _ \<Rightarrow>
          finished (if kt_String kt pvSize \<noteq> ''20Gi'' \<or> kt_String kt devSize \<noteq> ''20975192Ki'' then t_Errorf t else t))"

text \<open>Every disk with \<^verbatim>\<open>-data\<close> in its name; the error of their listing is overwritten.\<close>

definition growDisk :: "'w KitClient \<Rightarrow> VirtualDisk \<Rightarrow> 'w test" where
  "growDisk cl vmd =
     (if sublist ''-data'' (obj_Name vmd)
      then onlyErr (onlyError (callIO (cl_update (kc_VDs cl) (vmd\<lparr>vd_Size := 32212254720\<rparr>)))) finished
      else finished)"

fun checkCommands :: "('w, 'c, 'a) GophLib \<Rightarrow> 'c \<Rightarrow> (string \<times> string list) list \<Rightarrow> 'w test" where
  "checkCommands gl client [] = finished"
| "checkCommands gl client ((command, checkStrings) # rest) = (\<lambda>t.
     bindIO (ExecuteSSHCommandWithCheck gl client command checkStrings) (\<lambda>_. checkCommands gl client rest t))"

definition sizeCommands :: "(string \<times> string list) list" where
  "sizeCommands = [(''sudo vgs'', [''data'', ''20.00g'']), (''sudo vgdisplay -C'', [''data'', ''20.00g'']),
     (''sudo lsblk'', [''sdc'', ''20G'']), (''sudo pvs'', [''/dev/sdc'', ''20G''])]"

definition TestChangeLVGSize :: "('x world_scheme, 'r, 'c, 'a, 'q) KitTestLib \<Rightarrow> 'x world_scheme test" where
  "TestChangeLVGSize kt t =
     bindIO (NewKubeClient (kt_kube kt) (path_Join AppTmpPath KubeConfigName)) (\<lambda>r1.
     bindIO (NewKubeClient (kt_kube kt) []) (\<lambda>r2. case r1 of
         Inl err \<Rightarrow> panicIO ''nil pointer dereference''
       | Inr cl \<Rightarrow>
           orEmpty_kit (callIO (cl_list (mk_LVGs (kt_more kt cl)) [])) (\<lambda>groups.
           andAlso (eachOf (sizeCheck kt) groups) (\<lambda>t. case r2 of
               Inl err \<Rightarrow> panicIO ''nil pointer dereference''
             | Inr extCl \<Rightarrow>
                 bindIO (ListVMD extCl NamespaceName []) (\<lambda>r.
                   andAlso (eachOf (growDisk extCl) (case r of Inl err \<Rightarrow> [] | Inr vmdList \<Rightarrow> vmdList))
                     (onHosts kt (\<lambda>client. checkCommands (kt_goph kt) client sizeCommands) kitHosts) t)))
             (case r2 of Inl err \<Rightarrow> t_Errorf t | Inr _ \<Rightarrow> t)))"

text \<open>\<^verbatim>\<open>t.Error\<close> is called after every deletion, whatever it answers.\<close>

definition TestRemoveLVG :: "('x world_scheme, 'r, 'c, 'a, 'q) KitTestLib \<Rightarrow> 'x world_scheme test" where
  "TestRemoveLVG kt = withKit kt (path_Join AppTmpPath KubeConfigName) (\<lambda>cl.
     orEmpty_kit (callIO (cl_list (mk_LVGs (kt_more kt cl)) [])) (\<lambda>groups.
     eachOf (\<lambda>item t. bindIO (callIO (cl_delete (mk_LVGs (kt_more kt cl)) item)) (\<lambda>err. finished (t_Errorf t))) groups))"


section \<open>What the tests conclude\<close>

text \<open>A try that leaves the world \<open>nxt v\<close>: the worlds in which the tries of the loop begin are those after its pauses.\<close>

lemma tryLoop_result:
  assumes "\<And>u v. \<exists>ok u'. m u v = Some (Ret (ok, u'), nxt v)"
  shows "\<exists>t' w'. tryLoop sec m n t w = Some (Ret t', w') \<and>
    (tFailed t' \<or> (\<exists>k u. k \<le> n \<and> m u (((\<lambda>v. sleep (sec * second) (nxt v)) ^^ k) w) = Some (Ret (True, t'), w')))"
proof (induction n arbitrary: t w)
  case 0
  obtain ok u where m: "m t w = Some (Ret (ok, u), nxt w)" using assms by blast
  show ?case
  proof (cases ok)
    case True
    with m show ?thesis
      by (intro exI [of _ u] exI [of _ "nxt w"] conjI disjI2 exI [of _ 0] exI [of _ t])
        (simp_all add: tryLoop.simps [of sec m 0] bindIO_run run_simps)
  next
    case False
    with m show ?thesis
      by (simp add: tryLoop.simps [of sec m 0] bindIO_run bindIO_call run_simps nap_def t_Errorf_def)
  qed
next
  case (Suc n)
  obtain ok u where m: "m t w = Some (Ret (ok, u), nxt w)" using assms by blast
  show ?case
  proof (cases ok)
    case True
    with m show ?thesis
      by (intro exI [of _ u] exI [of _ "nxt w"] conjI disjI2 exI [of _ 0] exI [of _ t])
        (simp_all add: tryLoop.simps [of sec m "Suc n"] bindIO_run run_simps)
  next
    case False
    let ?next = "\<lambda>v. sleep (sec * second) (nxt v)"
    from False m have run: "tryLoop sec m (Suc n) t w = tryLoop sec m n u (?next w)"
      by (subst tryLoop.simps) (simp add: bindIO_run bindIO_call run_simps nap_def)
    from Suc.IH [of u "?next w"] obtain t' w' where ends: "tryLoop sec m n u (?next w) = Some (Ret t', w')"
      and ok: "tFailed t' \<or> (\<exists>k u'. k \<le> n \<and> m u' ((?next ^^ k) (?next w)) = Some (Ret (True, t'), w'))" by blast
    have "tFailed t' \<or> (\<exists>k u'. k \<le> Suc n \<and> m u' ((?next ^^ k) w) = Some (Ret (True, t'), w'))"
    proof (cases "tFailed t'")
      case False
      have swap: "(?next ^^ k) (?next w) = (?next ^^ Suc k) w" for k by (simp only: funpow_Suc_right comp_apply)
      from False ok obtain k u' where "k \<le> n" "m u' ((?next ^^ Suc k) w) = Some (Ret (True, t'), w')"
        unfolding swap by blast
      then show ?thesis by (intro disjI2 exI [of _ "Suc k"]) auto
    qed simp
    with run ends show ?thesis by simp
  qed
qed

lemma namespaceTry_run: "\<exists>ok u'. namespaceTry cl ns u v = Some (Ret (ok, u'), snd (cl_list (kc_NSs cl) [] v))"
  by (cases "fst (cl_list (kc_NSs cl) [] v)")
    (auto simp: namespaceTry_def ListNamespace_def listSearch_def bindIO_call bindIO_run run_simps)

lemma namespaceTry_ok:
  assumes "namespaceTry cl ns u v = Some (Ret (True, t'), w')" and "ns \<noteq> []"
  shows "tFailed t' \<or> (\<exists>l. cl_list (kc_NSs cl) [] v = (Inr l, w') \<and> ns \<notin> set (map obj_Name l))"
proof (cases "cl_list (kc_NSs cl) [] v")
  case (Pair r v1)
  with assms show ?thesis
    by (cases r) (auto simp: namespaceTry_def ListNamespace_def listSearch_def bindIO_call bindIO_run run_simps
        searchLoop_eq t_Errorf_def filter_empty_conv)
qed

text \<open>A test that has failed stays so.\<close>

lemma tryLoop_failed:
  assumes "\<And>u v ok u' v'. m u v = Some (Ret (ok, u'), v') \<Longrightarrow> tFailed u \<Longrightarrow> tFailed u'"
    and "tryLoop sec m n t w = Some (Ret t', w')" and "tFailed t"
  shows "tFailed t'"
  using assms(2,3)
proof (induction n arbitrary: t w)
  case 0
  then show ?case
    by (subst (asm) tryLoop.simps)
      (auto simp: bindIO_Ret_iff bindIO_call run_simps nap_def t_Errorf_def split: if_split_asm dest: assms(1))
next
  case (Suc n)
  then show ?case
    by (subst (asm) (2) tryLoop.simps)
      (auto simp: bindIO_Ret_iff bindIO_call run_simps nap_def split: if_split_asm dest: assms(1))
qed

lemma namespaceTry_failed: "namespaceTry cl ns u v = Some (Ret (ok, u'), v') \<Longrightarrow> tFailed u \<Longrightarrow> tFailed u'"
  by (auto simp: namespaceTry_def ListNamespace_def listSearch_def bindIO_Ret_iff run_simps t_Errorf_def
      split: sum.split_asm)

lemma NewKubeClient_run: "\<exists>r w'. NewKubeClient kk path w = Some (Ret r, w')"
  by (cases "fst (kk_BuildConfig kk path w)"; cases "fst (kk_BuildConfig kk (kk_kubeconfigEnv kk) w)")
    (auto simp: NewKubeClient_def bindIO_call run_simps split: option.split)

text \<open>
  C39. The deletion of the namespace always comes to an end, with a panic only where there is no client. Where the test
  passes, the server to which its client is connected accepted the deletion, and one of the at most 600 listings after it, ten
  seconds apart, answered without an error and without the namespace; with this listing the test ended.
\<close>

theorem TestDeleteNamespace_result:
  fixes w :: "'x world_scheme"
  assumes "sv_testNamespace v \<noteq> []"
  shows "\<exists>r w'. TestDeleteNamespace kt v freshT w = Some (r, w') \<and>
    (case r of
       Ret (e, t') \<Rightarrow> tFailed t' \<or> (\<exists>cl w1 w2 k l.
         NewKubeClient (kt_kube kt) [] w = Some (Ret (Inr cl), w1) \<and>
         cl_delete (kc_NSs cl) \<lparr>metadata = newMeta (sv_testNamespace v) []\<rparr> w1 = (None, w2) \<and> k < 600 \<and>
         cl_list (kc_NSs cl) [] (((\<lambda>x. sleep (10 * second) (snd (cl_list (kc_NSs cl) [] x))) ^^ k) w2) = (Inr l, w') \<and>
         sv_testNamespace v \<notin> set (map obj_Name l))
     | Panic s \<Rightarrow> \<exists>err. NewKubeClient (kt_kube kt) [] w = Some (Ret (Inl err), w')
     | Exit s \<Rightarrow> False)"
proof -
  obtain r w1 where r: "NewKubeClient (kt_kube kt) [] w = Some (Ret r, w1)"
    using NewKubeClient_run [of "kt_kube kt" "[]" w] by auto
  show ?thesis
  proof (cases r)
    case (Inl err)
    with r show ?thesis by (simp add: TestDeleteNamespace_def withKit_def bindIO_run run_simps)
  next
    case (Inr cl)
    let ?ns = "sv_testNamespace v"
    let ?next = "\<lambda>x. sleep (10 * second) (snd (cl_list (kc_NSs cl) [] x))"
    obtain err w2 where del: "cl_delete (kc_NSs cl) \<lparr>metadata = newMeta ?ns []\<rparr> w1 = (err, w2)" by fastforce
    define t where "t = (if err = None then freshT else t_Errorf freshT)"
    obtain t' w' where loop: "tryLoop 10 (namespaceTry cl ?ns) 599 t w2 = Some (Ret t', w')"
      and ok: "tFailed t' \<or> (\<exists>k u. k \<le> 599 \<and> namespaceTry cl ?ns u ((?next ^^ k) w2) = Some (Ret (True, t'), w'))"
      using tryLoop_result [where m = "namespaceTry cl ?ns" and nxt = "\<lambda>x. snd (cl_list (kc_NSs cl) [] x)" and sec = 10 and
          n = 599 and t = t and w = w2, OF namespaceTry_run] by blast
    have failed: "tFailed t' \<or> err = None"
      using tryLoop_failed [OF namespaceTry_failed loop] by (auto simp: t_def t_Errorf_def split: if_split_asm)
    have run: "TestDeleteNamespace kt v freshT w = Some (Ret (Finished, t'), w')"
      using r Inr del loop
      by (simp add: TestDeleteNamespace_def withKit_def onlyErr_def DeleteNamespace_def finished_def bindIO_call bindIO_run
          run_simps t_def)
    have "tFailed t' \<or> (\<exists>k l. k < 600 \<and> cl_list (kc_NSs cl) [] ((?next ^^ k) w2) = (Inr l, w') \<and>
        ?ns \<notin> set (map obj_Name l) \<and> err = None)"
    proof (cases "tFailed t'")
      case False
      with ok obtain k u where k: "k \<le> 599" "namespaceTry cl ?ns u ((?next ^^ k) w2) = Some (Ret (True, t'), w')" by auto
      from namespaceTry_ok [OF k(2) assms] False obtain l
        where l: "cl_list (kc_NSs cl) [] ((?next ^^ k) w2) = (Inr l, w')" "?ns \<notin> set (map obj_Name l)" by auto
      with failed False k(1) show ?thesis by (intro disjI2 exI [of _ k] exI [of _ l]) simp
    qed simp
    with r Inr del have "tFailed t' \<or> (\<exists>cl w1 w2 k l.
         NewKubeClient (kt_kube kt) [] w = Some (Ret (Inr cl), w1) \<and>
         cl_delete (kc_NSs cl) \<lparr>metadata = newMeta ?ns []\<rparr> w1 = (None, w2) \<and> k < 600 \<and>
         cl_list (kc_NSs cl) [] (((\<lambda>x. sleep (10 * second) (snd (cl_list (kc_NSs cl) [] x))) ^^ k) w2) = (Inr l, w') \<and>
         ?ns \<notin> set (map obj_Name l))" by blast
    with run show ?thesis by simp
  qed
qed

definition one_lvg :: "int KitLvg" where
  "one_lvg = \<lparr>metadata = newMeta ''node-1-lvg'' [], kl_ActualVGNameOnTheNode = ''data'', kl_BlockDeviceNames = [''dev-1''],
     kl_Type = ''Local'', kl_Nodes = []\<rparr>"

definition local_tests :: "(world, unit, string, unit, int) KitTestLib" where
  "local_tests =
     \<lparr>kt_kube = local_kube,
      kt_more = (\<lambda>cl. \<lparr>mk_LVGs = (frozen_client [one_lvg])\<lparr>cl_list := (\<lambda>ns w. (Inr [one_lvg], w))\<rparr>, mk_BDs = frozen_client [],
        mk_Pods = frozen_client [], mk_PVCs = frozen_client []\<rparr>),
      kt_goph = local_goph, kt_noAuth = (), kt_Parse = (\<lambda>s. Inr (int (length s))), kt_Size = (\<lambda>q. q),
      kt_String = (\<lambda>q. fmt_d q), kt_zero = 0\<rparr>"

lemma TestDeleteNamespace_result_witness:
  "\<exists>r w'. TestDeleteNamespace local_tests (fst (stressMain [] Map.empty)) freshT clock0 = Some (r, w') \<and> (\<nexists>s. r = Exit s)"
proof -
  have "sv_testNamespace (fst (stressMain [] Map.empty)) \<noteq> []"
    by (simp add: stressMain_def stressInit_def flagVar_def flagParse_def)
  from TestDeleteNamespace_result [OF this, of local_tests clock0] show ?thesis
    by (fastforce split: outcome.split_asm)
qed

text \<open>
  The last test of the volume groups removes them and reports every removal as an error: given a client and a listing, the test
  fails if and only if it had failed before or there is any volume group, whether or not the removals succeed.
\<close>

theorem TestRemoveLVG_fails:
  assumes "NewKubeClient (kt_kube kt) (path_Join AppTmpPath KubeConfigName) w = Some (Ret (Inr cl), w1)"
    and "cl_list (mk_LVGs (kt_more kt cl)) [] w1 = (Inr groups, w2)"
  shows "\<exists>w'. TestRemoveLVG kt t w = Some (Ret (Finished, t\<lparr>tFailed := tFailed t \<or> groups \<noteq> []\<rparr>), w')"
proof -
  have "\<exists>w'. eachOf (\<lambda>item t. bindIO (callIO (cl_delete (mk_LVGs (kt_more kt cl)) item)) (\<lambda>err. finished (t_Errorf t))) gs t w =
      Some (Ret (Finished, t\<lparr>tFailed := tFailed t \<or> gs \<noteq> []\<rparr>), w')" for gs t w
  proof (induction gs arbitrary: t w)
    case (Cons g gs)
    from Cons.IH [of "t_Errorf t" "snd (cl_delete (mk_LVGs (kt_more kt cl)) g w)"] show ?case
      by (auto simp: finished_def andAlso_def bindIO_call bindIO_run run_simps t_Errorf_def)
  qed (simp add: finished_def run_simps)
  with assms show ?thesis by (simp add: TestRemoveLVG_def withKit_def orEmpty_kit_def bindIO_call bindIO_run)
qed

lemma TestRemoveLVG_fails_witness:
  "\<exists>w'. TestRemoveLVG local_tests freshT clock0 = Some (Ret (Finished, freshT\<lparr>tFailed := True\<rparr>), w')"
  using TestRemoveLVG_fails [of local_tests clock0 running_kit clock0 "[one_lvg]" clock0 freshT]
  by (simp add: local_tests_def local_kube_def NewKubeClient_def bindIO_call run_simps)


section \<open>The flags of the stress test\<close>

text \<open>
  C40. The arguments of the stress test have no effect. They do reach the cells of the flags, but the variables were read before:
  whatever the arguments, the test of the stateful sets makes 51 sets of 5Gi and of the class linstor-r2 in the default namespace.
\<close>

theorem stress_ignores_arguments:
  assumes "stressMain args fs = (vars, cells)"
    and "NewKubeClient (kt_kube kt) [] w = Some (Ret (Inr cl), w1)" and "kc_parse_quantity cl ''5Gi'' = Inr sz"
  shows "TestCreateStsLogs kt vars t w = onlyErr
      (forErr (createOne cl ''sds-replicated-volume-e2e-test'' sz ''linstor-r2'') (map int [0..<51])) napping t w1 \<and>
    cells ''stsCount'' = (case map_of (rev args) ''stsCount'' of None \<Rightarrow> Some (FInt 50) | Some v \<Rightarrow> Some v)"
proof -
  have fold: "flagParse args fs n = (case map_of (rev args) n of None \<Rightarrow> fs n | Some v \<Rightarrow> Some v)" for args fs n
    by (induction args arbitrary: fs) (auto simp: flagParse_def map_add_def split: option.split)
  have vars: "vars = \<lparr>sv_testNamespace = ''sds-replicated-volume-e2e-test'', sv_stsCount = 50, sv_pvSize = ''5Gi'',
      sv_pvResizedSize = ''5.1Gi'', sv_storageClassName = ''linstor-r2'', sv_createRSP = True, sv_createVM = True\<rparr>"
    and cells: "cells ''stsCount'' = (case map_of (rev args) ''stsCount'' of None \<Rightarrow> Some (FInt 50) | Some v \<Rightarrow> Some v)"
    using assms(1) by (auto simp: stressMain_def stressInit_def flagVar_def fold split: option.split)
  have "CreateSts cl ''sds-replicated-volume-e2e-test'' ''5Gi'' 50 ''linstor-r2'' =
      forErr (createOne cl ''sds-replicated-volume-e2e-test'' sz ''linstor-r2'') (map int [0..<51])"
    using CreateSts_loop_eq [OF assms(3), of 50 0 51] by (simp add: CreateSts_def)
  with cells assms(2) show ?thesis by (simp add: TestCreateStsLogs_def withKit_def bindIO_run vars)
qed

lemma stress_ignores_arguments_witness:
  "TestCreateStsLogs local_tests (fst (stressMain [(''stsCount'', FInt 30)] Map.empty)) freshT clock0 = onlyErr
      (forErr (createOne running_kit ''sds-replicated-volume-e2e-test'' 3 ''linstor-r2'') (map int [0..<51])) napping freshT clock0 \<and>
    snd (stressMain [(''stsCount'', FInt 30)] Map.empty) ''stsCount'' = Some (FInt 30)"
  using stress_ignores_arguments [OF prod.collapse [symmetric], of local_tests clock0 running_kit clock0 3
      "[(''stsCount'', FInt 30)]" Map.empty freshT]
  by (simp add: local_tests_def local_kube_def NewKubeClient_def running_kit_def frozen_kit_def bindIO_call run_simps)

end
