(* ===== verification/Spec2Isabelle.thy ===== *)
theory Spec2Isabelle
  imports Storage ClusterRun Tester Tunnel Tools DeepCopies KitCluster Lvm Schemes Spares NcCases KitCases
begin

text \<open>
  This development verifies the repository's three bodies of code: \<^verbatim>\<open>testkit_v2\<close>, the library with which
  the storage tests of Deckhouse build a nested cluster out of virtual machines, prepare its storage and
  run test functions on its nodes; \<^verbatim>\<open>testkit\<close>, its first version; and \<^verbatim>\<open>images/sds-lvm-e2e\<close>, the helpers of
  the tests of local volumes.

  \<^bold>\<open>The programs.\<close> A test calls \<^verbatim>\<open>EnsureCluster\<close> (\<^verbatim>\<open>kube_cluster.go\<close>), which on its first use reads the
  flags (\<^verbatim>\<open>envInit\<close>, \<^verbatim>\<open>env.go\<close>) and, when a hypervisor is given, builds the nested cluster
  (\<^verbatim>\<open>ClusterCreate\<close>, \<^verbatim>\<open>kube_vm_cluster.go\<close>): it creates virtual machines (\<^verbatim>\<open>kube_vm.go\<close>), installs
  Deckhouse over SSH (\<^verbatim>\<open>ssh.go\<close>), waits for nodes (\<^verbatim>\<open>kube.go\<close>, \<^verbatim>\<open>kube_node.go\<close>), enables the storage
  modules (\<^verbatim>\<open>kube_deckhouse_modules.go\<close>) and prepares volume groups and storage classes
  (\<^verbatim>\<open>kube_storage.go\<close>). The test then selects objects by filters (\<^verbatim>\<open>filter.go\<close> and the \<^verbatim>\<open>Apply\<close> methods),
  waits for states (\<^verbatim>\<open>RetrySec\<close>, \<^verbatim>\<open>tools.go\<close>) and runs on groups of nodes (\<^verbatim>\<open>kube_tester.go\<close>). The first kit is
  one run of \<^verbatim>\<open>InitClusterCreate\<close> (\<^verbatim>\<open>clusterManagement/cluster.go\<close>) over the API operations of \<^verbatim>\<open>testkit/funcs\<close>. The
  helpers of the local volume tests create and poll pods and claims and run the commands of the volume
  manager.

  \<^bold>\<open>How the code is modelled.\<close> A function of the code is a definition of the same name; one whose name
  is taken by the second kit ends in \<^verbatim>\<open>_kit\<close> or \<^verbatim>\<open>_lvm\<close>. One that only
  computes is a function; one with effects maps a world to an outcome and a world (\<^verbatim>\<open>io\<close> of \<^verbatim>\<open>Prelude\<close>):
  \<^verbatim>\<open>None\<close> when it does not return, \<^verbatim>\<open>Ret\<close> of its results, \<^verbatim>\<open>Panic\<close> for a runtime panic and \<^verbatim>\<open>Exit\<close> for the end
  of the process by \<^verbatim>\<open>Fatalf\<close> or \<^verbatim>\<open>log.Fatal\<close>. Go's pairs of a result and an error are sums or pairs with an
  optional error; an error keeps its text and the fact the code tests of it (\<^verbatim>\<open>IsNotFound\<close>,
  \<^verbatim>\<open>IsAlreadyExists\<close>). The code that is not in the repository is a parameter: the API server is a record of
  operations for each kind of object (\<^verbatim>\<open>client\<close>: list, get, create, update, delete) in the record \<^verbatim>\<open>KCluster\<close>;
  the SSH libraries, the constructors of the clients, regular expressions, quantities and digests are records or
  functions too. The world is a type variable; where the code looks at the clock it is an extension of
  the record \<^verbatim>\<open>world\<close>, which has the time in nanoseconds and the logging state of \<^verbatim>\<open>RetrySec\<close>. Goroutines
  are steps that are interleaved: by a step relation in \<^verbatim>\<open>Tunnel\<close>, by a schedule in \<^verbatim>\<open>KitCluster\<close>. Where the
  code copies structures with pointers, in \<^verbatim>\<open>DeepCopies\<close>, there is an explicit heap.

  \<^bold>\<open>The theories.\<close>
  \<^item> \<^verbatim>\<open>Prelude\<close>: outcomes and their composition, deferred calls, Go strings (prefix, splitting, replacing,
    decimal numbers, base64, paths), wrap-around of \<^verbatim>\<open>int64\<close>.
  \<^item> \<^verbatim>\<open>Conditions\<close> (\<^verbatim>\<open>filter.go\<close>): the dynamic type of a filter field, the six \<^verbatim>\<open>Where\<close> types,
    \<^verbatim>\<open>CheckCondition\<close>. The hooks on condition strings have a meaning as canonical conditions
    (\<^verbatim>\<open>string_hook_meaning\<close>), the \<^verbatim>\<open>Where\<close> types are pairs of complements.
  \<^item> \<^verbatim>\<open>Objects\<close>: the objects of the API server with the fields the code uses, the client and cluster records.
  \<^item> \<^verbatim>\<open>Filters\<close>: the eight filter structs and their \<^verbatim>\<open>Apply\<close>, each an interpretation of a locale of pointwise
    filters: a list of filters keeps what meets all their conditions, each on the field of its name, but for
    the namespace of attachments (\<^verbatim>\<open>filters_are_conjunctions\<close>).
  \<^item> \<^verbatim>\<open>Retry\<close> (\<^verbatim>\<open>tools.go\<close>): \<^verbatim>\<open>RetrySec\<close> as a partial function, beside a version with fuel. What it returns, its
    termination, that it sees a condition in time, and when it ends. The number of attempts
    \<^verbatim>\<open>max_attempts\<close> is at most half the timeout and two: the pause is at least 2 seconds.
  \<^item> \<^verbatim>\<open>Tools\<close> (\<^verbatim>\<open>log.go\<close>, the rest of \<^verbatim>\<open>tools.go\<close>): the levels of the log with their flags and destinations, the
    digits of the duration, random strings, digests.
  \<^item> \<^verbatim>\<open>Nodes\<close> (\<^verbatim>\<open>kube_node.go\<close>, \<^verbatim>\<open>kube_secret.go\<close>, \<^verbatim>\<open>kube_deploy.go\<close>): nodes, pods, commands on nodes, static instances,
    credentials, daemon sets, services.
  \<^item> \<^verbatim>\<open>Kube\<close> (\<^verbatim>\<open>kube.go\<close>, \<^verbatim>\<open>kube_deckhouse_modules.go\<close>): clients, namespaces, readiness, modules; what enabling a
    module does on a server that compares resource versions (\<^verbatim>\<open>EnsureSDSReplicatedVolume_only_once\<close>).
  \<^item> \<^verbatim>\<open>Storage\<close> (\<^verbatim>\<open>kube_storage.go\<close>): block devices, volume groups, storage classes, claims.
  \<^item> \<^verbatim>\<open>Env\<close> (\<^verbatim>\<open>env.go\<close>): flags, package variables, the tables of cluster types and images, \<^verbatim>\<open>envInit\<close>.
  \<^item> \<^verbatim>\<open>Ssh\<close> (\<^verbatim>\<open>ssh.go\<close>): keys, configurations, connections, transfer, commands; \<^verbatim>\<open>Tunnel\<close>: \<^verbatim>\<open>NewTunnel\<close> as a step
    relation, the order in which connections are closed (\<^verbatim>\<open>tunnel_closes_in_order\<close>) and the goroutine that
    each of them leaves behind (\<^verbatim>\<open>tunnel_leaks_copier\<close>).
  \<^item> \<^verbatim>\<open>VM\<close> (\<^verbatim>\<open>kube_vm.go\<close>): virtual machines, images, addresses, disks, attachments.
  \<^item> \<^verbatim>\<open>Cluster\<close> (\<^verbatim>\<open>kube_vm_cluster.go\<close>, \<^verbatim>\<open>kube_cluster.go\<close>, \<^verbatim>\<open>ExecNodeSsh\<close>): roles, machines, installation, clean-up,
    readiness, \<^verbatim>\<open>ClusterCreate\<close> and the cache; \<^verbatim>\<open>ClusterRun\<close>: what a run of \<^verbatim>\<open>ClusterCreate\<close> that returns has done, over
    all the components it is made of (\<^verbatim>\<open>ClusterCreate_result\<close>).
  \<^item> \<^verbatim>\<open>Tester\<close> (\<^verbatim>\<open>kube_tester.go\<close>): test functions over groups of nodes, with the outcomes of \<^verbatim>\<open>testing.T\<close>. Parallel
    subtests are paused and resumed in the order of a schedule; one step for each label and each node is enough
    (\<^verbatim>\<open>parallel_tests_after_body\<close>).
  \<^item> \<^verbatim>\<open>Keeps\<close>: a calculus for what a run leaves alone, used for whole tests.
  \<^item> \<^verbatim>\<open>TestTools\<close>, \<^verbatim>\<open>TestCases\<close>, \<^verbatim>\<open>NcCases\<close> (\<^verbatim>\<open>testkit_v2/tests\<close>): the operations the tests share, the test cases 00, 01, 03
    and 99, and the fourteen cases of 05. A test function is a sequence of statements that ends at the first
    \<^verbatim>\<open>Fatal\<close> or \<^verbatim>\<open>Skip\<close>; a variable that a closure assigns is part of the world while its loop runs. \<^verbatim>\<open>Spares\<close>: what the
    test of the volume groups leaves alone, with all its subtests and clean-ups (\<^verbatim>\<open>TestLvg_spares\<close>).
  \<^item> \<^verbatim>\<open>Schemes\<close> (\<^verbatim>\<open>register.go\<close>, the head of \<^verbatim>\<open>kube_modules.go\<close>, \<^verbatim>\<open>testkit/main.go\<close>): the registration of the kinds.
  \<^item> \<^verbatim>\<open>DeepCopies\<close> (\<^verbatim>\<open>kube_modules.go\<close>, \<^verbatim>\<open>v1alpha1\<close> of the local volume tests): the deep copies. The locale
    \<^verbatim>\<open>deep_copier\<close> states what a deep copy is, for any shape of values in a heap, and derives the copies of
    pointers, slices and structs from those of their parts; the copies of \<^verbatim>\<open>kube_modules.go\<close> are deep, those
    of \<^verbatim>\<open>zz_generated.deepcopy.go\<close> are not.
  \<^item> \<^verbatim>\<open>Units\<close> (\<^verbatim>\<open>testkit/funcs/helper.go\<close>): sizes with units, over \<^verbatim>\<open>float64\<close> with its rounding to 53 bits.
  \<^item> \<^verbatim>\<open>Kit\<close> (the API operations of \<^verbatim>\<open>testkit/funcs\<close>): clients, namespaces, services, machines, disks, stateful
    sets, storage pools.
  \<^item> \<^verbatim>\<open>KitCluster\<close> (\<^verbatim>\<open>cluster.go\<close>, \<^verbatim>\<open>ssh.go\<close> and \<^verbatim>\<open>const.go\<close> of the first kit): the loops of \<^verbatim>\<open>InitClusterCreate\<close>. The
    goroutines that install nodes have three steps each, so a schedule of three steps for each node is
    enough (\<^verbatim>\<open>nodes_installed\<close>); loops without a bound in the code are partial functions.
  \<^item> \<^verbatim>\<open>Lvm\<close> (\<^verbatim>\<open>images/sds-lvm-e2e/src/funcs\<close>): commands of the volume manager, pods, claims, storage classes.
  \<^item> \<^verbatim>\<open>LvmCases\<close> (\<^verbatim>\<open>images/sds-lvm-e2e/src/tests\<close>): the tests and benchmarks of the local volumes. The waits of the cycle of
    600 claims are partial functions (\<^verbatim>\<open>watchClaims_hangs\<close>), the goroutines of the parallel benchmarks a step relation on
    the counter they share (\<^verbatim>\<open>parallel_numbers\<close>).
  \<^item> \<^verbatim>\<open>KitCases\<close> (\<^verbatim>\<open>testkit/tests\<close>): the stress test with the cells of its flags, and the tests of the volume groups. The
    loops of 600 tries are one function over a try (\<^verbatim>\<open>tryLoop\<close>).
  \<^item> This theory: what the listings and the deletions of all components share.

  \<^bold>\<open>Assumptions.\<close> Laws of the API server appear as hypotheses only where a property needs them: that
  what is written is read back (\<^verbatim>\<open>keeps_writes\<close>), that an update with a stale resource version is refused (\<^verbatim>\<open>versioned_server\<close>), that two listings in a row agree, that a clock does not run
  backwards, that a get takes a bounded time, that the copies of the API machinery's own types are deep.
  Each such property has a witness on a concrete client.

  \<^bold>\<open>Not modelled.\<close> The overlap of parallel subtests within their bodies (each is one step of a schedule); the
  text of the command line before the \<^verbatim>\<open>flag\<close> package has split it; the log lines within the operations (the log
  itself is in \<^verbatim>\<open>Tools\<close>); the messages of failed tests; the bytes that a tunnel carries;
  aliases and import lists.
\<close>

section \<open>Listings and deletions across the components\<close>


definition quiet_cluster :: "world KCluster" where
  "quiet_cluster = frozen_cluster\<lparr>NSs := frozen_client [namespace_named ''default'']\<rparr>"



text \<open>
  The order of filters does not matter, nor does repeating one: two lists with the same
  filters list the same objects with the same effects, for each of the eight listings.
\<close>

theorem listings_ignore_order:
  assumes "set b = set b'" and "set g = set g'" and "set n = set n'" and "set p = set p'"
    and "set s = set s'" and "set v = set v'" and "set d = set d'" and "set a = set a'"
  shows "ListBD cluster b = ListBD cluster b' \<and> ListLVG cluster g = ListLVG cluster g' \<and>
    ListNode cluster n = ListNode cluster n' \<and> ListPod cluster nsName p = ListPod cluster nsName p' \<and>
    ListNs cluster s = ListNs cluster s' \<and> ListVM cluster v = ListVM cluster v' \<and>
    ListVD cluster d = ListVD cluster d' \<and> ListVMBD cluster a = ListVMBD cluster a'"
  unfolding ListBD_def ListLVG_def ListNode_def ListPod_def ListNs_eq ListVM_def ListVD_def
    ListVMBD_def listFiltered_def
    bd_filter.applyAll_cong [OF assms(1)] lvg_filter.applyAll_cong [OF assms(2)]
    node_filter.applyAll_cong [OF assms(3)] pod_filter.applyAll_cong [OF assms(4)]
    ns_filter.applyAll_cong [OF assms(5)] vm_filter.applyAll_cong [OF assms(6)]
    vd_filter.applyAll_cong [OF assms(7)] vmbd_filter.applyAll_cong [OF assms(8)]
  by simp

lemma listings_ignore_order_witness:
  "ListBD quiet_cluster [noBdFilter, noBdFilter] = ListBD quiet_cluster [noBdFilter] \<and>
   ListLVG quiet_cluster [] = ListLVG quiet_cluster [] \<and> ListNode quiet_cluster [] = ListNode quiet_cluster [] \<and>
   ListPod quiet_cluster [] [] = ListPod quiet_cluster [] [] \<and>
   ListNs quiet_cluster [noNsFilter\<lparr>nsf_Name := Str ''a''\<rparr>, noNsFilter] =
     ListNs quiet_cluster [noNsFilter, noNsFilter\<lparr>nsf_Name := Str ''a''\<rparr>] \<and>
   ListVM quiet_cluster [] = ListVM quiet_cluster [] \<and> ListVD quiet_cluster [] = ListVD quiet_cluster [] \<and>
   ListVMBD quiet_cluster [] = ListVMBD quiet_cluster []"
  by (rule listings_ignore_order) auto

end
